(* ===== verification/Prelude.thy ===== *)
theory Prelude
  imports Main "HOL-Library.AList"
begin

text \<open>
  Shared vocabulary of the development: Go's error results and panics as values, effectful calls
  as state transformers over an abstract world, the few functions of Go's \<open>strings\<close>,
  \<open>strconv\<close> and \<open>time\<close> packages the program relies on, and the lemma collections the
  component theories extend.
\<close>

section \<open>Lemma collections\<close>

named_theorems io_simps \<open>run equations of the effect combinators and of effectful operations\<close>
named_theorems keeps_intros \<open>rules showing that an effectful operation leaves a view of the world alone\<close>

section \<open>Errors, panics and effectful calls\<close>

text \<open>
  The errors of the ZooKeeper client the code compares against by identity are constructors; every
  other failure of the client (connection loss, expired session, invalid path) is
  \<open>ErrConnection\<close>. All other Go errors are only ever tested for nil and printed.
\<close>

datatype zk_error = ErrNoNode | ErrNodeExists | ErrBadVersion | ErrNotEmpty | ErrConnection string

datatype error = ErrZK zk_error | ErrMsg string | ErrMulti "string list"

text \<open>
  A call ends with a value, with a non-nil error, or with a panic (a Go run-time panic,
  \<open>log.Panic\<close> or \<open>log.Fatal\<close>: the process does not go on).
\<close>

datatype fault = Fail error | Panic string

type_synonym ('w, 'a) io = "'w \<Rightarrow> (fault + 'a) \<times> 'w"

definition io_ret :: "'a \<Rightarrow> ('w, 'a) io" where
  "io_ret a w = (Inr a, w)"

definition io_fail :: "error \<Rightarrow> ('w, 'a) io" where
  "io_fail e w = (Inl (Fail e), w)"

definition io_panic :: "string \<Rightarrow> ('w, 'a) io" where
  "io_panic msg w = (Inl (Panic msg), w)"

text \<open>\<open>x, err := m(); if err != nil { return err }; f(x)\<close>\<close>

definition io_bind :: "('w, 'a) io \<Rightarrow> ('a \<Rightarrow> ('w, 'b) io) \<Rightarrow> ('w, 'b) io" where
  "io_bind m f w = (case m w of (Inl e, w') \<Rightarrow> (Inl e, w') | (Inr a, w') \<Rightarrow> f a w')"

text \<open>\<open>x, err := m()\<close> where the code goes on and looks at \<open>err\<close> itself. A panic still ends the call.\<close>

definition io_try :: "('w, 'a) io \<Rightarrow> (error + 'a \<Rightarrow> ('w, 'b) io) \<Rightarrow> ('w, 'b) io" where
  "io_try m f w =
     (case m w of
        (Inl (Fail e), w') \<Rightarrow> f (Inl e) w'
      | (Inl (Panic s), w') \<Rightarrow> (Inl (Panic s), w')
      | (Inr a, w') \<Rightarrow> f (Inr a) w')"

definition io_of_sum :: "error + 'a \<Rightarrow> ('w, 'a) io" where
  "io_of_sum r w = (case r of Inl e \<Rightarrow> (Inl (Fail e), w) | Inr a \<Rightarrow> (Inr a, w))"

definition io_of_fault :: "fault + 'a \<Rightarrow> ('w, 'a) io" where
  "io_of_fault r w = (r, w)"

text \<open>A read that cannot fail, such as the clock.\<close>

definition io_of_read :: "('w \<Rightarrow> 'a \<times> 'w) \<Rightarrow> ('w, 'a) io" where
  "io_of_read m w = (case m w of (a, w') \<Rightarrow> (Inr a, w'))"

text \<open>A call of the ZooKeeper client.\<close>

definition io_of_zk :: "('w \<Rightarrow> (zk_error + 'a) \<times> 'w) \<Rightarrow> ('w, 'a) io" where
  "io_of_zk m w = (case m w of (Inl e, w') \<Rightarrow> (Inl (Fail (ErrZK e)), w') | (Inr a, w') \<Rightarrow> (Inr a, w'))"

text \<open>\<open>for _, x := range xs\<close> with an early return on error, collecting one value per element.\<close>

fun io_for :: "'a list \<Rightarrow> ('a \<Rightarrow> ('w, 'b) io) \<Rightarrow> ('w, 'b list) io" where
  "io_for [] f = io_ret []"
| "io_for (x # xs) f = io_bind (f x) (\<lambda>y. io_bind (io_for xs f) (\<lambda>ys. io_ret (y # ys)))"

text \<open>Reading and writing a part of the state; running a call on a part of the state.\<close>

definition io_get :: "('w, 'w) io" where
  "io_get w = (Inr w, w)"

definition io_modify :: "('w \<Rightarrow> 'w) \<Rightarrow> ('w, unit) io" where
  "io_modify f w = (Inr (), f w)"

definition io_on :: "('s \<Rightarrow> 'w) \<Rightarrow> ('w \<Rightarrow> 's \<Rightarrow> 's) \<Rightarrow> ('w, 'a) io \<Rightarrow> ('s, 'a) io" where
  "io_on g p m s = (case m (g s) of (r, w') \<Rightarrow> (r, p w' s))"

text \<open>\<open>for { x, err := m(); if err == nil { break }; sleep }\<close>: \<open>None\<close> is a loop that never ends.\<close>

partial_function (option) retry :: "('w, 'a) io \<Rightarrow> ('w \<Rightarrow> 'w) \<Rightarrow> 'w \<Rightarrow> ((fault + 'a) \<times> 'w) option" where
  "retry m sleep w =
     (case m w of
        (Inl (Fail e), w') \<Rightarrow> retry m sleep (sleep w')
      | (Inl (Panic s), w') \<Rightarrow> Some (Inl (Panic s), w')
      | (Inr a, w') \<Rightarrow> Some (Inr a, w'))"

lemma io_get_run [io_simps]: "io_get w = (Inr w, w)"
  by (simp add: io_get_def)

lemma io_modify_run [io_simps]: "io_modify f w = (Inr (), f w)"
  by (simp add: io_modify_def)

lemma io_on_eq [io_simps]:
  "io_on g p m s = (r, s') \<longleftrightarrow> (\<exists>w'. m (g s) = (r, w') \<and> s' = p w' s)"
  by (auto simp: io_on_def split: prod.splits)

lemma io_bind_get [io_simps]: "io_bind io_get f s = f s s"
  by (simp add: io_bind_def io_get_def)

lemma io_bind_modify [io_simps]: "io_bind (io_modify g) f s = f () (g s)"
  by (simp add: io_bind_def io_modify_def)

lemma io_ret_run [io_simps]: "io_ret a w = (Inr a, w)"
  by (simp add: io_ret_def)

lemma io_fail_run [io_simps]: "io_fail e w = (Inl (Fail e), w)"
  by (simp add: io_fail_def)

lemma io_panic_run [io_simps]: "io_panic s w = (Inl (Panic s), w)"
  by (simp add: io_panic_def)

lemma io_bind_Inr [io_simps]:
  "io_bind m f w = (Inr b, w') \<longleftrightarrow> (\<exists>a w1. m w = (Inr a, w1) \<and> f a w1 = (Inr b, w'))"
  by (auto simp: io_bind_def split: prod.splits sum.splits)

lemma io_bind_Inl [io_simps]:
  "io_bind m f w = (Inl e, w') \<longleftrightarrow>
     m w = (Inl e, w') \<or> (\<exists>a w1. m w = (Inr a, w1) \<and> f a w1 = (Inl e, w'))"
  by (auto simp: io_bind_def split: prod.splits sum.splits)

lemma io_try_eq [io_simps]:
  "io_try m f w = (r, w') \<longleftrightarrow>
     (\<exists>e w1. m w = (Inl (Fail e), w1) \<and> f (Inl e) w1 = (r, w'))
     \<or> (\<exists>s. m w = (Inl (Panic s), w') \<and> r = Inl (Panic s))
     \<or> (\<exists>a w1. m w = (Inr a, w1) \<and> f (Inr a) w1 = (r, w'))"
  by (auto simp: io_try_def split: prod.splits sum.splits fault.splits)

lemma io_of_zk_eq [io_simps]:
  "io_of_zk m w = (Inr a, w') \<longleftrightarrow> m w = (Inr a, w')"
  "io_of_zk m w = (Inl f, w') \<longleftrightarrow> (\<exists>e. f = Fail (ErrZK e) \<and> m w = (Inl e, w'))"
  by (auto simp: io_of_zk_def split: prod.splits sum.splits)

lemma io_of_sum_eq [io_simps]:
  "io_of_sum q w = (Inr a, w') \<longleftrightarrow> q = Inr a \<and> w' = w"
  "io_of_sum q w = (Inl f, w') \<longleftrightarrow> (\<exists>e. f = Fail e \<and> q = Inl e) \<and> w' = w"
  by (auto simp: io_of_sum_def split: sum.splits)

lemma io_of_fault_eq [io_simps]: "io_of_fault q w = (r, w') \<longleftrightarrow> q = r \<and> w' = w"
  by (auto simp: io_of_fault_def)

lemma io_of_read_eq [io_simps]:
  "io_of_read m w = (r, w') \<longleftrightarrow> (\<exists>a. r = Inr a \<and> m w = (a, w'))"
  by (auto simp: io_of_read_def split: prod.splits)

lemma io_bind_of_Inr: "m w = (Inr a, w1) \<Longrightarrow> io_bind m f w = f a w1"
  by (simp add: io_bind_def)

lemma io_bind_of_Inl: "m w = (Inl e, w1) \<Longrightarrow> io_bind m f w = (Inl e, w1)"
  by (simp add: io_bind_def)

lemma io_try_of_Inr: "m w = (Inr a, w1) \<Longrightarrow> io_try m f w = f (Inr a) w1"
  by (simp add: io_try_def)

lemma io_try_of_Fail: "m w = (Inl (Fail e), w1) \<Longrightarrow> io_try m f w = f (Inl e) w1"
  by (simp add: io_try_def)

lemma io_try_of_Panic: "m w = (Inl (Panic s), w1) \<Longrightarrow> io_try m f w = (Inl (Panic s), w1)"
  by (simp add: io_try_def)

lemma io_bind_assoc: "io_bind (io_bind m f) g = io_bind m (\<lambda>x. io_bind (f x) g)"
  by (rule ext) (simp add: io_bind_def split: prod.splits sum.splits)

lemma io_bind_ret [simp]: "io_bind (io_ret a) f = f a"
  by (rule ext) (simp add: io_bind_def io_ret_def)

lemma io_bind_ret_right: "io_bind m (\<lambda>a. io_ret a) = m"
  by (rule ext) (simp add: io_bind_def io_ret_def split: prod.splits sum.splits)

lemma io_for_append:
  "io_for (xs @ ys) f =
     io_bind (io_for xs f) (\<lambda>as. io_bind (io_for ys f) (\<lambda>bs. io_ret (as @ bs)))"
  by (induction xs) (simp_all add: io_bind_assoc io_bind_ret_right)

section \<open>Frame rules: views an operation leaves alone\<close>

definition keeps :: "('w \<Rightarrow> 'v) \<Rightarrow> ('w, 'a) io \<Rightarrow> bool" where
  "keeps v m \<longleftrightarrow> (\<forall>w. v (snd (m w)) = v w)"

lemma keepsD: "keeps v m \<Longrightarrow> m w = (r, w') \<Longrightarrow> v w' = v w"
  by (metis keeps_def snd_conv)

lemma keepsI: "(\<And>w r w'. m w = (r, w') \<Longrightarrow> v w' = v w) \<Longrightarrow> keeps v m"
  by (auto simp: keeps_def) (metis prod.collapse)

lemma keeps_ret [keeps_intros]: "keeps v (io_ret a)"
  by (simp add: keeps_def io_ret_def)

lemma keeps_fail [keeps_intros]: "keeps v (io_fail e)"
  by (simp add: keeps_def io_fail_def)

lemma keeps_panic [keeps_intros]: "keeps v (io_panic s)"
  by (simp add: keeps_def io_panic_def)

lemma keeps_of_sum [keeps_intros]: "keeps v (io_of_sum r)"
  by (simp add: keeps_def io_of_sum_def split: sum.splits)

lemma keeps_of_fault [keeps_intros]: "keeps v (io_of_fault r)"
  by (simp add: keeps_def io_of_fault_def)

lemma keeps_bind [keeps_intros]:
  assumes "keeps v m" and "\<And>a. keeps v (f a)"
  shows "keeps v (io_bind m f)"
proof (rule keepsI)
  fix w r w'
  assume run: "io_bind m f w = (r, w')"
  obtain q w1 where m: "m w = (q, w1)" by fastforce
  then have "v w1 = v w" using assms(1) by (rule keepsD [rotated])
  with run m show "v w' = v w"
    by (cases q) (auto simp: io_bind_def dest: keepsD [OF assms(2)])
qed

lemma keeps_try [keeps_intros]:
  assumes "keeps v m" and "\<And>a. keeps v (f a)"
  shows "keeps v (io_try m f)"
proof (rule keepsI)
  fix w r w'
  assume run: "io_try m f w = (r, w')"
  obtain q w1 where m: "m w = (q, w1)" by fastforce
  then have "v w1 = v w" using assms(1) by (rule keepsD [rotated])
  with run m show "v w' = v w"
    by (auto simp: io_try_def dest: keepsD [OF assms(2)] split: sum.splits fault.splits)
qed

lemma keeps_for [keeps_intros]:
  assumes "\<And>x. x \<in> set xs \<Longrightarrow> keeps v (f x)"
  shows "keeps v (io_for xs f)"
  using assms by (induction xs) (auto intro!: keeps_intros)

lemma keeps_if [keeps_intros]: "keeps v a \<Longrightarrow> keeps v b \<Longrightarrow> keeps v (if c then a else b)"
  by simp

lemma keeps_io_get [keeps_intros]: "keeps v io_get"
  by (simp add: keeps_def io_get_def)

lemma keeps_modify [keeps_intros]: "(\<And>w. v (f w) = v w) \<Longrightarrow> keeps v (io_modify f)"
  by (simp add: keeps_def io_modify_def)

lemma keeps_on [keeps_intros]: "(\<And>w s. v (p w s) = v s) \<Longrightarrow> keeps v (io_on g p m)"
  by (simp add: keeps_def io_on_def split: prod.splits)

lemma keeps_on_inner: "keeps u m \<Longrightarrow> (\<And>w s. g (p w s) = w) \<Longrightarrow> keeps (\<lambda>s. u (g s)) (io_on g p m)"
  by (auto simp: keeps_def io_on_def split: prod.splits) (metis snd_conv)

text \<open>A loop over calls that leave a view alone: each element is related to its result.\<close>

lemma io_for_list_all2:
  assumes "io_for xs f w = (Inr ys, w')" "\<And>x. keeps v (f x)"
    and "\<And>x y w1 w2. v w1 = v w \<Longrightarrow> f x w1 = (Inr y, w2) \<Longrightarrow> P x y"
  shows "list_all2 P xs ys"
  using assms(1,3)
proof (induction xs arbitrary: w ys)
  case (Cons x xs)
  from Cons.prems(1) obtain y w1 zs where x: "f x w = (Inr y, w1)"
    and xs: "io_for xs f w1 = (Inr zs, w')" and ys: "ys = y # zs"
    by (auto simp: io_simps)
  have "v w1 = v w" using assms(2) x by (rule keepsD)
  with Cons.IH [OF xs] Cons.prems(2) x ys show ?case by auto
qed (simp add: io_simps)

section \<open>How an operation moves a view\<close>

text \<open>
  \<open>moves R v m\<close>: whatever its outcome, \<open>m\<close> changes the view \<open>v\<close> only along the preorder
  \<open>R\<close>. With \<open>R\<close> of the shape \<open>I v \<longrightarrow> I v'\<close> it says that \<open>m\<close> preserves the invariant
  \<open>I\<close>, also when it fails half-way.
\<close>

named_theorems moves_intros \<open>rules for \<open>moves\<close>\<close>

definition preorder_rel :: "('v \<Rightarrow> 'v \<Rightarrow> bool) \<Rightarrow> bool" where
  "preorder_rel R \<longleftrightarrow> reflp R \<and> transp R"

definition moves :: "('v \<Rightarrow> 'v \<Rightarrow> bool) \<Rightarrow> ('w \<Rightarrow> 'v) \<Rightarrow> ('w, 'a) io \<Rightarrow> bool" where
  "moves R v m \<longleftrightarrow> (\<forall>w. R (v w) (v (snd (m w))))"

lemma preorder_refl: "preorder_rel R \<Longrightarrow> R x x"
  by (simp add: preorder_rel_def reflp_def)

lemma preorder_trans: "preorder_rel R \<Longrightarrow> R x y \<Longrightarrow> R y z \<Longrightarrow> R x z"
  by (auto simp: preorder_rel_def elim: transpE)

lemma preorder_imp [simp]: "preorder_rel (\<lambda>x y. I x \<longrightarrow> I y)"
  by (auto simp: preorder_rel_def reflp_def transp_def)

lemma preorder_frame [simp]: "preorder_rel (\<lambda>f g. \<forall>q. P q \<longrightarrow> g q = f q)"
  by (auto simp: preorder_rel_def reflp_def transp_def)

lemma preorder_same [simp]: "preorder_rel (\<lambda>x y. f y = f x)"
  by (auto simp: preorder_rel_def reflp_def transp_def)

lemma preorder_maybe [simp]:
  assumes "\<And>x. g (g x) = g x"
  shows "preorder_rel (\<lambda>x y. f y = f x \<or> f y = g (f x))"
  using assms by (auto simp: preorder_rel_def reflp_def transp_def)

lemma preorder_conj [intro]:
  "preorder_rel R \<Longrightarrow> preorder_rel S \<Longrightarrow> preorder_rel (\<lambda>x y. R x y \<and> S x y)"
  by (auto simp: preorder_rel_def reflp_def elim!: transpE intro!: transpI)

lemma keeps_comp: "keeps v m \<Longrightarrow> keeps (\<lambda>w. f (v w)) m"
  by (simp add: keeps_def)

lemma keeps_of_moves: "moves (\<lambda>x y. f y = f x) v m \<Longrightarrow> keeps (\<lambda>w. f (v w)) m"
  by (simp add: moves_def keeps_def)

lemma movesD: "moves R v m \<Longrightarrow> m w = (r, w') \<Longrightarrow> R (v w) (v w')"
  by (metis moves_def snd_conv)

lemma movesI: "(\<And>w r w'. m w = (r, w') \<Longrightarrow> R (v w) (v w')) \<Longrightarrow> moves R v m"
  by (metis moves_def prod.collapse)

lemma moves_of_keeps: "preorder_rel R \<Longrightarrow> keeps v m \<Longrightarrow> moves R v m"
  by (simp add: moves_def keeps_def preorder_refl)

lemma moves_ret [moves_intros]: "preorder_rel R \<Longrightarrow> moves R v (io_ret a)"
  by (rule moves_of_keeps) (auto intro: keeps_intros)

lemma moves_fail [moves_intros]: "preorder_rel R \<Longrightarrow> moves R v (io_fail e)"
  by (rule moves_of_keeps) (auto intro: keeps_intros)

lemma moves_of_sum [moves_intros]: "preorder_rel R \<Longrightarrow> moves R v (io_of_sum q)"
  by (rule moves_of_keeps) (auto intro: keeps_intros)

lemma moves_bind [moves_intros]:
  assumes "preorder_rel R" "moves R v m" "\<And>a. moves R v (f a)"
  shows "moves R v (io_bind m f)"
proof (rule movesI)
  fix w r w'
  assume "io_bind m f w = (r, w')"
  then show "R (v w) (v w')"
    using assms by (auto simp: io_bind_def split: prod.splits sum.splits dest!: movesD intro: preorder_trans)
qed

lemma moves_try [moves_intros]:
  assumes "preorder_rel R" "moves R v m" "\<And>a. moves R v (f a)"
  shows "moves R v (io_try m f)"
proof (rule movesI)
  fix w r w'
  assume "io_try m f w = (r, w')"
  then show "R (v w) (v w')"
    using assms
    by (auto simp: io_try_def split: prod.splits sum.splits fault.splits dest!: movesD intro: preorder_trans)
qed

lemma moves_for [moves_intros]:
  assumes "preorder_rel R" "\<And>x. x \<in> set xs \<Longrightarrow> moves R v (f x)"
  shows "moves R v (io_for xs f)"
  using assms by (induction xs) (auto intro!: moves_intros)

lemma moves_if [moves_intros]: "moves R v a \<Longrightarrow> moves R v b \<Longrightarrow> moves R v (if c then a else b)"
  by simp

lemma moves_get [moves_intros]: "preorder_rel R \<Longrightarrow> moves R v io_get"
  by (rule moves_of_keeps) (auto intro: keeps_intros)

lemma moves_modify [moves_intros]: "(\<And>w. R (v w) (v (f w))) \<Longrightarrow> moves R v (io_modify f)"
  by (simp add: moves_def io_modify_def)

lemma moves_panic [moves_intros]: "preorder_rel R \<Longrightarrow> moves R v (io_panic s)"
  by (rule moves_of_keeps) (auto intro: keeps_intros)

lemma moves_of_fault [moves_intros]: "preorder_rel R \<Longrightarrow> moves R v (io_of_fault q)"
  by (rule moves_of_keeps) (auto intro: keeps_intros)

section \<open>Retrying until a call succeeds\<close>

text \<open>
  The states in which the loop makes its attempts: \<open>attempts m sleep w w'\<close> when the calls from
  \<open>w\<close> on have all failed and the next one starts at \<open>w'\<close>.
\<close>

inductive attempts :: "('w, 'a) io \<Rightarrow> ('w \<Rightarrow> 'w) \<Rightarrow> 'w \<Rightarrow> 'w \<Rightarrow> bool" for m sleep where
  attempts_first: "attempts m sleep w w"
| attempts_again: "m w = (Inl (Fail e), w1) \<Longrightarrow> attempts m sleep (sleep w1) w' \<Longrightarrow> attempts m sleep w w'"

lemma retry_Inr: "m w = (Inr a, w') \<Longrightarrow> retry m sleep w = Some (Inr a, w')"
  by (subst retry.simps) simp

lemma retry_Fail: "m w = (Inl (Fail e), w') \<Longrightarrow> retry m sleep w = retry m sleep (sleep w')"
  by (subst retry.simps) simp

lemma retry_Panic: "m w = (Inl (Panic s), w') \<Longrightarrow> retry m sleep w = Some (Inl (Panic s), w')"
  by (subst retry.simps) simp

text \<open>What the loop returns was returned by its last attempt, which did not fail.\<close>

lemma retry_sound:
  assumes "retry m sleep w = Some (q, w')"
  shows "\<exists>w1. attempts m sleep w w1 \<and> m w1 = (q, w') \<and> (\<forall>e. q \<noteq> Inl (Fail e))"
proof -
  have "\<forall>q w'. r = (q, w') \<longrightarrow> (\<exists>w1. attempts m sleep w w1 \<and> m w1 = (q, w') \<and> (\<forall>e. q \<noteq> Inl (Fail e)))"
    if "retry m sleep w = Some r" for r
    using that
  proof (induction arbitrary: rule: retry.raw_induct [rotated 1, consumes 1])
    case (1 rec m sleep w r)
    show ?case
    proof (cases "\<exists>e w1. m w = (Inl (Fail e), w1)")
      case True
      then obtain e w1 where m: "m w = (Inl (Fail e), w1)" by blast
      with 1(2) have "rec m sleep (sleep w1) = Some r" by simp
      from 1(1) [OF this] attempts_again [of m w, OF m] show ?thesis by blast
    next
      case False
      with 1(2) show ?thesis
        by (auto split: prod.splits sum.splits fault.splits intro: attempts_first)
    qed
  qed
  from this [OF assms, rule_format, OF refl] show ?thesis .
qed

text \<open>It returns as soon as some attempt does not fail.\<close>

lemma retry_complete:
  assumes "attempts m sleep w w1" "m w1 = (q, w')" "\<forall>e. q \<noteq> Inl (Fail e)"
  shows "retry m sleep w = Some (q, w')"
  using assms
proof (induction rule: attempts.induct)
  case (attempts_first w)
  then show ?case
    by (cases q rule: sum.exhaust) (auto simp: retry_Inr retry_Panic intro: fault.exhaust)
qed (simp add: retry_Fail)

section \<open>Calls that cannot panic\<close>

named_theorems no_panic_intros \<open>rules showing that an effectful operation never panics\<close>

definition no_panic :: "('w, 'a) io \<Rightarrow> bool" where
  "no_panic m \<longleftrightarrow> (\<forall>w s. fst (m w) \<noteq> Inl (Panic s))"

lemma no_panicD: "no_panic m \<Longrightarrow> m w = (Inl (Panic s), w') \<Longrightarrow> False"
  by (metis no_panic_def fst_conv)

lemma no_panicI: "(\<And>w s w'. m w = (Inl (Panic s), w') \<Longrightarrow> False) \<Longrightarrow> no_panic m"
  by (auto simp: no_panic_def) (metis prod.collapse)

lemma no_panic_basic [no_panic_intros]:
  "no_panic (io_ret a)" "no_panic (io_fail e)" "no_panic (io_of_sum q)" "no_panic (io_of_zk z)"
  "no_panic (io_of_read n)"
  by (auto intro!: no_panicI simp: io_simps)

lemma no_panic_bind [no_panic_intros]: "no_panic m \<Longrightarrow> (\<And>a. no_panic (f a)) \<Longrightarrow> no_panic (io_bind m f)"
  by (rule no_panicI) (auto simp: io_simps dest: no_panicD)

lemma no_panic_try [no_panic_intros]: "no_panic m \<Longrightarrow> (\<And>a. no_panic (f a)) \<Longrightarrow> no_panic (io_try m f)"
  by (rule no_panicI) (auto simp: io_simps dest: no_panicD)

lemma no_panic_for [no_panic_intros]: "(\<And>x. no_panic (f x)) \<Longrightarrow> no_panic (io_for xs f)"
  by (induction xs) (auto intro!: no_panic_intros)

lemma no_panic_if [no_panic_intros]: "no_panic a \<Longrightarrow> no_panic b \<Longrightarrow> no_panic (if c then a else b)"
  by simp

text \<open>A fact about the views after a call, whatever its outcome, from facts about its parts.\<close>

lemma io_bind_cases:
  assumes "io_bind m f w = (r, w')"
  obtains (fault) e where "m w = (Inl e, w')" "r = Inl e"
    | (ok) a w1 where "m w = (Inr a, w1)" "f a w1 = (r, w')"
  using assms by (auto simp: io_bind_def split: prod.splits sum.splits)

section \<open>Generic lemmas\<close>

lemma not_Some_pair [simp]: "(\<forall>a b. x \<noteq> Some (a, b)) \<longleftrightarrow> x = None"
  by (cases x) auto

lemma no_panic_state [no_panic_intros]: "no_panic io_get" "no_panic (io_modify f)"
  by (simp_all add: no_panic_def io_get_def io_modify_def)

lemma no_panic_on [no_panic_intros]: "no_panic m \<Longrightarrow> no_panic (io_on g p m)"
  by (auto simp: no_panic_def io_on_def split: prod.splits) (metis fst_conv)

section \<open>Calls that cannot return an error\<close>

named_theorems no_fail_intros \<open>rules showing that an effectful operation never returns an error\<close>

definition no_fail :: "('w, 'a) io \<Rightarrow> bool" where
  "no_fail m \<longleftrightarrow> (\<forall>w e. fst (m w) \<noteq> Inl (Fail e))"

lemma no_failD: "no_fail m \<Longrightarrow> m w = (Inl (Fail e), w') \<Longrightarrow> False"
  by (metis no_fail_def fst_conv)

lemma no_failI: "(\<And>w e w'. m w = (Inl (Fail e), w') \<Longrightarrow> False) \<Longrightarrow> no_fail m"
  by (auto simp: no_fail_def) (metis prod.collapse)

lemma no_fail_basic [no_fail_intros]:
  "no_fail (io_ret a)" "no_fail (io_panic s)" "no_fail (io_of_read n)" "no_fail io_get" "no_fail (io_modify f)"
  by (auto intro!: no_failI simp: io_simps)

lemma no_fail_bind [no_fail_intros]: "no_fail m \<Longrightarrow> (\<And>a. no_fail (f a)) \<Longrightarrow> no_fail (io_bind m f)"
  by (rule no_failI) (auto simp: io_simps dest: no_failD)

lemma no_fail_try [no_fail_intros]: "(\<And>a. no_fail (f a)) \<Longrightarrow> no_fail (io_try m f)"
  by (rule no_failI) (auto simp: io_simps dest: no_failD)

lemma no_fail_for [no_fail_intros]: "(\<And>x. x \<in> set xs \<Longrightarrow> no_fail (f x)) \<Longrightarrow> no_fail (io_for xs f)"
  by (induction xs) (auto intro!: no_fail_intros)

lemma no_fail_on [no_fail_intros]: "no_fail m \<Longrightarrow> no_fail (io_on g p m)"
  by (auto simp: no_fail_def io_on_def split: prod.splits) (metis fst_conv)

text \<open>A call that can neither panic nor return an error returns.\<close>

lemma returns:
  assumes "no_panic m" "no_fail m"
  shows "\<exists>a. fst (m w) = Inr a"
  using assms by (cases "fst (m w)") (auto simp: no_panic_def no_fail_def, metis fault.exhaust)

end
