(* ===== verification/GoLib.thy ===== *)
theory GoLib
  imports Prelude
begin

text \<open>
  The functions of Go's standard library the program computes with: \<open>strings.Split\<close>,
  \<open>SplitN\<close>, \<open>LastIndex\<close>, \<open>ToLower\<close>, \<open>TrimSpace\<close>, \<open>Fields\<close>, \<open>Count\<close>, the \<open>%d\<close> verb of \<open>fmt\<close>,
  \<open>strconv.ParseInt\<close>, and the arithmetic of \<open>time.Time\<close> and \<open>time.Duration\<close> (64-bit
  nanoseconds, with the saturation of \<open>Time.Sub\<close>). Strings are byte strings.
\<close>

section \<open>strings\<close>

fun split_on :: "char \<Rightarrow> string \<Rightarrow> string list" where
  "split_on c [] = [[]]"
| "split_on c (x # xs) =
     (if x = c then [] # split_on c xs
      else (case split_on c xs of [] \<Rightarrow> [[x]] | y # ys \<Rightarrow> (x # y) # ys))"

text \<open>\<open>strings.SplitN(s, c, 2)\<close>\<close>

fun splitn2 :: "char \<Rightarrow> string \<Rightarrow> string list" where
  "splitn2 c s =
     (if c \<in> set s then [takeWhile (\<lambda>x. x \<noteq> c) s, tl (dropWhile (\<lambda>x. x \<noteq> c) s)] else [s])"

text \<open>\<open>strings.LastIndex\<close>, with Go's \<open>-1\<close> for "not found".\<close>

fun last_index :: "char \<Rightarrow> string \<Rightarrow> int" where
  "last_index c [] = -1"
| "last_index c (x # xs) =
     (let i = last_index c xs in if 0 \<le> i then i + 1 else if x = c then 0 else -1)"

text \<open>\<open>strings.TrimSpace\<close> and \<open>strings.Fields\<close>, on the white space of ASCII.\<close>

definition is_space :: "char \<Rightarrow> bool" where
  "is_space c \<longleftrightarrow> c = CHR 0x20 \<or> (of_char c :: nat) \<in> {9, 10, 11, 12, 13}"

definition trim_space :: "string \<Rightarrow> string" where
  "trim_space s = rev (dropWhile is_space (rev (dropWhile is_space s)))"

fun fields_acc :: "string \<Rightarrow> string \<Rightarrow> string list" where
  "fields_acc [] w = (if w = [] then [] else [w])"
| "fields_acc (c # cs) w =
     (if is_space c then (if w = [] then fields_acc cs [] else w # fields_acc cs []) else fields_acc cs (w @ [c]))"

definition strings_Fields :: "string \<Rightarrow> string list" where
  "strings_Fields s = fields_acc s []"

lemma trim_space_id:
  assumes "s \<noteq> []" "\<not> is_space (hd s)" "\<not> is_space (last s)"
  shows "trim_space s = s"
proof -
  have "dropWhile is_space s = s" using assms(1,2) by (cases s) auto
  moreover have "dropWhile is_space (rev s) = rev s" using assms(1,3) by (cases s rule: rev_cases) auto
  ultimately show ?thesis by (simp add: trim_space_def)
qed

lemma fields_acc_word: "list_all (\<lambda>c. \<not> is_space c) w \<Longrightarrow> fields_acc (w @ s) v = fields_acc s (v @ w)"
  by (induction w arbitrary: v) auto

lemma fields_words:
  assumes "\<forall>w \<in> set ws. w \<noteq> [] \<and> list_all (\<lambda>c. \<not> is_space c) w"
  shows "strings_Fields (concat (map (\<lambda>w. w @ [CHR 0x20]) ws)) = ws"
  unfolding strings_Fields_def using assms
  by (induction ws) (auto simp: fields_acc_word is_space_def)

lemma fields_acc_nonempty: "w \<in> set (fields_acc s v) \<Longrightarrow> w \<noteq> []"
  by (induction s v rule: fields_acc.induct) (auto split: if_splits)

definition char_lower :: "char \<Rightarrow> char" where
  "char_lower c = (let n = (of_char c :: nat) in if 65 \<le> n \<and> n \<le> 90 then char_of (n + 32) else c)"

definition to_lower :: "string \<Rightarrow> string" where
  "to_lower s = map char_lower s"

lemma char_lower_idem: "char_lower (char_lower c) = char_lower c"
  by (simp add: char_lower_def Let_def)

lemma split_on_nonempty [simp]: "split_on c s \<noteq> []"
  by (cases s) (auto split: list.splits)

lemma split_on_no_sep: "c \<notin> set s \<Longrightarrow> split_on c s = [s]"
  by (induction s) auto

lemma split_on_append: "c \<notin> set a \<Longrightarrow> split_on c (a @ c # s) = a # split_on c s"
  by (induction a) auto

lemma concat_split_on: "concat (map (\<lambda>p. c # p) (split_on c s)) = c # s"
  by (induction c s rule: split_on.induct) (auto split: list.splits)

lemma split_on_three:
  assumes "c \<notin> set x" "c \<notin> set y" "c \<notin> set z"
  shows "split_on c (x @ c # y @ c # z) = [x, y, z]"
  using assms by (simp add: split_on_append split_on_no_sep)

lemma split_on_no_sep_elem: "x \<in> set (split_on c s) \<Longrightarrow> c \<notin> set x"
  by (induction s arbitrary: x) (auto split: if_splits list.splits)

lemma split_on_three_inverse:
  assumes "split_on c s = [x, y, z]"
  shows "s = x @ c # y @ c # z"
proof -
  have two: "u = y @ c # z" if "split_on c u = [y, z]" for u y z
    using that
  proof (induction u arbitrary: y)
    case (Cons d u)
    then show ?case
    proof (cases "d = c")
      case True
      with Cons.prems have "split_on c u = [z]" "y = []" by auto
      moreover have "v = z'" if "split_on c v = [z']" for v z'
        using that by (induction v arbitrary: z') (auto split: if_splits list.splits)
      ultimately show ?thesis using True by simp
    next
      case False
      with Cons show ?thesis by (auto split: list.splits)
    qed
  qed simp
  show ?thesis
    using assms
  proof (induction s arbitrary: x)
    case (Cons d s)
    then show ?case
      by (cases "d = c") (auto split: list.splits dest: two)
  qed simp
qed

lemma splitn2_append: "c \<notin> set a \<Longrightarrow> splitn2 c (a @ c # s) = [a, s]"
  by (induction a) (auto simp: takeWhile_append dropWhile_append split: if_splits)

lemma last_index_none: "c \<notin> set s \<Longrightarrow> last_index c s = -1"
  by (induction s) auto

lemma last_index_ge: "last_index c s \<ge> -1"
  by (induction s) (auto simp: Let_def)

lemma last_index_append: "c \<notin> set b \<Longrightarrow> last_index c (a @ c # b) = int (length a)"
  by (induction a) (auto simp: last_index_none Let_def)

lemma last_index_minus_one_iff: "last_index c s = -1 \<longleftrightarrow> c \<notin> set s"
proof
  assume "last_index c s = -1"
  then show "c \<notin> set s"
  proof (induction s)
    case (Cons x s)
    then show ?case
      using last_index_ge [of c s] by (auto simp: Let_def split: if_splits)
  qed simp
qed (rule last_index_none)

section \<open>Decimal numbers\<close>

fun digit_char :: "nat \<Rightarrow> char" where
  "digit_char n = char_of (48 + n)"

definition char_digit :: "char \<Rightarrow> nat option" where
  "char_digit c = (let n = (of_char c :: nat) in if 48 \<le> n \<and> n \<le> 57 then Some (n - 48) else None)"

fun show_nat :: "nat \<Rightarrow> string" where
  "show_nat n = (if n < 10 then [digit_char n] else show_nat (n div 10) @ [digit_char (n mod 10)])"

declare show_nat.simps [simp del]

text \<open>The \<open>%d\<close> verb.\<close>

definition show_int :: "int \<Rightarrow> string" where
  "show_int i = (if i < 0 then CHR ''-'' # show_nat (nat (- i)) else show_nat (nat i))"

fun parse_digits :: "nat \<Rightarrow> string \<Rightarrow> nat option" where
  "parse_digits acc [] = Some acc"
| "parse_digits acc (c # cs) =
     (case char_digit c of None \<Rightarrow> None | Some d \<Rightarrow> parse_digits (10 * acc + d) cs)"

definition parse_unsigned :: "string \<Rightarrow> nat option" where
  "parse_unsigned s = (if s = [] then None else parse_digits 0 s)"

abbreviation int64_min :: int where "int64_min \<equiv> - (2 ^ 63)"
abbreviation int64_max :: int where "int64_max \<equiv> 2 ^ 63 - 1"

text \<open>\<open>strconv.ParseInt(s, 10, 64)\<close>; \<open>None\<close> for a syntax or range error.\<close>

definition parse_int64 :: "string \<Rightarrow> int option" where
  "parse_int64 s =
     (let (neg, digits) =
        (case s of [] \<Rightarrow> (False, [])
         | c # cs \<Rightarrow> if c = CHR ''-'' then (True, cs) else if c = CHR ''+'' then (False, cs) else (False, s))
      in case parse_unsigned digits of
           None \<Rightarrow> None
         | Some n \<Rightarrow>
             (let i = (if neg then - int n else int n)
              in if int64_min \<le> i \<and> i \<le> int64_max then Some i else None))"

lemma char_digit_of_digit_char [simp]: "n < 10 \<Longrightarrow> char_digit (digit_char n) = Some n"
  by (simp add: char_digit_def)

lemma show_nat_nonempty [simp]: "show_nat n \<noteq> []"
  by (subst show_nat.simps) simp

lemma parse_digits_append:
  "parse_digits acc (s @ [c]) =
     (case parse_digits acc s of None \<Rightarrow> None
      | Some n \<Rightarrow> (case char_digit c of None \<Rightarrow> None | Some d \<Rightarrow> Some (10 * n + d)))"
  by (induction s arbitrary: acc) (auto split: option.splits)

lemma parse_digits_show_nat: "parse_digits 0 (show_nat n) = Some n"
proof (induction n rule: show_nat.induct)
  case (1 n)
  show ?case
  proof (cases "n < 10")
    case True
    then show ?thesis by (subst show_nat.simps) (simp del: digit_char.simps)
  next
    case False
    with 1 show ?thesis
      by (subst show_nat.simps) (simp add: parse_digits_append del: digit_char.simps)
  qed
qed

lemma set_show_nat: "c \<in> set (show_nat n) \<Longrightarrow> 48 \<le> (of_char c :: nat) \<and> (of_char c :: nat) \<le> 57"
proof (induction n rule: show_nat.induct)
  case (1 n)
  show ?case
  proof (cases "n < 10")
    case True
    with 1 show ?thesis by (subst (asm) (2) show_nat.simps) auto
  next
    case False
    have "n mod 10 < 10" by simp
    with False 1 show ?thesis
      by (subst (asm) (2) show_nat.simps) (auto simp: Let_def)
  qed
qed

lemma show_nat_no_char: "of_char c < (48::nat) \<or> 57 < (of_char c :: nat) \<Longrightarrow> c \<notin> set (show_nat n)"
  using set_show_nat by force

lemma show_int_no_at: "CHR ''@'' \<notin> set (show_int i)"
  by (simp add: show_int_def show_nat_no_char)

lemma parse_int64_show_int:
  assumes "int64_min \<le> i" "i \<le> int64_max"
  shows "parse_int64 (show_int i) = Some i"
proof (cases "i < 0")
  case True
  with assms show ?thesis
    by (simp add: show_int_def parse_int64_def parse_unsigned_def parse_digits_show_nat)
next
  case False
  have "hd (show_nat (nat i)) \<noteq> CHR ''-''" "hd (show_nat (nat i)) \<noteq> CHR ''+''"
    using show_nat_no_char [of "CHR ''-''" "nat i"] show_nat_no_char [of "CHR ''+''" "nat i"]
    by (auto dest!: hd_in_set [OF show_nat_nonempty, THEN back_subst [of "\<lambda>c. c \<in> _"]])
  with False assms show ?thesis
    using parse_digits_show_nat [of "nat i"]
    by (cases "show_nat (nat i)") (auto simp: show_int_def parse_int64_def parse_unsigned_def)
qed

section \<open>time\<close>

text \<open>
  An instant is the number of nanoseconds since Go's zero time (1 January of year 1, UTC); a
  duration is a signed 64-bit number of nanoseconds.
\<close>

type_synonym time = int
type_synonym duration = int

abbreviation second :: duration where "second \<equiv> 1000000000"
abbreviation minute :: duration where "minute \<equiv> 60 * second"
abbreviation hour :: duration where "hour \<equiv> 3600 * second"

text \<open>\<open>t.Sub(u)\<close> saturates at the smallest and largest duration.\<close>

definition time_sub :: "time \<Rightarrow> time \<Rightarrow> duration" where
  "time_sub t u = max int64_min (min int64_max (t - u))"

text \<open>Two's complement wrap-around of a 64-bit signed result.\<close>

definition wrap64 :: "int \<Rightarrow> int" where
  "wrap64 i = (i + 2 ^ 63) mod 2 ^ 64 - 2 ^ 63"

text \<open>Seconds from Go's zero time to the Unix epoch, \<open>t.Unix()\<close> and \<open>time.Unix(s, 0)\<close>.\<close>

abbreviation unix_epoch :: int where "unix_epoch \<equiv> 62135596800"

definition time_to_unix :: "time \<Rightarrow> int" where
  "time_to_unix t = wrap64 (t div second - unix_epoch)"

definition time_of_unix :: "int \<Rightarrow> time" where
  "time_of_unix s = wrap64 (s + unix_epoch) * second"

lemma wrap64_id: "int64_min \<le> i \<Longrightarrow> i \<le> int64_max \<Longrightarrow> wrap64 i = i"
  by (simp add: wrap64_def)

lemma wrap64_bounds: "int64_min \<le> wrap64 i" "wrap64 i \<le> int64_max"
proof -
  have "0 \<le> (i + 2 ^ 63) mod 2 ^ 64" "(i + 2 ^ 63) mod 2 ^ 64 < (2 ^ 64 :: int)"
    by (auto intro: pos_mod_sign pos_mod_bound)
  then show "int64_min \<le> wrap64 i" "wrap64 i \<le> int64_max" by (simp_all add: wrap64_def)
qed

lemma time_sub_bounds: "int64_min \<le> time_sub t u" "time_sub t u \<le> int64_max"
  by (simp_all add: time_sub_def)

lemma time_sub_le_iff: "d < int64_max \<Longrightarrow> int64_min \<le> d \<Longrightarrow> time_sub t u \<le> d \<longleftrightarrow> t - u \<le> d"
  by (auto simp: time_sub_def)

lemma time_sub_pos_iff: "0 < time_sub t u \<longleftrightarrow> u < t"
  by (auto simp: time_sub_def)

lemma time_sub_mono: "t \<le> t' \<Longrightarrow> time_sub t u \<le> time_sub t' u"
  by (auto simp: time_sub_def)

end
