(* ===== verification/Model.thy ===== *)
theory Model
  imports Complex_Main GoLib
begin

text \<open>
  The data model of \<^verbatim>\<open>model/model.go\<close>: job identifiers, job configuration and runtime, tasks, and
  the functions that decide when a job is due. Two third-party packages are parameters: the cron
  library (\<open>cron_lib\<close>) and the resources library of mesos-go (\<open>res_lib\<close>). Floating point
  quantities are only passed around by the code and are carried as rationals; Go maps are
  association lists (a nil map and an empty one are the empty list).
\<close>

section \<open>Types\<close>

datatype state = IDLE | STAGING | STARTING | RUNNING | FAILED | OtherState string

fun state_string :: "state \<Rightarrow> string" where
  "state_string IDLE = ''Idle''"
| "state_string STAGING = ''Staging''"
| "state_string STARTING = ''Starting''"
| "state_string RUNNING = ''Running''"
| "state_string FAILED = ''Failed''"
| "state_string (OtherState s) = s"

record job_docker =
  dockerImage :: string
  forcePullImage :: bool

record job_mesos =
  mesosImage :: string

datatype container_type = Docker | Mesos | OtherContainer string

record job_container =
  containerType :: container_type
  containerDocker :: "job_docker option"
  containerMesos :: "job_mesos option"

datatype schedule_type = Cron | OtherSchedule string

record job_schedule =
  scheduleType :: schedule_type
  scheduleCron :: string

type_synonym string_map = "(string \<times> string) list"

record job_id =
  Group :: string
  Project :: string
  ID :: string

record job_conf =
  JobID :: job_id
  Schedule :: job_schedule
  Env :: string_map
  Secrets :: string_map
  Container :: job_container
  CPUs :: rat
  Mem :: rat
  Disk :: rat
  Cmd :: string
  User :: string
  Shell :: bool
  Arguments :: "string list"
  Labels :: string_map
  MaxRetries :: int

record job_runtime =
  State :: state
  LastStart :: time
  CurrentTaskID :: string
  CurrentAgentID :: string
  Retries :: int

record job =
  JobConf :: job_conf
  JobRuntime :: job_runtime

record task =
  taskStart :: time
  taskEnd :: time
  TaskID :: string
  ExecutorID :: string
  AgentID :: string
  FrameworkID :: string
  ExecutorURL :: string
  Message :: string
  Reason :: string
  Source :: string

section \<open>Third-party packages\<close>

text \<open>\<open>cron.Parser.Parse\<close> and \<open>cron.Schedule.Next\<close>.\<close>

record 's cron_lib =
  cronParse :: "string \<Rightarrow> string + 's"
  cronNext :: "'s \<Rightarrow> time \<Rightarrow> time"

text \<open>The constructors and methods of mesos-go's \<open>resources\<close> package on resources \<open>'r\<close>.\<close>

record 'r res_lib =
  resCPUs :: "rat \<Rightarrow> 'r"
  resMemory :: "rat \<Rightarrow> 'r"
  resDisk :: "rat \<Rightarrow> 'r"
  resAdd :: "'r list \<Rightarrow> 'r list \<Rightarrow> 'r list"
  resUnallocate :: "'r list \<Rightarrow> 'r list"
  resToUnreserved :: "'r list \<Rightarrow> 'r list"
  resContainsAll :: "'r list \<Rightarrow> 'r list \<Rightarrow> bool"
  resPushReservation :: "string \<Rightarrow> 'r list \<Rightarrow> 'r list"
  resFind :: "'r list \<Rightarrow> 'r list \<Rightarrow> 'r list"
  resSubtract :: "'r list \<Rightarrow> 'r list \<Rightarrow> 'r list"

section \<open>Identifiers\<close>

definition JobID_String :: "job_id \<Rightarrow> string" where
  "JobID_String jid = Group jid @ '':'' @ Project jid @ '':'' @ ID jid"

definition JobID_Path :: "job_id \<Rightarrow> string" where
  "JobID_Path jid = Group jid @ ''/'' @ Project jid @ ''/'' @ ID jid"

definition ParseJobID :: "string \<Rightarrow> error + job_id" where
  "ParseJobID v =
     (case split_on (CHR '':'') v of
        [g, p, i] \<Rightarrow> Inr \<lparr>Group = g, Project = p, ID = i\<rparr>
      | _ \<Rightarrow> Inl (ErrMsg ''Invalid number of chunks''))"

definition FQID :: "job_conf \<Rightarrow> string" where
  "FQID j = JobID_String (JobID j)"

abbreviation job_fqid :: "job \<Rightarrow> string" where
  "job_fqid j \<equiv> FQID (JobConf j)"

text \<open>An identifier component without the separators the code puts between components.\<close>

definition id_part :: "string \<Rightarrow> bool" where
  "id_part s \<longleftrightarrow> s \<noteq> [] \<and> CHR '':'' \<notin> set s \<and> CHR ''/'' \<notin> set s"

definition wf_job_id :: "job_id \<Rightarrow> bool" where
  "wf_job_id jid \<longleftrightarrow> id_part (Group jid) \<and> id_part (Project jid) \<and> id_part (ID jid)"

lemma ParseJobID_String_colon:
  assumes "CHR '':'' \<notin> set (Group jid)" "CHR '':'' \<notin> set (Project jid)" "CHR '':'' \<notin> set (ID jid)"
  shows "ParseJobID (JobID_String jid) = Inr jid"
  using assms by (simp add: ParseJobID_def JobID_String_def split_on_three)

lemma ParseJobID_String: "wf_job_id jid \<Longrightarrow> ParseJobID (JobID_String jid) = Inr jid"
  by (simp add: ParseJobID_String_colon wf_job_id_def id_part_def)

lemma ParseJobID_sound:
  assumes "ParseJobID v = Inr jid"
  shows "JobID_String jid = v"
proof -
  from assms obtain g p i where s: "split_on (CHR '':'') v = [g, p, i]"
    and jid: "jid = \<lparr>Group = g, Project = p, ID = i\<rparr>"
    by (auto simp: ParseJobID_def split: list.splits)
  from split_on_three_inverse [OF s] show ?thesis by (simp add: jid JobID_String_def)
qed

lemma ParseJobID_colon_free:
  assumes "ParseJobID v = Inr jid"
  shows "CHR '':'' \<notin> set (Group jid)" "CHR '':'' \<notin> set (Project jid)" "CHR '':'' \<notin> set (ID jid)"
proof -
  from assms obtain g p i where s: "split_on (CHR '':'') v = [g, p, i]"
    and jid: "jid = \<lparr>Group = g, Project = p, ID = i\<rparr>"
    by (auto simp: ParseJobID_def split: list.splits)
  show "CHR '':'' \<notin> set (Group jid)" "CHR '':'' \<notin> set (Project jid)" "CHR '':'' \<notin> set (ID jid)"
    using split_on_no_sep_elem [of _ "CHR '':''" v] by (simp_all add: s jid)
qed

lemma JobID_String_inject:
  assumes "wf_job_id a" "wf_job_id b" "JobID_String a = JobID_String b"
  shows "a = b"
  by (metis ParseJobID_String assms sum.inject(2))

text \<open>A fully qualified id of well-formed components is a single ZooKeeper path segment.\<close>

lemma JobID_String_no_slash: "wf_job_id jid \<Longrightarrow> CHR ''/'' \<notin> set (JobID_String jid)"
  by (simp add: JobID_String_def wf_job_id_def id_part_def)

section \<open>Scheduling decisions\<close>

definition Resources :: "'r res_lib \<Rightarrow> job_conf \<Rightarrow> 'r list" where
  "Resources lib j = resAdd lib [] [resCPUs lib (CPUs j), resMemory lib (Mem j), resDisk lib (Disk j)]"

definition IsRetryable :: "job \<Rightarrow> bool" where
  "IsRetryable j \<longleftrightarrow>
     State (JobRuntime j) = FAILED \<and> Retries (JobRuntime j) < MaxRetries (JobConf j)"

definition NextRun :: "'s cron_lib \<Rightarrow> job \<Rightarrow> fault + time" where
  "NextRun lib j =
     (if IsRetryable j then Inr (LastStart (JobRuntime j))
      else if scheduleType (Schedule (JobConf j)) \<noteq> Cron
      then Inl (Panic ''Only Cron schedule is supported'')
      else (case cronParse lib (scheduleCron (Schedule (JobConf j))) of
              Inl err \<Rightarrow> Inl (Panic err)
            | Inr sched \<Rightarrow> Inr (cronNext lib sched (LastStart (JobRuntime j)))))"

text \<open>
  \<open>IsRunnable\<close>: the state test short-circuits, so neither the cron expression nor the clock
  is looked at for a job that is staging, starting or running.
\<close>

definition IsRunnable :: "'s cron_lib \<Rightarrow> ('w \<Rightarrow> time \<times> 'w) \<Rightarrow> job \<Rightarrow> ('w, bool) io" where
  "IsRunnable lib now j =
     (if State (JobRuntime j) = IDLE \<or> State (JobRuntime j) = FAILED
      then io_bind (io_of_fault (NextRun lib j)) (\<lambda>next.
           io_bind (io_of_read now) (\<lambda>t. io_ret (next < t)))
      else io_ret False)"

lemma NextRun_retry: "IsRetryable j \<Longrightarrow> NextRun lib j = Inr (LastStart (JobRuntime j))"
  by (simp add: NextRun_def)

lemma NextRun_no_error: "NextRun lib j \<noteq> Inl (Fail e)"
  by (auto simp: NextRun_def split: sum.splits)

lemma NextRun_returns:
  "scheduleType (Schedule (JobConf j)) = Cron \<Longrightarrow>
   cronParse lib (scheduleCron (Schedule (JobConf j))) = Inr s \<Longrightarrow> \<exists>t. NextRun lib j = Inr t"
  by (simp add: NextRun_def)

lemma IsRunnable_True:
  "IsRunnable lib now j w = (Inr True, w') \<Longrightarrow>
     (State (JobRuntime j) = IDLE \<or> State (JobRuntime j) = FAILED)
     \<and> (\<exists>t t'. NextRun lib j = Inr t \<and> now w = (t', w') \<and> t < t')"
  by (auto simp: IsRunnable_def io_simps io_of_fault_def io_of_read_def split: if_splits prod.splits)

lemma keeps_IsRunnable [keeps_intros]:
  "keeps v (io_of_read now) \<Longrightarrow> keeps v (IsRunnable lib now j)"
  by (simp add: IsRunnable_def keeps_intros)

end
