(* ===== verification/GoJson.thy ===== *)
theory GoJson
  imports Complex_Main GoLib
begin

text \<open>
  The part of Go's \<open>encoding/json\<close> the program uses, on JSON documents (the text syntax of JSON is
  not modelled). Decoding works into an existing value, as \<open>json.Unmarshal\<close> does: object entries
  are taken in order, matched to struct fields without regard to case, unknown names are skipped,
  \<open>null\<close> leaves a non-pointer field alone, and a value of the wrong kind is an error. A JSON
  string that holds an RFC 3339 instant is carried as that instant (\<open>JTime\<close>).
\<close>

section \<open>Documents\<close>

datatype json =
    JNull
  | JBool bool
  | JNum rat
  | JStr string
  | JTime time
  | JArr "json list"
  | JObj "(string \<times> json) list"

definition type_error :: "error + 'a" where
  "type_error = Inl (ErrMsg ''json: cannot unmarshal value into Go struct field'')"

section \<open>Decoding\<close>

definition dec_string :: "json \<Rightarrow> string \<Rightarrow> error + string" where
  "dec_string v x = (case v of JNull \<Rightarrow> Inr x | JStr s \<Rightarrow> Inr s | _ \<Rightarrow> type_error)"

definition dec_bool :: "json \<Rightarrow> bool \<Rightarrow> error + bool" where
  "dec_bool v x = (case v of JNull \<Rightarrow> Inr x | JBool b \<Rightarrow> Inr b | _ \<Rightarrow> type_error)"

definition dec_float :: "json \<Rightarrow> rat \<Rightarrow> error + rat" where
  "dec_float v x = (case v of JNull \<Rightarrow> Inr x | JNum q \<Rightarrow> Inr q | _ \<Rightarrow> type_error)"

text \<open>A Go \<open>int\<close>: fractions and numbers outside 64 bits are errors.\<close>

definition dec_int :: "json \<Rightarrow> int \<Rightarrow> error + int" where
  "dec_int v x =
     (case v of
        JNull \<Rightarrow> Inr x
      | JNum q \<Rightarrow>
          (if of_int \<lfloor>q\<rfloor> = q \<and> int64_min \<le> \<lfloor>q\<rfloor> \<and> \<lfloor>q\<rfloor> \<le> int64_max then Inr \<lfloor>q\<rfloor> else type_error)
      | _ \<Rightarrow> type_error)"

definition dec_time :: "json \<Rightarrow> time \<Rightarrow> error + time" where
  "dec_time v x = (case v of JNull \<Rightarrow> Inr x | JTime t \<Rightarrow> Inr t | _ \<Rightarrow> type_error)"

fun dec_elems :: "(json \<Rightarrow> 'a \<Rightarrow> error + 'a) \<Rightarrow> 'a \<Rightarrow> json list \<Rightarrow> error + 'a list" where
  "dec_elems d z [] = Inr []"
| "dec_elems d z (v # vs) =
     (case d v z of Inl e \<Rightarrow> Inl e | Inr x \<Rightarrow> map_sum id (\<lambda>xs. x # xs) (dec_elems d z vs))"

definition dec_slice :: "(json \<Rightarrow> 'a \<Rightarrow> error + 'a) \<Rightarrow> 'a \<Rightarrow> json \<Rightarrow> 'a list \<Rightarrow> error + 'a list" where
  "dec_slice d z v x = (case v of JNull \<Rightarrow> Inr [] | JArr vs \<Rightarrow> dec_elems d z vs | _ \<Rightarrow> type_error)"

fun dec_entries :: "(string \<times> json) list \<Rightarrow> (string \<times> string) list \<Rightarrow> error + (string \<times> string) list" where
  "dec_entries [] m = Inr m"
| "dec_entries ((k, v) # kvs) m =
     (case dec_string v [] of Inl e \<Rightarrow> Inl e | Inr s \<Rightarrow> dec_entries kvs (AList.update k s m))"

text \<open>\<open>map[string]string\<close>: entries are added to the map already there.\<close>

definition dec_map :: "json \<Rightarrow> (string \<times> string) list \<Rightarrow> error + (string \<times> string) list" where
  "dec_map v x = (case v of JNull \<Rightarrow> Inr [] | JObj kvs \<Rightarrow> dec_entries kvs x | _ \<Rightarrow> type_error)"

text \<open>A pointer field: \<open>null\<close> sets it to nil, anything else allocates if needed.\<close>

definition dec_ptr :: "(json \<Rightarrow> 'a \<Rightarrow> error + 'a) \<Rightarrow> 'a \<Rightarrow> json \<Rightarrow> 'a option \<Rightarrow> error + 'a option" where
  "dec_ptr d z v x =
     (case v of JNull \<Rightarrow> Inr None
      | _ \<Rightarrow> map_sum id Some (d v (case x of None \<Rightarrow> z | Some y \<Rightarrow> y)))"

fun dec_fields ::
  "(string \<Rightarrow> json \<Rightarrow> 'a \<Rightarrow> error + 'a) \<Rightarrow> (string \<times> json) list \<Rightarrow> 'a \<Rightarrow> error + 'a" where
  "dec_fields field [] x = Inr x"
| "dec_fields field ((k, v) # kvs) x =
     (case field (to_lower k) v x of Inl e \<Rightarrow> Inl e | Inr y \<Rightarrow> dec_fields field kvs y)"

text \<open>A struct, given by what each (lower-cased) field name does.\<close>

definition dec_struct :: "(string \<Rightarrow> json \<Rightarrow> 'a \<Rightarrow> error + 'a) \<Rightarrow> json \<Rightarrow> 'a \<Rightarrow> error + 'a" where
  "dec_struct field v x = (case v of JNull \<Rightarrow> Inr x | JObj kvs \<Rightarrow> dec_fields field kvs x | _ \<Rightarrow> type_error)"

section \<open>Encoding\<close>

definition enc_map :: "(string \<times> string) list \<Rightarrow> json" where
  "enc_map m = JObj (map (\<lambda>(k, v). (k, JStr v)) m)"

definition enc_strings :: "string list \<Rightarrow> json" where
  "enc_strings xs = JArr (map JStr xs)"

text \<open>\<open>omitempty\<close>: the entry is left out for a nil pointer or an empty string.\<close>

definition omit_none :: "string \<Rightarrow> ('a \<Rightarrow> json) \<Rightarrow> 'a option \<Rightarrow> (string \<times> json) list" where
  "omit_none k enc x = (case x of None \<Rightarrow> [] | Some y \<Rightarrow> [(k, enc y)])"

definition omit_empty :: "string \<Rightarrow> string \<Rightarrow> (string \<times> json) list" where
  "omit_empty k s = (if s = [] then [] else [(k, JStr s)])"

text \<open>\<open>Time.MarshalJSON\<close> refuses years outside 0 to 9999; year 0 has 366 days.\<close>

definition time_in_range :: "time \<Rightarrow> bool" where
  "time_in_range t \<longleftrightarrow> - (366 * 86400 * second) \<le> t \<and> t < 3652059 * 86400 * second"

definition enc_time :: "time \<Rightarrow> error + json" where
  "enc_time t =
     (if time_in_range t then Inr (JTime t)
      else Inl (ErrMsg ''Time.MarshalJSON: year outside of range [0,9999]''))"

section \<open>Decoding what was encoded\<close>

lemma dec_string_JStr [simp]: "dec_string (JStr s) x = Inr s"
  by (simp add: dec_string_def)

lemma dec_bool_JBool [simp]: "dec_bool (JBool b) x = Inr b"
  by (simp add: dec_bool_def)

lemma dec_float_JNum [simp]: "dec_float (JNum q) x = Inr q"
  by (simp add: dec_float_def)

lemma dec_int_JNum [simp]:
  "int64_min \<le> i \<Longrightarrow> i \<le> int64_max \<Longrightarrow> dec_int (JNum (of_int i)) x = Inr i"
  by (simp add: dec_int_def)

lemma dec_int_bounds:
  "dec_int v x = Inr i \<Longrightarrow> int64_min \<le> x \<Longrightarrow> x \<le> int64_max \<Longrightarrow> int64_min \<le> i \<and> i \<le> int64_max"
  by (auto simp: dec_int_def type_error_def split: json.splits if_splits)

lemma dec_time_JTime [simp]: "dec_time (JTime t) x = Inr t"
  by (simp add: dec_time_def)

lemma dec_elems_strings: "dec_elems dec_string z (map JStr xs) = Inr xs"
  by (induction xs) simp_all

lemma dec_slice_strings [simp]: "dec_slice dec_string z (enc_strings xs) x = Inr xs"
  by (simp add: dec_slice_def enc_strings_def dec_elems_strings)

lemma alist_update_append: "k \<notin> fst ` set m \<Longrightarrow> AList.update k v m = m @ [(k, v)]"
  by (induction m) auto

lemma dec_entries_enc:
  "distinct (map fst (m @ m')) \<Longrightarrow> dec_entries (map (\<lambda>(k, v). (k, JStr v)) m') m = Inr (m @ m')"
proof (induction m' arbitrary: m)
  case (Cons kv m')
  obtain k v where kv: "kv = (k, v)" by fastforce
  with Cons.prems have "AList.update k v m = m @ [(k, v)]"
    by (intro alist_update_append) auto
  with kv Cons show ?case by simp
qed simp

lemma dec_map_enc [simp]: "distinct (map fst m) \<Longrightarrow> dec_map (enc_map m) [] = Inr m"
  using dec_entries_enc [of "[]" m] by (simp add: dec_map_def enc_map_def)

lemma distinct_dec_entries:
  "dec_entries kvs m = Inr m' \<Longrightarrow> distinct (map fst m) \<Longrightarrow> distinct (map fst m')"
  by (induction kvs m rule: dec_entries.induct) (auto split: sum.splits intro: distinct_update)

lemma distinct_dec_map: "dec_map v x = Inr m \<Longrightarrow> distinct (map fst x) \<Longrightarrow> distinct (map fst m)"
  by (auto simp: dec_map_def type_error_def split: json.splits intro: distinct_dec_entries)

lemma dec_fields_append:
  "dec_fields f (kvs @ kvs') x =
     (case dec_fields f kvs x of Inl e \<Rightarrow> Inl e | Inr y \<Rightarrow> dec_fields f kvs' y)"
  by (induction f kvs x rule: dec_fields.induct) (auto split: sum.splits)

text \<open>A property of the decoded struct that every field step keeps.\<close>

lemma dec_fields_invariant:
  assumes "dec_fields f kvs x = Inr y" "P x"
    and "\<And>k v a b. P a \<Longrightarrow> f k v a = Inr b \<Longrightarrow> P b"
  shows "P y"
  using assms(1,2)
proof (induction kvs arbitrary: x)
  case (Cons kv kvs)
  obtain k v where "kv = (k, v)" by fastforce
  with Cons show ?case by (auto split: sum.splits dest: assms(3))
qed simp

lemma dec_struct_invariant:
  assumes "dec_struct f v x = Inr y" "P x"
    and "\<And>k v a b. P a \<Longrightarrow> f k v a = Inr b \<Longrightarrow> P b"
  shows "P y"
  using assms(1,2) assms(3)
  by (auto simp: dec_struct_def type_error_def split: json.splits
      elim: dec_fields_invariant [where P = P])

lemma map_sum_Inr_iff: "map_sum f g s = Inr y \<longleftrightarrow> (\<exists>x. s = Inr x \<and> y = g x)"
  by (cases s) auto

end
