(* ===== verification/ModelJson.thy ===== *)
theory ModelJson
  imports Model GoJson
begin

text \<open>
  How \<open>encoding/json\<close> writes and reads the structs of \<^verbatim>\<open>model/model.go\<close> (exported field names,
  embedded structs flattened, the \<open>omitempty\<close> tags), the framework state of the storage, and
  the round trips: what was stored is what is read back.
\<close>

section \<open>Named string types\<close>

fun container_type_string :: "container_type \<Rightarrow> string" where
  "container_type_string Docker = ''Docker''"
| "container_type_string Mesos = ''Mesos''"
| "container_type_string (OtherContainer s) = s"

definition container_type_of :: "string \<Rightarrow> container_type" where
  "container_type_of s =
     (if s = ''Docker'' then Docker else if s = ''Mesos'' then Mesos else OtherContainer s)"

fun schedule_type_string :: "schedule_type \<Rightarrow> string" where
  "schedule_type_string Cron = ''Cron''"
| "schedule_type_string (OtherSchedule s) = s"

definition schedule_type_of :: "string \<Rightarrow> schedule_type" where
  "schedule_type_of s = (if s = ''Cron'' then Cron else OtherSchedule s)"

definition state_of :: "string \<Rightarrow> state" where
  "state_of s =
     (if s = ''Idle'' then IDLE else if s = ''Staging'' then STAGING
      else if s = ''Starting'' then STARTING else if s = ''Running'' then RUNNING
      else if s = ''Failed'' then FAILED else OtherState s)"

text \<open>Values of the datatypes that are the image of a string: the only ones the code can hold.\<close>

definition wf_state :: "state \<Rightarrow> bool" where
  "wf_state s \<longleftrightarrow> state_of (state_string s) = s"

definition wf_container_type :: "container_type \<Rightarrow> bool" where
  "wf_container_type t \<longleftrightarrow> container_type_of (container_type_string t) = t"

definition wf_schedule_type :: "schedule_type \<Rightarrow> bool" where
  "wf_schedule_type t \<longleftrightarrow> schedule_type_of (schedule_type_string t) = t"

lemma wf_state_of [simp]: "wf_state (state_of s)"
  by (simp add: wf_state_def state_of_def)

lemma wf_container_type_of [simp]: "wf_container_type (container_type_of s)"
  by (simp add: wf_container_type_def container_type_of_def)

lemma wf_schedule_type_of [simp]: "wf_schedule_type (schedule_type_of s)"
  by (simp add: wf_schedule_type_def schedule_type_of_def)

lemma wf_state_consts [simp]:
  "wf_state IDLE" "wf_state STAGING" "wf_state STARTING" "wf_state RUNNING" "wf_state FAILED"
  by (simp_all add: wf_state_def state_of_def)

section \<open>Zero values\<close>

definition zero_job_id :: job_id where
  "zero_job_id = \<lparr>Group = [], Project = [], ID = []\<rparr>"

definition zero_job_conf :: job_conf where
  "zero_job_conf =
     \<lparr>JobID = zero_job_id, Schedule = \<lparr>scheduleType = OtherSchedule [], scheduleCron = []\<rparr>,
      Env = [], Secrets = [],
      Container = \<lparr>containerType = OtherContainer [], containerDocker = None, containerMesos = None\<rparr>,
      CPUs = 0, Mem = 0, Disk = 0, Cmd = [], User = [], Shell = False, Arguments = [], Labels = [],
      MaxRetries = 0\<rparr>"

definition zero_job_runtime :: job_runtime where
  "zero_job_runtime =
     \<lparr>State = OtherState [], LastStart = 0, CurrentTaskID = [], CurrentAgentID = [], Retries = 0\<rparr>"

definition zero_job :: job where
  "zero_job = \<lparr>JobConf = zero_job_conf, JobRuntime = zero_job_runtime\<rparr>"

definition zero_task :: task where
  "zero_task =
     \<lparr>taskStart = 0, taskEnd = 0, TaskID = [], ExecutorID = [], AgentID = [], FrameworkID = [],
      ExecutorURL = [], Message = [], Reason = [], Source = []\<rparr>"

section \<open>Encoders\<close>

definition enc_job_docker :: "job_docker \<Rightarrow> json" where
  "enc_job_docker d =
     JObj [(''Image'', JStr (dockerImage d)), (''ForcePullImage'', JBool (forcePullImage d))]"

definition enc_job_mesos :: "job_mesos \<Rightarrow> json" where
  "enc_job_mesos m = JObj [(''Image'', JStr (mesosImage m))]"

definition enc_job_container :: "job_container \<Rightarrow> json" where
  "enc_job_container c =
     JObj ([(''Type'', JStr (container_type_string (containerType c)))]
           @ omit_none ''Docker'' enc_job_docker (containerDocker c)
           @ omit_none ''Mesos'' enc_job_mesos (containerMesos c))"

definition enc_job_schedule :: "job_schedule \<Rightarrow> json" where
  "enc_job_schedule s =
     JObj ([(''Type'', JStr (schedule_type_string (scheduleType s)))]
           @ omit_empty ''Cron'' (scheduleCron s))"

definition enc_job_conf :: "job_conf \<Rightarrow> json" where
  "enc_job_conf c =
     JObj [(''Group'', JStr (Group (JobID c))), (''Project'', JStr (Project (JobID c))),
           (''ID'', JStr (ID (JobID c))), (''Schedule'', enc_job_schedule (Schedule c)),
           (''Env'', enc_map (Env c)), (''Secrets'', enc_map (Secrets c)),
           (''Container'', enc_job_container (Container c)),
           (''CPUs'', JNum (CPUs c)), (''Mem'', JNum (Mem c)), (''Disk'', JNum (Disk c)),
           (''Cmd'', JStr (Cmd c)), (''User'', JStr (User c)), (''Shell'', JBool (Shell c)),
           (''Arguments'', enc_strings (Arguments c)), (''Labels'', enc_map (Labels c)),
           (''MaxRetries'', JNum (of_int (MaxRetries c)))]"

definition enc_job_runtime :: "job_runtime \<Rightarrow> error + json" where
  "enc_job_runtime r =
     (case enc_time (LastStart r) of
        Inl e \<Rightarrow> Inl e
      | Inr start \<Rightarrow>
          Inr (JObj [(''State'', JStr (state_string (State r))), (''LastStart'', start),
                     (''CurrentTaskID'', JStr (CurrentTaskID r)),
                     (''CurrentAgentID'', JStr (CurrentAgentID r)),
                     (''Retries'', JNum (of_int (Retries r)))]))"

definition enc_task :: "task \<Rightarrow> error + json" where
  "enc_task t =
     (case enc_time (taskStart t) of
        Inl e \<Rightarrow> Inl e
      | Inr s \<Rightarrow>
     (case enc_time (taskEnd t) of
        Inl e \<Rightarrow> Inl e
      | Inr e \<Rightarrow>
          Inr (JObj [(''Start'', s), (''End'', e), (''TaskID'', JStr (TaskID t)),
                     (''ExecutorID'', JStr (ExecutorID t)), (''AgentID'', JStr (AgentID t)),
                     (''FrameworkID'', JStr (FrameworkID t)), (''ExecutorURL'', JStr (ExecutorURL t)),
                     (''Message'', JStr (Message t)), (''Reason'', JStr (Reason t)),
                     (''Source'', JStr (Source t))])))"

section \<open>Decoders\<close>

definition docker_field :: "string \<Rightarrow> json \<Rightarrow> job_docker \<Rightarrow> error + job_docker" where
  "docker_field k v d =
     (if k = ''image'' then map_sum id (\<lambda>s. d\<lparr>dockerImage := s\<rparr>) (dec_string v (dockerImage d))
      else if k = ''forcepullimage''
      then map_sum id (\<lambda>b. d\<lparr>forcePullImage := b\<rparr>) (dec_bool v (forcePullImage d))
      else Inr d)"

definition mesos_field :: "string \<Rightarrow> json \<Rightarrow> job_mesos \<Rightarrow> error + job_mesos" where
  "mesos_field k v m =
     (if k = ''image'' then map_sum id (\<lambda>s. m\<lparr>mesosImage := s\<rparr>) (dec_string v (mesosImage m))
      else Inr m)"

definition container_field :: "string \<Rightarrow> json \<Rightarrow> job_container \<Rightarrow> error + job_container" where
  "container_field k v c =
     (if k = ''type''
      then map_sum id (\<lambda>s. c\<lparr>containerType := container_type_of s\<rparr>)
             (dec_string v (container_type_string (containerType c)))
      else if k = ''docker''
      then map_sum id (\<lambda>d. c\<lparr>containerDocker := d\<rparr>)
             (dec_ptr (dec_struct docker_field) \<lparr>dockerImage = [], forcePullImage = False\<rparr> v
               (containerDocker c))
      else if k = ''mesos''
      then map_sum id (\<lambda>m. c\<lparr>containerMesos := m\<rparr>)
             (dec_ptr (dec_struct mesos_field) \<lparr>mesosImage = []\<rparr> v (containerMesos c))
      else Inr c)"

definition schedule_field :: "string \<Rightarrow> json \<Rightarrow> job_schedule \<Rightarrow> error + job_schedule" where
  "schedule_field k v s =
     (if k = ''type''
      then map_sum id (\<lambda>x. s\<lparr>scheduleType := schedule_type_of x\<rparr>)
             (dec_string v (schedule_type_string (scheduleType s)))
      else if k = ''cron'' then map_sum id (\<lambda>x. s\<lparr>scheduleCron := x\<rparr>) (dec_string v (scheduleCron s))
      else Inr s)"

definition job_id_field :: "string \<Rightarrow> json \<Rightarrow> job_id \<Rightarrow> error + job_id" where
  "job_id_field k v j =
     (if k = ''group'' then map_sum id (\<lambda>s. j\<lparr>Group := s\<rparr>) (dec_string v (Group j))
      else if k = ''project'' then map_sum id (\<lambda>s. j\<lparr>Project := s\<rparr>) (dec_string v (Project j))
      else if k = ''id'' then map_sum id (\<lambda>s. j\<lparr>ID := s\<rparr>) (dec_string v (ID j))
      else Inr j)"

definition job_conf_field :: "string \<Rightarrow> json \<Rightarrow> job_conf \<Rightarrow> error + job_conf" where
  "job_conf_field k v c =
     (if k = ''group'' \<or> k = ''project'' \<or> k = ''id''
      then map_sum id (\<lambda>j. c\<lparr>JobID := j\<rparr>) (job_id_field k v (JobID c))
      else if k = ''schedule''
      then map_sum id (\<lambda>s. c\<lparr>Schedule := s\<rparr>) (dec_struct schedule_field v (Schedule c))
      else if k = ''env'' then map_sum id (\<lambda>m. c\<lparr>Env := m\<rparr>) (dec_map v (Env c))
      else if k = ''secrets'' then map_sum id (\<lambda>m. c\<lparr>Secrets := m\<rparr>) (dec_map v (Secrets c))
      else if k = ''container''
      then map_sum id (\<lambda>x. c\<lparr>Container := x\<rparr>) (dec_struct container_field v (Container c))
      else if k = ''cpus'' then map_sum id (\<lambda>x. c\<lparr>CPUs := x\<rparr>) (dec_float v (CPUs c))
      else if k = ''mem'' then map_sum id (\<lambda>x. c\<lparr>Mem := x\<rparr>) (dec_float v (Mem c))
      else if k = ''disk'' then map_sum id (\<lambda>x. c\<lparr>Disk := x\<rparr>) (dec_float v (Disk c))
      else if k = ''cmd'' then map_sum id (\<lambda>x. c\<lparr>Cmd := x\<rparr>) (dec_string v (Cmd c))
      else if k = ''user'' then map_sum id (\<lambda>x. c\<lparr>User := x\<rparr>) (dec_string v (User c))
      else if k = ''shell'' then map_sum id (\<lambda>x. c\<lparr>Shell := x\<rparr>) (dec_bool v (Shell c))
      else if k = ''arguments''
      then map_sum id (\<lambda>x. c\<lparr>Arguments := x\<rparr>) (dec_slice dec_string [] v (Arguments c))
      else if k = ''labels'' then map_sum id (\<lambda>m. c\<lparr>Labels := m\<rparr>) (dec_map v (Labels c))
      else if k = ''maxretries'' then map_sum id (\<lambda>x. c\<lparr>MaxRetries := x\<rparr>) (dec_int v (MaxRetries c))
      else Inr c)"

definition job_runtime_field :: "string \<Rightarrow> json \<Rightarrow> job_runtime \<Rightarrow> error + job_runtime" where
  "job_runtime_field k v r =
     (if k = ''state''
      then map_sum id (\<lambda>s. r\<lparr>State := state_of s\<rparr>) (dec_string v (state_string (State r)))
      else if k = ''laststart'' then map_sum id (\<lambda>t. r\<lparr>LastStart := t\<rparr>) (dec_time v (LastStart r))
      else if k = ''currenttaskid''
      then map_sum id (\<lambda>s. r\<lparr>CurrentTaskID := s\<rparr>) (dec_string v (CurrentTaskID r))
      else if k = ''currentagentid''
      then map_sum id (\<lambda>s. r\<lparr>CurrentAgentID := s\<rparr>) (dec_string v (CurrentAgentID r))
      else if k = ''retries'' then map_sum id (\<lambda>i. r\<lparr>Retries := i\<rparr>) (dec_int v (Retries r))
      else Inr r)"

text \<open>
  \<open>Job\<close> embeds \<open>JobConf\<close> and \<open>JobRuntime\<close>, whose field names are disjoint: an entry is
  offered to both.
\<close>

definition job_field :: "string \<Rightarrow> json \<Rightarrow> job \<Rightarrow> error + job" where
  "job_field k v j =
     (case job_conf_field k v (JobConf j) of
        Inl e \<Rightarrow> Inl e
      | Inr c \<Rightarrow>
          map_sum id (\<lambda>r. \<lparr>JobConf = c, JobRuntime = r\<rparr>) (job_runtime_field k v (JobRuntime j)))"

definition task_field :: "string \<Rightarrow> json \<Rightarrow> task \<Rightarrow> error + task" where
  "task_field k v t =
     (if k = ''start'' then map_sum id (\<lambda>x. t\<lparr>taskStart := x\<rparr>) (dec_time v (taskStart t))
      else if k = ''end'' then map_sum id (\<lambda>x. t\<lparr>taskEnd := x\<rparr>) (dec_time v (taskEnd t))
      else if k = ''taskid'' then map_sum id (\<lambda>x. t\<lparr>TaskID := x\<rparr>) (dec_string v (TaskID t))
      else if k = ''executorid'' then map_sum id (\<lambda>x. t\<lparr>ExecutorID := x\<rparr>) (dec_string v (ExecutorID t))
      else if k = ''agentid'' then map_sum id (\<lambda>x. t\<lparr>AgentID := x\<rparr>) (dec_string v (AgentID t))
      else if k = ''frameworkid'' then map_sum id (\<lambda>x. t\<lparr>FrameworkID := x\<rparr>) (dec_string v (FrameworkID t))
      else if k = ''executorurl'' then map_sum id (\<lambda>x. t\<lparr>ExecutorURL := x\<rparr>) (dec_string v (ExecutorURL t))
      else if k = ''message'' then map_sum id (\<lambda>x. t\<lparr>Message := x\<rparr>) (dec_string v (Message t))
      else if k = ''reason'' then map_sum id (\<lambda>x. t\<lparr>Reason := x\<rparr>) (dec_string v (Reason t))
      else if k = ''source'' then map_sum id (\<lambda>x. t\<lparr>Source := x\<rparr>) (dec_string v (Source t))
      else Inr t)"

abbreviation dec_job_conf :: "json \<Rightarrow> job_conf \<Rightarrow> error + job_conf" where
  "dec_job_conf \<equiv> dec_struct job_conf_field"

abbreviation dec_job_runtime :: "json \<Rightarrow> job_runtime \<Rightarrow> error + job_runtime" where
  "dec_job_runtime \<equiv> dec_struct job_runtime_field"

abbreviation dec_job :: "json \<Rightarrow> job \<Rightarrow> error + job" where
  "dec_job \<equiv> dec_struct job_field"

abbreviation dec_task :: "json \<Rightarrow> task \<Rightarrow> error + task" where
  "dec_task \<equiv> dec_struct task_field"

section \<open>Round trips\<close>

lemma field_names_lower:
  "to_lower ''Image'' = ''image'' \<and>
   to_lower ''ForcePullImage'' = ''forcepullimage'' \<and>
   to_lower ''Type'' = ''type'' \<and>
   to_lower ''Docker'' = ''docker'' \<and>
   to_lower ''Mesos'' = ''mesos'' \<and>
   to_lower ''Cron'' = ''cron'' \<and>
   to_lower ''Group'' = ''group'' \<and>
   to_lower ''Project'' = ''project'' \<and>
   to_lower ''ID'' = ''id'' \<and>
   to_lower ''Schedule'' = ''schedule'' \<and>
   to_lower ''Env'' = ''env'' \<and>
   to_lower ''Secrets'' = ''secrets'' \<and>
   to_lower ''Container'' = ''container'' \<and>
   to_lower ''CPUs'' = ''cpus'' \<and>
   to_lower ''Mem'' = ''mem'' \<and>
   to_lower ''Disk'' = ''disk'' \<and>
   to_lower ''Cmd'' = ''cmd'' \<and>
   to_lower ''User'' = ''user'' \<and>
   to_lower ''Shell'' = ''shell'' \<and>
   to_lower ''Arguments'' = ''arguments'' \<and>
   to_lower ''Labels'' = ''labels'' \<and>
   to_lower ''MaxRetries'' = ''maxretries'' \<and>
   to_lower ''State'' = ''state'' \<and>
   to_lower ''LastStart'' = ''laststart'' \<and>
   to_lower ''CurrentTaskID'' = ''currenttaskid'' \<and>
   to_lower ''CurrentAgentID'' = ''currentagentid'' \<and>
   to_lower ''Retries'' = ''retries'' \<and>
   to_lower ''Start'' = ''start'' \<and>
   to_lower ''End'' = ''end'' \<and>
   to_lower ''TaskID'' = ''taskid'' \<and>
   to_lower ''ExecutorID'' = ''executorid'' \<and>
   to_lower ''AgentID'' = ''agentid'' \<and>
   to_lower ''FrameworkID'' = ''frameworkid'' \<and>
   to_lower ''ExecutorURL'' = ''executorurl'' \<and>
   to_lower ''Message'' = ''message'' \<and>
   to_lower ''Reason'' = ''reason'' \<and>
   to_lower ''Source'' = ''source''"
  by code_simp

definition wf_job_conf :: "job_conf \<Rightarrow> bool" where
  "wf_job_conf c \<longleftrightarrow>
     wf_schedule_type (scheduleType (Schedule c)) \<and> wf_container_type (containerType (Container c)) \<and>
     distinct (map fst (Env c)) \<and> distinct (map fst (Secrets c)) \<and> distinct (map fst (Labels c)) \<and>
     int64_min \<le> MaxRetries c \<and> MaxRetries c \<le> int64_max"

definition wf_job_runtime :: "job_runtime \<Rightarrow> bool" where
  "wf_job_runtime r \<longleftrightarrow>
     wf_state (State r) \<and> int64_min \<le> Retries r \<and> Retries r \<le> int64_max"

lemma dec_struct_JObj: "dec_struct f (JObj kvs) x = dec_fields f kvs x"
  by (simp add: dec_struct_def)

lemmas struct_codec = dec_struct_JObj field_names_lower

lemma dec_enc_docker: "dec_struct docker_field (enc_job_docker d) z = Inr d"
  by (simp add: struct_codec enc_job_docker_def docker_field_def)

lemma dec_enc_mesos: "dec_struct mesos_field (enc_job_mesos m) z = Inr m"
  by (simp add: struct_codec enc_job_mesos_def mesos_field_def)

lemma dec_ptr_enc_docker: "dec_ptr (dec_struct docker_field) z (enc_job_docker d) x = Inr (Some d)"
  using dec_enc_docker by (simp add: dec_ptr_def enc_job_docker_def)

lemma dec_ptr_enc_mesos: "dec_ptr (dec_struct mesos_field) z (enc_job_mesos m) x = Inr (Some m)"
  using dec_enc_mesos by (simp add: dec_ptr_def enc_job_mesos_def)

lemma dec_enc_container:
  assumes "wf_container_type (containerType c)" "containerDocker z = None" "containerMesos z = None"
  shows "dec_struct container_field (enc_job_container c) z = Inr c"
  using assms
  by (cases "containerDocker c"; cases "containerMesos c")
    (simp_all add: struct_codec enc_job_container_def container_field_def omit_none_def
      wf_container_type_def dec_ptr_enc_docker dec_ptr_enc_mesos)

lemma dec_enc_schedule:
  assumes "wf_schedule_type (scheduleType s)" "scheduleCron z = []"
  shows "dec_struct schedule_field (enc_job_schedule s) z = Inr s"
  using assms
  by (cases "scheduleCron s")
    (simp_all add: struct_codec enc_job_schedule_def schedule_field_def omit_empty_def
      wf_schedule_type_def)

text \<open>A stored configuration is read back as it was, whatever the order of the struct's fields.\<close>

lemma dec_enc_job_conf:
  assumes "wf_job_conf c"
  shows "dec_job_conf (enc_job_conf c) zero_job_conf = Inr c"
  using assms
  by (simp add: struct_codec enc_job_conf_def job_conf_field_def job_id_field_def zero_job_conf_def
      zero_job_id_def wf_job_conf_def dec_enc_schedule dec_enc_container)

lemma enc_job_runtime_ok: "time_in_range (LastStart r) \<Longrightarrow> \<exists>doc. enc_job_runtime r = Inr doc"
  by (simp add: enc_job_runtime_def enc_time_def)

lemma dec_enc_job_runtime:
  assumes "enc_job_runtime r = Inr doc" "wf_job_runtime r"
  shows "dec_job_runtime doc z = Inr r"
proof -
  from assms(1) have doc: "time_in_range (LastStart r)"
    "doc = JObj [(''State'', JStr (state_string (State r))), (''LastStart'', JTime (LastStart r)),
                 (''CurrentTaskID'', JStr (CurrentTaskID r)),
                 (''CurrentAgentID'', JStr (CurrentAgentID r)),
                 (''Retries'', JNum (of_int (Retries r)))]"
    by (auto simp: enc_job_runtime_def enc_time_def split: if_splits)
  with assms(2) show ?thesis
    by (simp add: struct_codec job_runtime_field_def wf_job_runtime_def wf_state_def)
qed

lemma dec_enc_job_conf_in_job:
  assumes "wf_job_conf c"
  shows "dec_job (enc_job_conf c) zero_job = Inr (zero_job\<lparr>JobConf := c\<rparr>)"
  using assms
  by (simp add: struct_codec enc_job_conf_def job_field_def job_conf_field_def job_runtime_field_def
      job_id_field_def zero_job_conf_def zero_job_id_def zero_job_def wf_job_conf_def
      dec_enc_schedule dec_enc_container)

lemma dec_enc_job_runtime_in_job:
  assumes "enc_job_runtime r = Inr doc" "wf_job_runtime r"
  shows "dec_job doc j = Inr (j\<lparr>JobRuntime := r\<rparr>)"
proof -
  from assms(1) have doc: "time_in_range (LastStart r)"
    "doc = JObj [(''State'', JStr (state_string (State r))), (''LastStart'', JTime (LastStart r)),
                 (''CurrentTaskID'', JStr (CurrentTaskID r)),
                 (''CurrentAgentID'', JStr (CurrentAgentID r)),
                 (''Retries'', JNum (of_int (Retries r)))]"
    by (auto simp: enc_job_runtime_def enc_time_def split: if_splits)
  with assms(2) show ?thesis
    by (simp add: struct_codec job_field_def job_conf_field_def job_runtime_field_def
        wf_job_runtime_def wf_state_def)
qed

lemma dec_enc_task:
  assumes "enc_task t = Inr doc"
  shows "dec_task doc z = Inr t"
proof -
  from assms have
    "doc = JObj [(''Start'', JTime (taskStart t)), (''End'', JTime (taskEnd t)),
                 (''TaskID'', JStr (TaskID t)), (''ExecutorID'', JStr (ExecutorID t)),
                 (''AgentID'', JStr (AgentID t)), (''FrameworkID'', JStr (FrameworkID t)),
                 (''ExecutorURL'', JStr (ExecutorURL t)), (''Message'', JStr (Message t)),
                 (''Reason'', JStr (Reason t)), (''Source'', JStr (Source t))]"
    by (auto simp: enc_task_def enc_time_def split: if_splits)
  then show ?thesis by (simp add: struct_codec task_field_def)
qed

end
