(* ===== verification/ApiModel.thy ===== *)
theory ApiModel
  imports ModelJson
begin

text \<open>
  The payloads of the API and their JSON Schemas, \<^verbatim>\<open>api/model.go\<close>: how \<open>encoding/json\<close> reads a
  payload from a request and writes it for the validator, the two schemas as data, and the meaning of
  the schema keywords they use.
\<close>

section \<open>Payloads\<close>

record new_job_payload =
  npGroup :: string
  npProject :: string
  npID :: string
  npCron :: string
  npEnv :: string_map
  npSecrets :: string_map
  npDocker :: job_docker
  npMesos :: job_mesos
  npCPUs :: rat
  npMem :: rat
  npDisk :: rat
  npCmd :: string
  npUser :: string
  npShell :: "bool option"
  npArguments :: "string list"
  npLabels :: string_map
  npMaxRetries :: int

record update_docker =
  udImage :: "string option"
  udForcePullImage :: "bool option"

record update_container =
  ucDocker :: "update_docker option"
  ucMesos :: "string option option"

record update_job_payload =
  upSchedule :: "string option option"
  upEnv :: "string_map option"
  upSecrets :: "string_map option"
  upContainer :: "update_container option"
  upCPUs :: "rat option"
  upMem :: "rat option"
  upDisk :: "rat option"
  upCmd :: "string option"
  upUser :: "string option"
  upShell :: "bool option"
  upArguments :: "string list option"
  upLabels :: "string_map option"
  upMaxRetries :: "int option"

definition zero_new_payload :: new_job_payload where
  "zero_new_payload =
     \<lparr>npGroup = [], npProject = [], npID = [], npCron = [], npEnv = [], npSecrets = [],
      npDocker = \<lparr>dockerImage = [], forcePullImage = False\<rparr>, npMesos = \<lparr>mesosImage = []\<rparr>,
      npCPUs = 0, npMem = 0, npDisk = 0, npCmd = [], npUser = [], npShell = None, npArguments = [],
      npLabels = [], npMaxRetries = 0\<rparr>"

definition zero_update_payload :: update_job_payload where
  "zero_update_payload =
     \<lparr>upSchedule = None, upEnv = None, upSecrets = None, upContainer = None, upCPUs = None, upMem = None,
      upDisk = None, upCmd = None, upUser = None, upShell = None, upArguments = None, upLabels = None,
      upMaxRetries = None\<rparr>"

section \<open>Reading a payload\<close>

definition np_schedule_field :: "string \<Rightarrow> json \<Rightarrow> string \<Rightarrow> error + string" where
  "np_schedule_field k v c = (if k = ''cron'' then dec_string v c else Inr c)"

definition np_container_field :: "string \<Rightarrow> json \<Rightarrow> job_docker \<times> job_mesos \<Rightarrow> error + job_docker \<times> job_mesos" where
  "np_container_field k v c =
     (if k = ''docker'' then map_sum id (\<lambda>d. (d, snd c)) (dec_struct docker_field v (fst c))
      else if k = ''mesos'' then map_sum id (\<lambda>m. (fst c, m)) (dec_struct mesos_field v (snd c))
      else Inr c)"

definition new_payload_field :: "string \<Rightarrow> json \<Rightarrow> new_job_payload \<Rightarrow> error + new_job_payload" where
  "new_payload_field k v p =
     (if k = ''group'' then map_sum id (\<lambda>x. p\<lparr>npGroup := x\<rparr>) (dec_string v (npGroup p))
      else if k = ''project'' then map_sum id (\<lambda>x. p\<lparr>npProject := x\<rparr>) (dec_string v (npProject p))
      else if k = ''id'' then map_sum id (\<lambda>x. p\<lparr>npID := x\<rparr>) (dec_string v (npID p))
      else if k = ''schedule'' then map_sum id (\<lambda>x. p\<lparr>npCron := x\<rparr>) (dec_struct np_schedule_field v (npCron p))
      else if k = ''env'' then map_sum id (\<lambda>x. p\<lparr>npEnv := x\<rparr>) (dec_map v (npEnv p))
      else if k = ''secrets'' then map_sum id (\<lambda>x. p\<lparr>npSecrets := x\<rparr>) (dec_map v (npSecrets p))
      else if k = ''container''
      then map_sum id (\<lambda>(d, m). p\<lparr>npDocker := d, npMesos := m\<rparr>)
             (dec_struct np_container_field v (npDocker p, npMesos p))
      else if k = ''cpus'' then map_sum id (\<lambda>x. p\<lparr>npCPUs := x\<rparr>) (dec_float v (npCPUs p))
      else if k = ''mem'' then map_sum id (\<lambda>x. p\<lparr>npMem := x\<rparr>) (dec_float v (npMem p))
      else if k = ''disk'' then map_sum id (\<lambda>x. p\<lparr>npDisk := x\<rparr>) (dec_float v (npDisk p))
      else if k = ''cmd'' then map_sum id (\<lambda>x. p\<lparr>npCmd := x\<rparr>) (dec_string v (npCmd p))
      else if k = ''user'' then map_sum id (\<lambda>x. p\<lparr>npUser := x\<rparr>) (dec_string v (npUser p))
      else if k = ''shell'' then map_sum id (\<lambda>x. p\<lparr>npShell := x\<rparr>) (dec_ptr dec_bool False v (npShell p))
      else if k = ''arguments'' then map_sum id (\<lambda>x. p\<lparr>npArguments := x\<rparr>) (dec_slice dec_string [] v (npArguments p))
      else if k = ''labels'' then map_sum id (\<lambda>x. p\<lparr>npLabels := x\<rparr>) (dec_map v (npLabels p))
      else if k = ''maxretries'' then map_sum id (\<lambda>x. p\<lparr>npMaxRetries := x\<rparr>) (dec_int v (npMaxRetries p))
      else Inr p)"

definition up_schedule_field :: "string \<Rightarrow> json \<Rightarrow> string option \<Rightarrow> error + string option" where
  "up_schedule_field k v c = (if k = ''cron'' then dec_ptr dec_string [] v c else Inr c)"

definition up_docker_field :: "string \<Rightarrow> json \<Rightarrow> update_docker \<Rightarrow> error + update_docker" where
  "up_docker_field k v d =
     (if k = ''image'' then map_sum id (\<lambda>x. d\<lparr>udImage := x\<rparr>) (dec_ptr dec_string [] v (udImage d))
      else if k = ''forcepullimage''
      then map_sum id (\<lambda>x. d\<lparr>udForcePullImage := x\<rparr>) (dec_ptr dec_bool False v (udForcePullImage d))
      else Inr d)"

definition up_mesos_field :: "string \<Rightarrow> json \<Rightarrow> string option \<Rightarrow> error + string option" where
  "up_mesos_field k v m = (if k = ''image'' then dec_ptr dec_string [] v m else Inr m)"

definition up_container_field :: "string \<Rightarrow> json \<Rightarrow> update_container \<Rightarrow> error + update_container" where
  "up_container_field k v c =
     (if k = ''docker''
      then map_sum id (\<lambda>x. c\<lparr>ucDocker := x\<rparr>)
             (dec_ptr (dec_struct up_docker_field) \<lparr>udImage = None, udForcePullImage = None\<rparr> v (ucDocker c))
      else if k = ''mesos''
      then map_sum id (\<lambda>x. c\<lparr>ucMesos := x\<rparr>) (dec_ptr (dec_struct up_mesos_field) None v (ucMesos c))
      else Inr c)"

definition update_payload_field :: "string \<Rightarrow> json \<Rightarrow> update_job_payload \<Rightarrow> error + update_job_payload" where
  "update_payload_field k v p =
     (if k = ''schedule''
      then map_sum id (\<lambda>x. p\<lparr>upSchedule := x\<rparr>) (dec_ptr (dec_struct up_schedule_field) None v (upSchedule p))
      else if k = ''env'' then map_sum id (\<lambda>x. p\<lparr>upEnv := x\<rparr>) (dec_ptr dec_map [] v (upEnv p))
      else if k = ''secrets'' then map_sum id (\<lambda>x. p\<lparr>upSecrets := x\<rparr>) (dec_ptr dec_map [] v (upSecrets p))
      else if k = ''container''
      then map_sum id (\<lambda>x. p\<lparr>upContainer := x\<rparr>)
             (dec_ptr (dec_struct up_container_field) \<lparr>ucDocker = None, ucMesos = None\<rparr> v (upContainer p))
      else if k = ''cpus'' then map_sum id (\<lambda>x. p\<lparr>upCPUs := x\<rparr>) (dec_ptr dec_float 0 v (upCPUs p))
      else if k = ''mem'' then map_sum id (\<lambda>x. p\<lparr>upMem := x\<rparr>) (dec_ptr dec_float 0 v (upMem p))
      else if k = ''disk'' then map_sum id (\<lambda>x. p\<lparr>upDisk := x\<rparr>) (dec_ptr dec_float 0 v (upDisk p))
      else if k = ''cmd'' then map_sum id (\<lambda>x. p\<lparr>upCmd := x\<rparr>) (dec_ptr dec_string [] v (upCmd p))
      else if k = ''user'' then map_sum id (\<lambda>x. p\<lparr>upUser := x\<rparr>) (dec_ptr dec_string [] v (upUser p))
      else if k = ''shell'' then map_sum id (\<lambda>x. p\<lparr>upShell := x\<rparr>) (dec_ptr dec_bool False v (upShell p))
      else if k = ''arguments''
      then map_sum id (\<lambda>x. p\<lparr>upArguments := x\<rparr>) (dec_ptr (dec_slice dec_string []) [] v (upArguments p))
      else if k = ''labels'' then map_sum id (\<lambda>x. p\<lparr>upLabels := x\<rparr>) (dec_ptr dec_map [] v (upLabels p))
      else if k = ''maxretries'' then map_sum id (\<lambda>x. p\<lparr>upMaxRetries := x\<rparr>) (dec_ptr dec_int 0 v (upMaxRetries p))
      else Inr p)"

section \<open>Writing a payload for the validator\<close>

definition enc_option :: "('a \<Rightarrow> json) \<Rightarrow> 'a option \<Rightarrow> json" where
  "enc_option enc x = (case x of None \<Rightarrow> JNull | Some y \<Rightarrow> enc y)"

text \<open>The new payload's maps and slice; nil ones are written as \<open>null\<close>, which no keyword looks at.\<close>

definition enc_new_payload :: "new_job_payload \<Rightarrow> json" where
  "enc_new_payload p =
     JObj [(''Group'', JStr (npGroup p)), (''Project'', JStr (npProject p)), (''ID'', JStr (npID p)),
           (''Schedule'', JObj [(''Cron'', JStr (npCron p))]),
           (''Env'', enc_map (npEnv p)), (''Secrets'', enc_map (npSecrets p)),
           (''Container'', JObj [(''Docker'', enc_job_docker (npDocker p)), (''Mesos'', enc_job_mesos (npMesos p))]),
           (''CPUs'', JNum (npCPUs p)), (''Mem'', JNum (npMem p)), (''Disk'', JNum (npDisk p)),
           (''Cmd'', JStr (npCmd p)), (''User'', JStr (npUser p)), (''Shell'', enc_option JBool (npShell p)),
           (''Arguments'', enc_strings (npArguments p)), (''Labels'', enc_map (npLabels p)),
           (''MaxRetries'', JNum (of_int (npMaxRetries p)))]"

definition enc_update_container :: "update_container \<Rightarrow> json" where
  "enc_update_container c =
     JObj [(''Docker'', enc_option (\<lambda>d. JObj [(''Image'', enc_option JStr (udImage d)),
               (''ForcePullImage'', enc_option JBool (udForcePullImage d))]) (ucDocker c)),
           (''Mesos'', enc_option (\<lambda>m. JObj [(''Image'', enc_option JStr m)]) (ucMesos c))]"

definition enc_update_payload :: "update_job_payload \<Rightarrow> json" where
  "enc_update_payload p =
     JObj [(''Schedule'', enc_option (\<lambda>c. JObj [(''Cron'', enc_option JStr c)]) (upSchedule p)),
           (''Env'', enc_option enc_map (upEnv p)), (''Secrets'', enc_option enc_map (upSecrets p)),
           (''Container'', enc_option enc_update_container (upContainer p)),
           (''CPUs'', enc_option JNum (upCPUs p)), (''Mem'', enc_option JNum (upMem p)),
           (''Disk'', enc_option JNum (upDisk p)), (''Cmd'', enc_option JStr (upCmd p)),
           (''User'', enc_option JStr (upUser p)), (''Shell'', enc_option JBool (upShell p)),
           (''Arguments'', enc_option enc_strings (upArguments p)), (''Labels'', enc_option enc_map (upLabels p)),
           (''MaxRetries'', enc_option (\<lambda>n. JNum (of_int n)) (upMaxRetries p))]"

section \<open>Schemas\<close>

datatype keyword =
    KType "string list"
  | KProperties "(string \<times> keyword list) list"
  | KRequired "string list"
  | KPattern string
  | KFormat string
  | KMinLength nat
  | KMinimum rat bool
  | KOneOf "keyword list list"
  | KAnyOf "keyword list list"

type_synonym schema = "keyword list"

definition groupPattern :: string where "groupPattern = ''^[a-zA-Z0-9-_]+$''"
definition projectPattern :: string where "projectPattern = groupPattern"
definition jobIDPattern :: string where "jobIDPattern = groupPattern"

text \<open>\<open>exclusiveMinimum\<close> is the flag of \<open>KMinimum\<close>.\<close>

definition newJobSchema :: schema where
  "newJobSchema =
     [KType [''object''],
      KProperties
        [(''Group'', [KType [''string''], KPattern groupPattern]),
         (''Project'', [KType [''string''], KPattern projectPattern]),
         (''ID'', [KType [''string''], KPattern jobIDPattern]),
         (''Schedule'', [KType [''object''],
            KProperties [(''Cron'', [KType [''string''], KFormat ''cron''])], KRequired [''Cron'']]),
         (''Container'', [KType [''object''],
            KOneOf
              [[KProperties [(''Docker'', [KType [''object''],
                  KProperties [(''Image'', [KType [''string''], KMinLength 1])]])]],
               [KProperties [(''Mesos'', [KType [''object''],
                  KProperties [(''Image'', [KType [''string''], KMinLength 1])]])]]]]),
         (''CPUs'', [KType [''number''], KMinimum 0 True]),
         (''Disk'', [KType [''number''], KMinimum 0 False]),
         (''Mem'', [KType [''number''], KMinimum 0 True]),
         (''MaxRetries'', [KType [''integer''], KMinimum 0 False])],
      KRequired [''Group'', ''Project'', ''ID'', ''Schedule'', ''Mem'', ''CPUs'']]"

definition updateJobSchema :: schema where
  "updateJobSchema =
     [KType [''object''],
      KProperties
        [(''Schedule'', [KType [''object'', ''null''],
            KProperties [(''Cron'', [KType [''string''], KFormat ''cron''])], KRequired [''Cron'']]),
         (''Container'', [KType [''object'', ''null''],
            KAnyOf
              [[KProperties [(''Docker'', [KType [''object''],
                  KProperties
                    [(''Image'', [KType [''string'', ''null''], KMinLength 1]),
                     (''ForcePullImage'', [KType [''boolean'', ''null'']])]])], KRequired []],
               [KProperties [(''Mesos'', [KType [''object''],
                  KProperties [(''Image'', [KType [''string''], KMinLength 1])]])]]]]),
         (''CPUs'', [KType [''number'', ''null''], KMinimum 0 True]),
         (''Disk'', [KType [''number'', ''null''], KMinimum 0 False]),
         (''Mem'', [KType [''number'', ''null''], KMinimum 0 True]),
         (''MaxRetries'', [KType [''integer'', ''null''], KMinimum 0 False])]]"

text \<open>The format checker the package registers for \<open>cron\<close>.\<close>

definition cron_IsFormat :: "'s cron_lib \<Rightarrow> json \<Rightarrow> bool" where
  "cron_IsFormat lib input =
     (case input of
        JStr cron \<Rightarrow> (case cronParse lib cron of Inl _ \<Rightarrow> False | Inr _ \<Rightarrow> True)
      | _ \<Rightarrow> False)"

section \<open>The meaning of the keywords\<close>

text \<open>
  JSON Schema, draft 4, for the keywords used: a keyword for another type of value holds. Regular
  expressions and formats are parameters.
\<close>

fun json_types :: "json \<Rightarrow> string list" where
  "json_types JNull = [''null'']"
| "json_types (JBool b) = [''boolean'']"
| "json_types (JNum q) = (if of_int \<lfloor>q\<rfloor> = q then [''number'', ''integer''] else [''number''])"
| "json_types (JStr s) = [''string'']"
| "json_types (JTime t) = [''string'']"
| "json_types (JArr xs) = [''array'']"
| "json_types (JObj kvs) = [''object'']"

fun conforms :: "(string \<Rightarrow> string \<Rightarrow> bool) \<Rightarrow> (string \<Rightarrow> json \<Rightarrow> bool) \<Rightarrow> keyword list \<Rightarrow> json \<Rightarrow> bool"
  and holds :: "(string \<Rightarrow> string \<Rightarrow> bool) \<Rightarrow> (string \<Rightarrow> json \<Rightarrow> bool) \<Rightarrow> keyword \<Rightarrow> json \<Rightarrow> bool"
  and props_hold :: "(string \<Rightarrow> string \<Rightarrow> bool) \<Rightarrow> (string \<Rightarrow> json \<Rightarrow> bool) \<Rightarrow> (string \<times> keyword list) list
        \<Rightarrow> (string \<times> json) list \<Rightarrow> bool"
  and count_conforming :: "(string \<Rightarrow> string \<Rightarrow> bool) \<Rightarrow> (string \<Rightarrow> json \<Rightarrow> bool) \<Rightarrow> keyword list list \<Rightarrow> json \<Rightarrow> nat" where
  "conforms rx fmt [] v = True"
| "conforms rx fmt (k # ks) v = (holds rx fmt k v \<and> conforms rx fmt ks v)"
| "holds rx fmt (KType ts) v = list_ex (\<lambda>t. t \<in> set ts) (json_types v)"
| "holds rx fmt (KProperties ps) v = (case v of JObj kvs \<Rightarrow> props_hold rx fmt ps kvs | _ \<Rightarrow> True)"
| "holds rx fmt (KRequired ns) v = (case v of JObj kvs \<Rightarrow> list_all (\<lambda>n. map_of kvs n \<noteq> None) ns | _ \<Rightarrow> True)"
| "holds rx fmt (KPattern p) v = (case v of JStr s \<Rightarrow> rx p s | _ \<Rightarrow> True)"
| "holds rx fmt (KFormat f) v = (case v of JStr s \<Rightarrow> fmt f v | _ \<Rightarrow> True)"
| "holds rx fmt (KMinLength n) v = (case v of JStr s \<Rightarrow> n \<le> length s | _ \<Rightarrow> True)"
| "holds rx fmt (KMinimum m ex) v = (case v of JNum q \<Rightarrow> if ex then m < q else m \<le> q | _ \<Rightarrow> True)"
| "holds rx fmt (KOneOf ss) v = (count_conforming rx fmt ss v = 1)"
| "holds rx fmt (KAnyOf ss) v = (count_conforming rx fmt ss v > 0)"
| "props_hold rx fmt [] kvs = True"
| "props_hold rx fmt ((n, s) # ps) kvs =
     ((case map_of kvs n of None \<Rightarrow> True | Some w \<Rightarrow> conforms rx fmt s w) \<and> props_hold rx fmt ps kvs)"
| "count_conforming rx fmt [] v = 0"
| "count_conforming rx fmt (s # ss) v = (if conforms rx fmt s v then 1 else 0) + count_conforming rx fmt ss v"

section \<open>What a valid payload is\<close>

lemmas schema_eval = newJobSchema_def updateJobSchema_def enc_new_payload_def enc_update_payload_def
  enc_update_container_def enc_job_docker_def enc_job_mesos_def enc_option_def projectPattern_def jobIDPattern_def

lemma new_payload_conforms:
  assumes "conforms rx fmt newJobSchema (enc_new_payload p)"
  shows "rx groupPattern (npGroup p)" "rx groupPattern (npProject p)" "rx groupPattern (npID p)"
    "fmt ''cron'' (JStr (npCron p))" "0 < npCPUs p" "0 < npMem p" "0 \<le> npDisk p" "0 \<le> npMaxRetries p"
    "(dockerImage (npDocker p) \<noteq> []) \<noteq> (mesosImage (npMesos p) \<noteq> [])"
  using assms by (auto simp: schema_eval Suc_le_eq split: if_splits)

lemma update_payload_conforms:
  assumes "conforms rx fmt updateJobSchema (enc_update_payload p)"
  shows "upSchedule p = Some c \<Longrightarrow> \<exists>s. c = Some s \<and> fmt ''cron'' (JStr s)"
    "upContainer p = Some u \<Longrightarrow> ucDocker u = None \<Longrightarrow> \<exists>s. ucMesos u = Some (Some s) \<and> s \<noteq> []"
    "upCPUs p = Some q \<Longrightarrow> 0 < q" "upMem p = Some q \<Longrightarrow> 0 < q" "upDisk p = Some q \<Longrightarrow> 0 \<le> q"
    "upMaxRetries p = Some n \<Longrightarrow> 0 \<le> n"
  using assms by (auto simp: schema_eval Suc_le_eq split: option.splits if_splits)

end
