(* ===== verification/ZooKeeper.thy ===== *)
theory ZooKeeper
  imports ModelJson
begin

text \<open>
  The ZooKeeper client \<^verbatim>\<open>github.com/samuel/go-zookeeper/zk\<close> is not part of the repository: its
  operations are a parameter (\<open>zk_conn\<close>), and what the code relies on is the locale
  \<open>zookeeper\<close>, which states the documented behaviour of the data tree for one client at a time.
  Any call may also fail with another error (connection loss, expired session, invalid path); a
  failed write may or may not have been applied. The locale is interpreted on an executable data
  tree, on which the witnesses of the development run.
\<close>

section \<open>The client as a parameter\<close>

text \<open>Node data: the JSON document it holds, or \<open>None\<close> for the empty byte slice.\<close>

type_synonym payload = "json option"
type_synonym zk_acl = "(int \<times> string \<times> string) list"

record 'w zk_conn =
  zkGet :: "string \<Rightarrow> 'w \<Rightarrow> (zk_error + payload \<times> int) \<times> 'w"
  zkSet :: "string \<Rightarrow> payload \<Rightarrow> int \<Rightarrow> 'w \<Rightarrow> (zk_error + int) \<times> 'w"
  zkCreate :: "string \<Rightarrow> payload \<Rightarrow> int \<Rightarrow> zk_acl \<Rightarrow> 'w \<Rightarrow> (zk_error + string) \<times> 'w"
  zkDelete :: "string \<Rightarrow> int \<Rightarrow> 'w \<Rightarrow> (zk_error + unit) \<times> 'w"
  zkChildren :: "string \<Rightarrow> 'w \<Rightarrow> (zk_error + string list) \<times> 'w"
  zkExists :: "string \<Rightarrow> 'w \<Rightarrow> (zk_error + bool) \<times> 'w"

text \<open>\<open>zk.PermAll\<close> and the creation flags.\<close>

abbreviation PermAll :: int where "PermAll \<equiv> 31"

section \<open>The data tree\<close>

type_synonym zk_view = "string \<Rightarrow> (payload \<times> int) option"

definition is_parent :: "string \<Rightarrow> string \<Rightarrow> bool" where
  "is_parent p q \<longleftrightarrow> (\<exists>n. q = p @ CHR ''/'' # n \<and> n \<noteq> [] \<and> CHR ''/'' \<notin> set n)"

definition child_names :: "zk_view \<Rightarrow> string \<Rightarrow> string set" where
  "child_names v p = {n. n \<noteq> [] \<and> CHR ''/'' \<notin> set n \<and> v (p @ CHR ''/'' # n) \<noteq> None}"

text \<open>The parent path; \<open>[]\<close> stands for the root, which always exists.\<close>

definition parent_path :: "string \<Rightarrow> string" where
  "parent_path p = take (nat (last_index (CHR ''/'') p)) p"

definition parent_exists :: "zk_view \<Rightarrow> string \<Rightarrow> bool" where
  "parent_exists v p \<longleftrightarrow> parent_path p = [] \<or> v (parent_path p) \<noteq> None"

definition other_error :: "zk_error \<Rightarrow> bool" where
  "other_error e \<longleftrightarrow> (\<exists>s. e = ErrConnection s)"

definition get_spec :: "zk_view \<Rightarrow> string \<Rightarrow> zk_error + payload \<times> int" where
  "get_spec v p = (case v p of None \<Rightarrow> Inl ErrNoNode | Some n \<Rightarrow> Inr n)"

definition set_spec :: "zk_view \<Rightarrow> string \<Rightarrow> payload \<Rightarrow> int \<Rightarrow> (zk_error + int) \<times> zk_view" where
  "set_spec v p d ver =
     (case v p of
        None \<Rightarrow> (Inl ErrNoNode, v)
      | Some (_, n) \<Rightarrow>
          if ver \<noteq> -1 \<and> ver \<noteq> n then (Inl ErrBadVersion, v)
          else (Inr (n + 1), v(p \<mapsto> (d, n + 1))))"

definition create_spec :: "zk_view \<Rightarrow> string \<Rightarrow> payload \<Rightarrow> (zk_error + string) \<times> zk_view" where
  "create_spec v p d =
     (if v p \<noteq> None then (Inl ErrNodeExists, v)
      else if \<not> parent_exists v p then (Inl ErrNoNode, v)
      else (Inr p, v(p \<mapsto> (d, 0))))"

definition delete_spec :: "zk_view \<Rightarrow> string \<Rightarrow> int \<Rightarrow> (zk_error + unit) \<times> zk_view" where
  "delete_spec v p ver =
     (case v p of
        None \<Rightarrow> (Inl ErrNoNode, v)
      | Some (_, n) \<Rightarrow>
          if ver \<noteq> -1 \<and> ver \<noteq> n then (Inl ErrBadVersion, v)
          else if child_names v p \<noteq> {} then (Inl ErrNotEmpty, v)
          else (Inr (), v(p := None)))"

section \<open>What the code relies on\<close>

text \<open>
  A read returns what the tree says or some other error, and changes nothing; a write does what
  the tree says and reports it, or reports another error with the write applied or not. Creation
  is for the regular nodes the storage uses (flags 0).
\<close>

locale zookeeper =
  fixes zk :: "'w zk_conn" and tree :: "'w \<Rightarrow> zk_view"
  assumes zk_get: "zkGet zk p w = (rg, w') \<Longrightarrow>
      tree w' = tree w \<and> (rg = get_spec (tree w) p \<or> (\<exists>e. rg = Inl e \<and> other_error e))"
    and zk_set: "zkSet zk p d ver w = (rs, w') \<Longrightarrow>
      (rs, tree w') = set_spec (tree w) p d ver
      \<or> (\<exists>e. rs = Inl e \<and> other_error e \<and> tree w' \<in> {tree w, snd (set_spec (tree w) p d ver)})"
    and zk_create: "zkCreate zk p d 0 acl w = (rc, w') \<Longrightarrow>
      (rc, tree w') = create_spec (tree w) p d
      \<or> (\<exists>e. rc = Inl e \<and> other_error e \<and> tree w' \<in> {tree w, snd (create_spec (tree w) p d)})"
    and zk_delete: "zkDelete zk p ver w = (rd, w') \<Longrightarrow>
      (rd, tree w') = delete_spec (tree w) p ver
      \<or> (\<exists>e. rd = Inl e \<and> other_error e \<and> tree w' \<in> {tree w, snd (delete_spec (tree w) p ver)})"
    and zk_children: "zkChildren zk p w = (rl, w') \<Longrightarrow>
      tree w' = tree w
      \<and> (if tree w p = None then rl = Inl ErrNoNode
         else \<exists>ns. rl = Inr ns \<and> distinct ns \<and> set ns = child_names (tree w) p)
        \<or> (tree w' = tree w \<and> (\<exists>e. rl = Inl e \<and> other_error e))"
    and zk_exists: "zkExists zk p w = (re, w') \<Longrightarrow>
      tree w' = tree w \<and> (re = Inr (tree w p \<noteq> None) \<or> (\<exists>e. re = Inl e \<and> other_error e))"
begin

lemma get_ok: "zkGet zk p w = (Inr n, w') \<Longrightarrow> tree w p = Some n \<and> tree w' = tree w"
  by (auto dest!: zk_get simp: get_spec_def split: option.splits)

lemma get_no_node: "zkGet zk p w = (Inl ErrNoNode, w') \<Longrightarrow> tree w p = None \<and> tree w' = tree w"
  by (auto dest!: zk_get simp: get_spec_def other_error_def split: option.splits)

lemma set_ok:
  "zkSet zk p d ver w = (Inr n, w') \<Longrightarrow> tree w p \<noteq> None \<and> tree w' = (tree w)(p \<mapsto> (d, n))"
  by (auto dest!: zk_set simp: set_spec_def split: option.splits if_splits)

lemma set_no_node: "zkSet zk p d ver w = (Inl ErrNoNode, w') \<Longrightarrow> tree w p = None \<and> tree w' = tree w"
  by (auto dest!: zk_set simp: set_spec_def other_error_def split: option.splits if_splits)

lemma create_ok:
  "zkCreate zk p d 0 acl w = (Inr n, w') \<Longrightarrow>
     tree w p = None \<and> parent_exists (tree w) p \<and> tree w' = (tree w)(p \<mapsto> (d, 0))"
  by (auto dest!: zk_create simp: create_spec_def split: if_splits)

lemma create_exists:
  "zkCreate zk p d 0 acl w = (Inl ErrNodeExists, w') \<Longrightarrow> tree w p \<noteq> None \<and> tree w' = tree w"
  by (auto dest!: zk_create simp: create_spec_def other_error_def split: if_splits)

lemma create_no_node:
  "zkCreate zk p d 0 acl w = (Inl ErrNoNode, w') \<Longrightarrow>
     tree w p = None \<and> \<not> parent_exists (tree w) p \<and> tree w' = tree w"
  by (auto dest!: zk_create simp: create_spec_def other_error_def split: if_splits)

lemma delete_ok:
  "zkDelete zk p ver w = (Inr u, w') \<Longrightarrow>
     tree w p \<noteq> None \<and> child_names (tree w) p = {} \<and> tree w' = (tree w)(p := None)"
  by (auto dest!: zk_delete simp: delete_spec_def split: option.splits if_splits)

lemma delete_no_node:
  "zkDelete zk p ver w = (Inl ErrNoNode, w') \<Longrightarrow> tree w p = None \<and> tree w' = tree w"
  by (auto dest!: zk_delete simp: delete_spec_def other_error_def split: option.splits if_splits)

lemma children_ok:
  "zkChildren zk p w = (Inr ns, w') \<Longrightarrow>
     tree w p \<noteq> None \<and> distinct ns \<and> set ns = child_names (tree w) p \<and> tree w' = tree w"
  by (auto dest!: zk_children split: if_splits)

lemma children_no_node:
  "zkChildren zk p w = (Inl ErrNoNode, w') \<Longrightarrow> tree w p = None \<and> tree w' = tree w"
  by (auto dest!: zk_children simp: other_error_def split: if_splits)

lemma children_tree: "zkChildren zk p w = (r, w') \<Longrightarrow> tree w' = tree w"
  by (auto dest!: zk_children)

text \<open>Every node but the written one is as before, also when the write failed.\<close>

lemma set_other: "zkSet zk p d ver w = (r, w') \<Longrightarrow> q \<noteq> p \<Longrightarrow> tree w' q = tree w q"
  by (drule zk_set) (auto simp: set_spec_def split: option.splits if_splits prod.splits)

lemma create_other: "zkCreate zk p d 0 acl w = (r, w') \<Longrightarrow> q \<noteq> p \<Longrightarrow> tree w' q = tree w q"
  by (drule zk_create) (auto simp: create_spec_def split: if_splits)

lemma delete_other: "zkDelete zk p ver w = (r, w') \<Longrightarrow> q \<noteq> p \<Longrightarrow> tree w' q = tree w q"
  by (drule zk_delete) (auto simp: delete_spec_def split: option.splits if_splits prod.splits)

lemma keeps_get [keeps_intros]: "keeps tree (io_of_zk (zkGet zk p))"
  by (rule keepsI) (auto simp: io_of_zk_def split: prod.splits sum.splits dest: zk_get)

lemma keeps_exists [keeps_intros]: "keeps tree (io_of_zk (zkExists zk p))"
  by (rule keepsI) (auto simp: io_of_zk_def split: prod.splits sum.splits dest: zk_exists)

lemma keeps_children [keeps_intros]: "keeps tree (io_of_zk (zkChildren zk p))"
  by (rule keepsI) (auto simp: io_of_zk_def split: prod.splits sum.splits dest: children_tree)

end

section \<open>A reference data tree\<close>

text \<open>
  An executable tree: an association list from paths to nodes, with no failures. \<open>ref_zk\<close> is the
  instance the witnesses of the development run on.
\<close>

type_synonym ref_tree = "(string \<times> (payload \<times> int)) list"

definition child_of :: "string \<Rightarrow> string \<Rightarrow> string option" where
  "child_of p q =
     (if take (length p + 1) q = p @ ''/'' then
        (let n = drop (length p + 1) q in if n \<noteq> [] \<and> CHR ''/'' \<notin> set n then Some n else None)
      else None)"

definition ref_children :: "ref_tree \<Rightarrow> string \<Rightarrow> string list" where
  "ref_children t p =
     remdups (concat (map (\<lambda>q. case child_of p (fst q) of None \<Rightarrow> [] | Some n \<Rightarrow> [n]) t))"

definition ref_get :: "string \<Rightarrow> ref_tree \<Rightarrow> (zk_error + payload \<times> int) \<times> ref_tree" where
  "ref_get p t = (case map_of t p of None \<Rightarrow> (Inl ErrNoNode, t) | Some n \<Rightarrow> (Inr n, t))"

definition ref_set :: "string \<Rightarrow> payload \<Rightarrow> int \<Rightarrow> ref_tree \<Rightarrow> (zk_error + int) \<times> ref_tree" where
  "ref_set p d ver t =
     (case map_of t p of
        None \<Rightarrow> (Inl ErrNoNode, t)
      | Some (_, n) \<Rightarrow>
          if ver \<noteq> -1 \<and> ver \<noteq> n then (Inl ErrBadVersion, t)
          else (Inr (n + 1), AList.update p (d, n + 1) t))"

definition ref_create ::
  "string \<Rightarrow> payload \<Rightarrow> int \<Rightarrow> zk_acl \<Rightarrow> ref_tree \<Rightarrow> (zk_error + string) \<times> ref_tree" where
  "ref_create p d flags acl t =
     (if map_of t p \<noteq> None then (Inl ErrNodeExists, t)
      else if \<not> (parent_path p = [] \<or> map_of t (parent_path p) \<noteq> None) then (Inl ErrNoNode, t)
      else (Inr p, AList.update p (d, 0) t))"

definition ref_delete :: "string \<Rightarrow> int \<Rightarrow> ref_tree \<Rightarrow> (zk_error + unit) \<times> ref_tree" where
  "ref_delete p ver t =
     (case map_of t p of
        None \<Rightarrow> (Inl ErrNoNode, t)
      | Some (_, n) \<Rightarrow>
          if ver \<noteq> -1 \<and> ver \<noteq> n then (Inl ErrBadVersion, t)
          else if ref_children t p \<noteq> [] then (Inl ErrNotEmpty, t)
          else (Inr (), AList.delete p t))"

definition ref_list :: "string \<Rightarrow> ref_tree \<Rightarrow> (zk_error + string list) \<times> ref_tree" where
  "ref_list p t = (case map_of t p of None \<Rightarrow> (Inl ErrNoNode, t) | Some _ \<Rightarrow> (Inr (ref_children t p), t))"

definition ref_zk :: "ref_tree zk_conn" where
  "ref_zk =
     \<lparr>zkGet = ref_get, zkSet = ref_set, zkCreate = ref_create, zkDelete = ref_delete,
      zkChildren = ref_list, zkExists = (\<lambda>p t. (Inr (map_of t p \<noteq> None), t))\<rparr>"

lemma child_of_Some:
  "child_of p q = Some n \<longleftrightarrow> q = p @ CHR ''/'' # n \<and> n \<noteq> [] \<and> CHR ''/'' \<notin> set n"
proof
  assume h: "child_of p q = Some n"
  then have "take (length p + 1) q = p @ ''/''" "drop (length p + 1) q = n"
    by (auto simp: child_of_def Let_def split: if_splits)
  then have "q = (p @ ''/'') @ n" by (metis append_take_drop_id)
  with h show "q = p @ CHR ''/'' # n \<and> n \<noteq> [] \<and> CHR ''/'' \<notin> set n"
    by (auto simp: child_of_def Let_def split: if_splits)
qed (simp add: child_of_def)

lemma set_ref_children: "set (ref_children t p) = child_names (map_of t) p"
proof -
  have "n \<in> set (ref_children t p) \<longleftrightarrow> (\<exists>q \<in> set t. child_of p (fst q) = Some n)" for n
    by (force simp: ref_children_def split: option.splits)
  then have "n \<in> set (ref_children t p) \<longleftrightarrow>
      p @ CHR ''/'' # n \<in> fst ` set t \<and> n \<noteq> [] \<and> CHR ''/'' \<notin> set n" for n
    by (force simp: child_of_Some)
  then show ?thesis
    by (auto simp: child_names_def map_of_eq_None_iff simp del: not_None_eq)
qed

interpretation ref: zookeeper ref_zk map_of
proof
  show "map_of w' = map_of w \<and> (r = get_spec (map_of w) p \<or> (\<exists>e. r = Inl e \<and> other_error e))"
    if "zkGet ref_zk p w = (r, w')" for p w r w'
    using that by (auto simp: ref_zk_def ref_get_def get_spec_def split: option.splits)
next
  show "(r, map_of w') = set_spec (map_of w) p d ver
      \<or> (\<exists>e. r = Inl e \<and> other_error e \<and> map_of w' \<in> {map_of w, snd (set_spec (map_of w) p d ver)})"
    if "zkSet ref_zk p d ver w = (r, w')" for p d ver w r w'
    using that
    by (auto simp: ref_zk_def ref_set_def set_spec_def update_conv' split: option.splits if_splits)
next
  show "(r, map_of w') = create_spec (map_of w) p d
      \<or> (\<exists>e. r = Inl e \<and> other_error e \<and> map_of w' \<in> {map_of w, snd (create_spec (map_of w) p d)})"
    if "zkCreate ref_zk p d 0 acl w = (r, w')" for p d acl w r w'
    using that
    by (auto simp: ref_zk_def ref_create_def create_spec_def parent_exists_def update_conv' split: if_splits)
next
  show "(r, map_of w') = delete_spec (map_of w) p ver
      \<or> (\<exists>e. r = Inl e \<and> other_error e \<and> map_of w' \<in> {map_of w, snd (delete_spec (map_of w) p ver)})"
    if "zkDelete ref_zk p ver w = (r, w')" for p ver w r w'
    using that set_ref_children [of w p]
    by (auto simp: ref_zk_def ref_delete_def delete_spec_def delete_conv' split: option.splits if_splits)
next
  show "map_of w' = map_of w
      \<and> (if map_of w p = None then r = Inl ErrNoNode
         else \<exists>ns. r = Inr ns \<and> distinct ns \<and> set ns = child_names (map_of w) p)
        \<or> (map_of w' = map_of w \<and> (\<exists>e. r = Inl e \<and> other_error e))"
    if "zkChildren ref_zk p w = (r, w')" for p w r w'
    using that
    by (auto simp: ref_zk_def ref_list_def set_ref_children ref_children_def [of w p, symmetric]
        split: option.splits) (simp_all add: ref_children_def)
next
  show "map_of w' = map_of w \<and> (r = Inr (map_of w p \<noteq> None) \<or> (\<exists>e. r = Inl e \<and> other_error e))"
    if "zkExists ref_zk p w = (r, w')" for p w r w'
    using that by (auto simp: ref_zk_def)
qed

end
