(* ===== verification/StorageOps.thy ===== *)
theory StorageOps
  imports ZooKeeper
begin

text \<open>
  The ZooKeeper-backed storage of \<^verbatim>\<open>storage/zk/zk.go\<close>, operation by operation: job configuration at
  \<open>dir/jobs/fqid\<close>, its runtime at \<open>dir/jobs/fqid/runtime\<close>, its history below
  \<open>dir/jobs/fqid/tasks\<close>, queued jobs below \<open>dir/queuedJobs\<close>, the framework id in
  \<open>dir/state\<close>; and the interface (\<open>storage_ops\<close>) through which API and scheduler see it.
\<close>

section \<open>State\<close>

record 'w zk_storage =
  dir :: string
  addrs :: "string list"
  conn :: "'w zk_conn"
  acl :: "int \<Rightarrow> zk_acl"
  timeout :: duration
  taskTTL :: duration

definition fqid_of :: "string \<Rightarrow> string \<Rightarrow> string \<Rightarrow> string" where
  "fqid_of g p i = g @ '':'' @ p @ '':'' @ i"

definition jobs_path :: "'w zk_storage \<Rightarrow> string" where
  "jobs_path s = dir s @ ''/'' @ ''jobs''"

definition job_path :: "'w zk_storage \<Rightarrow> string \<Rightarrow> string" where
  "job_path s fq = jobs_path s @ ''/'' @ fq"

definition runtime_path :: "'w zk_storage \<Rightarrow> string \<Rightarrow> string" where
  "runtime_path s fq = job_path s fq @ ''/'' @ ''runtime''"

definition tasks_path :: "'w zk_storage \<Rightarrow> string \<Rightarrow> string" where
  "tasks_path s fq = job_path s fq @ ''/'' @ ''tasks''"

definition queue_path :: "'w zk_storage \<Rightarrow> string" where
  "queue_path s = dir s @ ''/'' @ ''queuedJobs''"

definition queued_path :: "'w zk_storage \<Rightarrow> string \<Rightarrow> string" where
  "queued_path s fq = queue_path s @ ''/'' @ fq"

definition state_path :: "'w zk_storage \<Rightarrow> string" where
  "state_path s = dir s @ ''/'' @ ''state''"

text \<open>\<open>json.Unmarshal\<close> of a node's data.\<close>

definition unmarshal :: "(json \<Rightarrow> 'a \<Rightarrow> error + 'a) \<Rightarrow> payload \<Rightarrow> 'a \<Rightarrow> ('w, 'a) io" where
  "unmarshal d data z =
     io_of_sum (case data of None \<Rightarrow> Inl (ErrMsg ''unexpected end of JSON input'') | Some doc \<Rightarrow> d doc z)"

section \<open>Initialisation and framework id\<close>

text \<open>\<open>conn.Create\<close> of a regular node, an existing node being no error.\<close>

definition create_if_missing :: "'w zk_storage \<Rightarrow> string \<Rightarrow> payload \<Rightarrow> ('w, unit) io" where
  "create_if_missing s path data =
     io_try (io_of_zk (zkCreate (conn s) path data 0 (acl s PermAll))) (\<lambda>r.
       case r of
         Inl e \<Rightarrow> if e \<noteq> ErrZK ErrNodeExists then io_fail e else io_ret ()
       | Inr _ \<Rightarrow> io_ret ())"

definition enc_framework_state :: "string \<Rightarrow> json" where
  "enc_framework_state fid = JObj [(''FrameworkID'', JStr fid)]"

definition framework_field :: "string \<Rightarrow> json \<Rightarrow> string \<Rightarrow> error + string" where
  "framework_field k v x = (if k = ''frameworkid'' then dec_string v x else Inr x)"

definition init :: "'w zk_storage \<Rightarrow> ('w, unit) io" where
  "init s =
     io_bind (create_if_missing s (dir s) None) (\<lambda>_.
     io_bind (create_if_missing s (state_path s) (Some (enc_framework_state []))) (\<lambda>_.
     io_bind (create_if_missing s (jobs_path s) None) (\<lambda>_.
     create_if_missing s (queue_path s) None)))"

definition SetFrameworkID :: "'w zk_storage \<Rightarrow> string \<Rightarrow> ('w, unit) io" where
  "SetFrameworkID s fid =
     io_bind (io_of_zk (zkGet (conn s) (state_path s))) (\<lambda>(data, version).
     io_bind (unmarshal (dec_struct framework_field) data []) (\<lambda>_.
     io_bind (io_of_zk (zkSet (conn s) (state_path s) (Some (enc_framework_state fid)) version)) (\<lambda>_.
     io_ret ())))"

definition GetFrameworkID :: "'w zk_storage \<Rightarrow> ('w, string) io" where
  "GetFrameworkID s =
     io_bind (io_of_zk (zkGet (conn s) (state_path s))) (\<lambda>(data, _).
     unmarshal (dec_struct framework_field) data [])"

section \<open>Reading jobs\<close>

text \<open>A missing node is not an error but a nil result.\<close>

definition read_node ::
  "'w zk_storage \<Rightarrow> (json \<Rightarrow> 'a \<Rightarrow> error + 'a) \<Rightarrow> 'a \<Rightarrow> string \<Rightarrow> ('w, 'a option) io" where
  "read_node s d z path =
     io_try (io_of_zk (zkGet (conn s) path)) (\<lambda>r.
       case r of
         Inl e \<Rightarrow> if e = ErrZK ErrNoNode then io_ret None else io_fail e
       | Inr (data, _) \<Rightarrow> io_bind (unmarshal d data z) (\<lambda>x. io_ret (Some x)))"

definition GetJobRuntime ::
  "'w zk_storage \<Rightarrow> string \<Rightarrow> string \<Rightarrow> string \<Rightarrow> ('w, job_runtime option) io" where
  "GetJobRuntime s g p i = read_node s dec_job_runtime zero_job_runtime (runtime_path s (fqid_of g p i))"

definition GetJobConf ::
  "'w zk_storage \<Rightarrow> string \<Rightarrow> string \<Rightarrow> string \<Rightarrow> ('w, job_conf option) io" where
  "GetJobConf s g p i = read_node s dec_job_conf zero_job_conf (job_path s (fqid_of g p i))"

definition GetJob ::
  "'w zk_storage \<Rightarrow> string \<Rightarrow> string \<Rightarrow> string \<Rightarrow> ('w, job option) io" where
  "GetJob s g p i =
     io_bind (GetJobConf s g p i) (\<lambda>c.
       case c of
         None \<Rightarrow> io_ret None
       | Some conf \<Rightarrow>
           io_bind (GetJobRuntime s g p i) (\<lambda>r.
             case r of
               None \<Rightarrow> io_ret None
             | Some runtime \<Rightarrow> io_ret (Some \<lparr>JobConf = conf, JobRuntime = runtime\<rparr>)))"

text \<open>One iteration of the loop of \<open>GetJobs\<close>.\<close>

definition load_job :: "'w zk_storage \<Rightarrow> string \<Rightarrow> ('w, job) io" where
  "load_job s child =
     io_bind (io_of_zk (zkGet (conn s) (job_path s child))) (\<lambda>(confData, _).
     io_bind (unmarshal dec_job confData zero_job) (\<lambda>job.
     io_bind (io_of_zk (zkGet (conn s) (runtime_path s child))) (\<lambda>(runtimeData, _).
     unmarshal dec_job runtimeData job)))"

definition GetJobs :: "'w zk_storage \<Rightarrow> ('w, job list) io" where
  "GetJobs s =
     io_bind (io_of_zk (zkChildren (conn s) (jobs_path s))) (\<lambda>children. io_for children (load_job s))"

definition GetGroupJobs :: "'w zk_storage \<Rightarrow> string \<Rightarrow> ('w, job list) io" where
  "GetGroupJobs s g =
     io_bind (GetJobs s) (\<lambda>jobs. io_ret (filter (\<lambda>j. Group (JobID (JobConf j)) = g) jobs))"

definition GetProjectJobs :: "'w zk_storage \<Rightarrow> string \<Rightarrow> string \<Rightarrow> ('w, job list) io" where
  "GetProjectJobs s g p =
     io_bind (GetJobs s) (\<lambda>jobs.
       io_ret (filter (\<lambda>j. Group (JobID (JobConf j)) = g \<and> Project (JobID (JobConf j)) = p) jobs))"

section \<open>Writing jobs\<close>

text \<open>\<open>conn.Set\<close> with any version, falling back to \<open>conn.Create\<close> for a missing node.\<close>

definition set_or_create :: "'w zk_storage \<Rightarrow> string \<Rightarrow> json \<Rightarrow> ('w, unit) io" where
  "set_or_create s path doc =
     io_try (io_of_zk (zkSet (conn s) path (Some doc) (-1))) (\<lambda>r.
       case r of
         Inr _ \<Rightarrow> io_ret ()
       | Inl e \<Rightarrow>
           if e \<noteq> ErrZK ErrNoNode then io_fail e
           else io_bind (io_of_zk (zkCreate (conn s) path (Some doc) 0 (acl s PermAll))) (\<lambda>_. io_ret ()))"

definition SaveJobConf :: "'w zk_storage \<Rightarrow> job_conf \<Rightarrow> ('w, unit) io" where
  "SaveJobConf s c =
     set_or_create s (job_path s (fqid_of (Group (JobID c)) (Project (JobID c)) (ID (JobID c))))
       (enc_job_conf c)"

definition SaveJobRuntime ::
  "'w zk_storage \<Rightarrow> string \<Rightarrow> string \<Rightarrow> string \<Rightarrow> job_runtime \<Rightarrow> ('w, unit) io" where
  "SaveJobRuntime s g p i r =
     io_bind (io_of_sum (enc_job_runtime r)) (\<lambda>encoded.
     set_or_create s (runtime_path s (fqid_of g p i)) encoded)"

definition SaveJob :: "'w zk_storage \<Rightarrow> job \<Rightarrow> ('w, unit) io" where
  "SaveJob s j =
     io_bind (SaveJobConf s (JobConf j)) (\<lambda>_.
     SaveJobRuntime s (Group (JobID (JobConf j))) (Project (JobID (JobConf j))) (ID (JobID (JobConf j)))
       (JobRuntime j))"

text \<open>\<open>conn.Delete\<close>, a missing node being no error.\<close>

definition delete_if_present :: "'w zk_storage \<Rightarrow> string \<Rightarrow> int \<Rightarrow> ('w, unit) io" where
  "delete_if_present s path version =
     io_try (io_of_zk (zkDelete (conn s) path version)) (\<lambda>r.
       case r of
         Inl e \<Rightarrow> if e \<noteq> ErrZK ErrNoNode then io_fail e else io_ret ()
       | Inr _ \<Rightarrow> io_ret ())"

text \<open>\<open>conn.Children\<close>, a missing node having none.\<close>

definition children_if_present :: "'w zk_storage \<Rightarrow> string \<Rightarrow> ('w, string list) io" where
  "children_if_present s path =
     io_try (io_of_zk (zkChildren (conn s) path)) (\<lambda>r.
       case r of
         Inl e \<Rightarrow> if e \<noteq> ErrZK ErrNoNode then io_fail e else io_ret []
       | Inr names \<Rightarrow> io_ret names)"

definition DeleteJob :: "'w zk_storage \<Rightarrow> string \<Rightarrow> string \<Rightarrow> string \<Rightarrow> ('w, unit) io" where
  "DeleteJob s g p i =
     (let fq = fqid_of g p i; tasksPath = tasks_path s fq in
      io_bind (children_if_present s tasksPath) (\<lambda>tasks.
      io_bind (io_for tasks (\<lambda>t. delete_if_present s (tasksPath @ ''/'' @ t) 0)) (\<lambda>_.
      io_bind (delete_if_present s tasksPath (-1)) (\<lambda>_.
      io_bind (delete_if_present s (runtime_path s fq) (-1)) (\<lambda>_.
      delete_if_present s (job_path s fq) (-1))))))"

section \<open>History of tasks\<close>

definition task_key :: "task \<Rightarrow> string" where
  "task_key t = show_int (time_to_unix (taskEnd t)) @ ''@'' @ TaskID t"

definition AddTask ::
  "'w zk_storage \<Rightarrow> string \<Rightarrow> string \<Rightarrow> string \<Rightarrow> task \<Rightarrow> ('w, unit) io" where
  "AddTask s g p i t =
     io_bind (io_of_sum (enc_task t)) (\<lambda>encoded.
     (let tasksPath = tasks_path s (fqid_of g p i); taskPath = tasksPath @ ''/'' @ task_key t;
          create = (\<lambda>path data. io_bind (io_of_zk (zkCreate (conn s) path data 0 (acl s PermAll)))
                                    (\<lambda>_. io_ret ())) in
      io_try (create taskPath (Some encoded)) (\<lambda>r.
        case r of
          Inr _ \<Rightarrow> io_ret ()
        | Inl e \<Rightarrow>
            if e \<noteq> ErrZK ErrNoNode then io_fail e
            else io_bind (create tasksPath None) (\<lambda>_. create taskPath (Some encoded)))))"

definition GetTasks ::
  "'w zk_storage \<Rightarrow> string \<Rightarrow> string \<Rightarrow> string \<Rightarrow> ('w, task list) io" where
  "GetTasks s g p i =
     (let base = tasks_path s (fqid_of g p i) in
      io_bind (children_if_present s base) (\<lambda>children.
      io_for children (\<lambda>child.
        io_bind (io_of_zk (zkGet (conn s) (base @ ''/'' @ child))) (\<lambda>(data, _).
        unmarshal dec_task data zero_task))))"

text \<open>
  The cleanup of old tasks. \<open>ctxDone\<close> is \<open>ctx.Err() != nil\<close>. The inner loop returns the
  number of deleted tasks and whether the whole cleanup is to stop; a \<open>continue\<close> in the source
  skips the check of the context.
\<close>

fun cleanup_keys ::
  "'w zk_storage \<Rightarrow> ('w \<Rightarrow> time \<times> 'w) \<Rightarrow> ('w \<Rightarrow> bool \<times> 'w) \<Rightarrow> string \<Rightarrow> string list \<Rightarrow> int
   \<Rightarrow> ('w, int \<times> bool) io" where
  "cleanup_keys s now ctxDone tasksPath [] deleted = io_ret (deleted, False)"
| "cleanup_keys s now ctxDone tasksPath (key # keys) deleted =
     (let checkCtx = (\<lambda>n. io_bind (io_of_read ctxDone) (\<lambda>done.
            if done then io_ret (n, True) else cleanup_keys s now ctxDone tasksPath keys n)) in
      case parse_int64 (hd (splitn2 (CHR ''@'') key)) of
        None \<Rightarrow> cleanup_keys s now ctxDone tasksPath keys deleted
      | Some timestamp \<Rightarrow>
          io_bind (io_of_read now) (\<lambda>t.
            if taskTTL s < time_sub t (time_of_unix timestamp)
            then io_try (io_of_zk (zkDelete (conn s) (tasksPath @ ''/'' @ key) 0)) (\<lambda>r.
                   case r of
                     Inl _ \<Rightarrow> cleanup_keys s now ctxDone tasksPath keys deleted
                   | Inr _ \<Rightarrow> checkCtx (deleted + 1))
            else checkCtx deleted))"

fun cleanup_jobs ::
  "'w zk_storage \<Rightarrow> ('w \<Rightarrow> time \<times> 'w) \<Rightarrow> ('w \<Rightarrow> bool \<times> 'w) \<Rightarrow> string list \<Rightarrow> int
   \<Rightarrow> ('w, int) io" where
  "cleanup_jobs s now ctxDone [] deleted = io_ret deleted"
| "cleanup_jobs s now ctxDone (jobID # jobIDs) deleted =
     io_try (io_of_zk (zkChildren (conn s) (tasks_path s jobID))) (\<lambda>r.
       case r of
         Inl _ \<Rightarrow> cleanup_jobs s now ctxDone jobIDs deleted
       | Inr keys \<Rightarrow>
           io_bind (io_of_read ctxDone) (\<lambda>done.
             if done then io_ret deleted
             else io_bind (cleanup_keys s now ctxDone (tasks_path s jobID) keys deleted)
                    (\<lambda>(n, stop). if stop then io_ret n else cleanup_jobs s now ctxDone jobIDs n)))"

definition tasksCleanup ::
  "'w zk_storage \<Rightarrow> ('w \<Rightarrow> time \<times> 'w) \<Rightarrow> ('w \<Rightarrow> bool \<times> 'w) \<Rightarrow> ('w, int) io" where
  "tasksCleanup s now ctxDone =
     io_bind (io_of_zk (zkChildren (conn s) (jobs_path s))) (\<lambda>jobIDs.
     io_bind (io_of_read ctxDone) (\<lambda>done.
       if done then io_ret 0 else cleanup_jobs s now ctxDone jobIDs 0))"

section \<open>Queue of jobs to run now\<close>

text \<open>\<open>chunks[0], chunks[1], chunks[2]\<close>: Go panics when a name has fewer than three chunks.\<close>

definition queued_job_id :: "string \<Rightarrow> ('w, job_id) io" where
  "queued_job_id child =
     (case split_on (CHR '':'') child of
        g # p # i # _ \<Rightarrow> io_ret \<lparr>Group = g, Project = p, ID = i\<rparr>
      | _ \<Rightarrow> io_panic ''index out of range'')"

definition GetQueuedJobsIDs :: "'w zk_storage \<Rightarrow> ('w, job_id list) io" where
  "GetQueuedJobsIDs s =
     io_bind (io_of_zk (zkChildren (conn s) (queue_path s))) (\<lambda>children.
     io_for children queued_job_id)"

definition DequeueJob :: "'w zk_storage \<Rightarrow> string \<Rightarrow> string \<Rightarrow> string \<Rightarrow> ('w, unit) io" where
  "DequeueJob s g p i = delete_if_present s (queued_path s (fqid_of g p i)) 0"

definition QueueJob :: "'w zk_storage \<Rightarrow> string \<Rightarrow> string \<Rightarrow> string \<Rightarrow> ('w, unit) io" where
  "QueueJob s g p i = create_if_missing s (queued_path s (fqid_of g p i)) None"

section \<open>The storage interface\<close>

text \<open>The \<open>storage\<close> interface of \<^verbatim>\<open>storage/storage.go\<close>, as its clients hold it.\<close>

record 'w storage_ops =
  opDeleteJob :: "string \<Rightarrow> string \<Rightarrow> string \<Rightarrow> ('w, unit) io"
  opGetFrameworkID :: "('w, string) io"
  opGetGroupJobs :: "string \<Rightarrow> ('w, job list) io"
  opGetJob :: "string \<Rightarrow> string \<Rightarrow> string \<Rightarrow> ('w, job option) io"
  opGetJobs :: "('w, job list) io"
  opGetProjectJobs :: "string \<Rightarrow> string \<Rightarrow> ('w, job list) io"
  opSaveJob :: "job \<Rightarrow> ('w, unit) io"
  opSetFrameworkID :: "string \<Rightarrow> ('w, unit) io"
  opAddTask :: "string \<Rightarrow> string \<Rightarrow> string \<Rightarrow> task \<Rightarrow> ('w, unit) io"
  opGetTasks :: "string \<Rightarrow> string \<Rightarrow> string \<Rightarrow> ('w, task list) io"
  opGetJobRuntime :: "string \<Rightarrow> string \<Rightarrow> string \<Rightarrow> ('w, job_runtime option) io"
  opSaveJobRuntime :: "string \<Rightarrow> string \<Rightarrow> string \<Rightarrow> job_runtime \<Rightarrow> ('w, unit) io"
  opGetJobConf :: "string \<Rightarrow> string \<Rightarrow> string \<Rightarrow> ('w, job_conf option) io"
  opSaveJobConf :: "job_conf \<Rightarrow> ('w, unit) io"
  opQueueJob :: "string \<Rightarrow> string \<Rightarrow> string \<Rightarrow> ('w, unit) io"
  opDequeueJob :: "string \<Rightarrow> string \<Rightarrow> string \<Rightarrow> ('w, unit) io"
  opGetQueuedJobsIDs :: "('w, job_id list) io"

definition zk_storage_ops :: "'w zk_storage \<Rightarrow> 'w storage_ops" where
  "zk_storage_ops s =
     \<lparr>opDeleteJob = DeleteJob s, opGetFrameworkID = GetFrameworkID s,
      opGetGroupJobs = GetGroupJobs s, opGetJob = GetJob s, opGetJobs = GetJobs s,
      opGetProjectJobs = GetProjectJobs s, opSaveJob = SaveJob s,
      opSetFrameworkID = SetFrameworkID s, opAddTask = AddTask s, opGetTasks = GetTasks s,
      opGetJobRuntime = GetJobRuntime s, opSaveJobRuntime = SaveJobRuntime s,
      opGetJobConf = GetJobConf s, opSaveJobConf = SaveJobConf s, opQueueJob = QueueJob s,
      opDequeueJob = DequeueJob s, opGetQueuedJobsIDs = GetQueuedJobsIDs s\<rparr>"

end
