(* ===== verification/Tls.thy ===== *)
theory Tls
  imports Prelude
begin

text \<open>
  \<^verbatim>\<open>tls/tls.go\<close>: the certificates a component trusts. Reading a file and decoding PEM
  blocks are parameters; \<open>appendCertsFromPEM\<close> is \<open>None\<close> where Go's returns false.
\<close>

record ('w, 'p) tls_env =
  readFile :: "string \<Rightarrow> ('w, string) io"
  appendCertsFromPEM :: "string \<Rightarrow> 'p option"

definition BuildCertPool :: "('w, 'p) tls_env \<Rightarrow> string \<Rightarrow> ('w, 'p) io" where
  "BuildCertPool env path =
     io_bind (readFile env path) (\<lambda>certs.
       case appendCertsFromPEM env certs of
         None \<Rightarrow> io_fail (ErrMsg ''No certs appended'')
       | Some pool \<Rightarrow> io_ret pool)"

text \<open>\<open>if c.CACert != "" { pool, err := BuildCertPool(c.CACert) ... }\<close>: no file named means the system's own.\<close>

definition optional_pool :: "('w, 'p) tls_env \<Rightarrow> string \<Rightarrow> ('w, 'p option) io" where
  "optional_pool env path =
     (if path \<noteq> [] then io_bind (BuildCertPool env path) (\<lambda>pool. io_ret (Some pool)) else io_ret None)"

lemma BuildCertPool_ok [io_simps]:
  "BuildCertPool env path w = (Inr pool, w') \<longleftrightarrow>
     (\<exists>certs. readFile env path w = (Inr certs, w') \<and> appendCertsFromPEM env certs = Some pool)"
  by (auto simp: BuildCertPool_def io_simps split: option.splits)

lemma optional_pool_ok [io_simps]:
  "optional_pool env path w = (Inr p, w') \<longleftrightarrow>
     (if path = [] then p = None \<and> w' = w else \<exists>pool. p = Some pool \<and> BuildCertPool env path w = (Inr pool, w'))"
  by (auto simp: optional_pool_def io_bind_Inr io_ret_run)

end
