(* ===== verification/Auth.thy ===== *)
theory Auth
  imports Tls GoLib
begin

text \<open>
  Who may do what: the access levels of \<^verbatim>\<open>api/auth/auth.go\<close> and the three authorizers (none,
  GitLab of \<^verbatim>\<open>api/auth/gitlab/gitlab.go\<close>, LDAP of \<^verbatim>\<open>api/auth/ldap/ldap.go\<close>).
  The GitLab and LDAP clients are parameters.
\<close>

section \<open>Access levels\<close>

datatype access_level = NoAccess | ReadOnly | ReadWrite

fun level_index :: "access_level \<Rightarrow> nat" where
  "level_index NoAccess = 0"
| "level_index ReadOnly = 1"
| "level_index ReadWrite = 2"

lemma level_index_inject [simp]: "level_index a = level_index b \<longleftrightarrow> a = b"
  by (cases a; cases b) simp_all

instantiation access_level :: linorder
begin

definition less_eq_access_level :: "access_level \<Rightarrow> access_level \<Rightarrow> bool" where
  "a \<le> b \<longleftrightarrow> level_index a \<le> level_index b"

definition less_access_level :: "access_level \<Rightarrow> access_level \<Rightarrow> bool" where
  "a < b \<longleftrightarrow> level_index a < level_index b"

instance
  by standard (auto simp: less_eq_access_level_def less_access_level_def)

end

lemma level_cases:
  "NoAccess \<le> l" "l \<le> ReadWrite" "ReadOnly \<le> l \<longleftrightarrow> l \<noteq> NoAccess" "l < ReadWrite \<longleftrightarrow> l \<noteq> ReadWrite"
  by (cases l; simp add: less_eq_access_level_def less_access_level_def)+

text \<open>An authorizer, asked about a request, a group and a project.\<close>

type_synonym ('q, 'w) authorizer = "'q \<Rightarrow> string \<Rightarrow> string \<Rightarrow> ('w, access_level) io"

definition NoneAuthorizer :: "('q, 'w) authorizer" where
  "NoneAuthorizer r grp project = io_ret ReadWrite"

section \<open>GitLab\<close>

text \<open>
  The client: parsing of the address (its scheme), setting it as base URL, and the request for a
  project, which fails with a response's status code or otherwise.
\<close>

datatype gitlab_error = ErrorResponse int string | OtherGitlabError error

record gitlab_perms =
  projectAccess :: "int option"
  groupAccess :: "int option"

record ('q, 'c, 'w) gitlab_env =
  gitlabAddr :: string
  headerToken :: "'q \<Rightarrow> string"
  urlScheme :: "string \<Rightarrow> string + string"
  setBaseURL :: "string \<Rightarrow> string \<Rightarrow> string + 'c"
  getProject :: "'c \<Rightarrow> string \<Rightarrow> 'w \<Rightarrow> (gitlab_error + gitlab_perms) \<times> 'w"

text \<open>\<open>gitlab.ReporterPermissions\<close> and \<open>gitlab.DeveloperPermissions\<close>.\<close>

abbreviation ReporterPermissions :: int where "ReporterPermissions \<equiv> 20"
abbreviation DeveloperPermissions :: int where "DeveloperPermissions \<equiv> 30"

definition gitlab_newClient :: "('q, 'c, 'w) gitlab_env \<Rightarrow> string \<Rightarrow> error + 'c" where
  "gitlab_newClient env token =
     (case urlScheme env (gitlabAddr env) of
        Inl err \<Rightarrow> Inl (ErrMsg (''Error parsing GitLab address: '' @ err @ [CHR 0x0A]))
      | Inr _ \<Rightarrow>
          (case setBaseURL env token (gitlabAddr env) of
             Inl err \<Rightarrow> Inl (ErrMsg (''Error setting GitLab address: '' @ err @ [CHR 0x0A]))
           | Inr client \<Rightarrow> Inr client))"

definition gitlab_level :: "gitlab_perms \<Rightarrow> access_level" where
  "gitlab_level perms =
     (let of_level = (\<lambda>lvl. if lvl \<ge> DeveloperPermissions then ReadWrite
                            else if lvl = ReporterPermissions then ReadOnly else NoAccess) in
      case projectAccess perms of
        None \<Rightarrow> (case groupAccess perms of None \<Rightarrow> NoAccess | Some g \<Rightarrow> of_level g)
      | Some p \<Rightarrow>
          (case groupAccess perms of
             None \<Rightarrow> of_level p
           | Some g \<Rightarrow> if p \<ge> g then of_level p else of_level g))"

definition GitlabAuthorizer :: "('q, 'c, 'w) gitlab_env \<Rightarrow> ('q, 'w) authorizer" where
  "GitlabAuthorizer env r grp project =
     io_bind (io_of_sum (gitlab_newClient env (headerToken env r))) (\<lambda>client.
     (\<lambda>w. case getProject env client (grp @ ''/'' @ project) w of
        (Inl (ErrorResponse code msg), w') \<Rightarrow>
          if code = 401 \<or> code = 404 then (Inr NoAccess, w') else (Inl (Fail (ErrMsg msg)), w')
      | (Inl (OtherGitlabError err), w') \<Rightarrow> (Inl (Fail err), w')
      | (Inr perms, w') \<Rightarrow> (Inr (gitlab_level perms), w')))"

definition NewGitlabAuthorizer :: "('w, 'p) tls_env \<Rightarrow> string \<Rightarrow> string \<Rightarrow> ('w, string \<times> 'p option) io" where
  "NewGitlabAuthorizer tls caCert addr =
     io_bind (optional_pool tls caCert) (\<lambda>httpClient.
       if addr = [] then io_fail (ErrMsg ''GitLab address not set'') else io_ret (addr, httpClient))"

text \<open>The level follows the best of the two accesses.\<close>

definition best_access :: "gitlab_perms \<Rightarrow> int option" where
  "best_access perms =
     (case (projectAccess perms, groupAccess perms) of
        (None, x) \<Rightarrow> x | (x, None) \<Rightarrow> x | (Some p, Some g) \<Rightarrow> Some (max p g))"

lemma gitlab_level_best:
  "gitlab_level perms =
     (case best_access perms of
        None \<Rightarrow> NoAccess
      | Some lvl \<Rightarrow> if lvl \<ge> DeveloperPermissions then ReadWrite
                    else if lvl = ReporterPermissions then ReadOnly else NoAccess)"
  by (auto simp: gitlab_level_def best_access_def Let_def max_def split: option.splits)

lemma gitlab_grants:
  assumes "GitlabAuthorizer env r grp project w = (Inr lvl, w')" "lvl \<noteq> NoAccess"
  shows "\<exists>client perms. gitlab_newClient env (headerToken env r) = Inr client
     \<and> getProject env client (grp @ ''/'' @ project) w = (Inr perms, w') \<and> lvl = gitlab_level perms"
proof -
  from assms(1) obtain client where client: "gitlab_newClient env (headerToken env r) = Inr client"
    and run: "(case getProject env client (grp @ ''/'' @ project) w of
        (Inl (ErrorResponse code msg), w') \<Rightarrow>
          if code = 401 \<or> code = 404 then (Inr NoAccess, w') else (Inl (Fail (ErrMsg msg)), w')
      | (Inl (OtherGitlabError err), w') \<Rightarrow> (Inl (Fail err), w')
      | (Inr perms, w') \<Rightarrow> (Inr (gitlab_level perms), w')) = (Inr lvl, w')"
    by (auto simp: GitlabAuthorizer_def io_bind_Inr io_of_sum_eq)
  obtain q w2 where "getProject env client (grp @ ''/'' @ project) w = (q, w2)" by fastforce
  with client run assms(2) show ?thesis by (auto split: sum.splits gitlab_error.splits if_splits)
qed

section \<open>LDAP\<close>

type_synonym ldap_acl = "(string \<times> (string \<times> string) list) list"

record ldap_authorizer =
  ldapAddrs :: "string list"
  userDN :: string
  userAttr :: string
  userACL :: ldap_acl
  groupACL :: ldap_acl
  bindDN :: string
  bindPassword :: string
  groupFilter :: string
  groupDN :: string
  groupAttr :: string
  caseSensitiveNames :: bool

text \<open>
  A parsed address, a directory entry (its DN and the values of an attribute), a parsed DN
  (its RDNs as lists of type and value) and the LDAP client with the packages around it.
\<close>

record ldap_url =
  scheme :: string
  urlHost :: string

record ldap_entry =
  entryDN :: string
  attributeValues :: "string \<Rightarrow> string list"

record ('q, 'c, 'w) ldap_env =
  basicAuth :: "'q \<Rightarrow> (string \<times> string) option"
  parseURL :: "string \<Rightarrow> string + ldap_url"
  splitHostPort :: "string \<Rightarrow> (string \<times> string) option"
  joinHostPort :: "string \<Rightarrow> string \<Rightarrow> string"
  ldapDial :: "string \<Rightarrow> ('w, 'c) io"
  ldapDialTLS :: "string \<Rightarrow> string \<Rightarrow> ('w, 'c) io"
  bind :: "'c \<Rightarrow> string \<Rightarrow> string \<Rightarrow> ('w, unit) io"
  unauthenticatedBind :: "'c \<Rightarrow> string \<Rightarrow> ('w, unit) io"
  search :: "'c \<Rightarrow> string \<Rightarrow> string \<Rightarrow> string list \<Rightarrow> ('w, ldap_entry list) io"
  closeConn :: "'c \<Rightarrow> 'w \<Rightarrow> 'w"
  escapeFilter :: "string \<Rightarrow> string"
  escapeValue :: "string \<Rightarrow> string"
  parseDN :: "string \<Rightarrow> (string \<times> string) list list option"
  renderTemplate :: "string \<Rightarrow> string \<Rightarrow> string \<Rightarrow> error + string"
  ldapText :: "error \<Rightarrow> string"

text \<open>
  \<open>dial\<close>: addresses in order; the errors of those that failed are returned only if none answered.
  With no address at all the connection is nil and there is no error.
\<close>

definition dial_addr :: "('q, 'c, 'w) ldap_env \<Rightarrow> string \<Rightarrow> ('w, 'c) io" where
  "dial_addr env addr =
     (case parseURL env addr of
        Inl err \<Rightarrow> io_fail (ErrMsg (''Error parsing URL: '' @ err))
      | Inr u \<Rightarrow>
          (let (host, port) = (case splitHostPort env (urlHost u) of
                 Some (h, p) \<Rightarrow> (h, p) | None \<Rightarrow> (urlHost u, [])) in
           if scheme u = ''ldap''
           then ldapDial env (joinHostPort env host (if port = [] then ''389'' else port))
           else if scheme u = ''ldaps''
           then ldapDialTLS env host (joinHostPort env host (if port = [] then ''636'' else port))
           else io_fail (ErrMsg (''Invalid LDAP scheme: '' @ scheme u))))"

fun dial_loop :: "('q, 'c, 'w) ldap_env \<Rightarrow> string list \<Rightarrow> string list \<Rightarrow> ('w, 'c option) io" where
  "dial_loop env [] errs = (if errs = [] then io_ret None else io_fail (ErrMulti errs))"
| "dial_loop env (addr # addrs) errs =
     io_try (dial_addr env addr) (\<lambda>r.
       case r of
         Inl err \<Rightarrow> dial_loop env addrs (errs @ [ldapText env err])
       | Inr conn \<Rightarrow> io_ret (Some conn))"

definition dial :: "('q, 'c, 'w) ldap_env \<Rightarrow> ldap_authorizer \<Rightarrow> ('w, 'c option) io" where
  "dial env a = dial_loop env (ldapAddrs a) []"

definition ldap_wrap :: "('q, 'c, 'w) ldap_env \<Rightarrow> string \<Rightarrow> ('w, 'a) io \<Rightarrow> ('w, 'a) io" where
  "ldap_wrap env msg m =
     io_try m (\<lambda>r. case r of Inl e \<Rightarrow> io_fail (ErrMsg (msg @ ldapText env e)) | Inr x \<Rightarrow> io_ret x)"

definition getUserBindDN :: "('q, 'c, 'w) ldap_env \<Rightarrow> ldap_authorizer \<Rightarrow> 'c \<Rightarrow> string \<Rightarrow> ('w, string) io" where
  "getUserBindDN env a conn username =
     (if bindDN a \<noteq> [] \<and> bindPassword a \<noteq> []
      then
        io_bind (ldap_wrap env ''LDAP service bind failed: '' (bind env conn (bindDN a) (bindPassword a))) (\<lambda>_.
        io_bind (ldap_wrap env ''LDAP search for binddn failed: ''
            (search env conn (userDN a) (''('' @ userAttr a @ ''='' @ escapeFilter env username @ '')'') [])) (\<lambda>entries.
          case entries of
            [e] \<Rightarrow> io_ret (entryDN e)
          | _ \<Rightarrow> io_fail (ErrMsg ''LDAP search for binddn not found or not unique'')))
      else io_ret (userAttr a @ ''='' @ escapeValue env username @ '','' @ userDN a))"

definition getCN :: "('q, 'c, 'w) ldap_env \<Rightarrow> string \<Rightarrow> string" where
  "getCN env dn =
     (case parseDN env dn of
        None \<Rightarrow> dn
      | Some rdns \<Rightarrow>
          (case find (\<lambda>attr. fst attr = ''CN'') (concat rdns) of Some attr \<Rightarrow> snd attr | None \<Rightarrow> dn))"

definition performLDAPGroupsSearch ::
  "('q, 'c, 'w) ldap_env \<Rightarrow> ldap_authorizer \<Rightarrow> 'c \<Rightarrow> string \<Rightarrow> string \<Rightarrow> ('w, ldap_entry list) io" where
  "performLDAPGroupsSearch env a conn dn username =
     io_bind (ldap_wrap env ''Failed compilation of LDAP query template: ''
         (io_of_sum (renderTemplate env (groupFilter a) (escapeFilter env dn) (escapeFilter env username)))) (\<lambda>query.
     ldap_wrap env ''LDAP search failed: '' (search env conn (groupDN a) query [groupAttr a]))"

text \<open>The names of the groups, without repetition (Go returns them in the order of its map).\<close>

definition entry_groups :: "('q, 'c, 'w) ldap_env \<Rightarrow> ldap_authorizer \<Rightarrow> ldap_entry \<Rightarrow> string list" where
  "entry_groups env a e =
     (case parseDN env (entryDN e) of
        None \<Rightarrow> []
      | Some rdns \<Rightarrow>
          if rdns = [] then []
          else
            (case attributeValues e (groupAttr a) of
               [] \<Rightarrow> [getCN env (entryDN e)]
             | vals \<Rightarrow> map (getCN env) vals))"

definition getLDAPGroups ::
  "('q, 'c, 'w) ldap_env \<Rightarrow> ldap_authorizer \<Rightarrow> 'c \<Rightarrow> string \<Rightarrow> string \<Rightarrow> ('w, string list) io" where
  "getLDAPGroups env a conn dn username =
     io_bind (performLDAPGroupsSearch env a conn dn username) (\<lambda>entries.
     io_ret (remdups (concat (map (entry_groups env a) entries))))"

fun first_rule :: "(string \<times> string) list \<Rightarrow> string list \<Rightarrow> access_level" where
  "first_rule rules [] = NoAccess"
| "first_rule rules (key # keys) =
     (case map_of rules key of
        None \<Rightarrow> first_rule rules keys
      | Some level \<Rightarrow>
          if level = ''readonly'' then ReadOnly
          else if level = ''readwrite'' then ReadWrite
          else first_rule rules keys)"

definition getLevelFromACL :: "ldap_authorizer \<Rightarrow> ldap_acl \<Rightarrow> string \<Rightarrow> string \<Rightarrow> string \<Rightarrow> access_level" where
  "getLevelFromACL a acl name grp project =
     (case map_of acl (if caseSensitiveNames a then name else to_lower name) of
        None \<Rightarrow> NoAccess
      | Some rules \<Rightarrow> first_rule rules [grp @ ''/'' @ project, grp, ''*''])"

text \<open>The loop over the groups: read-write at once, read-only if nothing better comes.\<close>

fun groups_level :: "ldap_authorizer \<Rightarrow> string \<Rightarrow> string \<Rightarrow> string list \<Rightarrow> bool \<Rightarrow> access_level" where
  "groups_level a grp project [] readOnlyAccess = (if readOnlyAccess then ReadOnly else NoAccess)"
| "groups_level a grp project (g # gs) readOnlyAccess =
     (let level = getLevelFromACL a (groupACL a) g grp project in
      if level = ReadWrite then ReadWrite
      else groups_level a grp project gs (readOnlyAccess \<or> level = ReadOnly))"

text \<open>\<open>defer conn.Close()\<close> runs at every return after the dial; a nil connection is a nil dereference.\<close>

definition ldap_session ::
  "('q, 'c, 'w) ldap_env \<Rightarrow> ldap_authorizer \<Rightarrow> 'c \<Rightarrow> string \<Rightarrow> string \<Rightarrow> string \<Rightarrow> string \<Rightarrow> ('w, access_level) io" where
  "ldap_session env a conn username password grp project =
     io_bind (getUserBindDN env a conn username) (\<lambda>dn.
     io_bind (if length password > 0 then bind env conn dn password else unauthenticatedBind env conn dn) (\<lambda>_.
     (let userLevel = getLevelFromACL a (userACL a) username grp project in
      if userLevel \<noteq> NoAccess then io_ret userLevel
      else io_bind (getLDAPGroups env a conn dn username) (\<lambda>groups.
           io_ret (groups_level a grp project groups False)))))"

definition LdapAuthorizer :: "('q, 'c, 'w) ldap_env \<Rightarrow> ldap_authorizer \<Rightarrow> ('q, 'w) authorizer" where
  "LdapAuthorizer env a r grp project =
     (case basicAuth env r of
        None \<Rightarrow> io_fail (ErrMsg ''Cannot parse Basic auth credentials'')
      | Some (username, password) \<Rightarrow>
          io_bind (dial env a) (\<lambda>conn.
            case conn of
              None \<Rightarrow> io_panic ''nil pointer dereference''
            | Some c \<Rightarrow>
                (\<lambda>w. case ldap_session env a c username password grp project w of
                       (q, w') \<Rightarrow> (q, closeConn env c w'))))"

definition validateACL :: "ldap_acl \<Rightarrow> error option" where
  "validateACL acl =
     (case find (\<lambda>(outerKey, innerKey, level). level \<noteq> ''readonly'' \<and> level \<noteq> ''readwrite'')
             (concat (map (\<lambda>(outerKey, rules). map (\<lambda>(innerKey, level). (outerKey, innerKey, level)) rules) acl)) of
        None \<Rightarrow> None
      | Some (outerKey, innerKey, level) \<Rightarrow>
          Some (ErrMsg (''invalid access level ['' @ outerKey @ ''][''  @ innerKey @ '']: '' @ level)))"

text \<open>The authorizer is made only if its configuration is complete; with it comes the pool \<open>caCert\<close> for TLS.\<close>

definition NewLdapAuthorizer ::
    "('w, 'p) tls_env \<Rightarrow> (error \<Rightarrow> string) \<Rightarrow> string \<Rightarrow> ldap_authorizer \<Rightarrow> ('w, ldap_authorizer \<times> 'p option) io" where
  "NewLdapAuthorizer tls errorText caCert c =
     (if ldapAddrs c = [] then io_fail (ErrMsg ''addrs is empty'')
      else if userDN c = [] then io_fail (ErrMsg ''userdn is empty'')
      else if userAttr c = [] then io_fail (ErrMsg ''userattr is empty'')
      else if groupDN c = [] then io_fail (ErrMsg ''groupdn is empty'')
      else if groupAttr c = [] then io_fail (ErrMsg ''groupattr is empty'')
      else if groupFilter c = [] then io_fail (ErrMsg ''groupfilter is empty'')
      else (case validateACL (userACL c) of
          Some err \<Rightarrow> io_fail (ErrMsg (''Invalid useracl: '' @ errorText err))
        | None \<Rightarrow>
            (case validateACL (groupACL c) of
               Some err \<Rightarrow> io_fail (ErrMsg (''Invalid groupacl: '' @ errorText err))
             | None \<Rightarrow> io_bind (optional_pool tls caCert) (\<lambda>pool. io_ret (c, pool)))))"

lemma NewLdapAuthorizer_ok:
  "NewLdapAuthorizer tls errorText caCert c w = (Inr (a, pool), w') \<Longrightarrow>
   a = c \<and> validateACL (userACL a) = None \<and> validateACL (groupACL a) = None \<and> ldapAddrs a \<noteq> []"
  by (auto simp: NewLdapAuthorizer_def io_bind_Inr io_ret_run io_fail_run split: if_splits option.splits)

section \<open>What LDAP grants\<close>

text \<open>A rule for the project wins over one for its group, and that over one for everything.\<close>

lemma validateACL_levels:
  "validateACL acl = None \<Longrightarrow> (n, rules) \<in> set acl \<Longrightarrow> (k, level) \<in> set rules \<Longrightarrow> level = ''readonly'' \<or> level = ''readwrite''"
  by (fastforce simp: validateACL_def find_None_iff split: option.splits)

definition rule_level :: "string \<Rightarrow> access_level" where
  "rule_level s = (if s = ''readwrite'' then ReadWrite else ReadOnly)"

lemma first_rule_valid:
  assumes "\<And>k level. (k, level) \<in> set rules \<Longrightarrow> level = ''readonly'' \<or> level = ''readwrite''"
  shows "first_rule rules keys =
     (case find (\<lambda>k. map_of rules k \<noteq> None) keys of
        None \<Rightarrow> NoAccess | Some k \<Rightarrow> rule_level (the (map_of rules k)))"
proof (induction keys)
  case (Cons k keys)
  show ?case
  proof (cases "map_of rules k")
    case (Some level)
    with assms map_of_SomeD [OF Some] have "level = ''readonly'' \<or> level = ''readwrite''" by blast
    with Some show ?thesis by (auto simp: rule_level_def)
  qed (use Cons in simp)
qed simp

lemma getLevelFromACL_precedence:
  assumes "validateACL acl = None"
  shows "getLevelFromACL a acl name grp project =
     (case map_of acl (if caseSensitiveNames a then name else to_lower name) of
        None \<Rightarrow> NoAccess
      | Some rules \<Rightarrow>
          (case find (\<lambda>k. map_of rules k \<noteq> None) [grp @ ''/'' @ project, grp, ''*''] of
             None \<Rightarrow> NoAccess | Some k \<Rightarrow> rule_level (the (map_of rules k))))"
proof (cases "map_of acl (if caseSensitiveNames a then name else to_lower name)")
  case (Some rules)
  with validateACL_levels [OF assms map_of_SomeD [OF Some]] first_rule_valid [of rules]
  show ?thesis by (simp add: getLevelFromACL_def del: first_rule.simps find.simps)
qed (simp add: getLevelFromACL_def)

text \<open>The groups grant the best level any of them grants, whatever their order.\<close>

lemma groups_level_iff:
  "groups_level a grp project gs b = ReadWrite \<longleftrightarrow>
     (\<exists>g \<in> set gs. getLevelFromACL a (groupACL a) g grp project = ReadWrite)"
  "groups_level a grp project gs b = NoAccess \<longleftrightarrow>
     \<not> b \<and> (\<forall>g \<in> set gs. getLevelFromACL a (groupACL a) g grp project = NoAccess)"
proof (induction gs arbitrary: b)
  case (Cons g gs)
  {
    case 1
    show ?case using Cons(1) by (auto simp: Let_def)
  next
    case 2
    show ?case using Cons(2) by (cases "getLevelFromACL a (groupACL a) g grp project") (auto simp: Let_def)
  }
qed simp_all

lemma groups_level_Max:
  "groups_level a grp project gs False = Max (insert NoAccess ((\<lambda>g. getLevelFromACL a (groupACL a) g grp project) ` set gs))"
proof -
  let ?S = "insert NoAccess ((\<lambda>g. getLevelFromACL a (groupACL a) g grp project) ` set gs)"
  note iff = groups_level_iff [of a grp project gs False]
  have mem: "groups_level a grp project gs False \<in> ?S"
  proof (cases "groups_level a grp project gs False")
    case ReadOnly
    with iff obtain g where "g \<in> set gs" "getLevelFromACL a (groupACL a) g grp project \<noteq> NoAccess" by auto
    moreover from this ReadOnly iff have "getLevelFromACL a (groupACL a) g grp project \<noteq> ReadWrite" by auto
    ultimately have "getLevelFromACL a (groupACL a) g grp project = ReadOnly"
      by (cases "getLevelFromACL a (groupACL a) g grp project") auto
    with \<open>g \<in> set gs\<close> ReadOnly show ?thesis by force
  next
    case ReadWrite
    with iff(1) show ?thesis by force
  qed simp
  have ub: "l \<le> groups_level a grp project gs False" if "l \<in> ?S" for l
  proof (cases "groups_level a grp project gs False")
    case NoAccess
    with that iff(2) show ?thesis by auto
  next
    case ReadOnly
    with that iff(1) have "l \<noteq> ReadWrite" by auto
    with ReadOnly show ?thesis by (cases l) (simp_all add: less_eq_access_level_def)
  qed (simp add: level_cases)
  from mem ub show ?thesis by (intro Max_eqI [symmetric]) auto
qed

text \<open>A user name is looked up in lower case, the keys of the ACL are not converted.\<close>

lemma uppercase_key_never_matches:
  assumes "\<not> caseSensitiveNames a" "\<And>n rules. (n, rules) \<in> set acl \<Longrightarrow> to_lower n \<noteq> n"
  shows "getLevelFromACL a acl name grp project = NoAccess"
proof -
  have "to_lower (to_lower name) = to_lower name" by (simp add: to_lower_def char_lower_idem)
  with assms(2) have "map_of acl (to_lower name) = None" by (metis map_of_SomeD not_None_eq)
  with assms(1) show ?thesis by (simp add: getLevelFromACL_def)
qed

text \<open>Access is granted only after a bind as the user.\<close>

lemma ldap_grants:
  assumes "LdapAuthorizer env a r grp project w = (Inr lvl, w')"
  obtains username password conn dn w1 w2 w3 where
    "basicAuth env r = Some (username, password)" "dial env a w = (Inr (Some conn), w1)"
    "getUserBindDN env a conn username w1 = (Inr dn, w2)"
    "(if password \<noteq> [] then bind env conn dn password else unauthenticatedBind env conn dn) w2 = (Inr (), w3)"
    "getLevelFromACL a (userACL a) username grp project \<noteq> NoAccess \<and> lvl = getLevelFromACL a (userACL a) username grp project
     \<or> (\<exists>groups w4. getLDAPGroups env a conn dn username w3 = (Inr groups, w4) \<and> lvl = groups_level a grp project groups False)"
proof -
  from assms obtain username password conn w1 w2' where auth: "basicAuth env r = Some (username, password)"
    and dial: "dial env a w = (Inr (Some conn), w1)"
    and close: "(case ldap_session env a conn username password grp project w1 of
        (q, w') \<Rightarrow> (q, closeConn env conn w')) = (Inr lvl, w')"
    by (auto simp: LdapAuthorizer_def io_bind_Inr io_fail_run io_panic_run split: option.split_asm
        split del: prod.split prod.split_asm)
  from close obtain w2' where session: "ldap_session env a conn username password grp project w1 = (Inr lvl, w2')"
    by (cases "ldap_session env a conn username password grp project w1") auto
  from session obtain dn w2 w3 where
    dn: "getUserBindDN env a conn username w1 = (Inr dn, w2)"
      "(if password \<noteq> [] then bind env conn dn password else unauthenticatedBind env conn dn) w2 = (Inr (), w3)"
    and lvl: "(let userLevel = getLevelFromACL a (userACL a) username grp project in
      if userLevel \<noteq> NoAccess then io_ret userLevel
      else io_bind (getLDAPGroups env a conn dn username) (\<lambda>groups.
           io_ret (groups_level a grp project groups False))) w3 = (Inr lvl, w2')"
    by (auto simp: ldap_session_def io_bind_Inr)
  from lvl have "getLevelFromACL a (userACL a) username grp project \<noteq> NoAccess \<and> lvl = getLevelFromACL a (userACL a) username grp project
     \<or> (\<exists>groups w4. getLDAPGroups env a conn dn username w3 = (Inr groups, w4) \<and> lvl = groups_level a grp project groups False)"
    by (auto simp: Let_def io_ret_run io_bind_Inr split: if_splits)
  with that [OF auth dial dn] show thesis by blast
qed

end
