(* ===== verification/ApiOps.thy ===== *)
theory ApiOps
  imports ApiModel StorageOps Auth
begin

text \<open>
  The handlers of the HTTP API, \<^verbatim>\<open>api/api.go\<close>. A handler runs over the response being written and the
  rest of the world (\<open>apiWorld\<close>: storage, authorization backend). The path variables and the
  decoded JSON document of the body come with the request.
\<close>

section \<open>Requests and responses\<close>

record 'q request =
  reqAuth :: 'q
  varGroup :: string
  varProject :: string
  varID :: string
  reqBody :: "error + json"

text \<open>
  \<open>http.ResponseWriter\<close>: the first \<open>WriteHeader\<close> or \<open>Write\<close> sends the status and the headers
  set so far; headers set later are lost. \<open>jsonHeader\<close> is the header map's Content-Type,
  \<open>jsonSent\<close> whether it was sent.
\<close>

record response =
  status :: "int option"
  jsonHeader :: bool
  jsonSent :: bool
  body :: "json list"

record 'w api =
  resp :: response
  apiWorld :: 'w

record ('q, 'w) api_env =
  authz :: "('q, 'w) authorizer"
  store :: "'w storage_ops"
  schemaValidate :: "schema \<Rightarrow> json \<Rightarrow> error + string list"
  apiErrorText :: "error \<Rightarrow> string"

definition fresh_response :: response where
  "fresh_response = \<lparr>status = None, jsonHeader = False, jsonSent = False, body = []\<rparr>"

abbreviation on_api :: "('w, 'a) io \<Rightarrow> ('w api, 'a) io" where
  "on_api \<equiv> io_on apiWorld (\<lambda>w s. s\<lparr>apiWorld := w\<rparr>)"

definition send_status :: "int \<Rightarrow> response \<Rightarrow> response" where
  "send_status code r =
     (if status r = None then r\<lparr>status := Some code, jsonSent := jsonHeader r\<rparr> else r)"

definition WriteHeader :: "int \<Rightarrow> ('w api, unit) io" where
  "WriteHeader code = io_modify (\<lambda>s. s\<lparr>resp := send_status code (resp s)\<rparr>)"

text \<open>\<open>encoder(w).Encode(v)\<close>: nothing is written for a value that cannot be encoded.\<close>

definition encode :: "error + json \<Rightarrow> ('w api, unit) io" where
  "encode v =
     io_modify (\<lambda>s.
       let r = (resp s)\<lparr>jsonHeader := True\<rparr> in
       case v of
         Inl _ \<Rightarrow> s\<lparr>resp := r\<rparr>
       | Inr doc \<Rightarrow> s\<lparr>resp := (send_status 200 r)\<lparr>body := body r @ [doc]\<rparr>\<rparr>)"

definition enc_job :: "job \<Rightarrow> error + json" where
  "enc_job j =
     (case (enc_job_conf (JobConf j), enc_job_runtime (JobRuntime j)) of
        (JObj c, Inr (JObj r)) \<Rightarrow> Inr (JObj (c @ r))
      | (_, Inl e) \<Rightarrow> Inl e
      | _ \<Rightarrow> Inl (ErrMsg ''not an object''))"

fun enc_all :: "('a \<Rightarrow> error + json) \<Rightarrow> 'a list \<Rightarrow> error + json list" where
  "enc_all f [] = Inr []"
| "enc_all f (x # xs) =
     (case f x of Inl e \<Rightarrow> Inl e | Inr d \<Rightarrow> map_sum id (\<lambda>ds. d # ds) (enc_all f xs))"

definition enc_list :: "('a \<Rightarrow> error + json) \<Rightarrow> 'a list \<Rightarrow> error + json" where
  "enc_list f xs = map_sum id JArr (enc_all f xs)"

section \<open>Errors\<close>

definition errForbidden :: error where "errForbidden = ErrMsg ''Forbidden''"
definition errJobAlreadyExists :: error where "errJobAlreadyExists = ErrMsg ''Job already exists''"
definition errJobNotFound :: error where "errJobNotFound = ErrMsg ''Job not found''"

text \<open>\<open>w.WriteHeader(code); return err\<close>\<close>

definition reject :: "int \<Rightarrow> error \<Rightarrow> ('w api, 'a) io" where
  "reject code err = io_bind (WriteHeader code) (\<lambda>_. io_fail err)"

text \<open>A call of storage or authorizer whose failure is an internal server error.\<close>

definition or_500 :: "('w, 'a) io \<Rightarrow> ('a \<Rightarrow> ('w api, 'b) io) \<Rightarrow> ('w api, 'b) io" where
  "or_500 m f =
     io_try (on_api m) (\<lambda>r. case r of Inl err \<Rightarrow> reject 500 err | Inr x \<Rightarrow> f x)"

definition with_access ::
  "('q, 'w) api_env \<Rightarrow> 'q \<Rightarrow> string \<Rightarrow> string \<Rightarrow> access_level \<Rightarrow> ('w api, 'b) io \<Rightarrow> ('w api, 'b) io" where
  "with_access env r g p needed m =
     or_500 (authz env r g p) (\<lambda>lvl. if lvl < needed then reject 403 errForbidden else m)"

text \<open>The frame around a handler.\<close>

definition ServeHTTP :: "('q, 'w) api_env \<Rightarrow> ('w api, unit) io \<Rightarrow> ('w api, unit) io" where
  "ServeHTTP env h =
     io_try h (\<lambda>r.
       case r of
         Inr _ \<Rightarrow> io_ret ()
       | Inl err \<Rightarrow>
           encode (Inr (JObj [(''Errors'',
             JArr (map JStr (case err of ErrMulti errs \<Rightarrow> errs | _ \<Rightarrow> [apiErrorText env err])))])))"

section \<open>The server's state\<close>

text \<open>The handler of \<open>/health\<close>: the time in the format of \<open>time.UnixDate\<close>, the version, and whether this server leads.\<close>

definition api_health :: "string \<Rightarrow> string \<Rightarrow> bool \<Rightarrow> ('w api, unit) io" where
  "api_health now version leader =
     encode (Inr (JObj [(''ServerTime'', JStr now), (''Version'', JStr version), (''Leader'', JBool leader)]))"

section \<open>Reading\<close>

text \<open>The loop of \<open>filterReadableJobs\<close>; \<open>lvls\<close> caches the levels already asked for.\<close>

fun filter_readable ::
  "('q, 'w) api_env \<Rightarrow> 'q \<Rightarrow> (string \<times> access_level) list \<Rightarrow> job list \<Rightarrow> ('w, job list) io" where
  "filter_readable env r lvls [] = io_ret []"
| "filter_readable env r lvls (job # js) =
     (let jid = JobID (JobConf job); key = Group jid @ ''/'' @ Project jid in
      io_bind
        (case map_of lvls key of
           Some lvl \<Rightarrow> io_ret lvl
         | None \<Rightarrow> authz env r (Group jid) (Project jid)) (\<lambda>lvl.
      io_bind (filter_readable env r ((key, lvl) # lvls) js) (\<lambda>readable.
      io_ret (if lvl \<noteq> NoAccess then job # readable else readable))))"

definition filterReadableJobs :: "('q, 'w) api_env \<Rightarrow> 'q \<Rightarrow> job list \<Rightarrow> ('w, job list) io" where
  "filterReadableJobs env r js = filter_readable env r [] js"

definition api_getJobs :: "('q, 'w) api_env \<Rightarrow> 'q request \<Rightarrow> ('w api, unit) io" where
  "api_getJobs env r =
     or_500 (opGetJobs (store env)) (\<lambda>js.
     or_500 (filterReadableJobs env (reqAuth r) js) (\<lambda>readable.
     encode (enc_list enc_job readable)))"

definition api_getGroupJobs :: "('q, 'w) api_env \<Rightarrow> 'q request \<Rightarrow> ('w api, unit) io" where
  "api_getGroupJobs env r =
     or_500 (opGetGroupJobs (store env) (varGroup r)) (\<lambda>js.
     or_500 (filterReadableJobs env (reqAuth r) js) (\<lambda>readable.
     encode (enc_list enc_job readable)))"

definition api_getProjectJobs :: "('q, 'w) api_env \<Rightarrow> 'q request \<Rightarrow> ('w api, unit) io" where
  "api_getProjectJobs env r =
     with_access env (reqAuth r) (varGroup r) (varProject r) ReadOnly (
     or_500 (opGetProjectJobs (store env) (varGroup r) (varProject r)) (\<lambda>js.
     encode (enc_list enc_job js)))"

definition api_getJob :: "('q, 'w) api_env \<Rightarrow> 'q request \<Rightarrow> ('w api, unit) io" where
  "api_getJob env r =
     with_access env (reqAuth r) (varGroup r) (varProject r) ReadOnly (
     or_500 (opGetJob (store env) (varGroup r) (varProject r) (varID r)) (\<lambda>job.
       case job of None \<Rightarrow> WriteHeader 404 | Some j \<Rightarrow> encode (enc_job j)))"

text \<open>\<open>sort.Slice\<close> by the end of the tasks.\<close>

definition api_getTasks :: "('q, 'w) api_env \<Rightarrow> 'q request \<Rightarrow> ('w api, unit) io" where
  "api_getTasks env r =
     with_access env (reqAuth r) (varGroup r) (varProject r) ReadOnly (
     or_500 (opGetTasks (store env) (varGroup r) (varProject r) (varID r)) (\<lambda>tasks.
     encode (enc_list enc_task (sort_key taskEnd tasks))))"

section \<open>Writing\<close>

definition api_deleteJob :: "('q, 'w) api_env \<Rightarrow> 'q request \<Rightarrow> ('w api, unit) io" where
  "api_deleteJob env r =
     with_access env (reqAuth r) (varGroup r) (varProject r) ReadWrite (
     or_500 (opDeleteJob (store env) (varGroup r) (varProject r) (varID r)) (\<lambda>_. WriteHeader 204))"

definition api_runJob :: "('q, 'w) api_env \<Rightarrow> 'q request \<Rightarrow> ('w api, unit) io" where
  "api_runJob env r =
     with_access env (reqAuth r) (varGroup r) (varProject r) ReadWrite (
     or_500 (opQueueJob (store env) (varGroup r) (varProject r) (varID r)) (\<lambda>_. WriteHeader 204))"

text \<open>\<open>validateSchema\<close>: its errors are returned as they are, without a status.\<close>

definition validateSchema :: "('q, 'w) api_env \<Rightarrow> schema \<Rightarrow> json \<Rightarrow> error option" where
  "validateSchema env s payload =
     (case schemaValidate env s payload of
        Inl err \<Rightarrow> Some err
      | Inr errs \<Rightarrow> if errs \<noteq> [] then Some (ErrMulti errs) else None)"

definition decode_body ::
  "('q, 'w) api_env \<Rightarrow> (json \<Rightarrow> 'a \<Rightarrow> error + 'a) \<Rightarrow> 'a \<Rightarrow> error + json \<Rightarrow> ('a \<Rightarrow> ('w api, 'b) io) \<Rightarrow> ('w api, 'b) io" where
  "decode_body env d z doc f =
     (case (case doc of Inl err \<Rightarrow> Inl err | Inr v \<Rightarrow> d v z) of
        Inl err \<Rightarrow> reject 400 (ErrMsg (''JSON decoding failed: '' @ apiErrorText env err))
      | Inr payload \<Rightarrow> f payload)"

definition validated ::
  "('q, 'w) api_env \<Rightarrow> schema \<Rightarrow> json \<Rightarrow> ('w api, 'b) io \<Rightarrow> ('w api, 'b) io" where
  "validated env s v m = (case validateSchema env s v of Some err \<Rightarrow> io_fail err | None \<Rightarrow> m)"

definition payload_job :: "new_job_payload \<Rightarrow> job" where
  "payload_job p =
     \<lparr>JobConf =
        \<lparr>JobID = \<lparr>Group = npGroup p, Project = npProject p, ID = npID p\<rparr>,
         Schedule = \<lparr>scheduleType = Cron, scheduleCron = npCron p\<rparr>,
         Env = npEnv p, Secrets = npSecrets p,
         Container =
           (if dockerImage (npDocker p) \<noteq> []
            then \<lparr>containerType = Docker, containerDocker = Some (npDocker p), containerMesos = None\<rparr>
            else \<lparr>containerType = Mesos, containerDocker = None, containerMesos = Some (npMesos p)\<rparr>),
         CPUs = npCPUs p, Mem = npMem p, Disk = npDisk p, Cmd = npCmd p, User = npUser p,
         Shell = (case npShell p of None \<Rightarrow> True | Some b \<Rightarrow> b),
         Arguments = npArguments p, Labels = npLabels p, MaxRetries = npMaxRetries p\<rparr>,
      JobRuntime = zero_job_runtime\<lparr>State := IDLE\<rparr>\<rparr>"

definition api_createJob :: "('q, 'w) api_env \<Rightarrow> 'q request \<Rightarrow> ('w api, unit) io" where
  "api_createJob env r =
     decode_body env (dec_struct new_payload_field) zero_new_payload (reqBody r) (\<lambda>p.
     validated env newJobSchema (enc_new_payload p) (
     with_access env (reqAuth r) (npGroup p) (npProject p) ReadWrite (
     or_500 (opGetJob (store env) (npGroup p) (npProject p) (npID p)) (\<lambda>storedJob.
       if storedJob \<noteq> None then reject 400 errJobAlreadyExists
       else or_500 (opSaveJob (store env) (payload_job p)) (\<lambda>_. WriteHeader 204)))))"

text \<open>The container of an updated job; \<open>Inl\<close> is the missing image, or a nil dereference.\<close>

definition update_docker :: "update_docker \<Rightarrow> job_container \<Rightarrow> fault + job_container" where
  "update_docker d c =
     (let old = (case containerDocker c of None \<Rightarrow> \<lparr>dockerImage = [], forcePullImage = False\<rparr> | Some x \<Rightarrow> x);
          docker = \<lparr>dockerImage = (case udImage d of None \<Rightarrow> dockerImage old | Some i \<Rightarrow> i),
                    forcePullImage = (case udForcePullImage d of None \<Rightarrow> forcePullImage old | Some b \<Rightarrow> b)\<rparr> in
      if dockerImage docker = [] then Inl (Fail (ErrMsg ''container.docker.image is required''))
      else Inr \<lparr>containerType = Docker, containerDocker = Some docker, containerMesos = None\<rparr>)"

definition update_container :: "update_container \<Rightarrow> job_container \<Rightarrow> fault + job_container" where
  "update_container u c =
     (case ucDocker u of
        Some d \<Rightarrow> update_docker d c
      | None \<Rightarrow>
          (case ucMesos u of
             None \<Rightarrow> Inr c
           | Some None \<Rightarrow> Inl (Panic ''nil pointer dereference'')
           | Some (Some img) \<Rightarrow>
               Inr \<lparr>containerType = Mesos, containerDocker = None, containerMesos = Some \<lparr>mesosImage = img\<rparr>\<rparr>))"

definition or_else :: "'a \<Rightarrow> 'a option \<Rightarrow> 'a" where
  "or_else old new = (case new of None \<Rightarrow> old | Some x \<Rightarrow> x)"

definition update_conf :: "update_job_payload \<Rightarrow> job_conf \<Rightarrow> fault + job_conf" where
  "update_conf p c =
     (case (case upContainer p of None \<Rightarrow> Inr (Container c) | Some u \<Rightarrow> update_container u (Container c)) of
        Inl f \<Rightarrow> Inl f
      | Inr container \<Rightarrow>
          Inr (c\<lparr>Schedule := (case upSchedule p of
                   Some (Some cron) \<Rightarrow> \<lparr>scheduleType = Cron, scheduleCron = cron\<rparr> | _ \<Rightarrow> Schedule c),
               Env := or_else (Env c) (upEnv p), Secrets := or_else (Secrets c) (upSecrets p),
               Container := container, CPUs := or_else (CPUs c) (upCPUs p), Mem := or_else (Mem c) (upMem p),
               Disk := or_else (Disk c) (upDisk p), Cmd := or_else (Cmd c) (upCmd p),
               User := or_else (User c) (upUser p), Shell := or_else (Shell c) (upShell p),
               Arguments := or_else (Arguments c) (upArguments p), Labels := or_else (Labels c) (upLabels p),
               MaxRetries := or_else (MaxRetries c) (upMaxRetries p)\<rparr>))"

definition api_updateJob :: "('q, 'w) api_env \<Rightarrow> 'q request \<Rightarrow> ('w api, unit) io" where
  "api_updateJob env r =
     decode_body env (dec_struct update_payload_field) zero_update_payload (reqBody r) (\<lambda>p.
     validated env updateJobSchema (enc_update_payload p) (
     with_access env (reqAuth r) (varGroup r) (varProject r) ReadWrite (
     or_500 (opGetJobConf (store env) (varGroup r) (varProject r) (varID r)) (\<lambda>stored.
       case stored of
         None \<Rightarrow> reject 404 errJobNotFound
       | Some conf \<Rightarrow>
           (case update_conf p conf of
              Inl (Panic m) \<Rightarrow> io_panic m
            | Inl (Fail err) \<Rightarrow> reject 400 err
            | Inr conf' \<Rightarrow> or_500 (opSaveJobConf (store env) conf') (\<lambda>_. WriteHeader 204))))))"

end
