(* ===== verification/StorageLaws.thy ===== *)
theory StorageLaws
  imports StorageOps
begin

text \<open>
  What the storage operations do to the tree: views of the tree as configurations, runtimes and
  queue entries by fully qualified id, the invariant that the storage keeps its part of the tree
  well formed (\<open>tidy\<close>), and the effect of every operation on the views.
\<close>

section \<open>Paths\<close>

lemma parent_path_child: "CHR ''/'' \<notin> set n \<Longrightarrow> parent_path (p @ CHR ''/'' # n) = p"
  by (simp add: parent_path_def last_index_append)

lemmas path_defs = jobs_path_def job_path_def runtime_path_def tasks_path_def queue_path_def
  queued_path_def state_path_def

text \<open>A single path segment.\<close>

definition seg :: "string \<Rightarrow> bool" where
  "seg n \<longleftrightarrow> n \<noteq> [] \<and> CHR ''/'' \<notin> set n"

lemma job_path_inject [simp]: "job_path s a = job_path s b \<longleftrightarrow> a = b"
  by (simp add: path_defs)

lemma runtime_path_inject [simp]: "runtime_path s a = runtime_path s b \<longleftrightarrow> a = b"
  by (simp add: path_defs)

lemma queued_path_inject [simp]: "queued_path s a = queued_path s b \<longleftrightarrow> a = b"
  by (simp add: path_defs)

lemma takeWhile_seg: "seg a \<Longrightarrow> takeWhile (\<lambda>c. c \<noteq> CHR ''/'') (a @ CHR ''/'' # x) = a"
  by (auto simp: seg_def takeWhile_append)

lemma append_inject_tail: "seg a \<Longrightarrow> seg b \<Longrightarrow> a @ CHR ''/'' # x = b @ CHR ''/'' # y \<longleftrightarrow> a = b \<and> x = y"
  using takeWhile_seg [of a x] takeWhile_seg [of b y] by (metis list.inject same_append_eq)

lemma job_runtime_path_neq [simp]: "seg b \<Longrightarrow> runtime_path s a \<noteq> job_path s b"
  "seg b \<Longrightarrow> job_path s b \<noteq> runtime_path s a"
  by (auto simp: path_defs seg_def)

lemma job_tasks_path_neq [simp]: "seg b \<Longrightarrow> tasks_path s a \<noteq> job_path s b"
  "seg b \<Longrightarrow> job_path s b \<noteq> tasks_path s a"
  by (auto simp: path_defs seg_def)

lemma job_task_path_neq [simp]: "seg b \<Longrightarrow> tasks_path s a @ CHR ''/'' # k \<noteq> job_path s b"
  "seg b \<Longrightarrow> job_path s b \<noteq> tasks_path s a @ CHR ''/'' # k"
  by (auto simp: path_defs seg_def)

lemma runtime_tasks_path_neq [simp]: "seg a \<Longrightarrow> seg b \<Longrightarrow> tasks_path s a \<noteq> runtime_path s b"
  "seg a \<Longrightarrow> seg b \<Longrightarrow> runtime_path s b \<noteq> tasks_path s a"
  using append_inject_tail [of a b "''tasks''" "''runtime''"] by (auto simp: path_defs)

lemma runtime_task_path_neq [simp]:
  "seg a \<Longrightarrow> seg b \<Longrightarrow> tasks_path s a @ CHR ''/'' # k \<noteq> runtime_path s b"
  "seg a \<Longrightarrow> seg b \<Longrightarrow> runtime_path s b \<noteq> tasks_path s a @ CHR ''/'' # k"
  using append_inject_tail [of a b "''tasks/'' @ k" "''runtime''"] by (auto simp: path_defs)

lemma queued_job_path_neq [simp]:
  "queued_path s a \<noteq> job_path s b" "job_path s b \<noteq> queued_path s a"
  "queued_path s a \<noteq> runtime_path s b" "runtime_path s b \<noteq> queued_path s a"
  "queued_path s a \<noteq> tasks_path s b" "tasks_path s b \<noteq> queued_path s a"
  "queued_path s a \<noteq> tasks_path s b @ CHR ''/'' # k" "tasks_path s b @ CHR ''/'' # k \<noteq> queued_path s a"
  by (simp_all add: path_defs)

lemma state_path_neq [simp]:
  "state_path s \<noteq> job_path s b" "job_path s b \<noteq> state_path s"
  "state_path s \<noteq> runtime_path s b" "runtime_path s b \<noteq> state_path s"
  "state_path s \<noteq> queued_path s b" "queued_path s b \<noteq> state_path s"
  by (simp_all add: path_defs)

lemma fixed_path_neq [simp]:
  "jobs_path s \<noteq> job_path s b" "job_path s b \<noteq> jobs_path s"
  "queue_path s \<noteq> job_path s b" "job_path s b \<noteq> queue_path s"
  "jobs_path s \<noteq> runtime_path s b" "runtime_path s b \<noteq> jobs_path s"
  "queue_path s \<noteq> runtime_path s b" "runtime_path s b \<noteq> queue_path s"
  "dir s \<noteq> job_path s b" "job_path s b \<noteq> dir s" "dir s \<noteq> runtime_path s b" "runtime_path s b \<noteq> dir s"
  "dir s \<noteq> queued_path s b" "queued_path s b \<noteq> dir s"
  "jobs_path s \<noteq> queued_path s b" "queued_path s b \<noteq> jobs_path s"
  "queue_path s \<noteq> queued_path s b" "queued_path s b \<noteq> queue_path s"
  by (simp_all add: path_defs)

lemma parent_job_path: "seg fq \<Longrightarrow> parent_path (job_path s fq) = jobs_path s"
  using parent_path_child [of fq "jobs_path s"] by (simp add: job_path_def seg_def)

lemma parent_runtime_path: "parent_path (runtime_path s fq) = job_path s fq"
  using parent_path_child [of "''runtime''" "job_path s fq"] by (simp add: runtime_path_def)

lemma parent_queued_path: "seg fq \<Longrightarrow> parent_path (queued_path s fq) = queue_path s"
  using parent_path_child [of fq "queue_path s"] by (simp add: queued_path_def seg_def)

lemma job_path_nonempty [simp]: "job_path s fq \<noteq> []" "jobs_path s \<noteq> []" "queue_path s \<noteq> []"
  by (simp_all add: path_defs)

lemma job_names: "child_names v (jobs_path s) = {n. seg n \<and> v (job_path s n) \<noteq> None}"
  by (auto simp: child_names_def seg_def job_path_def)

lemma queued_names: "child_names v (queue_path s) = {n. seg n \<and> v (queued_path s n) \<noteq> None}"
  by (auto simp: child_names_def seg_def queued_path_def)

lemma fqid_of_JobID: "fqid_of (Group j) (Project j) (ID j) = JobID_String j"
  by (simp add: fqid_of_def JobID_String_def)

lemma seg_fqid: "wf_job_id j \<Longrightarrow> seg (JobID_String j)"
  using JobID_String_no_slash [of j] by (simp add: seg_def JobID_String_def)

section \<open>Views\<close>

definition doc_at :: "zk_view \<Rightarrow> string \<Rightarrow> json option" where
  "doc_at v p = (case v p of Some (d, _) \<Rightarrow> d | None \<Rightarrow> None)"

definition conf_at :: "'w zk_storage \<Rightarrow> zk_view \<Rightarrow> string \<Rightarrow> job_conf option" where
  "conf_at s v fq =
     (case doc_at v (job_path s fq) of None \<Rightarrow> None
      | Some doc \<Rightarrow> (case dec_job_conf doc zero_job_conf of Inl _ \<Rightarrow> None | Inr c \<Rightarrow> Some c))"

definition runtime_at :: "'w zk_storage \<Rightarrow> zk_view \<Rightarrow> string \<Rightarrow> job_runtime option" where
  "runtime_at s v fq =
     (case doc_at v (runtime_path s fq) of None \<Rightarrow> None
      | Some doc \<Rightarrow> (case dec_job_runtime doc zero_job_runtime of Inl _ \<Rightarrow> None | Inr r \<Rightarrow> Some r))"

definition queued_at :: "'w zk_storage \<Rightarrow> zk_view \<Rightarrow> string set" where
  "queued_at s v = {fq. seg fq \<and> v (queued_path s fq) \<noteq> None}"

text \<open>
  The storage's part of the tree is tidy: every job node holds the encoding of a well-formed
  configuration whose fully qualified id is the node's name, every runtime node the encoding of a
  well-formed runtime.
\<close>

definition job_node_ok :: "string \<Rightarrow> payload \<times> int \<Rightarrow> bool" where
  "job_node_ok fq n \<longleftrightarrow> (\<exists>c. fst n = Some (enc_job_conf c) \<and> wf_job_conf c \<and> FQID c = fq)"

definition runtime_node_ok :: "payload \<times> int \<Rightarrow> bool" where
  "runtime_node_ok n \<longleftrightarrow> (\<exists>r doc. fst n = Some doc \<and> enc_job_runtime r = Inr doc \<and> wf_job_runtime r)"

definition tidy :: "'w zk_storage \<Rightarrow> zk_view \<Rightarrow> bool" where
  "tidy s v \<longleftrightarrow>
     (\<forall>fq n. seg fq \<longrightarrow> v (job_path s fq) = Some n \<longrightarrow> job_node_ok fq n)
     \<and> (\<forall>fq n. seg fq \<longrightarrow> v (runtime_path s fq) = Some n \<longrightarrow> runtime_node_ok n)"

lemma tidyD:
  "tidy s v \<Longrightarrow> seg fq \<Longrightarrow> v (job_path s fq) = Some n \<Longrightarrow> job_node_ok fq n"
  "tidy s v \<Longrightarrow> seg fq \<Longrightarrow> v (runtime_path s fq) = Some n \<Longrightarrow> runtime_node_ok n"
  unfolding tidy_def by blast+

lemma tidy_delete: "tidy s v \<Longrightarrow> tidy s (v(p := None))"
  by (simp add: tidy_def)

lemma tidy_other:
  assumes "tidy s v" "\<And>fq. seg fq \<Longrightarrow> p \<noteq> job_path s fq" "\<And>fq. seg fq \<Longrightarrow> p \<noteq> runtime_path s fq"
  shows "tidy s (v(p \<mapsto> n))"
  using assms by (force simp: tidy_def)

lemma tidy_job_node: "tidy s v \<Longrightarrow> seg fq \<Longrightarrow> job_node_ok fq n \<Longrightarrow> tidy s (v(job_path s fq \<mapsto> n))"
  by (auto simp: tidy_def)

lemma tidy_runtime_node: "tidy s v \<Longrightarrow> seg fq \<Longrightarrow> runtime_node_ok n \<Longrightarrow> tidy s (v(runtime_path s fq \<mapsto> n))"
  by (auto simp: tidy_def)

lemma conf_at_of_node:
  "v (job_path s fq) = Some (Some (enc_job_conf c), n) \<Longrightarrow> wf_job_conf c \<Longrightarrow> conf_at s v fq = Some c"
  by (simp add: conf_at_def doc_at_def dec_enc_job_conf)

lemma runtime_at_of_node:
  "v (runtime_path s fq) = Some (Some doc, n) \<Longrightarrow> enc_job_runtime r = Inr doc \<Longrightarrow> wf_job_runtime r \<Longrightarrow>
   runtime_at s v fq = Some r"
  by (simp add: runtime_at_def doc_at_def dec_enc_job_runtime)

lemma conf_at_None: "v (job_path s fq) = None \<Longrightarrow> conf_at s v fq = None"
  by (simp add: conf_at_def doc_at_def)

lemma runtime_at_None: "v (runtime_path s fq) = None \<Longrightarrow> runtime_at s v fq = None"
  by (simp add: runtime_at_def doc_at_def)

lemma conf_at_cong: "v (job_path s fq) = v' (job_path s fq) \<Longrightarrow> conf_at s v fq = conf_at s v' fq"
  by (simp add: conf_at_def doc_at_def)

lemma runtime_at_cong: "v (runtime_path s fq) = v' (runtime_path s fq) \<Longrightarrow> runtime_at s v fq = runtime_at s v' fq"
  by (simp add: runtime_at_def doc_at_def)

text \<open>In a tidy tree a node exists exactly when its view is defined.\<close>

lemma tidy_conf_iff:
  assumes "tidy s v" "seg fq"
  shows "v (job_path s fq) \<noteq> None \<longleftrightarrow> conf_at s v fq \<noteq> None"
proof
  assume "v (job_path s fq) \<noteq> None"
  then obtain n where n: "v (job_path s fq) = Some n" by blast
  with tidyD(1) [OF assms] obtain c where "fst n = Some (enc_job_conf c)" "wf_job_conf c"
    by (auto simp: job_node_ok_def)
  with n show "conf_at s v fq \<noteq> None"
    by (cases n) (auto dest: conf_at_of_node)
qed (metis conf_at_None)

lemma tidy_FQID:
  assumes "tidy s v" "seg fq" "conf_at s v fq = Some c"
  shows "FQID c = fq" "wf_job_conf c"
proof -
  from assms(3) obtain n where n: "v (job_path s fq) = Some n"
    by (cases "v (job_path s fq)") (simp_all add: conf_at_None)
  with tidyD(1) [OF assms(1,2)] obtain c' where "fst n = Some (enc_job_conf c')" "wf_job_conf c'" "FQID c' = fq"
    by (auto simp: job_node_ok_def)
  with n assms(3) show "FQID c = fq" "wf_job_conf c"
    by (cases n; auto dest: conf_at_of_node)+
qed

end
