(* ===== verification/Storage.thy ===== *)
theory Storage
  imports StorageLaws
begin

text \<open>
  The storage operations over a ZooKeeper that behaves as documented (locale \<open>zk_store\<close>): what a
  successful call has read or written, and how any call, failed ones included, may move the tree.
\<close>

locale zk_store = zookeeper "conn s" tree for s :: "'w zk_storage" and tree :: "'w \<Rightarrow> zk_view"
begin

section \<open>Successful calls\<close>

lemma read_node_ok:
  assumes "read_node s d z p w = (Inr x, w')"
  shows "tree w' = tree w"
    and "x = None \<longleftrightarrow> tree w p = None"
    and "x = Some y \<Longrightarrow> \<exists>doc n. tree w p = Some (Some doc, n) \<and> d doc z = Inr y"
  using assms
  by (auto simp: read_node_def unmarshal_def io_simps split: if_splits option.splits
      dest: get_no_node get_ok)

lemma set_or_create_ok:
  assumes "set_or_create s p doc w = (Inr (), w')"
  obtains n where "tree w' = (tree w)(p \<mapsto> (Some doc, n))" "tree w p \<noteq> None \<or> parent_exists (tree w) p"
  using assms
  by (auto simp: set_or_create_def io_simps split: if_splits dest!: set_ok create_ok set_no_node)

lemma create_if_missing_ok:
  assumes "create_if_missing s p d w = (Inr (), w')"
  shows "tree w' = (if tree w p = None then (tree w)(p \<mapsto> (d, 0)) else tree w)"
  using assms
  by (auto simp: create_if_missing_def io_simps split: if_splits dest!: create_ok create_exists)

lemma delete_if_present_ok:
  assumes "delete_if_present s p ver w = (Inr (), w')"
  shows "tree w' = (tree w)(p := None)" "child_names (tree w) p = {} \<or> tree w p = None"
  using assms
  by (auto simp: delete_if_present_def io_simps fun_upd_idem split: if_splits dest!: delete_ok delete_no_node)

lemma children_if_present_ok:
  assumes "children_if_present s p w = (Inr ns, w')"
  shows "tree w' = tree w" "tree w p \<noteq> None \<Longrightarrow> set ns = child_names (tree w) p"
    "tree w p = None \<Longrightarrow> ns = []"
  using assms
  by (auto simp: children_if_present_def io_simps split: if_splits dest: children_ok children_no_node)

lemma delete_all_ok:
  assumes "io_for ks (\<lambda>k. delete_if_present s (p @ ''/'' @ k) 0) w = (Inr us, w')"
  shows "tree w' = (\<lambda>q. if q \<in> (\<lambda>k. p @ CHR ''/'' # k) ` set ks then None else tree w q)"
  using assms
proof (induction ks arbitrary: w us)
  case (Cons k ks)
  from Cons.prems obtain w1 us' where first: "delete_if_present s (p @ ''/'' @ k) 0 w = (Inr (), w1)"
    and rest: "io_for ks (\<lambda>k. delete_if_present s (p @ ''/'' @ k) 0) w1 = (Inr us', w')"
    by (auto simp: io_simps)
  from delete_if_present_ok(1) [OF first] Cons.IH [OF rest] show ?case by (auto simp: fun_eq_iff)
qed (simp add: io_simps)

section \<open>Any call\<close>

lemma keeps_read_node [keeps_intros]: "keeps tree (read_node s d z p)"
  unfolding read_node_def unmarshal_def
  by (rule keeps_try) (auto intro!: keeps_intros split: sum.splits)

lemma keeps_children_if_present [keeps_intros]: "keeps tree (children_if_present s p)"
  unfolding children_if_present_def
  by (rule keeps_try) (auto intro!: keeps_intros split: sum.splits)

lemma moves_zk_set:
  assumes "preorder_rel R" "\<And>v n. R v (v(p \<mapsto> (d, n)))"
  shows "moves R tree (io_of_zk (zkSet (conn s) p d ver))"
proof (rule movesI)
  fix w r w'
  assume "io_of_zk (zkSet (conn s) p d ver) w = (r, w')"
  then obtain q where "zkSet (conn s) p d ver w = (q, w')"
    by (auto simp: io_of_zk_def split: prod.splits sum.splits)
  from zk_set [OF this] show "R (tree w) (tree w')"
    using assms by (auto simp: set_spec_def preorder_refl [OF assms(1)] split: option.splits if_splits)
qed

lemma moves_zk_create:
  assumes "preorder_rel R" "\<And>v n. R v (v(p \<mapsto> (d, n)))"
  shows "moves R tree (io_of_zk (zkCreate (conn s) p d 0 a))"
proof (rule movesI)
  fix w r w'
  assume "io_of_zk (zkCreate (conn s) p d 0 a) w = (r, w')"
  then obtain q where "zkCreate (conn s) p d 0 a w = (q, w')"
    by (auto simp: io_of_zk_def split: prod.splits sum.splits)
  from zk_create [OF this] show "R (tree w) (tree w')"
    using assms by (auto simp: create_spec_def preorder_refl [OF assms(1)] split: if_splits)
qed

lemma moves_zk_delete:
  assumes "preorder_rel R" "\<And>v. R v (v(p := None))"
  shows "moves R tree (io_of_zk (zkDelete (conn s) p ver))"
proof (rule movesI)
  fix w r w'
  assume "io_of_zk (zkDelete (conn s) p ver) w = (r, w')"
  then obtain q where "zkDelete (conn s) p ver w = (q, w')"
    by (auto simp: io_of_zk_def split: prod.splits sum.splits)
  from zk_delete [OF this] show "R (tree w) (tree w')"
    using assms by (auto simp: delete_spec_def preorder_refl [OF assms(1)] split: option.splits if_splits)
qed

lemma moves_set_or_create:
  assumes "preorder_rel R" "\<And>v n. R v (v(p \<mapsto> (Some doc, n)))"
  shows "moves R tree (set_or_create s p doc)"
  unfolding set_or_create_def
  using assms
  by (auto intro!: moves_intros moves_zk_set moves_zk_create split: sum.splits)

lemma moves_create_if_missing:
  assumes "preorder_rel R" "\<And>v n. R v (v(p \<mapsto> (d, n)))"
  shows "moves R tree (create_if_missing s p d)"
  unfolding create_if_missing_def
  using assms by (auto intro!: moves_intros moves_zk_create split: sum.splits)

lemma moves_delete_if_present:
  assumes "preorder_rel R" "\<And>v. R v (v(p := None))"
  shows "moves R tree (delete_if_present s p ver)"
  unfolding delete_if_present_def
  using assms by (auto intro!: moves_intros moves_zk_delete split: sum.splits)

text \<open>Which nodes an operation may write.\<close>

lemma moves_DeleteJob:
  assumes "preorder_rel R" "\<And>v p. p = job_path s (fqid_of g pr i) \<or> p = runtime_path s (fqid_of g pr i)
      \<or> p = tasks_path s (fqid_of g pr i) \<or> (\<exists>k. p = tasks_path s (fqid_of g pr i) @ CHR ''/'' # k)
      \<Longrightarrow> R v (v(p := None))"
  shows "moves R tree (DeleteJob s g pr i)"
  unfolding DeleteJob_def Let_def
  using assms
  by (auto intro!: moves_intros moves_delete_if_present moves_of_keeps [OF _ keeps_children_if_present])

lemma moves_AddTask:
  assumes "preorder_rel R"
    "\<And>v p d n. p = tasks_path s (fqid_of g pr i) \<or> (\<exists>k. p = tasks_path s (fqid_of g pr i) @ CHR ''/'' # k)
      \<Longrightarrow> R v (v(p \<mapsto> (d, n)))"
  shows "moves R tree (AddTask s g pr i t)"
  unfolding AddTask_def Let_def
  using assms by (auto intro!: moves_intros moves_zk_create split: sum.splits)

lemma moves_SaveJobConf:
  assumes "preorder_rel R" "\<And>v n. R v (v(job_path s (FQID c) \<mapsto> (Some (enc_job_conf c), n)))"
  shows "moves R tree (SaveJobConf s c)"
  using assms unfolding SaveJobConf_def FQID_def
  by (simp add: moves_set_or_create fqid_of_JobID)

lemma moves_SaveJobRuntime:
  assumes "preorder_rel R"
    "\<And>v n doc. enc_job_runtime r = Inr doc \<Longrightarrow> R v (v(runtime_path s (fqid_of g pr i) \<mapsto> (Some doc, n)))"
  shows "moves R tree (SaveJobRuntime s g pr i r)"
proof (cases "enc_job_runtime r")
  case (Inl e)
  with assms(1) show ?thesis
    by (auto simp: SaveJobRuntime_def moves_def io_bind_def io_of_sum_def preorder_refl)
next
  case (Inr doc)
  then have "SaveJobRuntime s g pr i r = set_or_create s (runtime_path s (fqid_of g pr i)) doc"
    by (rule_tac ext) (simp add: SaveJobRuntime_def io_bind_def io_of_sum_def)
  with Inr assms show ?thesis by (simp add: moves_set_or_create)
qed

lemma keeps_load_job [keeps_intros]: "keeps tree (load_job s n)"
  unfolding load_job_def unmarshal_def by (auto intro!: keeps_intros)

lemma keeps_GetJobConf [keeps_intros]: "keeps tree (GetJobConf s g p i)"
  unfolding GetJobConf_def by (rule keeps_read_node)

lemma keeps_GetJobRuntime [keeps_intros]: "keeps tree (GetJobRuntime s g p i)"
  unfolding GetJobRuntime_def by (rule keeps_read_node)

lemma keeps_GetJob [keeps_intros]: "keeps tree (GetJob s g p i)"
  unfolding GetJob_def by (auto intro!: keeps_intros split: option.splits)

lemma keeps_GetJobs [keeps_intros]: "keeps tree (GetJobs s)"
  unfolding GetJobs_def by (auto intro!: keeps_intros)

lemma keeps_GetQueuedJobsIDs [keeps_intros]: "keeps tree (GetQueuedJobsIDs s)"
  unfolding GetQueuedJobsIDs_def queued_job_id_def by (auto intro!: keeps_intros split: list.splits)

lemma keeps_GetTasks [keeps_intros]: "keeps tree (GetTasks s g p i)"
  unfolding GetTasks_def Let_def unmarshal_def by (auto intro!: keeps_intros)

end

end
