(* ===== verification/JobStore.thy ===== *)
theory JobStore
  imports Storage
begin

text \<open>
  The contract \<open>job_store\<close> between the storage and its clients (API server, scheduler, offers tuner,
  reconciliation), and the proof that the ZooKeeper-backed storage keeps it. A store is seen as the
  configurations and runtimes by fully qualified id and the set of queued ids.
\<close>

section \<open>The contract\<close>

locale job_store =
  fixes stor :: "'w storage_ops"
    and inv :: "'w \<Rightarrow> bool"
    and confs :: "'w \<Rightarrow> string \<Rightarrow> job_conf option"
    and runtimes :: "'w \<Rightarrow> string \<Rightarrow> job_runtime option"
    and queue :: "'w \<Rightarrow> string set"
  assumes reads: "keeps (\<lambda>w. (inv w, confs w, runtimes w, queue w)) (opGetJobs stor)"
      "keeps (\<lambda>w. (inv w, confs w, runtimes w, queue w)) (opGetJob stor g p i)"
      "keeps (\<lambda>w. (inv w, confs w, runtimes w, queue w)) (opGetJobConf stor g p i)"
      "keeps (\<lambda>w. (inv w, confs w, runtimes w, queue w)) (opGetQueuedJobsIDs stor)"
      "keeps (\<lambda>w. (inv w, confs w, runtimes w, queue w)) (opGetTasks stor g p i)"
    and get_conf: "inv w \<Longrightarrow> seg (fqid_of g p i) \<Longrightarrow> opGetJobConf stor g p i w = (Inr oc, w') \<Longrightarrow>
      oc = confs w (fqid_of g p i)"
    and get_job: "inv w \<Longrightarrow> seg (fqid_of g p i) \<Longrightarrow> opGetJob stor g p i w = (Inr oj, w') \<Longrightarrow>
      oj = (case (confs w (fqid_of g p i), runtimes w (fqid_of g p i)) of
             (Some c, Some r) \<Rightarrow> Some \<lparr>JobConf = c, JobRuntime = r\<rparr> | _ \<Rightarrow> None)"
    and get_jobs: "inv w \<Longrightarrow> opGetJobs stor w = (Inr js, w') \<Longrightarrow>
      distinct (map job_fqid js) \<and> dom (confs w) \<subseteq> dom (runtimes w)
      \<and> (\<forall>j. j \<in> set js \<longleftrightarrow>
            confs w (job_fqid j) = Some (JobConf j) \<and> runtimes w (job_fqid j) = Some (JobRuntime j))"
    and keyed: "inv w \<Longrightarrow> confs w fq = Some c \<Longrightarrow> FQID c = fq \<and> wf_job_conf c"
    and save_conf: "inv w \<Longrightarrow> wf_job_conf c \<Longrightarrow> seg (FQID c) \<Longrightarrow> opSaveJobConf stor c w = (q, w') \<Longrightarrow>
      inv w' \<and> runtimes w' = runtimes w \<and> queue w' = queue w
      \<and> (if q = Inr () then confs w' = (confs w)(FQID c \<mapsto> c)
         else confs w' = confs w \<or> confs w' = (confs w)(FQID c \<mapsto> c))"
    and save_runtime: "inv w \<Longrightarrow> wf_job_runtime rt \<Longrightarrow> seg (fqid_of g p i) \<Longrightarrow>
      opSaveJobRuntime stor g p i rt w = (q, w') \<Longrightarrow>
      inv w' \<and> confs w' = confs w \<and> queue w' = queue w
      \<and> (if q = Inr () then runtimes w' = (runtimes w)(fqid_of g p i \<mapsto> rt)
         else runtimes w' = runtimes w \<or> runtimes w' = (runtimes w)(fqid_of g p i \<mapsto> rt))"
    and save_job: "inv w \<Longrightarrow> wf_job_conf (JobConf j) \<Longrightarrow> wf_job_runtime (JobRuntime j) \<Longrightarrow> seg (job_fqid j) \<Longrightarrow>
      opSaveJob stor j w = (q, w') \<Longrightarrow>
      inv w' \<and> queue w' = queue w
      \<and> (\<forall>fq. fq \<noteq> job_fqid j \<longrightarrow> confs w' fq = confs w fq \<and> runtimes w' fq = runtimes w fq)
      \<and> (q = Inr () \<longrightarrow> confs w' (job_fqid j) = Some (JobConf j) \<and> runtimes w' (job_fqid j) = Some (JobRuntime j))"
    and delete_job: "inv w \<Longrightarrow> seg (fqid_of g p i) \<Longrightarrow> opDeleteJob stor g p i w = (q, w') \<Longrightarrow>
      inv w' \<and> queue w' = queue w
      \<and> (\<forall>fq. fq \<noteq> fqid_of g p i \<longrightarrow> confs w' fq = confs w fq \<and> runtimes w' fq = runtimes w fq)
      \<and> (q = Inr () \<longrightarrow> confs w' (fqid_of g p i) = None \<and> runtimes w' (fqid_of g p i) = None)"
    and queue_job: "inv w \<Longrightarrow> seg (fqid_of g p i) \<Longrightarrow> opQueueJob stor g p i w = (q, w') \<Longrightarrow>
      inv w' \<and> confs w' = confs w \<and> runtimes w' = runtimes w
      \<and> (if q = Inr () then queue w' = insert (fqid_of g p i) (queue w)
         else queue w' = queue w \<or> queue w' = insert (fqid_of g p i) (queue w))"
    and dequeue_job: "inv w \<Longrightarrow> seg (fqid_of g p i) \<Longrightarrow> opDequeueJob stor g p i w = (q, w') \<Longrightarrow>
      inv w' \<and> confs w' = confs w \<and> runtimes w' = runtimes w
      \<and> (if q = Inr () then queue w' = queue w - {fqid_of g p i}
         else queue w' = queue w \<or> queue w' = queue w - {fqid_of g p i})"
    and get_queued: "inv w \<Longrightarrow> (\<forall>fq \<in> queue w. \<exists>j. ParseJobID fq = Inr j) \<Longrightarrow>
      opGetQueuedJobsIDs stor w = (Inr ids, w') \<Longrightarrow> JobID_String ` set ids = queue w"
    and add_task: "seg (fqid_of g p i) \<Longrightarrow>
      keeps (\<lambda>w. (confs w, runtimes w, queue w)) (opAddTask stor g p i t)"
      "seg (fqid_of g p i) \<Longrightarrow> inv w \<Longrightarrow> opAddTask stor g p i t w = (q, w') \<Longrightarrow> inv w'"
begin

lemma save_then_get_job:
  assumes "inv w" "wf_job_conf (JobConf j)" "wf_job_runtime (JobRuntime j)" "seg (job_fqid j)"
    and "opSaveJob stor j w = (Inr (), w1)"
    and "opGetJob stor (Group (JobID (JobConf j))) (Project (JobID (JobConf j))) (ID (JobID (JobConf j))) w1
         = (Inr oj, w2)"
  shows "oj = Some j"
proof -
  have fq: "fqid_of (Group (JobID (JobConf j))) (Project (JobID (JobConf j))) (ID (JobID (JobConf j)))
      = job_fqid j"
    by (simp add: fqid_of_JobID FQID_def)
  from save_job [OF assms(1-5)] have "inv w1" "confs w1 (job_fqid j) = Some (JobConf j)"
    "runtimes w1 (job_fqid j) = Some (JobRuntime j)" by auto
  with get_job [OF _ _ assms(6)] fq assms(4) show ?thesis by simp
qed

text \<open>A job whose runtime is missing makes the whole listing fail.\<close>

lemma orphan_fails_get_jobs:
  assumes "inv w" "confs w fq = Some c" "runtimes w fq = None" "opGetJobs stor w = (q, w')"
  obtains e where "q = Inl e"
  using assms get_jobs [of w] by (cases q) auto

end

section \<open>The ZooKeeper-backed storage keeps it\<close>

definition stored_confs :: "'w zk_storage \<Rightarrow> zk_view \<Rightarrow> string \<Rightarrow> job_conf option" where
  "stored_confs s v fq = (if seg fq then conf_at s v fq else None)"

definition stored_runtimes :: "'w zk_storage \<Rightarrow> zk_view \<Rightarrow> string \<Rightarrow> job_runtime option" where
  "stored_runtimes s v fq = (if seg fq then runtime_at s v fq else None)"

lemma runtime_at_tidy:
  assumes "tidy s v" "seg fq" "v (runtime_path s fq) = Some n"
  obtains r doc where "fst n = Some doc" "enc_job_runtime r = Inr doc" "wf_job_runtime r"
    "runtime_at s v fq = Some r"
proof -
  from tidyD(2) [OF assms] obtain r doc where n: "fst n = Some doc" "enc_job_runtime r = Inr doc"
    "wf_job_runtime r" by (auto simp: runtime_node_ok_def)
  moreover have "runtime_at s v fq = Some r"
    using n assms(3) by (cases n) (auto intro: runtime_at_of_node)
  ultimately show ?thesis by (rule that)
qed

lemma conf_at_tidy:
  assumes "tidy s v" "seg fq" "v (job_path s fq) = Some n"
  obtains c where "fst n = Some (enc_job_conf c)" "wf_job_conf c" "FQID c = fq" "conf_at s v fq = Some c"
proof -
  from tidyD(1) [OF assms] obtain c where n: "fst n = Some (enc_job_conf c)" "wf_job_conf c" "FQID c = fq"
    by (auto simp: job_node_ok_def)
  moreover have "conf_at s v fq = Some c"
    using n assms(3) by (cases n) (auto intro: conf_at_of_node)
  ultimately show ?thesis by (rule that)
qed

context zk_store
begin

lemma load_job_ok:
  assumes "tidy s (tree w)" "seg n" "load_job s n w = (Inr j, w')"
  shows "conf_at s (tree w) n = Some (JobConf j)" "runtime_at s (tree w) n = Some (JobRuntime j)"
    "job_fqid j = n"
proof -
  from assms(3) obtain d1 n1 w1 j1 d2 n2 w2 where
      run: "zkGet (conn s) (job_path s n) w = (Inr (Some d1, n1), w1)"
      "dec_job d1 zero_job = Inr j1"
      "zkGet (conn s) (runtime_path s n) w1 = (Inr (Some d2, n2), w2)"
      "dec_job d2 j1 = Inr j"
    by (auto simp: load_job_def unmarshal_def io_simps split: option.splits)
  from get_ok [OF run(1)] get_ok [OF run(3)]
  have nodes: "tree w (job_path s n) = Some (Some d1, n1)" "tree w (runtime_path s n) = Some (Some d2, n2)"
    by auto
  from conf_at_tidy [OF assms(1,2) nodes(1)] obtain c where
      c: "d1 = enc_job_conf c" "wf_job_conf c" "FQID c = n" "conf_at s (tree w) n = Some c" by auto
  from runtime_at_tidy [OF assms(1,2) nodes(2)] obtain r where
      r: "enc_job_runtime r = Inr d2" "wf_job_runtime r" "runtime_at s (tree w) n = Some r" by auto
  from run(2) c dec_enc_job_conf_in_job [OF c(2)] have "j1 = zero_job\<lparr>JobConf := c\<rparr>" by simp
  with run(4) dec_enc_job_runtime_in_job [OF r(1,2), of j1] have "JobConf j = c" "JobRuntime j = r"
    by (auto simp: zero_job_def)
  with c r show "conf_at s (tree w) n = Some (JobConf j)" "runtime_at s (tree w) n = Some (JobRuntime j)"
    "job_fqid j = n" by auto
qed

lemma GetJobs_ok:
  assumes "tidy s (tree w)" "GetJobs s w = (Inr js, w')"
  shows "distinct (map job_fqid js)" "dom (stored_confs s (tree w)) \<subseteq> dom (stored_runtimes s (tree w))"
    "j \<in> set js \<longleftrightarrow> stored_confs s (tree w) (job_fqid j) = Some (JobConf j)
       \<and> stored_runtimes s (tree w) (job_fqid j) = Some (JobRuntime j)"
proof -
  from assms(2) obtain ns w1 where ns: "zkChildren (conn s) (jobs_path s) w = (Inr ns, w1)"
    and loop: "io_for ns (load_job s) w1 = (Inr js, w')"
    by (auto simp: GetJobs_def io_simps)
  from children_ok [OF ns] have names: "distinct ns" "set ns = {n. seg n \<and> tree w (job_path s n) \<noteq> None}"
    and w1: "tree w1 = tree w" by (simp_all add: job_names)
  have "list_all2 (\<lambda>n j. seg n \<longrightarrow> conf_at s (tree w) n = Some (JobConf j)
      \<and> runtime_at s (tree w) n = Some (JobRuntime j) \<and> job_fqid j = n) ns js"
  proof (rule io_for_list_all2 [OF loop keeps_load_job], intro impI)
    fix n j wa wb
    assume "tree wa = tree w1" "load_job s n wa = (Inr j, wb)" "seg n"
    with load_job_ok [of wa n j wb] assms(1) w1
    show "conf_at s (tree w) n = Some (JobConf j) \<and> runtime_at s (tree w) n = Some (JobRuntime j)
        \<and> job_fqid j = n" by simp
  qed
  then have all: "list_all2 (\<lambda>n j. seg n \<and> conf_at s (tree w) n = Some (JobConf j)
      \<and> runtime_at s (tree w) n = Some (JobRuntime j) \<and> job_fqid j = n) ns js"
    by (rule list.rel_mono_strong) (use names in auto)
  then have keys: "map job_fqid js = ns"
    by (induction ns js rule: list_all2_induct) auto
  with names show "distinct (map job_fqid js)" by simp
  have loaded: "seg (job_fqid j) \<and> conf_at s (tree w) (job_fqid j) = Some (JobConf j)
      \<and> runtime_at s (tree w) (job_fqid j) = Some (JobRuntime j)" if "j \<in> set js" for j
    using all that by (induction ns js rule: list_all2_induct) auto
  have listed: "\<exists>j \<in> set js. job_fqid j = n" if "stored_confs s (tree w) n = Some c" for n c
  proof -
    from that have "seg n" "conf_at s (tree w) n \<noteq> None"
      by (auto simp: stored_confs_def split: if_splits)
    with tidy_conf_iff [OF assms(1), of n] names(2) keys show ?thesis by force
  qed
  show "dom (stored_confs s (tree w)) \<subseteq> dom (stored_runtimes s (tree w))"
  proof
    fix n assume "n \<in> dom (stored_confs s (tree w))"
    then obtain j where "j \<in> set js" "job_fqid j = n" using listed by blast
    with loaded [of j] show "n \<in> dom (stored_runtimes s (tree w))"
      by (auto simp: stored_runtimes_def)
  qed
  show "j \<in> set js \<longleftrightarrow> stored_confs s (tree w) (job_fqid j) = Some (JobConf j)
       \<and> stored_runtimes s (tree w) (job_fqid j) = Some (JobRuntime j)" (is "_ \<longleftrightarrow> ?R")
  proof
    assume "j \<in> set js"
    then show ?R using loaded [of j] by (simp add: stored_confs_def stored_runtimes_def)
  next
    assume R: ?R
    then obtain j' where j': "j' \<in> set js" "job_fqid j' = job_fqid j" using listed by blast
    with loaded [of j'] R have "JobConf j' = JobConf j" "JobRuntime j' = JobRuntime j"
      by (auto simp: stored_confs_def stored_runtimes_def split: if_splits)
    with j'(1) show "j \<in> set js" by (metis job.equality old.unit.exhaust)
  qed
qed

end

subsection \<open>Views after a write\<close>

lemma conf_at_other: "p \<noteq> job_path s fq \<Longrightarrow> conf_at s (v(p := x)) fq = conf_at s v fq"
  by (rule conf_at_cong) auto

lemma runtime_at_other: "p \<noteq> runtime_path s fq \<Longrightarrow> runtime_at s (v(p := x)) fq = runtime_at s v fq"
  by (rule runtime_at_cong) auto

lemma stored_confs_other:
  assumes "\<And>fq. seg fq \<Longrightarrow> p \<noteq> job_path s fq"
  shows "stored_confs s (v(p := x)) = stored_confs s v"
proof
  fix fq
  show "stored_confs s (v(p := x)) fq = stored_confs s v fq"
    using conf_at_other [OF assms, of fq] by (simp add: stored_confs_def)
qed

lemma stored_runtimes_other:
  assumes "\<And>fq. seg fq \<Longrightarrow> p \<noteq> runtime_path s fq"
  shows "stored_runtimes s (v(p := x)) = stored_runtimes s v"
proof
  fix fq
  show "stored_runtimes s (v(p := x)) fq = stored_runtimes s v fq"
    using runtime_at_other [OF assms, of fq] by (simp add: stored_runtimes_def)
qed

lemma queued_at_other: "(\<And>fq. seg fq \<Longrightarrow> p \<noteq> queued_path s fq) \<Longrightarrow> queued_at s (v(p := x)) = queued_at s v"
  by (auto simp: queued_at_def)

lemma stored_confs_upd:
  assumes "seg (FQID c)" "wf_job_conf c"
  shows "stored_confs s (v(job_path s (FQID c) \<mapsto> (Some (enc_job_conf c), n))) = (stored_confs s v)(FQID c \<mapsto> c)"
proof
  fix fq
  show "stored_confs s (v(job_path s (FQID c) \<mapsto> (Some (enc_job_conf c), n))) fq
      = ((stored_confs s v)(FQID c \<mapsto> c)) fq"
  proof (cases "fq = FQID c")
    case True
    with assms show ?thesis
      by (auto simp: stored_confs_def intro!: conf_at_of_node)
  next
    case False
    then show ?thesis by (auto simp: stored_confs_def intro!: conf_at_cong)
  qed
qed

lemma stored_runtimes_upd:
  assumes "seg fq" "enc_job_runtime r = Inr doc" "wf_job_runtime r"
  shows "stored_runtimes s (v(runtime_path s fq \<mapsto> (Some doc, n))) = (stored_runtimes s v)(fq \<mapsto> r)"
proof
  fix fq'
  show "stored_runtimes s (v(runtime_path s fq \<mapsto> (Some doc, n))) fq' = ((stored_runtimes s v)(fq \<mapsto> r)) fq'"
  proof (cases "fq' = fq")
    case True
    with assms show ?thesis
      by (auto simp: stored_runtimes_def intro!: runtime_at_of_node)
  next
    case False
    then show ?thesis by (auto simp: stored_runtimes_def intro!: runtime_at_cong)
  qed
qed

lemmas other_views = stored_confs_other stored_runtimes_other queued_at_other

lemma tidy_conf_write:
  "seg (FQID c) \<Longrightarrow> wf_job_conf c \<Longrightarrow> tidy s v \<Longrightarrow>
   tidy s (v(job_path s (FQID c) \<mapsto> (Some (enc_job_conf c), n)))"
  by (rule tidy_job_node) (auto simp: job_node_ok_def)

lemma tidy_runtime_write:
  "seg fq \<Longrightarrow> enc_job_runtime r = Inr doc \<Longrightarrow> wf_job_runtime r \<Longrightarrow> tidy s v \<Longrightarrow>
   tidy s (v(runtime_path s fq \<mapsto> (Some doc, n)))"
  by (rule tidy_runtime_node) (auto simp: runtime_node_ok_def)

text \<open>Removing nodes of one job leaves every other job as it was.\<close>

lemma delete_other_jobs:
  assumes "seg fq" "fq' \<noteq> fq"
    and "p = job_path s fq \<or> p = runtime_path s fq \<or> p = tasks_path s fq
      \<or> (\<exists>k. p = tasks_path s fq @ CHR ''/'' # k)"
  shows "stored_confs s (v(p := None)) fq' = stored_confs s v fq'"
    "stored_runtimes s (v(p := None)) fq' = stored_runtimes s v fq'"
    "queued_at s (v(p := None)) = queued_at s v"
proof -
  have "seg fq' \<Longrightarrow> p \<noteq> job_path s fq'" "seg fq' \<Longrightarrow> p \<noteq> runtime_path s fq'"
    using assms by auto
  from conf_at_other [OF this(1)] runtime_at_other [OF this(2)]
  show "stored_confs s (v(p := None)) fq' = stored_confs s v fq'"
    "stored_runtimes s (v(p := None)) fq' = stored_runtimes s v fq'"
    by (simp_all add: stored_confs_def stored_runtimes_def)
  show "queued_at s (v(p := None)) = queued_at s v"
    using assms(3) by (intro queued_at_other) auto
qed

subsection \<open>Effects of the writing operations\<close>

context zk_store
begin

lemma SaveJobConf_effect:
  assumes "wf_job_conf c" "seg (FQID c)" "SaveJobConf s c w = (q, w')"
  shows "tidy s (tree w) \<Longrightarrow> tidy s (tree w')"
    "stored_runtimes s (tree w') = stored_runtimes s (tree w)" "queued_at s (tree w') = queued_at s (tree w)"
    "if q = Inr () then stored_confs s (tree w') = (stored_confs s (tree w))(FQID c \<mapsto> c)
     else stored_confs s (tree w') = stored_confs s (tree w)
          \<or> stored_confs s (tree w') = (stored_confs s (tree w))(FQID c \<mapsto> c)"
proof -
  have tidy: "moves (\<lambda>v v'. tidy s v \<longrightarrow> tidy s v') tree (SaveJobConf s c)"
    by (rule moves_SaveJobConf) (auto intro: tidy_conf_write [OF assms(2,1)])
  have rt: "moves (\<lambda>v v'. stored_runtimes s v' = stored_runtimes s v) tree (SaveJobConf s c)"
    using assms(2) by (intro moves_SaveJobConf) (auto intro!: stored_runtimes_other)
  have qu: "moves (\<lambda>v v'. queued_at s v' = queued_at s v) tree (SaveJobConf s c)"
    using assms(2) by (intro moves_SaveJobConf) (auto intro!: queued_at_other)
  have cf: "moves (\<lambda>v v'. stored_confs s v' = stored_confs s v
      \<or> stored_confs s v' = (stored_confs s v)(FQID c \<mapsto> c)) tree (SaveJobConf s c)"
    by (rule moves_SaveJobConf [OF preorder_maybe [where g = "\<lambda>m. m(FQID c \<mapsto> c)"]])
      (simp_all add: stored_confs_upd [OF assms(2,1)])
  show "tidy s (tree w) \<Longrightarrow> tidy s (tree w')" using movesD [OF tidy assms(3)] by simp
  show "stored_runtimes s (tree w') = stored_runtimes s (tree w)" using movesD [OF rt assms(3)] .
  show "queued_at s (tree w') = queued_at s (tree w)" using movesD [OF qu assms(3)] .
  show "if q = Inr () then stored_confs s (tree w') = (stored_confs s (tree w))(FQID c \<mapsto> c)
     else stored_confs s (tree w') = stored_confs s (tree w)
          \<or> stored_confs s (tree w') = (stored_confs s (tree w))(FQID c \<mapsto> c)"
  proof (cases "q = Inr ()")
    case True
    with assms(3) have "set_or_create s (job_path s (FQID c)) (enc_job_conf c) w = (Inr (), w')"
      by (simp add: SaveJobConf_def fqid_of_JobID FQID_def)
    then obtain n where "tree w' = (tree w)(job_path s (FQID c) \<mapsto> (Some (enc_job_conf c), n))"
      by (rule set_or_create_ok)
    with True assms(1,2) show ?thesis by (simp add: stored_confs_upd)
  next
    case False
    with movesD [OF cf assms(3)] show ?thesis by simp
  qed
qed

lemma SaveJobRuntime_effect:
  assumes "wf_job_runtime r" "seg (fqid_of g p i)" "SaveJobRuntime s g p i r w = (q, w')"
  shows "tidy s (tree w) \<Longrightarrow> tidy s (tree w')"
    "stored_confs s (tree w') = stored_confs s (tree w)" "queued_at s (tree w') = queued_at s (tree w)"
    "if q = Inr () then stored_runtimes s (tree w') = (stored_runtimes s (tree w))(fqid_of g p i \<mapsto> r)
     else stored_runtimes s (tree w') = stored_runtimes s (tree w)
          \<or> stored_runtimes s (tree w') = (stored_runtimes s (tree w))(fqid_of g p i \<mapsto> r)"
proof -
  let ?fq = "fqid_of g p i"
  have tidy: "moves (\<lambda>v v'. tidy s v \<longrightarrow> tidy s v') tree (SaveJobRuntime s g p i r)"
    by (rule moves_SaveJobRuntime) (auto intro: tidy_runtime_write [OF assms(2) _ assms(1)])
  have cf: "moves (\<lambda>v v'. stored_confs s v' = stored_confs s v) tree (SaveJobRuntime s g p i r)"
    by (intro moves_SaveJobRuntime) (auto intro!: stored_confs_other)
  have qu: "moves (\<lambda>v v'. queued_at s v' = queued_at s v) tree (SaveJobRuntime s g p i r)"
    by (intro moves_SaveJobRuntime) (auto intro!: queued_at_other)
  have rt: "moves (\<lambda>v v'. stored_runtimes s v' = stored_runtimes s v
      \<or> stored_runtimes s v' = (stored_runtimes s v)(?fq \<mapsto> r)) tree (SaveJobRuntime s g p i r)"
    by (rule moves_SaveJobRuntime [OF preorder_maybe [where g = "\<lambda>m. m(?fq \<mapsto> r)"]])
      (simp_all add: stored_runtimes_upd [OF assms(2) _ assms(1)])
  show "tidy s (tree w) \<Longrightarrow> tidy s (tree w')" using movesD [OF tidy assms(3)] by simp
  show "stored_confs s (tree w') = stored_confs s (tree w)" using movesD [OF cf assms(3)] .
  show "queued_at s (tree w') = queued_at s (tree w)" using movesD [OF qu assms(3)] .
  show "if q = Inr () then stored_runtimes s (tree w') = (stored_runtimes s (tree w))(?fq \<mapsto> r)
     else stored_runtimes s (tree w') = stored_runtimes s (tree w)
          \<or> stored_runtimes s (tree w') = (stored_runtimes s (tree w))(?fq \<mapsto> r)"
  proof (cases "q = Inr ()")
    case True
    with assms(3) obtain doc where doc: "enc_job_runtime r = Inr doc"
      "set_or_create s (runtime_path s ?fq) doc w = (Inr (), w')"
      by (auto simp: SaveJobRuntime_def io_simps)
    from doc(2) obtain n where "tree w' = (tree w)(runtime_path s ?fq \<mapsto> (Some doc, n))"
      by (rule set_or_create_ok)
    with True doc assms(1,2) show ?thesis by (simp add: stored_runtimes_upd)
  next
    case False
    with movesD [OF rt assms(3)] show ?thesis by simp
  qed
qed

lemma SaveJob_effect:
  assumes "wf_job_conf (JobConf j)" "wf_job_runtime (JobRuntime j)" "seg (job_fqid j)"
    and "SaveJob s j w = (q, w')"
  shows "tidy s (tree w) \<Longrightarrow> tidy s (tree w')" "queued_at s (tree w') = queued_at s (tree w)"
    "fq \<noteq> job_fqid j \<Longrightarrow> stored_confs s (tree w') fq = stored_confs s (tree w) fq
       \<and> stored_runtimes s (tree w') fq = stored_runtimes s (tree w) fq"
    "q = Inr () \<Longrightarrow> stored_confs s (tree w') (job_fqid j) = Some (JobConf j)
       \<and> stored_runtimes s (tree w') (job_fqid j) = Some (JobRuntime j)"
proof -
  let ?id = "JobID (JobConf j)"
  have fq: "fqid_of (Group ?id) (Project ?id) (ID ?id) = job_fqid j"
    by (simp add: fqid_of_JobID FQID_def)
  from assms(4) have run: "io_bind (SaveJobConf s (JobConf j))
      (\<lambda>_. SaveJobRuntime s (Group ?id) (Project ?id) (ID ?id) (JobRuntime j)) w = (q, w')"
    by (simp add: SaveJob_def)
  have "(tidy s (tree w) \<longrightarrow> tidy s (tree w')) \<and> queued_at s (tree w') = queued_at s (tree w)
     \<and> (fq \<noteq> job_fqid j \<longrightarrow> stored_confs s (tree w') fq = stored_confs s (tree w) fq
       \<and> stored_runtimes s (tree w') fq = stored_runtimes s (tree w) fq)
     \<and> (q = Inr () \<longrightarrow> stored_confs s (tree w') (job_fqid j) = Some (JobConf j)
       \<and> stored_runtimes s (tree w') (job_fqid j) = Some (JobRuntime j))"
    using run
  proof (cases rule: io_bind_cases)
    case (fault e)
    from SaveJobConf_effect [OF assms(1,3) fault(1)] fault(2) show ?thesis by auto
  next
    case (ok a w1)
    from SaveJobConf_effect [OF assms(1,3) ok(1)]
      SaveJobRuntime_effect [OF assms(2) _ ok(2), unfolded fq, OF assms(3)]
    show ?thesis by (auto split: if_splits)
  qed
  then show "tidy s (tree w) \<Longrightarrow> tidy s (tree w')" "queued_at s (tree w') = queued_at s (tree w)"
    "fq \<noteq> job_fqid j \<Longrightarrow> stored_confs s (tree w') fq = stored_confs s (tree w) fq
       \<and> stored_runtimes s (tree w') fq = stored_runtimes s (tree w) fq"
    "q = Inr () \<Longrightarrow> stored_confs s (tree w') (job_fqid j) = Some (JobConf j)
       \<and> stored_runtimes s (tree w') (job_fqid j) = Some (JobRuntime j)" by blast+
qed

lemma DeleteJob_effect:
  assumes "seg (fqid_of g p i)" "DeleteJob s g p i w = (q, w')"
  shows "tidy s (tree w) \<Longrightarrow> tidy s (tree w')" "queued_at s (tree w') = queued_at s (tree w)"
    "fq \<noteq> fqid_of g p i \<Longrightarrow> stored_confs s (tree w') fq = stored_confs s (tree w) fq
       \<and> stored_runtimes s (tree w') fq = stored_runtimes s (tree w) fq"
proof -
  let ?fq = "fqid_of g p i"
  have tidy: "moves (\<lambda>v v'. tidy s v \<longrightarrow> tidy s v') tree (DeleteJob s g p i)"
    by (rule moves_DeleteJob) (auto intro: tidy_delete)
  have qu: "moves (\<lambda>v v'. queued_at s v' = queued_at s v) tree (DeleteJob s g p i)"
    by (rule moves_DeleteJob) (auto intro!: queued_at_other)
  have other: "moves (\<lambda>v v'. stored_confs s v' fq = stored_confs s v fq) tree (DeleteJob s g p i)"
    "moves (\<lambda>v v'. stored_runtimes s v' fq = stored_runtimes s v fq) tree (DeleteJob s g p i)"
    if "fq \<noteq> ?fq"
    by (rule moves_DeleteJob, simp, rule delete_other_jobs [OF assms(1) that], assumption)+
  show "tidy s (tree w) \<Longrightarrow> tidy s (tree w')" using movesD [OF tidy assms(2)] by simp
  show "queued_at s (tree w') = queued_at s (tree w)" using movesD [OF qu assms(2)] .
  show "fq \<noteq> ?fq \<Longrightarrow> stored_confs s (tree w') fq = stored_confs s (tree w) fq
       \<and> stored_runtimes s (tree w') fq = stored_runtimes s (tree w) fq"
    using movesD [OF other(1) assms(2)] movesD [OF other(2) assms(2)] by blast
qed

lemma DeleteJob_nodes:
  assumes "DeleteJob s g p i w = (Inr (), w')"
  shows "tree w' (job_path s (fqid_of g p i)) = None" "tree w' (runtime_path s (fqid_of g p i)) = None"
    "tree w' (tasks_path s (fqid_of g p i)) = None"
proof -
  let ?fq = "fqid_of g p i"
  from assms obtain w2 w3 w4 where
      "delete_if_present s (tasks_path s ?fq) (-1) w2 = (Inr (), w3)"
      "delete_if_present s (runtime_path s ?fq) (-1) w3 = (Inr (), w4)"
      "delete_if_present s (job_path s ?fq) (-1) w4 = (Inr (), w')"
    by (auto simp: DeleteJob_def Let_def io_simps)
  from this [THEN delete_if_present_ok(1)] show "tree w' (job_path s ?fq) = None"
    "tree w' (runtime_path s ?fq) = None" "tree w' (tasks_path s ?fq) = None" by simp_all
qed

lemma QueueJob_effect:
  assumes "seg (fqid_of g p i)" "QueueJob s g p i w = (q, w')"
  shows "tidy s (tree w) \<Longrightarrow> tidy s (tree w')" "stored_confs s (tree w') = stored_confs s (tree w)"
    "stored_runtimes s (tree w') = stored_runtimes s (tree w)"
    "if q = Inr () then queued_at s (tree w') = insert (fqid_of g p i) (queued_at s (tree w))
     else queued_at s (tree w') = queued_at s (tree w)
          \<or> queued_at s (tree w') = insert (fqid_of g p i) (queued_at s (tree w))"
proof -
  let ?fq = "fqid_of g p i"
  note intro = moves_create_if_missing [where p = "queued_path s ?fq" and d = None, folded QueueJob_def]
  have ins: "queued_at s (v(queued_path s ?fq \<mapsto> n)) = insert ?fq (queued_at s v)" for v n
    using assms(1) by (auto simp: queued_at_def)
  have tidy: "moves (\<lambda>v v'. tidy s v \<longrightarrow> tidy s v') tree (QueueJob s g p i)"
    by (rule intro) (auto intro: tidy_other)
  have cf: "moves (\<lambda>v v'. stored_confs s v' = stored_confs s v) tree (QueueJob s g p i)"
    by (rule intro) (auto intro!: stored_confs_other)
  have rt: "moves (\<lambda>v v'. stored_runtimes s v' = stored_runtimes s v) tree (QueueJob s g p i)"
    by (rule intro) (auto intro!: stored_runtimes_other)
  have qu: "moves (\<lambda>v v'. queued_at s v' = queued_at s v \<or> queued_at s v' = insert ?fq (queued_at s v))
      tree (QueueJob s g p i)"
    by (rule intro [OF preorder_maybe [where f = "queued_at s" and g = "insert ?fq"]])
      (simp_all add: ins del: fun_upd_apply)
  show "tidy s (tree w) \<Longrightarrow> tidy s (tree w')" using movesD [OF tidy assms(2)] by simp
  show "stored_confs s (tree w') = stored_confs s (tree w)" using movesD [OF cf assms(2)] .
  show "stored_runtimes s (tree w') = stored_runtimes s (tree w)" using movesD [OF rt assms(2)] .
  show "if q = Inr () then queued_at s (tree w') = insert ?fq (queued_at s (tree w))
     else queued_at s (tree w') = queued_at s (tree w)
          \<or> queued_at s (tree w') = insert ?fq (queued_at s (tree w))"
  proof (cases "q = Inr ()")
    case True
    with assms(2) have "create_if_missing s (queued_path s ?fq) None w = (Inr (), w')"
      by (simp add: QueueJob_def)
    from create_if_missing_ok [OF this] True assms(1) show ?thesis
      by (auto simp: ins) (auto simp: queued_at_def)
  next
    case False
    with movesD [OF qu assms(2)] show ?thesis by simp
  qed
qed

lemma DequeueJob_effect:
  assumes "seg (fqid_of g p i)" "DequeueJob s g p i w = (q, w')"
  shows "tidy s (tree w) \<Longrightarrow> tidy s (tree w')" "stored_confs s (tree w') = stored_confs s (tree w)"
    "stored_runtimes s (tree w') = stored_runtimes s (tree w)"
    "if q = Inr () then queued_at s (tree w') = queued_at s (tree w) - {fqid_of g p i}
     else queued_at s (tree w') = queued_at s (tree w)
          \<or> queued_at s (tree w') = queued_at s (tree w) - {fqid_of g p i}"
proof -
  let ?fq = "fqid_of g p i"
  note intro = moves_delete_if_present [where p = "queued_path s ?fq" and ver = 0, folded DequeueJob_def]
  have del: "queued_at s (v(queued_path s ?fq := None)) = queued_at s v - {?fq}" for v
    using assms(1) by (auto simp: queued_at_def)
  have tidy: "moves (\<lambda>v v'. tidy s v \<longrightarrow> tidy s v') tree (DequeueJob s g p i)"
    by (rule intro) (auto intro: tidy_delete)
  have cf: "moves (\<lambda>v v'. stored_confs s v' = stored_confs s v) tree (DequeueJob s g p i)"
    by (rule intro) (auto intro!: stored_confs_other)
  have rt: "moves (\<lambda>v v'. stored_runtimes s v' = stored_runtimes s v) tree (DequeueJob s g p i)"
    by (rule intro) (auto intro!: stored_runtimes_other)
  have qu: "moves (\<lambda>v v'. queued_at s v' = queued_at s v \<or> queued_at s v' = queued_at s v - {?fq})
      tree (DequeueJob s g p i)"
    by (rule intro [OF preorder_maybe [where g = "\<lambda>m. m - {?fq}"]]) (simp_all add: del)
  show "tidy s (tree w) \<Longrightarrow> tidy s (tree w')" using movesD [OF tidy assms(2)] by simp
  show "stored_confs s (tree w') = stored_confs s (tree w)" using movesD [OF cf assms(2)] .
  show "stored_runtimes s (tree w') = stored_runtimes s (tree w)" using movesD [OF rt assms(2)] .
  show "if q = Inr () then queued_at s (tree w') = queued_at s (tree w) - {?fq}
     else queued_at s (tree w') = queued_at s (tree w)
          \<or> queued_at s (tree w') = queued_at s (tree w) - {?fq}"
  proof (cases "q = Inr ()")
    case True
    with assms(2) have "delete_if_present s (queued_path s ?fq) 0 w = (Inr (), w')"
      by (simp add: DequeueJob_def)
    from delete_if_present_ok(1) [OF this] True show ?thesis by (simp add: del)
  next
    case False
    with movesD [OF qu assms(2)] show ?thesis by simp
  qed
qed

lemma DeleteJob_gone:
  assumes "DeleteJob s g p i w = (Inr (), w')"
  shows "stored_confs s (tree w') (fqid_of g p i) = None" "stored_runtimes s (tree w') (fqid_of g p i) = None"
  using assms DeleteJob_nodes [OF assms]
  by (simp_all add: stored_confs_def stored_runtimes_def conf_at_None runtime_at_None)

lemma GetJob_ok:
  assumes "seg (fqid_of g p i)" "GetJob s g p i w = (Inr oj, w')"
  shows "oj = (case (stored_confs s (tree w) (fqid_of g p i), stored_runtimes s (tree w) (fqid_of g p i)) of
             (Some c, Some r) \<Rightarrow> Some \<lparr>JobConf = c, JobRuntime = r\<rparr> | _ \<Rightarrow> None)"
proof -
  let ?fq = "fqid_of g p i"
  from assms(2) obtain oc w1 where c: "GetJobConf s g p i w = (Inr oc, w1)"
    and rest: "(case oc of None \<Rightarrow> io_ret None
       | Some conf \<Rightarrow> io_bind (GetJobRuntime s g p i) (\<lambda>r. case r of None \<Rightarrow> io_ret None
             | Some runtime \<Rightarrow> io_ret (Some \<lparr>JobConf = conf, JobRuntime = runtime\<rparr>))) w1 = (Inr oj, w')"
    by (auto simp: GetJob_def io_bind_Inr)
  from read_node_ok [OF c [unfolded GetJobConf_def]] assms(1)
  have oc: "oc = stored_confs s (tree w) ?fq" and w1: "tree w1 = tree w"
    by (cases oc; force simp: stored_confs_def conf_at_def doc_at_def)+
  show ?thesis
  proof (cases oc)
    case None
    with rest oc show ?thesis by (simp add: io_simps)
  next
    case (Some conf)
    with rest obtain r where r: "GetJobRuntime s g p i w1 = (Inr r, w')"
      and oj: "oj = (case r of None \<Rightarrow> None | Some runtime \<Rightarrow> Some \<lparr>JobConf = conf, JobRuntime = runtime\<rparr>)"
      by (auto simp: io_simps split: option.splits)
    from read_node_ok [OF r [unfolded GetJobRuntime_def]] assms(1) w1
    have "r = stored_runtimes s (tree w) ?fq"
      by (cases r; force simp: stored_runtimes_def runtime_at_def doc_at_def)
    with oj oc [symmetric] Some show ?thesis by simp
  qed
qed

lemma queued_job_id_String:
  "queued_job_id n w = (Inr j, w') \<Longrightarrow> ParseJobID n = Inr j' \<Longrightarrow> JobID_String j = n"
  using ParseJobID_sound [of n j']
  by (auto simp: queued_job_id_def ParseJobID_def io_simps split: list.splits if_splits)

lemma GetQueuedJobsIDs_ok:
  assumes "\<forall>fq \<in> queued_at s (tree w). \<exists>j. ParseJobID fq = Inr j" "GetQueuedJobsIDs s w = (Inr ids, w')"
  shows "JobID_String ` set ids = queued_at s (tree w)"
proof -
  from assms(2) obtain ns w1 where ns: "zkChildren (conn s) (queue_path s) w = (Inr ns, w1)"
    and loop: "io_for ns queued_job_id w1 = (Inr ids, w')"
    by (auto simp: GetQueuedJobsIDs_def io_simps)
  from children_ok [OF ns] have names: "set ns = queued_at s (tree w)" and w1: "tree w1 = tree w"
    by (auto simp: queued_names queued_at_def)
  have "list_all2 (\<lambda>n j. (\<exists>j'. ParseJobID n = Inr j') \<longrightarrow> JobID_String j = n) ns ids"
    by (rule io_for_list_all2 [OF loop, where v = tree])
      (auto simp: queued_job_id_def intro!: keeps_intros intro: queued_job_id_String split: list.splits)
  then have "map JobID_String ids = ns"
    unfolding names [symmetric] using assms(1) [folded names]
    by (induction ns ids rule: list_all2_induct) auto
  with names show ?thesis by (metis set_map)
qed

lemma AddTask_effect:
  assumes "seg (fqid_of g p i)"
  shows "keeps (\<lambda>w. stored_confs s (tree w)) (AddTask s g p i t)"
    "keeps (\<lambda>w. stored_runtimes s (tree w)) (AddTask s g p i t)"
    "keeps (\<lambda>w. queued_at s (tree w)) (AddTask s g p i t)"
    "moves (\<lambda>v v'. tidy s v \<longrightarrow> tidy s v') tree (AddTask s g p i t)"
proof -
  have "moves (\<lambda>v v'. stored_confs s v' = stored_confs s v) tree (AddTask s g p i t)"
    "moves (\<lambda>v v'. stored_runtimes s v' = stored_runtimes s v) tree (AddTask s g p i t)"
    "moves (\<lambda>v v'. queued_at s v' = queued_at s v) tree (AddTask s g p i t)"
    using assms by (auto intro!: moves_AddTask other_views)
  from this [THEN keeps_of_moves] show "keeps (\<lambda>w. stored_confs s (tree w)) (AddTask s g p i t)"
    "keeps (\<lambda>w. stored_runtimes s (tree w)) (AddTask s g p i t)"
    "keeps (\<lambda>w. queued_at s (tree w)) (AddTask s g p i t)"
    by simp_all
  show "moves (\<lambda>v v'. tidy s v \<longrightarrow> tidy s v') tree (AddTask s g p i t)"
    using assms by (auto intro!: moves_AddTask tidy_other)
qed

end

lemma keeps_prod: "keeps a m \<Longrightarrow> keeps b m \<Longrightarrow> keeps (\<lambda>w. (a w, b w)) m"
  by (simp add: keeps_def)

section \<open>The contract is kept\<close>

sublocale zk_store \<subseteq> job_store "zk_storage_ops s" "\<lambda>w. tidy s (tree w)"
  "\<lambda>w. stored_confs s (tree w)" "\<lambda>w. stored_runtimes s (tree w)" "\<lambda>w. queued_at s (tree w)"
proof (unfold_locales, unfold zk_storage_ops_def storage_ops.simps)
  note reader = keeps_comp [where v = tree and
      f = "\<lambda>v. (tidy s v, stored_confs s v, stored_runtimes s v, queued_at s v)"]
  show "keeps (\<lambda>w. (tidy s (tree w), stored_confs s (tree w), stored_runtimes s (tree w), queued_at s (tree w)))
      (GetJobs s)"
    "keeps (\<lambda>w. (tidy s (tree w), stored_confs s (tree w), stored_runtimes s (tree w), queued_at s (tree w)))
      (GetJob s g p i)"
    "keeps (\<lambda>w. (tidy s (tree w), stored_confs s (tree w), stored_runtimes s (tree w), queued_at s (tree w)))
      (GetJobConf s g p i)"
    "keeps (\<lambda>w. (tidy s (tree w), stored_confs s (tree w), stored_runtimes s (tree w), queued_at s (tree w)))
      (GetQueuedJobsIDs s)"
    "keeps (\<lambda>w. (tidy s (tree w), stored_confs s (tree w), stored_runtimes s (tree w), queued_at s (tree w)))
      (GetTasks s g p i)" for g p i
    by (rule reader, rule keeps_intros)+
next
  fix w g p i oc w'
  assume "tidy s (tree w)" "seg (fqid_of g p i)" "GetJobConf s g p i w = (Inr oc, w')"
  then show "oc = stored_confs s (tree w) (fqid_of g p i)"
    using read_node_ok(2,3) [of dec_job_conf zero_job_conf "job_path s (fqid_of g p i)" w oc w']
    by (cases oc) (auto simp: GetJobConf_def stored_confs_def conf_at_def doc_at_def)
next
  fix w g p i oj w'
  assume tidy: "tidy s (tree w)" and seg: "seg (fqid_of g p i)" and run: "GetJob s g p i w = (Inr oj, w')"
  show "oj = (case (stored_confs s (tree w) (fqid_of g p i), stored_runtimes s (tree w) (fqid_of g p i)) of
             (Some c, Some r) \<Rightarrow> Some \<lparr>JobConf = c, JobRuntime = r\<rparr> | _ \<Rightarrow> None)"
    using GetJob_ok [OF seg run] .
next
  fix w js w'
  assume "tidy s (tree w)" "GetJobs s w = (Inr js, w')"
  from GetJobs_ok [OF this] show "distinct (map job_fqid js)
      \<and> dom (stored_confs s (tree w)) \<subseteq> dom (stored_runtimes s (tree w))
      \<and> (\<forall>j. j \<in> set js \<longleftrightarrow> stored_confs s (tree w) (job_fqid j) = Some (JobConf j)
            \<and> stored_runtimes s (tree w) (job_fqid j) = Some (JobRuntime j))" by blast
next
  fix w fq c
  assume "tidy s (tree w)" "stored_confs s (tree w) fq = Some c"
  then show "FQID c = fq \<and> wf_job_conf c"
    using tidy_FQID by (auto simp: stored_confs_def split: if_splits)
next
  fix w c q w'
  assume "tidy s (tree w)" "wf_job_conf c" "seg (FQID c)" "SaveJobConf s c w = (q, w')"
  with SaveJobConf_effect [OF this(2-4)]
  show "tidy s (tree w') \<and> stored_runtimes s (tree w') = stored_runtimes s (tree w)
      \<and> queued_at s (tree w') = queued_at s (tree w)
      \<and> (if q = Inr () then stored_confs s (tree w') = (stored_confs s (tree w))(FQID c \<mapsto> c)
         else stored_confs s (tree w') = stored_confs s (tree w)
           \<or> stored_confs s (tree w') = (stored_confs s (tree w))(FQID c \<mapsto> c))" by blast
next
  fix w rt g p i q w'
  assume "tidy s (tree w)" "wf_job_runtime rt" "seg (fqid_of g p i)" "SaveJobRuntime s g p i rt w = (q, w')"
  with SaveJobRuntime_effect [OF this(2-4)]
  show "tidy s (tree w') \<and> stored_confs s (tree w') = stored_confs s (tree w)
      \<and> queued_at s (tree w') = queued_at s (tree w)
      \<and> (if q = Inr () then stored_runtimes s (tree w') = (stored_runtimes s (tree w))(fqid_of g p i \<mapsto> rt)
         else stored_runtimes s (tree w') = stored_runtimes s (tree w)
           \<or> stored_runtimes s (tree w') = (stored_runtimes s (tree w))(fqid_of g p i \<mapsto> rt))" by blast
next
  fix w j q w'
  assume "tidy s (tree w)" "wf_job_conf (JobConf j)" "wf_job_runtime (JobRuntime j)" "seg (job_fqid j)"
    "SaveJob s j w = (q, w')"
  with SaveJob_effect [OF this(2-5)]
  show "tidy s (tree w') \<and> queued_at s (tree w') = queued_at s (tree w)
      \<and> (\<forall>fq. fq \<noteq> job_fqid j \<longrightarrow> stored_confs s (tree w') fq = stored_confs s (tree w) fq
            \<and> stored_runtimes s (tree w') fq = stored_runtimes s (tree w) fq)
      \<and> (q = Inr () \<longrightarrow> stored_confs s (tree w') (job_fqid j) = Some (JobConf j)
            \<and> stored_runtimes s (tree w') (job_fqid j) = Some (JobRuntime j))" by blast
next
  fix w g p i q w'
  assume "tidy s (tree w)" "seg (fqid_of g p i)" "DeleteJob s g p i w = (q, w')"
  with DeleteJob_effect [OF this(2,3)] DeleteJob_gone [of g p i w w']
  show "tidy s (tree w') \<and> queued_at s (tree w') = queued_at s (tree w)
      \<and> (\<forall>fq. fq \<noteq> fqid_of g p i \<longrightarrow> stored_confs s (tree w') fq = stored_confs s (tree w) fq
            \<and> stored_runtimes s (tree w') fq = stored_runtimes s (tree w) fq)
      \<and> (q = Inr () \<longrightarrow> stored_confs s (tree w') (fqid_of g p i) = None
            \<and> stored_runtimes s (tree w') (fqid_of g p i) = None)" by blast
next
  fix w g p i q w'
  assume "tidy s (tree w)" "seg (fqid_of g p i)" "QueueJob s g p i w = (q, w')"
  with QueueJob_effect [OF this(2,3)]
  show "tidy s (tree w') \<and> stored_confs s (tree w') = stored_confs s (tree w)
      \<and> stored_runtimes s (tree w') = stored_runtimes s (tree w)
      \<and> (if q = Inr () then queued_at s (tree w') = insert (fqid_of g p i) (queued_at s (tree w))
         else queued_at s (tree w') = queued_at s (tree w)
           \<or> queued_at s (tree w') = insert (fqid_of g p i) (queued_at s (tree w)))" by blast
next
  fix w g p i q w'
  assume "tidy s (tree w)" "seg (fqid_of g p i)" "DequeueJob s g p i w = (q, w')"
  with DequeueJob_effect [OF this(2,3)]
  show "tidy s (tree w') \<and> stored_confs s (tree w') = stored_confs s (tree w)
      \<and> stored_runtimes s (tree w') = stored_runtimes s (tree w)
      \<and> (if q = Inr () then queued_at s (tree w') = queued_at s (tree w) - {fqid_of g p i}
         else queued_at s (tree w') = queued_at s (tree w)
           \<or> queued_at s (tree w') = queued_at s (tree w) - {fqid_of g p i})" by blast
next
  fix w ids w'
  assume "\<forall>fq \<in> queued_at s (tree w). \<exists>j. ParseJobID fq = Inr j" "GetQueuedJobsIDs s w = (Inr ids, w')"
  then show "JobID_String ` set ids = queued_at s (tree w)" by (rule GetQueuedJobsIDs_ok)
next
  fix g p i t
  assume "seg (fqid_of g p i)"
  from AddTask_effect [OF this, of t]
  show "keeps (\<lambda>w. (stored_confs s (tree w), stored_runtimes s (tree w), queued_at s (tree w))) (AddTask s g p i t)"
    by (intro keeps_prod)
next
  fix g p i t w q w'
  assume "seg (fqid_of g p i)" "tidy s (tree w)" "AddTask s g p i t w = (q, w')"
  then show "tidy s (tree w')" using movesD [OF AddTask_effect(4)] by blast
qed

section \<open>A reference store\<close>

definition ref_storage :: "ref_tree zk_storage" where
  "ref_storage =
     \<lparr>dir = ''/rhythm'', addrs = [], conn = ref_zk, acl = (\<lambda>perm. [(perm, ''world'', ''anyone'')]),
      timeout = 10 * second, taskTTL = 24 * hour\<rparr>"

interpretation ref_store: zk_store ref_storage map_of
  by (unfold_locales; unfold ref_storage_def zk_storage.simps;
      rule ref.zk_get ref.zk_set ref.zk_create ref.zk_delete ref.zk_children ref.zk_exists; assumption)

end
