(* ===== verification/Api.thy ===== *)
theory Api
  imports ApiOps JobStore
begin

text \<open>
  What the API server guarantees: nothing is read or written without the access level the operation
  needs, a listing holds exactly the readable jobs, a job is created only where there is none, an
  update changes what it was given and nothing else. The interface to storage and authorizer is the
  locale \<open>api_server\<close>, an extension of \<open>job_store\<close>.
\<close>

section \<open>Access control\<close>

lemma on_api_run: "on_api m s = (q, s') \<longleftrightarrow> (\<exists>w. m (apiWorld s) = (q, w) \<and> s' = s\<lparr>apiWorld := w\<rparr>)"
  by (auto simp: io_on_eq)

lemma reject_run:
  "reject code err s = (q, s') \<longleftrightarrow> q = Inl (Fail err) \<and> s' = s\<lparr>resp := send_status code (resp s)\<rparr>"
  by (cases q) (auto simp: reject_def WriteHeader_def io_simps)

lemma WriteHeader_run:
  "WriteHeader code s = (q, s') \<longleftrightarrow> q = Inr () \<and> s' = s\<lparr>resp := send_status code (resp s)\<rparr>"
  by (auto simp: WriteHeader_def io_modify_run)

lemma or_500_cases:
  assumes "or_500 m f s = (q, s')"
  obtains (failed) e w where "m (apiWorld s) = (Inl (Fail e), w)" "q = Inl (Fail e)"
      "s' = s\<lparr>apiWorld := w, resp := send_status 500 (resp s)\<rparr>"
    | (panicked) x w where "m (apiWorld s) = (Inl (Panic x), w)" "q = Inl (Panic x)" "s' = s\<lparr>apiWorld := w\<rparr>"
    | (returned) a w where "m (apiWorld s) = (Inr a, w)" "f a (s\<lparr>apiWorld := w\<rparr>) = (q, s')"
  using assms by (auto simp: or_500_def io_try_eq on_api_run reject_run)

lemma with_access_cases:
  assumes "with_access env r g p needed m s = (q, s')"
  obtains (granted) lvl w where "authz env r g p (apiWorld s) = (Inr lvl, w)" "needed \<le> lvl"
      "m (s\<lparr>apiWorld := w\<rparr>) = (q, s')"
    | (denied) w where "snd (authz env r g p (apiWorld s)) = w" "apiWorld s' = w" "q \<noteq> Inr ()"
      "\<forall>lvl. fst (authz env r g p (apiWorld s)) = Inr lvl \<longrightarrow> lvl < needed"
      "body (resp s') = body (resp s)"
  using assms unfolding with_access_def
proof (cases rule: or_500_cases)
  case (returned lvl w)
  show thesis
  proof (cases "lvl < needed")
    case True
    with returned show thesis by (intro that(2)) (auto simp: reject_run send_status_def)
  next
    case False
    with returned show thesis by (intro that(1)) auto
  qed
qed (auto simp: send_status_def intro: that(2))

lemma decode_body_cases:
  assumes "decode_body env d z doc f s = (q, s')"
  obtains (malformed) err where "q = Inl (Fail err)" "s' = s\<lparr>resp := send_status 400 (resp s)\<rparr>"
    | (decoded) v payload where "doc = Inr v" "d v z = Inr payload" "f payload s = (q, s')"
  using assms by (auto simp: decode_body_def reject_run split: sum.splits)

lemma validated_cases:
  assumes "validated env sc v m s = (q, s')"
  obtains (invalid) err where "q = Inl (Fail err)" "s' = s" "validateSchema env sc v = Some err"
    | (valid) "schemaValidate env sc v = Inr []" "m s = (q, s')"
  using assms by (auto simp: validated_def validateSchema_def io_fail_run split: option.splits sum.splits if_splits)

lemma no_panic_reject: "no_panic (reject code err)"
  unfolding reject_def WriteHeader_def by (intro no_panic_intros)

lemma no_panic_or_500: "no_panic m \<Longrightarrow> (\<And>a. no_panic (f a)) \<Longrightarrow> no_panic (or_500 m f)"
  unfolding or_500_def by (auto intro!: no_panic_intros no_panic_reject split: sum.split)

text \<open>The level an operation on a project was granted, at the state in which it asked.\<close>

definition granted :: "('q, 'w) api_env \<Rightarrow> 'q \<Rightarrow> string \<Rightarrow> string \<Rightarrow> 'w \<Rightarrow> access_level \<Rightarrow> bool" where
  "granted env r g p w needed \<longleftrightarrow> (\<exists>lvl w'. authz env r g p w = (Inr lvl, w') \<and> needed \<le> lvl)"

lemma with_access_denied:
  assumes "with_access env r g p needed m s = (q, s')" "\<not> granted env r g p (apiWorld s) needed"
  shows "apiWorld s' = snd (authz env r g p (apiWorld s))" "q \<noteq> Inr ()" "body (resp s') = body (resp s)"
  using assms(1)
  by (cases rule: with_access_cases; use assms(2) in \<open>auto simp: granted_def\<close>)+

section \<open>Listing\<close>

abbreviation project_key :: "job \<Rightarrow> string" where
  "project_key j \<equiv> Group (JobID (JobConf j)) @ ''/'' @ Project (JobID (JobConf j))"

lemma filter_readable_spec:
  assumes "filter_readable env r lvls js w = (Inr out, w')"
  shows "\<exists>lvl. out = filter (\<lambda>j. lvl (project_key j) \<noteq> NoAccess) js
     \<and> (\<forall>k l. map_of lvls k = Some l \<longrightarrow> lvl k = l)
     \<and> (\<forall>j \<in> set js. map_of lvls (project_key j) = None \<longrightarrow>
          (\<exists>j0 \<in> set js. \<exists>wa wb. project_key j0 = project_key j
             \<and> authz env r (Group (JobID (JobConf j0))) (Project (JobID (JobConf j0))) wa
               = (Inr (lvl (project_key j)), wb)))"
  using assms
proof (induction js arbitrary: lvls w out)
  case Nil
  then show ?case by (auto simp: io_ret_run intro!: exI [of _ "\<lambda>k. the (map_of lvls k)"])
next
  case (Cons j js)
  let ?k = "project_key j"
  from Cons.prems obtain l w1 rest where
      ask: "(case map_of lvls ?k of Some lvl \<Rightarrow> io_ret lvl
         | None \<Rightarrow> authz env r (Group (JobID (JobConf j))) (Project (JobID (JobConf j)))) w = (Inr l, w1)"
    and rest: "filter_readable env r ((?k, l) # lvls) js w1 = (Inr rest, w')"
    and out: "out = (if l \<noteq> NoAccess then j # rest else rest)"
    by (auto simp: Let_def io_bind_Inr io_ret_run)
  from Cons.IH [OF rest] obtain lvl where
      lvl: "rest = filter (\<lambda>j. lvl (project_key j) \<noteq> NoAccess) js"
      "\<forall>k l'. map_of ((?k, l) # lvls) k = Some l' \<longrightarrow> lvl k = l'"
    and asked: "\<forall>j' \<in> set js. map_of ((?k, l) # lvls) (project_key j') = None \<longrightarrow>
          (\<exists>j0 \<in> set js. \<exists>wa wb. project_key j0 = project_key j'
             \<and> authz env r (Group (JobID (JobConf j0))) (Project (JobID (JobConf j0))) wa
               = (Inr (lvl (project_key j')), wb))" by blast
  have k: "lvl ?k = l" using lvl(2) by auto
  have old: "lvl k = l'" if "map_of lvls k = Some l'" for k l'
    using that lvl(2) ask by (cases "k = ?k") (auto simp: io_ret_run)
  have new: "\<exists>j0 \<in> set (j # js). \<exists>wa wb. project_key j0 = project_key j'
             \<and> authz env r (Group (JobID (JobConf j0))) (Project (JobID (JobConf j0))) wa
               = (Inr (lvl (project_key j')), wb)"
    if "j' \<in> set (j # js)" "map_of lvls (project_key j') = None" for j'
  proof (cases "project_key j' = ?k")
    case True
    with ask that(2) k show ?thesis by auto
  next
    case False
    with that asked show ?thesis by auto
  qed
  show ?case using out lvl(1) k old new by (intro exI [of _ lvl]) auto
qed

section \<open>Well-formed payloads\<close>

definition wf_new_payload :: "new_job_payload \<Rightarrow> bool" where
  "wf_new_payload p \<longleftrightarrow>
     distinct (map fst (npEnv p)) \<and> distinct (map fst (npSecrets p)) \<and> distinct (map fst (npLabels p))
     \<and> int64_min \<le> npMaxRetries p \<and> npMaxRetries p \<le> int64_max"

lemma new_payload_field_wf:
  "wf_new_payload p \<Longrightarrow> new_payload_field k v p = Inr p' \<Longrightarrow> wf_new_payload p'"
  by (auto simp: new_payload_field_def wf_new_payload_def map_sum_Inr_iff dest: distinct_dec_map dec_int_bounds
      split: if_splits prod.splits)

lemma decoded_new_payload_wf: "dec_struct new_payload_field v zero_new_payload = Inr p \<Longrightarrow> wf_new_payload p"
  by (rule dec_struct_invariant [where P = wf_new_payload])
    (assumption, simp add: wf_new_payload_def zero_new_payload_def, rule new_payload_field_wf)

definition wf_update_payload :: "update_job_payload \<Rightarrow> bool" where
  "wf_update_payload p \<longleftrightarrow>
     (\<forall>m \<in> set_option (upEnv p) \<union> set_option (upSecrets p) \<union> set_option (upLabels p). distinct (map fst m))
     \<and> (\<forall>n \<in> set_option (upMaxRetries p). int64_min \<le> n \<and> n \<le> int64_max)"

lemma dec_ptr_distinct:
  "dec_ptr dec_map [] v x = Inr y \<Longrightarrow> (\<And>m. x = Some m \<Longrightarrow> distinct (map fst m)) \<Longrightarrow> y = Some m \<Longrightarrow> distinct (map fst m)"
  by (auto simp: dec_ptr_def map_sum_Inr_iff dest!: distinct_dec_map split: json.splits option.splits)

lemma dec_ptr_int:
  "dec_ptr dec_int 0 v x = Inr y \<Longrightarrow> (\<And>n. x = Some n \<Longrightarrow> int64_min \<le> n \<and> n \<le> int64_max) \<Longrightarrow> y = Some n \<Longrightarrow>
   int64_min \<le> n \<and> n \<le> int64_max"
  by (auto simp: dec_ptr_def map_sum_Inr_iff dest!: dec_int_bounds split: json.splits option.splits)

lemma update_payload_field_wf:
  assumes "wf_update_payload p" "update_payload_field k v p = Inr p'"
  shows "wf_update_payload p'"
  using assms
  by (auto simp: update_payload_field_def wf_update_payload_def map_sum_Inr_iff split: if_splits
      dest: dec_ptr_distinct dec_ptr_int)

lemma decoded_update_payload_wf:
  "dec_struct update_payload_field v zero_update_payload = Inr p \<Longrightarrow> wf_update_payload p"
  by (rule dec_struct_invariant [where P = wf_update_payload])
    (assumption, simp add: wf_update_payload_def zero_update_payload_def, rule update_payload_field_wf)

lemma payload_job_wf:
  "wf_new_payload p \<Longrightarrow> wf_job_conf (JobConf (payload_job p))"
  "wf_job_runtime (JobRuntime (payload_job p))"
  by (auto simp: payload_job_def wf_new_payload_def wf_job_conf_def wf_job_runtime_def zero_job_runtime_def
      wf_schedule_type_def wf_container_type_def schedule_type_of_def container_type_of_def)

lemma update_container_wf:
  "update_container u c = Inr c' \<Longrightarrow> wf_container_type (containerType c) \<Longrightarrow> wf_container_type (containerType c')"
  by (auto simp: update_container_def update_docker_def Let_def wf_container_type_def container_type_of_def
      split: option.splits if_splits)

lemma update_conf_wf:
  assumes "wf_update_payload p" "wf_job_conf c" "update_conf p c = Inr c'"
  shows "wf_job_conf c'" "JobID c' = JobID c" "FQID c' = FQID c"
proof -
  from assms(3) obtain container where container:
      "(case upContainer p of None \<Rightarrow> Inr (Container c) | Some u \<Rightarrow> update_container u (Container c)) = Inr container"
    and c': "wf_schedule_type (scheduleType (Schedule c')) \<or> Schedule c' = Schedule c" "Container c' = container"
      "Env c' = or_else (Env c) (upEnv p)" "Secrets c' = or_else (Secrets c) (upSecrets p)"
      "Labels c' = or_else (Labels c) (upLabels p)" "MaxRetries c' = or_else (MaxRetries c) (upMaxRetries p)"
      "JobID c' = JobID c"
    by (auto simp: update_conf_def wf_schedule_type_def schedule_type_of_def split: sum.splits option.splits)
  have "wf_container_type (containerType container)"
    using container assms(2) by (auto simp: wf_job_conf_def dest: update_container_wf split: option.splits)
  with c' assms(1,2) show "wf_job_conf c'"
    by (auto simp: wf_job_conf_def wf_update_payload_def or_else_def split: option.splits)
  show "JobID c' = JobID c" "FQID c' = FQID c" using c' by (simp_all add: FQID_def)
qed

text \<open>Only a payload that the schema refuses can make the update dereference nil.\<close>

lemma update_conf_no_panic:
  assumes "\<And>u. upContainer p = Some u \<Longrightarrow> ucDocker u = None \<Longrightarrow> \<exists>s. ucMesos u = Some (Some s)"
  shows "update_conf p c \<noteq> Inl (Panic m)"
  using assms
  by (auto simp: update_conf_def update_container_def update_docker_def Let_def split: option.splits sum.splits)

section \<open>The server\<close>

definition id_char :: "char \<Rightarrow> bool" where
  "id_char c \<longleftrightarrow>
     (let n = (of_char c :: nat) in
      (97 \<le> n \<and> n \<le> 122) \<or> (65 \<le> n \<and> n \<le> 90) \<or> (48 \<le> n \<and> n \<le> 57) \<or> n = 45 \<or> n = 95)"

lemma id_part_chars: "x \<noteq> [] \<Longrightarrow> list_all id_char x \<Longrightarrow> id_part x"
proof -
  have "\<not> id_char CHR '':''" "\<not> id_char CHR ''/''" by (simp_all add: id_char_def)
  then show "x \<noteq> [] \<Longrightarrow> list_all id_char x \<Longrightarrow> id_part x"
    by (auto simp: id_part_def list_all_iff)
qed

text \<open>
  What the server relies on besides its storage: asking the authorizer does not touch the storage,
  the validator accepts only documents that conform to the schema, and the pattern of the
  identifiers matches only letters, digits, \<open>-\<close> and \<open>_\<close>.
\<close>

locale api_server = job_store stor inv confs runtimes queue
  for stor :: "'w storage_ops" and inv confs runtimes queue +
  fixes env :: "('q, 'w) api_env" and rx :: "string \<Rightarrow> string \<Rightarrow> bool" and fmt :: "string \<Rightarrow> json \<Rightarrow> bool"
  assumes env_store: "store env = stor"
    and authz_keeps: "keeps (\<lambda>w. (inv w, confs w, runtimes w, queue w)) (authz env r g p)"
    and validator: "schemaValidate env sc v = Inr [] \<Longrightarrow> conforms rx fmt sc v"
    and pattern: "rx groupPattern x \<Longrightarrow> x \<noteq> [] \<and> list_all id_char x"
begin

lemma authz_same:
  assumes "authz env r g p w = (q, w')"
  shows "inv w' = inv w" "confs w' = confs w" "runtimes w' = runtimes w" "queue w' = queue w"
  using keepsD [OF authz_keeps assms] by simp_all

lemma get_job_same:
  assumes "opGetJob stor g p i w = (q, w')"
  shows "inv w' = inv w" "confs w' = confs w" "runtimes w' = runtimes w" "queue w' = queue w"
  using keepsD [OF reads(2) assms] by simp_all

lemma get_conf_same:
  assumes "opGetJobConf stor g p i w = (q, w')"
  shows "inv w' = inv w" "confs w' = confs w" "runtimes w' = runtimes w" "queue w' = queue w"
  using keepsD [OF reads(3) assms] by simp_all

text \<open>A created job has a well-formed id, was not there before, and is stored as requested.\<close>

lemma createJob_ok:
  assumes "api_createJob env r s = (Inr (), s')" "inv (apiWorld s)"
  obtains v p where "reqBody r = Inr v" "dec_struct new_payload_field v zero_new_payload = Inr p"
    "wf_job_id (JobID (JobConf (payload_job p)))"
    "granted env (reqAuth r) (npGroup p) (npProject p) (apiWorld s) ReadWrite"
    "confs (apiWorld s) (job_fqid (payload_job p)) = None \<or> runtimes (apiWorld s) (job_fqid (payload_job p)) = None"
    "confs (apiWorld s') (job_fqid (payload_job p)) = Some (JobConf (payload_job p))"
    "runtimes (apiWorld s') (job_fqid (payload_job p)) = Some (JobRuntime (payload_job p))"
    "\<forall>fq. fq \<noteq> job_fqid (payload_job p) \<longrightarrow>
       confs (apiWorld s') fq = confs (apiWorld s) fq \<and> runtimes (apiWorld s') fq = runtimes (apiWorld s) fq"
    "inv (apiWorld s')" "resp s' = send_status 204 (resp s)"
  using assms(1) unfolding api_createJob_def
proof (cases rule: decode_body_cases)
  case (decoded v p)
  from decoded(3) show thesis
  proof (cases rule: validated_cases)
    case valid
    let ?j = "payload_job p" and ?jid = "JobID (JobConf (payload_job p))"
    have jid: "?jid = \<lparr>Group = npGroup p, Project = npProject p, ID = npID p\<rparr>" by (simp add: payload_job_def)
    note conf = new_payload_conforms [OF validator [OF valid(1)]]
    have wf: "wf_job_id ?jid"
      using pattern [OF conf(1)] pattern [OF conf(2)] pattern [OF conf(3)]
      by (simp add: jid wf_job_id_def id_part_chars)
    have fq: "fqid_of (npGroup p) (npProject p) (npID p) = job_fqid ?j"
      using fqid_of_JobID [of ?jid] by (simp add: FQID_def jid)
    have seg: "seg (job_fqid ?j)" using seg_fqid [OF wf] by (simp add: FQID_def)
    from valid(2) show thesis
    proof (cases rule: with_access_cases)
      case (granted lvl w1)
      from granted(3) show thesis
      proof (cases rule: or_500_cases)
        case (returned stored w2)
        from returned(2) have none: "stored = None"
          and save: "or_500 (opSaveJob (store env) ?j) (\<lambda>_. WriteHeader 204)
            (s\<lparr>apiWorld := w2\<rparr>) = (Inr (), s')"
          by (auto simp: reject_run split: if_splits)
        have get: "opGetJob stor (npGroup p) (npProject p) (npID p) w1 = (Inr stored, w2)"
          using returned(1) by (simp add: env_store)
        note same = authz_same [OF granted(1)] get_job_same [OF get]
        have inv: "inv w1" "inv w2" using same assms(2) by auto
        from get_job [OF inv(1) _ get] none seg same fq
        have before: "confs (apiWorld s) (job_fqid ?j) = None \<or> runtimes (apiWorld s) (job_fqid ?j) = None"
          by (auto split: option.splits)
        from save show thesis
        proof (cases rule: or_500_cases)
          case (returned u w3)
          have "opSaveJob stor ?j w2 = (Inr (), w3)" using returned(1) by (simp add: env_store)
          from save_job [OF inv(2) payload_job_wf(1) [OF decoded_new_payload_wf [OF decoded(2)]] payload_job_wf(2)
            seg this] same before wf decoded granted returned(2)
          show thesis
            by (intro that [of v p]) (auto simp: WriteHeader_run granted_def)
        qed simp_all
      qed simp_all
    qed simp
  qed simp
qed simp

text \<open>
  A successful update writes the stored configuration with the given fields replaced, and nothing
  else; the identity of the job does not change.
\<close>

lemma updateJob_ok:
  assumes "api_updateJob env r s = (Inr (), s')" "inv (apiWorld s)"
    and "seg (fqid_of (varGroup r) (varProject r) (varID r))"
  obtains v p c c' where "reqBody r = Inr v" "dec_struct update_payload_field v zero_update_payload = Inr p"
    "granted env (reqAuth r) (varGroup r) (varProject r) (apiWorld s) ReadWrite"
    "confs (apiWorld s) (fqid_of (varGroup r) (varProject r) (varID r)) = Some c" "update_conf p c = Inr c'"
    "JobID c' = JobID c"
    "confs (apiWorld s') = (confs (apiWorld s))(fqid_of (varGroup r) (varProject r) (varID r) \<mapsto> c')"
    "runtimes (apiWorld s') = runtimes (apiWorld s)" "queue (apiWorld s') = queue (apiWorld s)"
    "inv (apiWorld s')" "resp s' = send_status 204 (resp s)"
  using assms(1) unfolding api_updateJob_def
proof (cases rule: decode_body_cases)
  case (decoded v p)
  let ?fq = "fqid_of (varGroup r) (varProject r) (varID r)"
  from decoded(3) show thesis
  proof (cases rule: validated_cases)
    case valid
    from valid(2) show thesis
    proof (cases rule: with_access_cases)
      case (granted lvl w1)
      from granted(3) show thesis
      proof (cases rule: or_500_cases)
        case (returned stored w2)
        have get: "opGetJobConf stor (varGroup r) (varProject r) (varID r) w1 = (Inr stored, w2)"
          using returned(1) by (simp add: env_store)
        note same = authz_same [OF granted(1)] get_conf_same [OF get]
        have inv: "inv w1" "inv w2" using same assms(2) by auto
        from get_conf [OF inv(1) assms(3) get] same
        have stored: "stored = confs (apiWorld s) ?fq" by simp
        from returned(2) obtain c c' where c: "stored = Some c" "update_conf p c = Inr c'"
          and save: "or_500 (opSaveJobConf (store env) c') (\<lambda>_. WriteHeader 204) (s\<lparr>apiWorld := w2\<rparr>) = (Inr (), s')"
          by (auto simp: reject_run io_panic_run split: option.splits sum.splits fault.splits)
        from keyed [OF assms(2)] stored c(1) have c_ok: "FQID c = ?fq" "wf_job_conf c" by auto
        note c' = update_conf_wf [OF decoded_update_payload_wf [OF decoded(2)] c_ok(2) c(2)]
        from save show thesis
        proof (cases rule: or_500_cases)
          case (returned u w3)
          have run: "opSaveJobConf stor c' w2 = (Inr (), w3)" using returned(1) by (simp add: env_store)
          have "seg (FQID c')" using c'(3) c_ok(1) assms(3) by simp
          from save_conf [OF inv(2) c'(1) this run] same c stored c' c_ok decoded granted returned(2)
          show thesis by (intro that [of v p c c']) (auto simp: WriteHeader_run granted_def)
        qed simp_all
      qed simp_all
    qed simp
  qed simp
qed simp

text \<open>The update never dereferences nil: the schema asks for the image of a Mesos container.\<close>

lemma updateJob_no_panic:
  assumes "\<And>g p. no_panic (authz env (reqAuth r) g p)" "\<And>g p i. no_panic (opGetJobConf stor g p i)"
    and "\<And>c. no_panic (opSaveJobConf stor c)"
  shows "api_updateJob env r s \<noteq> (Inl (Panic m), s')"
proof
  assume "api_updateJob env r s = (Inl (Panic m), s')"
  then show False unfolding api_updateJob_def
  proof (cases rule: decode_body_cases)
    case (decoded v p)
    from decoded(3) show False
    proof (cases rule: validated_cases)
      case valid
      from update_payload_conforms(2) [OF validator [OF valid(1)]]
      have "update_conf p c \<noteq> Inl (Panic m')" for c m' by (intro update_conf_no_panic) blast
      then have "no_panic (with_access env (reqAuth r) (varGroup r) (varProject r) ReadWrite (
         or_500 (opGetJobConf (store env) (varGroup r) (varProject r) (varID r)) (\<lambda>stored.
           case stored of
             None \<Rightarrow> reject 404 errJobNotFound
           | Some conf \<Rightarrow>
               (case update_conf p conf of
                  Inl (Panic m) \<Rightarrow> io_panic m
                | Inl (Fail err) \<Rightarrow> reject 400 err
                | Inr conf' \<Rightarrow> or_500 (opSaveJobConf (store env) conf') (\<lambda>_. WriteHeader 204)))))"
        using assms
        by (auto simp: with_access_def env_store WriteHeader_def
            intro!: no_panic_or_500 no_panic_reject no_panic_intros split: option.split sum.split fault.split)
      with valid(2) show False by (auto dest: no_panicD)
    qed simp
  qed simp
qed

end

section \<open>The server over the ZooKeeper-backed storage\<close>

locale zk_api = zk_store s tree for s :: "'w zk_storage" and tree :: "'w \<Rightarrow> zk_view" +
  fixes env :: "('q, 'w) api_env" and rx :: "string \<Rightarrow> string \<Rightarrow> bool" and fmt :: "string \<Rightarrow> json \<Rightarrow> bool"
  assumes api_storage: "store env = zk_storage_ops s"
    and authz_tree: "keeps tree (authz env r g p)"
    and api_validator: "schemaValidate env sc v = Inr [] \<Longrightarrow> conforms rx fmt sc v"
    and api_pattern: "rx groupPattern x \<Longrightarrow> x \<noteq> [] \<and> list_all id_char x"

sublocale zk_api \<subseteq> api_server "zk_storage_ops s" "\<lambda>w. tidy s (tree w)" "\<lambda>w. stored_confs s (tree w)"
  "\<lambda>w. stored_runtimes s (tree w)" "\<lambda>w. queued_at s (tree w)" env rx fmt
proof unfold_locales
  show "store env = zk_storage_ops s" by (rule api_storage)
  show "keeps (\<lambda>w. (tidy s (tree w), stored_confs s (tree w), stored_runtimes s (tree w), queued_at s (tree w)))
      (authz env r g p)" for r g p
    by (rule keeps_comp [OF authz_tree])
  show "conforms rx fmt sc v" if "schemaValidate env sc v = Inr []" for sc v
    using that by (rule api_validator)
  show "x \<noteq> [] \<and> list_all id_char x" if "rx groupPattern x" for x
    using that by (rule api_pattern)
qed

text \<open>A server for experiments: no authorization, and a validator that follows the keywords.\<close>

definition ref_rx :: "string \<Rightarrow> string \<Rightarrow> bool" where
  "ref_rx p s \<longleftrightarrow> s \<noteq> [] \<and> list_all id_char s"

definition ref_fmt :: "string \<Rightarrow> json \<Rightarrow> bool" where
  "ref_fmt f v \<longleftrightarrow> v \<noteq> JStr []"

definition ref_error_text :: "error \<Rightarrow> string" where
  "ref_error_text e = (case e of ErrMsg m \<Rightarrow> m | _ \<Rightarrow> ''error'')"

definition ref_api_env :: "(unit, ref_tree) api_env" where
  "ref_api_env =
     \<lparr>authz = NoneAuthorizer, store = zk_storage_ops ref_storage,
      schemaValidate = (\<lambda>sc v. Inr (if conforms ref_rx ref_fmt sc v then [] else [''invalid''])),
      apiErrorText = ref_error_text\<rparr>"

interpretation ref_server: zk_api ref_storage map_of ref_api_env ref_rx ref_fmt
  by unfold_locales
    (auto simp: ref_api_env_def ref_rx_def NoneAuthorizer_def intro!: keeps_intros split: if_splits)

section \<open>Statuses\<close>

text \<open>Without a status of its own an error response goes out with status 200.\<close>

lemma invalid_payload_status:
  assumes "reqBody r = Inr v" "dec_struct new_payload_field v zero_new_payload = Inr p"
    and "validateSchema env newJobSchema (enc_new_payload p) = Some err" "resp s = fresh_response"
  shows "\<exists>s'. ServeHTTP env (api_createJob env r) s = (Inr (), s') \<and> status (resp s') = Some 200
     \<and> apiWorld s' = apiWorld s"
proof -
  have run: "api_createJob env r s = (Inl (Fail err), s)"
    using assms by (simp add: api_createJob_def decode_body_def validated_def io_fail_run)
  show ?thesis
    using assms(4) by (simp add: ServeHTTP_def io_try_of_Fail [of "api_createJob env r" s, OF run] encode_def io_modify_def Let_def
        send_status_def fresh_response_def)
qed

text \<open>An error response that has a status has lost its Content-Type.\<close>

lemma rejected_content_type:
  assumes "h s = (Inl (Fail err), s1)" "resp s = fresh_response" "resp s1 = send_status code (resp s)"
  shows "\<exists>s'. ServeHTTP env h s = (Inr (), s') \<and> status (resp s') = Some code \<and> \<not> jsonSent (resp s')
     \<and> length (body (resp s')) = 1"
  using assms by (simp add: ServeHTTP_def io_try_of_Fail [of h s, OF assms(1)] encode_def io_modify_def Let_def
      send_status_def fresh_response_def)

text \<open>The history is returned by end of task.\<close>

lemma getTasks_sorted:
  assumes "api_getTasks env r s = (Inr (), s')"
  shows "\<exists>lvl w tasks w'. authz env (reqAuth r) (varGroup r) (varProject r) (apiWorld s) = (Inr lvl, w) \<and> ReadOnly \<le> lvl
     \<and> opGetTasks (store env) (varGroup r) (varProject r) (varID r) w = (Inr tasks, w')
     \<and> encode (enc_list enc_task (sort_key taskEnd tasks)) (s\<lparr>apiWorld := w'\<rparr>) = (Inr (), s')"
  using assms unfolding api_getTasks_def
proof (cases rule: with_access_cases)
  case (granted lvl w)
  from granted(3) show ?thesis
  proof (cases rule: or_500_cases)
    case (returned tasks w')
    with granted show ?thesis by auto
  qed simp_all
qed simp

end
