(* ===== verification/TtlSet.thy ===== *)
theory TtlSet
  imports GoLib
begin

text \<open>
  The set with expiring members of \<^verbatim>\<open>mesos/jobsscheduler/ttlmap.go\<close>, in which the scheduler books
  the jobs it has selected for an offer, and the contract of such a booking.
\<close>

section \<open>Clocks\<close>

text \<open>
  \<open>time.Now\<close>: reading advances the world, never back past an earlier reading (Go's readings carry a
  monotonic clock).
\<close>

locale go_clock =
  fixes now :: "'w \<Rightarrow> time \<times> 'w" and clock :: "'w \<Rightarrow> time"
  assumes now_reads: "now w = (t, w') \<Longrightarrow> clock w \<le> t \<and> t \<le> clock w'"

section \<open>The set\<close>

record ttl_set =
  ttlM :: "string \<Rightarrow> time option"
  ttlDuration :: duration

definition newTTLSet :: "duration \<Rightarrow> ttl_set" where
  "newTTLSet ttl = \<lparr>ttlM = (\<lambda>_. None), ttlDuration = ttl\<rparr>"

definition ttl_Exists :: "('w \<Rightarrow> time \<times> 'w) \<Rightarrow> ttl_set \<Rightarrow> string \<Rightarrow> 'w \<Rightarrow> bool \<times> 'w" where
  "ttl_Exists now s k w =
     (case ttlM s k of
        None \<Rightarrow> (False, w)
      | Some v \<Rightarrow> (case now w of (t, w') \<Rightarrow> (time_sub t v \<le> ttlDuration s, w')))"

definition ttl_Set :: "('w \<Rightarrow> time \<times> 'w) \<Rightarrow> ttl_set \<Rightarrow> string \<Rightarrow> 'w \<Rightarrow> ttl_set \<times> 'w" where
  "ttl_Set now s k w = (case now w of (t, w') \<Rightarrow> (s\<lparr>ttlM := (ttlM s)(k \<mapsto> t)\<rparr>, w'))"

definition ttl_Del :: "string \<Rightarrow> ttl_set \<Rightarrow> ttl_set" where
  "ttl_Del k s = s\<lparr>ttlM := (ttlM s)(k := None)\<rparr>"

text \<open>One round of the cleanup loop; \<open>ks\<close> is the order in which Go ranges over the map.\<close>

fun ttl_cleanup :: "('w \<Rightarrow> time \<times> 'w) \<Rightarrow> string list \<Rightarrow> ttl_set \<Rightarrow> 'w \<Rightarrow> ttl_set \<times> 'w" where
  "ttl_cleanup now [] s w = (s, w)"
| "ttl_cleanup now (k # ks) s w =
     (case ttlM s k of
        None \<Rightarrow> ttl_cleanup now ks s w
      | Some v \<Rightarrow>
          (case now w of (t, w') \<Rightarrow>
             ttl_cleanup now ks (if ttlDuration s < time_sub t v then ttl_Del k s else s) w'))"

section \<open>Membership at an instant\<close>

definition live :: "ttl_set \<Rightarrow> time \<Rightarrow> string \<Rightarrow> bool" where
  "live s t k = (case ttlM s k of None \<Rightarrow> False | Some v \<Rightarrow> time_sub t v \<le> ttlDuration s)"

lemma ttl_Exists_live: "ttl_Exists now s k w = (b, w') \<Longrightarrow> b \<Longrightarrow> \<exists>t. now w = (t, w') \<and> live s t k"
  by (auto simp: ttl_Exists_def live_def split: option.splits prod.splits)

lemma ttl_Exists_not_live:
  "ttl_Exists now s k w = (b, w') \<Longrightarrow> \<not> b \<Longrightarrow> ttlM s k = None \<or> (\<exists>t. now w = (t, w') \<and> \<not> live s t k)"
  by (auto simp: ttl_Exists_def live_def split: option.splits prod.splits)

lemma live_antimono: "live s t' k \<Longrightarrow> t \<le> t' \<Longrightarrow> live s t k"
  using time_sub_mono [of t t'] by (auto simp: live_def split: option.splits intro: order_trans)

lemma live_Del: "live (ttl_Del k s) t k' = (k' \<noteq> k \<and> live s t k')"
  by (auto simp: live_def ttl_Del_def split: option.splits)

lemma live_Set:
  assumes "ttl_Set now s k w = (s', w')" "now w = (t0, w1)"
  shows "live s' t k' = (if k' = k then time_sub t t0 \<le> ttlDuration s else live s t k')"
  using assms by (auto simp: live_def ttl_Set_def split: option.splits)

text \<open>What a cleanup may have done to an entry, in terms of the instants it has read.\<close>

context go_clock
begin

lemma cleanup_entry:
  assumes "ttl_cleanup now ks s w = (s', w')"
  shows "ttlDuration s' = ttlDuration s \<and> clock w \<le> clock w'
     \<and> (ttlM s' k = ttlM s k
        \<or> (ttlM s' k = None \<and> (\<exists>v t. ttlM s k = Some v \<and> t \<le> clock w' \<and> ttlDuration s < time_sub t v)))"
  using assms
proof (induction ks arbitrary: s w)
  case (Cons x ks)
  show ?case
  proof (cases "ttlM s x")
    case None
    with Cons show ?thesis by simp
  next
    case (Some v)
    obtain t w1 where now: "now w = (t, w1)" by fastforce
    let ?s1 = "if ttlDuration s < time_sub t v then ttl_Del x s else s"
    from Cons.prems Some now have "ttl_cleanup now ks ?s1 w1 = (s', w')" by simp
    from Cons.IH [OF this] now_reads [OF now] Some show ?thesis
      by (cases "k = x") (auto simp: ttl_Del_def split: if_splits intro: order_trans)
  qed
qed simp

text \<open>A cleanup cannot be observed: it only removes what has already expired.\<close>

lemma cleanup_unobservable:
  assumes "ttl_cleanup now ks s w = (s', w')" "clock w' \<le> t"
  shows "live s' t k = live s t k"
proof -
  from cleanup_entry [OF assms(1), of k] have dur: "ttlDuration s' = ttlDuration s"
    and "ttlM s' k = ttlM s k
        \<or> (ttlM s' k = None \<and> (\<exists>v t. ttlM s k = Some v \<and> t \<le> clock w' \<and> ttlDuration s < time_sub t v))"
    by auto
  then consider "ttlM s' k = ttlM s k"
    | v t0 where "ttlM s' k = None" "ttlM s k = Some v" "t0 \<le> clock w'" "ttlDuration s < time_sub t0 v"
    by blast
  then show ?thesis
  proof cases
    case 2
    with time_sub_mono [of t0 t v] assms(2) show ?thesis by (simp add: live_def)
  qed (simp add: live_def dur split: option.split)
qed

end

section \<open>The contract of a booking\<close>

text \<open>
  What the scheduler relies on: \<open>booked s t k\<close> at instant \<open>t\<close>, kept alive for \<open>ttl\<close> after
  \<open>add\<close>, cancelled by \<open>del\<close>, and not affected by the cleanups that run in between.
\<close>

locale booking =
  fixes booked :: "'s \<Rightarrow> time \<Rightarrow> string \<Rightarrow> bool"
    and add :: "time \<Rightarrow> string \<Rightarrow> 's \<Rightarrow> 's"
    and del :: "string \<Rightarrow> 's \<Rightarrow> 's"
    and cleaned :: "time \<Rightarrow> 's \<Rightarrow> 's \<Rightarrow> bool"
    and ttl :: "'s \<Rightarrow> duration"
  assumes booked_add: "booked (add t0 k s) t k' = (if k' = k then time_sub t t0 \<le> ttl s else booked s t k')"
    and booked_del: "booked (del k s) t k' = (k' \<noteq> k \<and> booked s t k')"
    and booked_cleaned: "cleaned t0 s s' \<Longrightarrow> t0 \<le> t \<Longrightarrow> booked s' t k = booked s t k"
    and ttl_same: "ttl (add t0 k s) = ttl s" "ttl (del k s) = ttl s" "cleaned t0 s s' \<Longrightarrow> ttl s' = ttl s"
begin

text \<open>Runs of bookings, cancellations and cleanups, up to instant \<open>t\<close>.\<close>

inductive runs :: "string set \<Rightarrow> time \<Rightarrow> 's \<Rightarrow> 's \<Rightarrow> bool" for K t where
  runs_refl: "runs K t s s"
| runs_add: "runs K t s s' \<Longrightarrow> k \<notin> K \<Longrightarrow> runs K t s (add t0 k s')"
| runs_del: "runs K t s s' \<Longrightarrow> k \<notin> K \<Longrightarrow> runs K t s (del k s')"
| runs_clean: "runs K t s s' \<Longrightarrow> cleaned t0 s' s'' \<Longrightarrow> t0 \<le> t \<Longrightarrow> runs K t s s''"

lemma runs_booked: "runs K t s s' \<Longrightarrow> k \<in> K \<Longrightarrow> booked s' t k = booked s t k"
  by (induction rule: runs.induct) (auto simp: booked_add booked_del booked_cleaned)

lemma booking_lasts:
  assumes "runs {k} t (add t0 k s) s'"
  shows "booked s' t k \<longleftrightarrow> time_sub t t0 \<le> ttl s"
  using runs_booked [OF assms] by (simp add: booked_add)

lemma cancelled_stays:
  assumes "runs {k} t (del k s) s'"
  shows "\<not> booked s' t k"
  using runs_booked [OF assms] by (simp add: booked_del)

end

text \<open>The set keeps the contract, over any clock that does not go back.\<close>

definition ttl_add :: "time \<Rightarrow> string \<Rightarrow> ttl_set \<Rightarrow> ttl_set" where
  "ttl_add t k s = fst (ttl_Set (\<lambda>w. (t, w)) s k ())"

lemma ttl_Set_add: "ttl_Set now s k w = (case now w of (t, w') \<Rightarrow> (ttl_add t k s, w'))"
  by (simp add: ttl_Set_def ttl_add_def split: prod.splits)

sublocale go_clock \<subseteq> booking live ttl_add ttl_Del
  "\<lambda>t s s'. \<exists>ks w w'. ttl_cleanup now ks s w = (s', w') \<and> clock w' \<le> t" ttlDuration
proof
  show "live (ttl_add t0 k s) t k' = (if k' = k then time_sub t t0 \<le> ttlDuration s else live s t k')"
    for t0 k s t k'
    by (auto simp: live_def ttl_add_def ttl_Set_def split: option.splits)
  show "live (ttl_Del k s) t k' = (k' \<noteq> k \<and> live s t k')" for k s t k'
    by (rule live_Del)
  show "live s' t k = live s t k"
    if "\<exists>ks w w'. ttl_cleanup now ks s w = (s', w') \<and> clock w' \<le> t0" "t0 \<le> t" for t0 s s' t k
    using that by (auto dest!: cleanup_unobservable [where t = t and k = k] elim: order_trans)
  show "ttlDuration (ttl_add t0 k s) = ttlDuration s" "ttlDuration (ttl_Del k s) = ttlDuration s" for t0 k s
    by (simp_all add: ttl_add_def ttl_Set_def ttl_Del_def)
  show "ttlDuration s' = ttlDuration s"
    if "\<exists>ks w w'. ttl_cleanup now ks s w = (s', w') \<and> clock w' \<le> t0" for t0 s s'
    using that cleanup_entry by blast
qed

text \<open>Runs of the set itself: bookings and cancellations of keys outside \<open>K\<close>, and cleanups that end by \<open>t\<close>.\<close>

inductive ttl_runs ::
  "('w \<Rightarrow> time \<times> 'w) \<Rightarrow> ('w \<Rightarrow> time) \<Rightarrow> string set \<Rightarrow> time \<Rightarrow> ttl_set \<Rightarrow> ttl_set \<Rightarrow> bool" for now clock K t where
  ttl_refl: "ttl_runs now clock K t s s"
| ttl_set: "ttl_runs now clock K t s s' \<Longrightarrow> k \<notin> K \<Longrightarrow> ttl_Set now s' k w = (s'', w') \<Longrightarrow> ttl_runs now clock K t s s''"
| ttl_del: "ttl_runs now clock K t s s' \<Longrightarrow> k \<notin> K \<Longrightarrow> ttl_runs now clock K t s (ttl_Del k s')"
| ttl_clean: "ttl_runs now clock K t s s' \<Longrightarrow> ttl_cleanup now ks s' w = (s'', w') \<Longrightarrow> clock w' \<le> t \<Longrightarrow>
    ttl_runs now clock K t s s''"

context go_clock
begin

lemma ttl_runs_run: "ttl_runs now clock K t s s' \<Longrightarrow> runs K t s s'"
proof (induction rule: ttl_runs.induct)
  case (ttl_set s s' k w s'' w')
  obtain t0 where "s'' = ttl_add t0 k s'" using ttl_set.hyps(3) by (auto simp: ttl_Set_add split: prod.splits)
  with runs_add [OF ttl_set.IH ttl_set.hyps(2)] show ?case by simp
qed (auto intro: runs.intros)

lemma ttl_booking_lasts:
  assumes "ttl_Set now s k w = (s0, w0)" "now w = (t0, w1)" "ttl_runs now clock {k} t s0 s'"
  shows "live s' t k \<longleftrightarrow> time_sub t t0 \<le> ttlDuration s"
  using booking_lasts [of k t t0 s s'] ttl_runs_run [OF assms(3)] assms(1,2) by (simp add: ttl_Set_add)

end

text \<open>A clock that advances by a nanosecond with every reading.\<close>

definition tick :: "time \<Rightarrow> time \<times> time" where
  "tick t = (t, t + 1)"

interpretation tick: go_clock tick "\<lambda>t. t"
  by unfold_locales (auto simp: tick_def)

end
