(* ===== verification/History.thy ===== *)
theory History
  imports JobStore TtlSet
begin

text \<open>
  The rest of the storage: the framework id, the history of tasks with the names of its nodes, and
  the cleanup of old tasks; and a reference world of a data tree with a clock.
\<close>

section \<open>What makes a read fail\<close>

lemma io_for_Inl:
  assumes "io_for xs f w = (Inl e, w')" "\<And>x. keeps v (f x)"
  obtains x w1 w2 where "x \<in> set xs" "v w1 = v w" "f x w1 = (Inl e, w2)"
proof -
  have "\<exists>x \<in> set xs. \<exists>w1 w2. v w1 = v w \<and> f x w1 = (Inl e, w2)"
    using assms(1)
  proof (induction xs arbitrary: w)
    case (Cons x xs)
    from Cons.prems consider (here) "f x w = (Inl e, w')"
      | (later) y w1 where "f x w = (Inr y, w1)" "io_for xs f w1 = (Inl e, w')"
      by (auto simp: io_bind_Inl io_ret_run)
    then show ?case
    proof cases
      case here
      then show ?thesis by auto
    next
      case later
      have "v w1 = v w" using assms(2) later(1) by (rule keepsD)
      with Cons.IH [OF later(2)] show ?thesis by auto
    qed
  qed (simp add: io_ret_run)
  with that show thesis by blast
qed

context zk_store
begin

text \<open>Reading a node that is there returns its value, unless the connection fails.\<close>

lemma get_present:
  "zkGet (conn s) p w = (Inl e, w') \<Longrightarrow> other_error e \<or> e = ErrNoNode \<and> tree w p = None"
  by (drule zk_get) (auto simp: get_spec_def split: option.splits)

lemma read_node_present:
  assumes "read_node s d z p w = (q, w')" "tree w p = Some (Some doc, n)" "d doc z = Inr y"
  shows "q = Inr (Some y) \<or> (\<exists>e. q = Inl (Fail (ErrZK e)) \<and> other_error e)"
proof -
  obtain rg w1 where get: "zkGet (conn s) p w = (rg, w1)" by fastforce
  from zk_get [OF get] assms(2) have "rg = Inr (Some doc, n) \<or> (\<exists>e. rg = Inl e \<and> other_error e)"
    by (auto simp: get_spec_def)
  with assms(1,3) get show ?thesis
    by (auto simp: read_node_def io_try_def io_of_zk_def io_bind_def unmarshal_def io_of_sum_def io_ret_def
        io_fail_def other_error_def)
qed

lemma GetJob_present:
  assumes "tidy s (tree w)" "seg (fqid_of g p i)" "stored_confs s (tree w) (fqid_of g p i) = Some c"
    "stored_runtimes s (tree w) (fqid_of g p i) = Some r" "GetJob s g p i w = (q, w')"
  shows "q = Inr (Some \<lparr>JobConf = c, JobRuntime = r\<rparr>) \<or> (\<exists>e. q = Inl (Fail (ErrZK e)) \<and> other_error e)"
proof -
  let ?fq = "fqid_of g p i"
  from assms(2,3) have "conf_at s (tree w) ?fq = Some c" by (simp add: stored_confs_def)
  then obtain d n where c: "tree w (job_path s ?fq) = Some (Some d, n)" "dec_job_conf d zero_job_conf = Inr c"
    by (auto simp: conf_at_def doc_at_def split: option.splits sum.splits)
  from assms(2,4) have "runtime_at s (tree w) ?fq = Some r" by (simp add: stored_runtimes_def)
  then obtain d' n' where r: "tree w (runtime_path s ?fq) = Some (Some d', n')"
    "dec_job_runtime d' zero_job_runtime = Inr r"
    by (auto simp: runtime_at_def doc_at_def split: option.splits sum.splits)
  obtain qc w1 where run: "GetJobConf s g p i w = (qc, w1)" by fastforce
  obtain qr w2 where run2: "GetJobRuntime s g p i w1 = (qr, w2)" by fastforce
  have w1: "tree w1 = tree w" using keepsD [OF keeps_GetJobConf run] .
  from read_node_present [OF run [unfolded GetJobConf_def] c]
    read_node_present [OF run2 [unfolded GetJobRuntime_def w1] r(1) [folded w1] r(2)]
  show ?thesis using assms(5) run run2 by (auto simp: GetJob_def io_bind_def io_ret_def)
qed

lemma load_job_fails:
  assumes "tidy s (tree w)" "seg n" "tree w (job_path s n) \<noteq> None" "load_job s n w = (Inl f, w')"
  shows "\<exists>e. f = Fail (ErrZK e)
    \<and> (other_error e \<or> e = ErrNoNode \<and> stored_confs s (tree w) n \<noteq> None \<and> stored_runtimes s (tree w) n = None)"
proof -
  from assms(3) obtain nd where nd: "tree w (job_path s n) = Some nd" by blast
  from conf_at_tidy [OF assms(1,2) nd] obtain c where
    c: "fst nd = Some (enc_job_conf c)" "wf_job_conf c" "conf_at s (tree w) n = Some c" by blast
  obtain d1 w1 where get1: "zkGet (conn s) (job_path s n) w = (d1, w1)" by fastforce
  show ?thesis
  proof (cases d1)
    case (Inl e)
    with get_present [of "job_path s n" w e w1] get1 nd assms(4) show ?thesis
      by (auto simp: load_job_def io_bind_def io_of_zk_def)
  next
    case (Inr x)
    with get_ok [of "job_path s n" w x w1] get1 nd have x: "x = nd" and w1: "tree w1 = tree w" by auto
    obtain d2 w2 where get2: "zkGet (conn s) (runtime_path s n) w1 = (d2, w2)" by fastforce
    have dec1: "unmarshal dec_job (fst nd) zero_job w1 = (Inr (zero_job\<lparr>JobConf := c\<rparr>), w1)"
      using c dec_enc_job_conf_in_job [OF c(2)] by (simp add: unmarshal_def io_of_sum_def)
    have confs: "stored_confs s (tree w) n \<noteq> None" using c(3) assms(2) by (simp add: stored_confs_def)
    show ?thesis
    proof (cases d2)
      case (Inl e)
      have "f = Fail (ErrZK e)" using assms(4) get1 Inr x dec1 get2 Inl
        by (cases nd) (auto simp: load_job_def io_bind_def io_of_zk_def)
      moreover have "other_error e \<or> e = ErrNoNode \<and> tree w (runtime_path s n) = None"
        using get_present [of "runtime_path s n" w1 e w2] get2 Inl w1 by simp
      ultimately show ?thesis using confs by (auto simp: stored_runtimes_def runtime_at_None)
    next
      case (Inr y)
      with get_ok [of "runtime_path s n" w1 y w2] get2 w1 have y: "tree w (runtime_path s n) = Some y" by auto
      from runtime_at_tidy [OF assms(1,2) y] obtain r doc where
        r: "fst y = Some doc" "enc_job_runtime r = Inr doc" "wf_job_runtime r" by blast
      from dec_enc_job_runtime_in_job [OF r(2,3), of "zero_job\<lparr>JobConf := c\<rparr>"] r(1)
      have dec2: "unmarshal dec_job (fst y) (zero_job\<lparr>JobConf := c\<rparr>) w2
          = (Inr (zero_job\<lparr>JobConf := c, JobRuntime := r\<rparr>), w2)"
        by (simp add: unmarshal_def io_of_sum_def)
      from assms(4) get1 \<open>d1 = Inr x\<close> x dec1 get2 Inr dec2 show ?thesis
        by (cases nd; cases y) (simp add: load_job_def io_bind_def io_of_zk_def)
    qed
  qed
qed

text \<open>The listing fails when the connection does, when the store is not initialised, and for a job without runtime.\<close>

lemma GetJobs_fails:
  assumes "tidy s (tree w)" "GetJobs s w = (Inl f, w')"
  shows "\<exists>e. f = Fail (ErrZK e)
    \<and> (other_error e
       \<or> e = ErrNoNode \<and> (tree w (jobs_path s) = None
           \<or> (\<exists>fq. stored_confs s (tree w) fq \<noteq> None \<and> stored_runtimes s (tree w) fq = None)))"
proof -
  obtain rl w1 where kids: "zkChildren (conn s) (jobs_path s) w = (rl, w1)" by fastforce
  show ?thesis
  proof (cases rl)
    case (Inl e)
    with zk_children [OF kids] assms(2) kids show ?thesis
      by (auto simp: GetJobs_def io_bind_def io_of_zk_def split: if_splits)
  next
    case (Inr ns)
    with kids assms(2) have loop: "io_for ns (load_job s) w1 = (Inl f, w')"
      by (simp add: GetJobs_def io_bind_def io_of_zk_def)
    from children_ok [of "jobs_path s" w ns w1] kids Inr
    have names: "set ns = {n. seg n \<and> tree w (job_path s n) \<noteq> None}" and w1: "tree w1 = tree w"
      by (auto simp: job_names)
    from io_for_Inl [OF loop keeps_load_job] obtain n wa wb where
      n: "n \<in> set ns" "tree wa = tree w" "load_job s n wa = (Inl f, wb)" unfolding w1 by blast
    with names load_job_fails [of wa n f wb] assms(1) show ?thesis by auto
  qed
qed

end

section \<open>Runs of calls\<close>

text \<open>One call of the storage, with any outcome, on data the code produces.\<close>

inductive storage_call :: "'w zk_storage \<Rightarrow> ('w \<Rightarrow> zk_view) \<Rightarrow> 'w \<Rightarrow> 'w \<Rightarrow> bool" for s tree where
  call_SaveJob: "wf_job_conf (JobConf j) \<Longrightarrow> wf_job_runtime (JobRuntime j) \<Longrightarrow> seg (job_fqid j) \<Longrightarrow>
    SaveJob s j w = (q, w') \<Longrightarrow> storage_call s tree w w'"
| call_SaveJobConf: "wf_job_conf c \<Longrightarrow> seg (FQID c) \<Longrightarrow> SaveJobConf s c w = (q, w') \<Longrightarrow> storage_call s tree w w'"
| call_SaveJobRuntime: "wf_job_runtime r \<Longrightarrow> seg (fqid_of g p i) \<Longrightarrow> SaveJobRuntime s g p i r w = (q, w') \<Longrightarrow>
    storage_call s tree w w'"
| call_DeleteJob: "seg (fqid_of g p i) \<Longrightarrow> DeleteJob s g p i w = (q, w') \<Longrightarrow> storage_call s tree w w'"
| call_QueueJob: "seg (fqid_of g p i) \<Longrightarrow> QueueJob s g p i w = (q, w') \<Longrightarrow> storage_call s tree w w'"
| call_DequeueJob: "seg (fqid_of g p i) \<Longrightarrow> DequeueJob s g p i w = (q, w') \<Longrightarrow> storage_call s tree w w'"
| call_AddTask: "seg (fqid_of g p i) \<Longrightarrow> AddTask s g p i t w = (q, w') \<Longrightarrow> storage_call s tree w w'"
| call_SetFrameworkID: "SetFrameworkID s fid w = (q, w') \<Longrightarrow> storage_call s tree w w'"
| call_init: "init s w = (q, w') \<Longrightarrow> storage_call s tree w w'"
| call_read: "tree w' = tree w \<Longrightarrow> storage_call s tree w w'"

context zk_store
begin

lemma moves_tidy_init: "moves (\<lambda>v v'. tidy s v \<longrightarrow> tidy s v') tree (init s)"
  unfolding init_def by (auto intro!: moves_intros moves_create_if_missing intro: tidy_other)

lemma moves_tidy_SetFrameworkID: "moves (\<lambda>v v'. tidy s v \<longrightarrow> tidy s v') tree (SetFrameworkID s fid)"
  unfolding SetFrameworkID_def unmarshal_def
  by (auto intro!: moves_intros moves_zk_set intro: tidy_other moves_of_keeps [OF _ keeps_get])

lemma tidy_call: "storage_call s tree w w' \<Longrightarrow> tidy s (tree w) \<Longrightarrow> tidy s (tree w')"
proof (induction rule: storage_call.induct)
  case (call_AddTask g p i t w q w')
  then show ?case using movesD [OF AddTask_effect(4) [OF call_AddTask(1)] call_AddTask(2)] by blast
next
  case (call_SetFrameworkID fid w q w')
  then show ?case using movesD [OF moves_tidy_SetFrameworkID] by blast
next
  case (call_init w q w')
  then show ?case using movesD [OF moves_tidy_init] by blast
qed (auto dest: SaveJob_effect(1) SaveJobConf_effect(1) SaveJobRuntime_effect(1) DeleteJob_effect(1)
    QueueJob_effect(1) DequeueJob_effect(1))

end

section \<open>Framework id\<close>

lemma dec_framework_state: "dec_struct framework_field (enc_framework_state fid) x = Inr fid"
  by (simp add: enc_framework_state_def framework_field_def dec_struct_JObj field_names_lower)

context zk_store
begin

lemma framework_id_stored:
  assumes "SetFrameworkID s fid w = (Inr (), w1)" "GetFrameworkID s w1 = (q, w2)"
  shows "q = Inr fid \<or> (\<exists>e. q = Inl (Fail (ErrZK e)) \<and> other_error e)"
proof -
  from assms(1) obtain n where "tree w1 (state_path s) = Some (Some (enc_framework_state fid), n)"
    by (auto simp: SetFrameworkID_def unmarshal_def io_simps dest!: set_ok)
  then have get: "rg = Inr (Some (enc_framework_state fid), n) \<or> (\<exists>e. rg = Inl e \<and> other_error e)"
    if "zkGet (conn s) (state_path s) w1 = (rg, w')" for rg w'
    using zk_get [OF that] by (simp add: get_spec_def)
  obtain rg w' where run: "zkGet (conn s) (state_path s) w1 = (rg, w')" by fastforce
  with get [OF run] assms(2) show ?thesis
    by (auto simp: GetFrameworkID_def io_bind_def io_of_zk_def unmarshal_def io_of_sum_def dec_framework_state)
qed

end

section \<open>Names of history nodes\<close>

lemma task_key_timestamp: "parse_int64 (hd (splitn2 (CHR ''@'') (task_key t))) = Some (time_to_unix (taskEnd t))"
proof -
  have "splitn2 (CHR ''@'') (task_key t) = [show_int (time_to_unix (taskEnd t)), TaskID t]"
    using splitn2_append [OF show_int_no_at, of "time_to_unix (taskEnd t)" "TaskID t"] by (simp add: task_key_def)
  moreover have "parse_int64 (show_int (time_to_unix (taskEnd t))) = Some (time_to_unix (taskEnd t))"
    using wrap64_bounds by (intro parse_int64_show_int) (simp_all add: time_to_unix_def)
  ultimately show ?thesis by simp
qed

text \<open>The name keeps the end of the task to the second.\<close>

lemma unix_round:
  assumes "int64_min \<le> t div second" "t div second \<le> int64_max"
  shows "time_of_unix (time_to_unix t) = (t div second) * second"
proof -
  have "wrap64 (wrap64 (x - e) + e) = wrap64 x" for x e
    by (simp add: wrap64_def mod_simps)
  with wrap64_id [OF assms] show ?thesis by (simp add: time_of_unix_def time_to_unix_def)
qed

context zk_store
begin

lemma create_then_bind_ok:
  "io_bind (io_of_zk (zkCreate (conn s) p d 0 a)) (\<lambda>_. io_ret ()) w = (Inr (), w') \<Longrightarrow>
   tree w' = (tree w)(p \<mapsto> (d, 0))"
  by (auto simp: io_simps dest!: create_ok)

lemma AddTask_ok:
  assumes "AddTask s g p i t w = (Inr (), w')"
  obtains doc where "enc_task t = Inr doc"
    "tree w' (tasks_path s (fqid_of g p i) @ ''/'' @ task_key t) = Some (Some doc, 0)"
proof -
  from assms obtain doc where doc: "enc_task t = Inr doc" by (auto simp: AddTask_def io_simps)
  with assms have "tree w' (tasks_path s (fqid_of g p i) @ ''/'' @ task_key t) = Some (Some doc, 0)"
    by (auto simp: AddTask_def Let_def io_try_eq io_bind_Inr io_of_sum_eq io_of_zk_eq io_ret_run io_fail_run
        split: if_splits dest!: create_ok)
  with doc show thesis by (rule that)
qed

lemma GetTasks_ok:
  assumes "GetTasks s g p i w = (Inr ts, w')" "tree w (tasks_path s (fqid_of g p i)) \<noteq> None"
    and "tree w (tasks_path s (fqid_of g p i) @ ''/'' @ k) = Some (Some doc, n)" "seg k" "enc_task t = Inr doc"
  shows "t \<in> set ts"
proof -
  let ?base = "tasks_path s (fqid_of g p i)"
  from assms(1) obtain ns w1 where ns: "children_if_present s ?base w = (Inr ns, w1)"
    and loop: "io_for ns (\<lambda>child. io_bind (io_of_zk (zkGet (conn s) (?base @ ''/'' @ child))) (\<lambda>(data, _).
        unmarshal dec_task data zero_task)) w1 = (Inr ts, w')"
    by (auto simp: GetTasks_def Let_def io_bind_Inr)
  note names = children_if_present_ok [OF ns]
  have "list_all2 (\<lambda>child t'. \<forall>d n. tree w (?base @ ''/'' @ child) = Some (d, n) \<longrightarrow>
      (\<exists>doc. d = Some doc \<and> dec_task doc zero_task = Inr t')) ns ts"
    by (rule io_for_list_all2 [OF loop, where v = tree])
      (auto intro!: keeps_intros simp: unmarshal_def io_simps names(1) split: option.splits dest!: get_ok)
  moreover have "k \<in> set ns" using names(2) [OF assms(2)] assms(3,4) by (auto simp: child_names_def seg_def)
  ultimately obtain t' where "t' \<in> set ts" "dec_task doc zero_task = Inr t'"
    using assms(3) by (induction ns ts rule: list_all2_induct) auto
  with dec_enc_task [OF assms(5)] show ?thesis by simp
qed

end

section \<open>The cleanup of old tasks\<close>

text \<open>Nodes of the history whose name says that the task ended longer than the TTL ago.\<close>

definition outdated :: "'w zk_storage \<Rightarrow> time \<Rightarrow> string \<Rightarrow> bool" where
  "outdated s t p \<longleftrightarrow>
     (\<exists>fq key ts. p = tasks_path s fq @ CHR ''/'' # key
        \<and> parse_int64 (hd (splitn2 (CHR ''@'') key)) = Some ts \<and> taskTTL s < time_sub t (time_of_unix ts))"

definition swept :: "'w zk_storage \<Rightarrow> ('w \<Rightarrow> zk_view) \<Rightarrow> ('w \<Rightarrow> time) \<Rightarrow> 'w \<Rightarrow> 'w \<Rightarrow> bool" where
  "swept s tree clock w w' \<longleftrightarrow> clock w \<le> clock w'
     \<and> (\<forall>p. tree w' p = tree w p \<or> (tree w' p = None \<and> outdated s (clock w') p))"

text \<open>
  A ZooKeeper client and a clock in one world: its calls and the reading of the context take time and
  reading the clock leaves the tree alone.
\<close>

locale zk_clocked = zk_store s tree + go_clock now clock
  for s :: "'w zk_storage" and tree :: "'w \<Rightarrow> zk_view" and now :: "'w \<Rightarrow> time \<times> 'w" and clock +
  fixes ctxDone :: "'w \<Rightarrow> bool \<times> 'w"
  assumes now_tree: "now w = (t, w') \<Longrightarrow> tree w' = tree w"
    and ctx_reads: "ctxDone w = (b, w') \<Longrightarrow> tree w' = tree w \<and> clock w \<le> clock w'"
    and delete_takes: "zkDelete (conn s) p ver w = (rd, w') \<Longrightarrow> clock w \<le> clock w'"
    and children_takes: "zkChildren (conn s) p w = (rl, w') \<Longrightarrow> clock w \<le> clock w'"
begin

lemma outdated_mono: "outdated s t p \<Longrightarrow> t \<le> t' \<Longrightarrow> outdated s t' p"
  unfolding outdated_def by (blast intro: order_less_le_trans [OF _ time_sub_mono])

lemma swept_refl: "swept s tree clock w w"
  by (simp add: swept_def)

lemma swept_trans: "swept s tree clock w w1 \<Longrightarrow> swept s tree clock w1 w2 \<Longrightarrow> swept s tree clock w w2"
  unfolding swept_def by (metis order_trans outdated_mono)

lemma swept_read: "tree w' = tree w \<Longrightarrow> clock w \<le> clock w' \<Longrightarrow> swept s tree clock w w'"
  by (simp add: swept_def)

lemmas swept_ctx = ctx_reads [THEN conjunct1, THEN swept_read, OF _ ctx_reads [THEN conjunct2]]

lemma swept_now: "now w = (t, w') \<Longrightarrow> swept s tree clock w w' \<and> t \<le> clock w'"
  using now_tree now_reads by (meson order_trans swept_read)

lemma swept_delete:
  assumes "zkDelete (conn s) p ver w = (rd, w')" "outdated s (clock w) p"
  shows "swept s tree clock w w'"
proof -
  have "outdated s (clock w') p" using outdated_mono [OF assms(2) delete_takes [OF assms(1)]] .
  with zk_delete [OF assms(1)] delete_takes [OF assms(1)] show ?thesis
    by (auto simp: swept_def delete_spec_def split: option.splits if_splits)
qed

lemma swept_keys:
  "cleanup_keys s now ctxDone (tasks_path s fq) keys deleted w = (q, w') \<Longrightarrow> swept s tree clock w w'"
proof (induction keys arbitrary: deleted w)
  case Nil
  then show ?case by (simp add: io_ret_run swept_refl)
next
  case (Cons key keys)
  let ?ctx = "\<lambda>n. io_bind (io_of_read ctxDone) (\<lambda>done.
      if done then io_ret (n, True) else cleanup_keys s now ctxDone (tasks_path s fq) keys n)"
  have ctx: "swept s tree clock w1 w'" if "?ctx n w1 = (q, w')" for n w1
  proof -
    obtain b w2 where read: "ctxDone w1 = (b, w2)" by fastforce
    with that have "w' = w2 \<or> cleanup_keys s now ctxDone (tasks_path s fq) keys n w2 = (q, w')"
      by (auto simp: io_bind_def io_of_read_def io_ret_def split: if_splits)
    with swept_ctx [OF read read] Cons.IH show ?thesis by (blast intro: swept_trans)
  qed
  show ?case
  proof (cases "parse_int64 (hd (splitn2 (CHR ''@'') key))")
    case None
    with Cons show ?thesis by simp
  next
    case (Some ts)
    obtain t w1 where read: "now w = (t, w1)" by fastforce
    note t = swept_now [OF read]
    show ?thesis
    proof (cases "taskTTL s < time_sub t (time_of_unix ts)")
      case False
      with Cons.prems Some read have "?ctx deleted w1 = (q, w')"
        by (simp add: Let_def io_bind_def io_of_read_def)
      from ctx [OF this] t show ?thesis by (blast intro: swept_trans)
    next
      case True
      let ?p = "tasks_path s fq @ ''/'' @ key"
      have "outdated s t ?p" using True Some unfolding outdated_def by force
      then have old: "outdated s (clock w1) ?p" using t outdated_mono by blast
      obtain rd w2 where del: "zkDelete (conn s) ?p 0 w1 = (rd, w2)" by fastforce
      from Cons.prems Some True read del have "(\<exists>n. ?ctx n w2 = (q, w'))
          \<or> cleanup_keys s now ctxDone (tasks_path s fq) keys deleted w2 = (q, w')"
        by (cases rd) (auto simp: Let_def io_bind_def io_of_read_def io_try_def io_of_zk_def)
      with ctx Cons.IH have "swept s tree clock w2 w'" by blast
      with swept_delete [OF del old] t show ?thesis by (blast intro: swept_trans)
    qed
  qed
qed

lemma swept_jobs: "cleanup_jobs s now ctxDone ids deleted w = (q, w') \<Longrightarrow> swept s tree clock w w'"
proof (induction ids arbitrary: deleted w)
  case Nil
  then show ?case by (simp add: io_ret_run swept_refl)
next
  case (Cons i ids)
  obtain rl w1 where kids: "zkChildren (conn s) (tasks_path s i) w = (rl, w1)" by fastforce
  have first: "swept s tree clock w w1" using swept_read [OF children_tree [OF kids] children_takes [OF kids]] .
  show ?case
  proof (cases rl)
    case (Inl e)
    with Cons kids first show ?thesis by (auto simp: io_try_def io_of_zk_def intro: swept_trans)
  next
    case (Inr keys)
    obtain b w2 where read: "ctxDone w1 = (b, w2)" by fastforce
    have second: "swept s tree clock w w2" using first swept_ctx [OF read read] by (rule swept_trans)
    show ?thesis
    proof (cases b)
      case True
      with Cons.prems Inr kids read second show ?thesis
        by (simp add: io_try_def io_of_zk_def io_bind_def io_of_read_def io_ret_def)
    next
      case False
      obtain r w3 where run: "cleanup_keys s now ctxDone (tasks_path s i) keys deleted w2 = (r, w3)" by fastforce
      have third: "swept s tree clock w w3" using second swept_keys [OF run] by (rule swept_trans)
      from Cons.prems Inr kids read False run have "w' = w3 \<or> (\<exists>n. cleanup_jobs s now ctxDone ids n w3 = (q, w'))"
        by (auto simp: io_try_def io_of_zk_def io_bind_def io_of_read_def io_ret_def split: sum.splits if_splits)
      with third Cons.IH show ?thesis by (blast intro: swept_trans)
    qed
  qed
qed

text \<open>Whatever happens, a cleanup removes nothing but history that is older than the TTL.\<close>

lemma tasksCleanup_swept:
  assumes "tasksCleanup s now ctxDone w = (q, w')"
  shows "swept s tree clock w w'"
proof -
  obtain rl w1 where kids: "zkChildren (conn s) (jobs_path s) w = (rl, w1)" by fastforce
  have first: "swept s tree clock w w1" using swept_read [OF children_tree [OF kids] children_takes [OF kids]] .
  obtain b w2 where read: "ctxDone w1 = (b, w2)" by fastforce
  have second: "swept s tree clock w w2" using first swept_ctx [OF read read] by (rule swept_trans)
  from assms kids read have "w' = w1 \<or> w' = w2 \<or> (\<exists>ids n. cleanup_jobs s now ctxDone ids n w2 = (q, w'))"
    by (auto simp: tasksCleanup_def io_bind_def io_of_zk_def io_of_read_def io_ret_def split: sum.splits if_splits)
  with first second swept_jobs show ?thesis by (blast intro: swept_trans)
qed

end

section \<open>A reference world\<close>

text \<open>
  The reference data tree with a clock: every call takes a nanosecond, and the context of the
  cleanup is done at instant \<open>deadline\<close>.
\<close>

type_synonym timed_world = "ref_tree \<times> time"

definition timed :: "(ref_tree \<Rightarrow> 'r \<times> ref_tree) \<Rightarrow> timed_world \<Rightarrow> 'r \<times> timed_world" where
  "timed m w = (case m (fst w) of (r, t) \<Rightarrow> (r, (t, snd w + 1)))"

definition timed_zk :: "timed_world zk_conn" where
  "timed_zk =
     \<lparr>zkGet = (\<lambda>p. timed (ref_get p)), zkSet = (\<lambda>p d ver. timed (ref_set p d ver)),
      zkCreate = (\<lambda>p d f a. timed (ref_create p d f a)), zkDelete = (\<lambda>p ver. timed (ref_delete p ver)),
      zkChildren = (\<lambda>p. timed (ref_list p)), zkExists = (\<lambda>p. timed (\<lambda>t. (Inr (map_of t p \<noteq> None), t)))\<rparr>"

definition timed_storage :: "timed_world zk_storage" where
  "timed_storage =
     \<lparr>dir = ''/rhythm'', addrs = [], conn = timed_zk, acl = (\<lambda>perm. [(perm, ''world'', ''anyone'')]),
      timeout = 10 * second, taskTTL = 24 * hour\<rparr>"

definition timed_now :: "timed_world \<Rightarrow> time \<times> timed_world" where
  "timed_now w = (snd w, (fst w, snd w + 1))"

definition timed_ctx :: "time \<Rightarrow> timed_world \<Rightarrow> bool \<times> timed_world" where
  "timed_ctx deadline w = (deadline \<le> snd w, w)"

abbreviation timed_tree :: "timed_world \<Rightarrow> zk_view" where
  "timed_tree w \<equiv> map_of (fst w)"

lemma timed_eq: "timed m w = (r, w') \<longleftrightarrow> m (fst w) = (r, fst w') \<and> snd w' = snd w + 1"
  by (cases w') (auto simp: timed_def split: prod.splits)

lemmas ref_calls = ref_zk_def zk_conn.simps

interpretation timed_world: zk_clocked timed_storage timed_tree timed_now snd "timed_ctx deadline"
proof (unfold_locales, unfold timed_storage_def timed_zk_def zk_storage.simps zk_conn.simps)
  note laws = ref.zk_get ref.zk_set ref.zk_create ref.zk_delete ref.zk_children ref.zk_exists
  show "timed_tree w' = timed_tree w \<and> (r = get_spec (timed_tree w) p \<or> (\<exists>e. r = Inl e \<and> other_error e))"
    if "timed (ref_get p) w = (r, w')" for p w r w'
    using that laws(1) [of p "fst w" r "fst w'"] by (simp add: timed_eq ref_calls)
  show "(r, timed_tree w') = set_spec (timed_tree w) p d ver
      \<or> (\<exists>e. r = Inl e \<and> other_error e \<and> timed_tree w' \<in> {timed_tree w, snd (set_spec (timed_tree w) p d ver)})"
    if "timed (ref_set p d ver) w = (r, w')" for p d ver w r w'
    using that laws(2) [of p d ver "fst w" r "fst w'"] by (simp add: timed_eq ref_calls)
  show "(r, timed_tree w') = create_spec (timed_tree w) p d
      \<or> (\<exists>e. r = Inl e \<and> other_error e \<and> timed_tree w' \<in> {timed_tree w, snd (create_spec (timed_tree w) p d)})"
    if "timed (ref_create p d 0 a) w = (r, w')" for p d a w r w'
    using that laws(3) [of p d a "fst w" r "fst w'"] by (simp add: timed_eq ref_calls)
  show "(r, timed_tree w') = delete_spec (timed_tree w) p ver
      \<or> (\<exists>e. r = Inl e \<and> other_error e \<and> timed_tree w' \<in> {timed_tree w, snd (delete_spec (timed_tree w) p ver)})"
    if "timed (ref_delete p ver) w = (r, w')" for p ver w r w'
    using that laws(4) [of p ver "fst w" r "fst w'"] by (simp add: timed_eq ref_calls)
  show "timed_tree w' = timed_tree w
      \<and> (if timed_tree w p = None then r = Inl ErrNoNode
         else \<exists>ns. r = Inr ns \<and> distinct ns \<and> set ns = child_names (timed_tree w) p)
        \<or> (timed_tree w' = timed_tree w \<and> (\<exists>e. r = Inl e \<and> other_error e))"
    if "timed (ref_list p) w = (r, w')" for p w r w'
    using that laws(5) [of p "fst w" r "fst w'"] by (simp add: timed_eq ref_calls)
  show "timed_tree w' = timed_tree w \<and> (r = Inr (timed_tree w p \<noteq> None) \<or> (\<exists>e. r = Inl e \<and> other_error e))"
    if "timed (\<lambda>t. (Inr (map_of t p \<noteq> None), t)) w = (r, w')" for p w r w'
    using that by (auto simp: timed_eq)
qed (auto simp: timed_eq timed_now_def timed_ctx_def)

end
