(* ===== verification/SchedulerOps.thy ===== *)
theory SchedulerOps
  imports TtlSet StorageOps
begin

text \<open>
  The jobs scheduler of \<^verbatim>\<open>mesos/jobsscheduler/jobsscheduler.go\<close>: its caches of jobs and of queued
  jobs, their synchronisation with the storage, the handling of task state updates, the choice of
  jobs for an offer and the launch of their tasks. Every call runs over the scheduler's state, whose
  \<open>outer\<close> part is the rest of the world (storage, clock, secrets).
\<close>

section \<open>Messages of Mesos\<close>

text \<open>The task states the source names; every other state of the protocol is \<open>TASK_OTHER\<close>.\<close>

datatype task_state = TASK_STAGING | TASK_STARTING | TASK_RUNNING | TASK_FINISHED | TASK_LOST
  | TASK_FAILED | TASK_KILLED | TASK_ERROR | TASK_OTHER string

abbreviation REASON_RECONCILIATION :: string where
  "REASON_RECONCILIATION \<equiv> ''REASON_RECONCILIATION''"

text \<open>The fields of a status update, as the protobuf getters return them.\<close>

record task_status =
  statusTaskID :: string
  statusState :: task_state
  statusMessage :: string
  statusReason :: string
  statusSource :: string
  statusExecutorID :: string
  statusAgentID :: string

datatype container_info = DockerContainer string bool | MesosContainer string

record 'r task_info =
  tiTaskID :: string
  tiName :: string
  tiCmd :: string
  tiEnvironment :: "(string \<times> string) list"
  tiUser :: string
  tiShell :: bool
  tiArguments :: "string list"
  tiContainer :: container_info
  tiLabels :: "(string \<times> string option) list"
  tiAgentID :: string
  tiResources :: "'r list"

section \<open>State\<close>

text \<open>What the scheduler is created with, and the packages it calls.\<close>

record ('w, 'r, 's) sched_env =
  roles :: "string list"
  storage :: "'w storage_ops"
  secretsRead :: "string \<Rightarrow> ('w, string) io"
  frameworkID :: "'w \<Rightarrow> string \<times> 'w"
  leaderURL :: "'w \<Rightarrow> string \<times> 'w"
  timeNow :: "'w \<Rightarrow> time \<times> 'w"
  sleepFor :: "duration \<Rightarrow> 'w \<Rightarrow> 'w"
  newV4 :: "('w, string) io"
  resLib :: "'r res_lib"
  cronLib :: "'s cron_lib"
  formatG :: "rat \<Rightarrow> string"
  errorText :: "error \<Rightarrow> string"

record 'w sched =
  jobs :: "string \<Rightarrow> job option"
  bookedJobs :: ttl_set
  queuedJobs :: "string set"
  outer :: 'w

abbreviation outside :: "('w, 'a) io \<Rightarrow> ('w sched, 'a) io" where
  "outside \<equiv> io_on outer (\<lambda>w s. s\<lparr>outer := w\<rparr>)"

abbreviation sched_now :: "('w, 'r, 's) sched_env \<Rightarrow> ('w sched, time) io" where
  "sched_now env \<equiv> outside (io_of_read (timeNow env))"

definition empty_sched :: "'w \<Rightarrow> 'w sched" where
  "empty_sched w = \<lparr>jobs = (\<lambda>_. None), bookedJobs = newTTLSet minute, queuedJobs = {}, outer = w\<rparr>"

definition getJob :: "string \<Rightarrow> ('w sched, job option) io" where
  "getJob jid = io_bind io_get (\<lambda>s. io_ret (jobs s jid))"

definition setJob :: "job \<Rightarrow> ('w sched, unit) io" where
  "setJob job = io_modify (\<lambda>s. s\<lparr>jobs := (jobs s)(job_fqid job \<mapsto> job)\<rparr>)"

text \<open>The storage's failure is only logged.\<close>

definition dequeueJob :: "('w, 'r, 's) sched_env \<Rightarrow> job \<Rightarrow> ('w sched, unit) io" where
  "dequeueJob env job =
     (let fqid = job_fqid job; jid = JobID (JobConf job) in
      io_bind io_get (\<lambda>s.
        if fqid \<in> queuedJobs s
        then io_try (outside (opDequeueJob (storage env) (Group jid) (Project jid) (ID jid))) (\<lambda>_.
             io_modify (\<lambda>s. s\<lparr>queuedJobs := queuedJobs s - {fqid}\<rparr>))
        else io_ret ()))"

section \<open>Synchronisation with the storage\<close>

definition syncQueuedJobsCache ::
  "('w, 'r, 's) sched_env \<Rightarrow> 'w sched \<Rightarrow> ((fault + unit) \<times> 'w sched) option" where
  "syncQueuedJobsCache env s =
     (case retry (outside (opGetQueuedJobsIDs (storage env))) (\<lambda>s. s\<lparr>outer := sleepFor env second (outer s)\<rparr>) s of
        None \<Rightarrow> None
      | Some (Inl f, s') \<Rightarrow> Some (Inl f, s')
      | Some (Inr jids, s') \<Rightarrow> Some (Inr (), s'\<lparr>queuedJobs := set (map JobID_String jids)\<rparr>))"

text \<open>
  Known jobs take the stored configuration and keep their runtime, new jobs are added as they are;
  then jobs that are not in the storage are evicted. \<open>order\<close> is the order in which Go ranges over
  the cache.
\<close>

definition merge_job :: "job \<Rightarrow> (string \<Rightarrow> job option) \<Rightarrow> string \<Rightarrow> job option" where
  "merge_job job m =
     (let fqid = job_fqid job in
      case m fqid of
        Some oldJob \<Rightarrow> m(fqid \<mapsto> oldJob\<lparr>JobConf := JobConf job\<rparr>)
      | None \<Rightarrow> m(fqid \<mapsto> job))"

definition evict_job :: "string set \<Rightarrow> string \<Rightarrow> (string \<Rightarrow> job option) \<Rightarrow> string \<Rightarrow> job option" where
  "evict_job ids k m =
     (case m k of
        None \<Rightarrow> m
      | Some job \<Rightarrow> (let fqid = job_fqid job in if fqid \<in> ids then m else m(fqid := None)))"

definition sync_jobs :: "job list \<Rightarrow> string list \<Rightarrow> (string \<Rightarrow> job option) \<Rightarrow> string \<Rightarrow> job option" where
  "sync_jobs newJobs order m =
     fold (evict_job (set (map job_fqid newJobs))) order (fold merge_job newJobs m)"

definition syncJobsCache ::
  "('w, 'r, 's) sched_env \<Rightarrow> string list \<Rightarrow> 'w sched \<Rightarrow> ((fault + unit) \<times> 'w sched) option" where
  "syncJobsCache env order s =
     (case retry (outside (opGetJobs (storage env))) (\<lambda>s. s\<lparr>outer := sleepFor env second (outer s)\<rparr>) s of
        None \<Rightarrow> None
      | Some (Inl f, s') \<Rightarrow> Some (Inl f, s')
      | Some (Inr newJobs, s') \<Rightarrow> Some (Inr (), s'\<lparr>jobs := sync_jobs newJobs order (jobs s')\<rparr>))"

text \<open>The \<open>sync\<close> closure of \<open>New\<close>, run at creation and every thirty seconds.\<close>

definition sync_caches ::
  "('w, 'r, 's) sched_env \<Rightarrow> string list \<Rightarrow> 'w sched \<Rightarrow> ((fault + unit) \<times> 'w sched) option" where
  "sync_caches env order s =
     (case syncJobsCache env order s of
        None \<Rightarrow> None
      | Some (Inl f, s') \<Rightarrow> Some (Inl f, s')
      | Some (Inr _, s') \<Rightarrow> syncQueuedJobsCache env s')"

definition NewScheduler ::
  "('w, 'r, 's) sched_env \<Rightarrow> string list \<Rightarrow> 'w \<Rightarrow> ((fault + unit) \<times> 'w sched) option" where
  "NewScheduler env order w = sync_caches env order (empty_sched w)"

section \<open>Task ids\<close>

definition taskID_String :: "job_id \<Rightarrow> string \<Rightarrow> string" where
  "taskID_String jid uuid = JobID_String jid @ '':'' @ uuid"

definition newTaskID :: "('w, 'r, 's) sched_env \<Rightarrow> job_id \<Rightarrow> ('w, string) io" where
  "newTaskID env jid = io_bind (newV4 env) (\<lambda>u4. io_ret (taskID_String jid u4))"

definition parseTaskID :: "string \<Rightarrow> error + job_id" where
  "parseTaskID tid =
     (let idx = last_index (CHR '':'') tid in
      if idx = -1 then Inl (ErrMsg ''Task ID separator not found'')
      else ParseJobID (take (nat idx) tid))"

section \<open>Task state updates\<close>

definition addTaskHistory ::
  "('w, 'r, 's) sched_env \<Rightarrow> task_status \<Rightarrow> time \<Rightarrow> job_id \<Rightarrow> ('w, unit) io" where
  "addTaskHistory env status start jid =
     io_bind (io_of_read (frameworkID env)) (\<lambda>framework.
     io_bind (io_of_read (timeNow env)) (\<lambda>end.
     io_bind (io_of_read (leaderURL env)) (\<lambda>url.
     (let executor = statusExecutorID status; agent = statusAgentID status;
          failed = (statusState status \<noteq> TASK_FINISHED) in
      io_try (opAddTask (storage env) (Group jid) (Project jid) (ID jid)
        \<lparr>taskStart = start, taskEnd = end, TaskID = statusTaskID status, ExecutorID = executor,
         AgentID = agent, FrameworkID = framework,
         ExecutorURL = url @ ''/#/agents/'' @ agent @ ''/frameworks/'' @ framework @ ''/executors/'' @ executor,
         Message = (if failed then statusMessage status else []),
         Reason = (if failed then statusReason status else []),
         Source = (if failed then statusSource status else [])\<rparr>) (\<lambda>_. io_ret ())))))"

abbreviation set_state :: "state \<Rightarrow> job \<Rightarrow> job" where
  "set_state st job \<equiv> job\<lparr>JobRuntime := (JobRuntime job)\<lparr>State := st\<rparr>\<rparr>"

text \<open>State \<open>st\<close> and no current task.\<close>

definition stop_job :: "state \<Rightarrow> job \<Rightarrow> job" where
  "stop_job st job =
     job\<lparr>JobRuntime := (JobRuntime job)\<lparr>State := st, CurrentTaskID := [], CurrentAgentID := []\<rparr>\<rparr>"

text \<open>The switch over the task's state; \<open>None\<close> is its early return.\<close>

definition update_job ::
  "('w, 'r, 's) sched_env \<Rightarrow> task_status \<Rightarrow> job_id \<Rightarrow> job \<Rightarrow> ('w sched, job option) io" where
  "update_job env status jid job =
     (let start = LastStart (JobRuntime job); st = State (JobRuntime job);
          failed = io_bind (outside (addTaskHistory env status start jid))
                     (\<lambda>_. io_ret (Some (stop_job FAILED job))) in
      case statusState status of
        TASK_STAGING \<Rightarrow> io_ret (Some (set_state STAGING job))
      | TASK_STARTING \<Rightarrow> io_ret (Some (set_state STARTING job))
      | TASK_RUNNING \<Rightarrow> io_ret (Some (set_state RUNNING job))
      | TASK_FINISHED \<Rightarrow>
          io_bind (outside (addTaskHistory env status start jid))
            (\<lambda>_. io_ret (Some (stop_job IDLE job)))
      | TASK_LOST \<Rightarrow>
          if statusReason status = REASON_RECONCILIATION \<and> (st = IDLE \<or> st = FAILED)
          then io_ret None else failed
      | TASK_FAILED \<Rightarrow> failed
      | TASK_KILLED \<Rightarrow> failed
      | TASK_ERROR \<Rightarrow> failed
      | TASK_OTHER name \<Rightarrow> io_panic (''Unknown state: '' @ name))"

definition HandleTaskStateUpdate :: "('w, 'r, 's) sched_env \<Rightarrow> task_status \<Rightarrow> ('w sched, unit) io" where
  "HandleTaskStateUpdate env status =
     (case parseTaskID (statusTaskID status) of
        Inl _ \<Rightarrow> io_ret ()
      | Inr jid \<Rightarrow>
          io_bind (getJob (JobID_String jid)) (\<lambda>found.
            case found of
              None \<Rightarrow> io_ret ()
            | Some job \<Rightarrow>
                io_bind (update_job env status jid job) (\<lambda>updated.
                  case updated of
                    None \<Rightarrow> io_ret ()
                  | Some job' \<Rightarrow>
                      io_bind (setJob job') (\<lambda>_.
                      io_try (outside (opSaveJobRuntime (storage env) (Group jid) (Project jid) (ID jid)
                          (JobRuntime job'))) (\<lambda>_. io_ret ())))))"

section \<open>Jobs for an offer\<close>

definition findTaskResources :: "('w, 'r, 's) sched_env \<Rightarrow> 'r list \<Rightarrow> 'r list \<Rightarrow> fault + 'r list" where
  "findTaskResources env taskResources offerResources =
     (case roles env of
        [] \<Rightarrow> Inl (Panic ''index out of range'')
      | role # _ \<Rightarrow>
          if role = ''*'' then Inr (resFind (resLib env) taskResources offerResources)
          else Inr (resFind (resLib env) (resPushReservation (resLib env) role taskResources) offerResources))"

definition booked_Exists :: "('w, 'r, 's) sched_env \<Rightarrow> string \<Rightarrow> ('w sched, bool) io" where
  "booked_Exists env k =
     io_bind io_get (\<lambda>s. outside (io_of_read (ttl_Exists (timeNow env) (bookedJobs s) k)))"

definition booked_Set :: "('w, 'r, 's) sched_env \<Rightarrow> string \<Rightarrow> ('w sched, unit) io" where
  "booked_Set env k =
     io_bind io_get (\<lambda>s.
     io_bind (outside (io_of_read (ttl_Set (timeNow env) (bookedJobs s) k))) (\<lambda>b.
     io_modify (\<lambda>s. s\<lparr>bookedJobs := b\<rparr>)))"

definition booked_Del :: "string \<Rightarrow> ('w sched, unit) io" where
  "booked_Del k = io_modify (\<lambda>s. s\<lparr>bookedJobs := ttl_Del k (bookedJobs s)\<rparr>)"

definition count_retry :: "job \<Rightarrow> job" where
  "count_retry job =
     job\<lparr>JobRuntime := (JobRuntime job)\<lparr>Retries := (if IsRetryable job then Retries (JobRuntime job) + 1 else 0)\<rparr>\<rparr>"

text \<open>
  The body of the loop over the cache: \<open>None\<close> where it continues, otherwise the selected job with
  the resources for it. The jobs of the cache are shared pointers, so the retry counter changes in the
  cache as well.
\<close>

definition select_job ::
  "('w, 'r, 's) sched_env \<Rightarrow> string \<Rightarrow> job \<Rightarrow> 'r list \<Rightarrow> ('w sched, (job \<times> 'r list) option) io" where
  "select_job env k job res =
     io_bind (io_modify (\<lambda>s. s\<lparr>jobs := (jobs s)(k \<mapsto> count_retry job)\<rparr>)) (\<lambda>_.
     io_bind (io_of_fault (findTaskResources env (Resources (resLib env) (JobConf job)) res)) (\<lambda>taskRes.
       if taskRes = [] then io_panic ''Resources not found''
       else io_bind (booked_Set env (job_fqid job)) (\<lambda>_. io_ret (Some (count_retry job, taskRes)))))"

definition examine_job ::
  "('w, 'r, 's) sched_env \<Rightarrow> string \<Rightarrow> 'r list \<Rightarrow> 'r list \<Rightarrow> ('w sched, (job \<times> 'r list) option) io" where
  "examine_job env k res resUnreserved =
     io_bind io_get (\<lambda>s.
       case jobs s k of
         None \<Rightarrow> io_ret None
       | Some job \<Rightarrow>
           io_bind (booked_Exists env (job_fqid job)) (\<lambda>booked.
             if booked then io_ret None
             else
               io_bind (outside (IsRunnable (cronLib env) (timeNow env) job)) (\<lambda>runnable.
                 if \<not> runnable \<and> job_fqid job \<notin> queuedJobs s then io_ret None
                 else if \<not> resContainsAll (resLib env) resUnreserved (Resources (resLib env) (JobConf job))
                 then io_ret None
                 else select_job env k job res)))"

text \<open>The loop, in the order in which Go ranges over the cache.\<close>

fun find_jobs ::
  "('w, 'r, 's) sched_env \<Rightarrow> string list \<Rightarrow> 'r list \<Rightarrow> 'r list \<Rightarrow> ('w sched, (job \<times> 'r list) list) io" where
  "find_jobs env [] res resUnreserved = io_ret []"
| "find_jobs env (k # ks) res resUnreserved =
     io_bind (examine_job env k res resUnreserved) (\<lambda>selected.
       case selected of
         None \<Rightarrow> find_jobs env ks res resUnreserved
       | Some (job, taskRes) \<Rightarrow>
           io_bind (find_jobs env ks (resSubtract (resLib env) res taskRes)
               (resToUnreserved (resLib env) (resSubtract (resLib env) res taskRes)))
             (\<lambda>rest. io_ret ((job, taskRes) # rest)))"

definition findJobsForResources ::
  "('w, 'r, 's) sched_env \<Rightarrow> string list \<Rightarrow> 'r list \<Rightarrow> ('w sched, (job \<times> 'r list) list) io" where
  "findJobsForResources env order offered =
     (let res = resUnallocate (resLib env) offered in
      find_jobs env order res (resToUnreserved (resLib env) res))"

section \<open>Launching tasks\<close>

definition container_info :: "job_container \<Rightarrow> fault + container_info" where
  "container_info c =
     (case containerType c of
        Docker \<Rightarrow>
          (case containerDocker c of
             None \<Rightarrow> Inl (Panic ''nil pointer dereference'')
           | Some d \<Rightarrow> Inr (DockerContainer (dockerImage d) (forcePullImage d)))
      | Mesos \<Rightarrow>
          (case containerMesos c of
             None \<Rightarrow> Inl (Panic ''nil pointer dereference'')
           | Some m \<Rightarrow> Inr (MesosContainer (mesosImage m)))
      | OtherContainer t \<Rightarrow> Inl (Fail (ErrMsg (''Unknown container type: '' @ t))))"

text \<open>\<open>make([]mesos.Label, n)\<close> followed by \<open>append\<close>: \<open>n\<close> empty labels come first.\<close>

definition task_labels :: "string_map \<Rightarrow> (string \<times> string option) list" where
  "task_labels labels = replicate (length labels) ([], None) @ map (\<lambda>(k, v). (k, Some v)) labels"

definition read_secrets ::
  "('w, 'r, 's) sched_env \<Rightarrow> job_conf \<Rightarrow> ('w, (string \<times> string) list) io" where
  "read_secrets env j =
     io_for (Secrets j) (\<lambda>(k, v).
       io_try (secretsRead env (Group (JobID j) @ ''/'' @ Project (JobID j) @ ''/'' @ v)) (\<lambda>r.
         case r of
           Inl err \<Rightarrow> io_fail (ErrMsg (''Reading secret failed: '' @ errorText env err))
         | Inr secret \<Rightarrow> io_ret (k, secret)))"

definition newTaskInfo :: "('w, 'r, 's) sched_env \<Rightarrow> job_conf \<Rightarrow> ('w, 'r task_info) io" where
  "newTaskInfo env j =
     io_bind (io_try (newTaskID env (JobID j)) (\<lambda>r.
         case r of
           Inl err \<Rightarrow> io_fail (ErrMsg (''Getting task ID failed: '' @ errorText env err))
         | Inr tid \<Rightarrow> io_ret tid)) (\<lambda>tid.
     io_bind (read_secrets env j) (\<lambda>secrets.
     io_bind (io_of_fault (container_info (Container j))) (\<lambda>container.
     io_ret
       \<lparr>tiTaskID = tid, tiName = ''Task '' @ tid, tiCmd = Cmd j,
        tiEnvironment =
          [(''RHYTHM_TASK_ID'', tid), (''RHYTHM_MEM'', formatG env (Mem j)),
           (''RHYTHM_DISK'', formatG env (Disk j)), (''RHYTHM_CPU'', formatG env (CPUs j))]
          @ Env j @ secrets,
        tiUser = User j, tiShell = Shell j, tiArguments = Arguments j, tiContainer = container,
        tiLabels = task_labels (Labels j), tiAgentID = [], tiResources = []\<rparr>)))"

text \<open>The history entry of a launch that failed, written by a goroutine of its own.\<close>

definition record_failed_launch :: "('w, 'r, 's) sched_env \<Rightarrow> job \<Rightarrow> error \<Rightarrow> ('w, unit) io" where
  "record_failed_launch env job err =
     io_bind (io_of_read (timeNow env)) (\<lambda>now.
     (let jid = JobID (JobConf job) in
      io_try (opAddTask (storage env) (Group jid) (Project jid) (ID jid)
        \<lparr>taskStart = now, taskEnd = now, TaskID = [], ExecutorID = [], AgentID = [], FrameworkID = [],
         ExecutorURL = [], Message = errorText env err, Reason = ''Error creating TaskInfo'',
         Source = ''Scheduler''\<rparr>) (\<lambda>_. io_ret ())))"

definition start_job :: "time \<Rightarrow> job \<Rightarrow> job" where
  "start_job t job = job\<lparr>JobRuntime := (JobRuntime job)\<lparr>LastStart := t\<rparr>\<rparr>"

definition stage_job :: "string \<Rightarrow> string \<Rightarrow> job \<Rightarrow> job" where
  "stage_job tid agent job =
     job\<lparr>JobRuntime := (JobRuntime job)\<lparr>State := STAGING, CurrentTaskID := tid, CurrentAgentID := agent\<rparr>\<rparr>"

text \<open>One goroutine of \<open>buildTasksForOffer\<close>: its result is the task it appends, if any.\<close>

definition launch_job ::
  "('w, 'r, 's) sched_env \<Rightarrow> string \<Rightarrow> job \<times> 'r list \<Rightarrow> ('w sched, 'r task_info option) io" where
  "launch_job env agent jr =
     io_bind (sched_now env) (\<lambda>now.
     (let job = start_job now (fst jr) in
      io_bind
        (io_try (outside (newTaskInfo env (JobConf job))) (\<lambda>r.
           case r of
             Inl err \<Rightarrow>
               io_bind (outside (record_failed_launch env job err)) (\<lambda>_. io_ret (set_state FAILED job, None))
           | Inr task \<Rightarrow>
               io_ret (stage_job (tiTaskID task) agent job,
                       Some (task\<lparr>tiAgentID := agent, tiResources := snd jr\<rparr>))))
        (\<lambda>(job', task).
           let jid = JobID (JobConf job') in
           io_try (outside (opSaveJobRuntime (storage env) (Group jid) (Project jid) (ID jid) (JobRuntime job')))
             (\<lambda>_.
              io_bind (setJob job') (\<lambda>_.
              io_bind (dequeueJob env job') (\<lambda>_.
              io_bind (booked_Del (job_fqid job')) (\<lambda>_. io_ret task)))))))"

text \<open>
  The goroutines one after the other, in the order \<open>pairs\<close> in which they run; theory
  \<open>LaunchRace\<close> has the interleavings of their appends.
\<close>

definition buildTasksForOffer ::
  "('w, 'r, 's) sched_env \<Rightarrow> (job \<times> 'r list) list \<Rightarrow> string \<Rightarrow> ('w sched, 'r task_info list) io" where
  "buildTasksForOffer env pairs agent =
     io_bind (io_for pairs (launch_job env agent)) (\<lambda>ts. io_ret (List.map_filter (\<lambda>t. t) ts))"

definition FindTasksForOffer ::
  "('w, 'r, 's) sched_env \<Rightarrow> string list \<Rightarrow> 'r list \<Rightarrow> string \<Rightarrow> ('w sched, 'r task_info list) io" where
  "FindTasksForOffer env order offered agent =
     io_bind (findJobsForResources env order offered) (\<lambda>pairs. buildTasksForOffer env pairs agent)"

end
