(* ===== verification/Scheduler.thy ===== *)
theory Scheduler
  imports SchedulerOps JobStore
begin

text \<open>
  What the scheduler does: its cache stays keyed by fully qualified id, a synchronisation makes the
  cache agree with the storage, a status update moves a job along its state machine in cache and
  storage, and a round of offers selects only jobs that are due, not booked and that fit.
\<close>

section \<open>The cache is keyed by fully qualified id\<close>

definition keyed_cache :: "(string \<Rightarrow> job option) \<Rightarrow> bool" where
  "keyed_cache m \<longleftrightarrow> (\<forall>k j. m k = Some j \<longrightarrow> job_fqid j = k)"

abbreviation keeps_keyed :: "('w sched, 'a) io \<Rightarrow> bool" where
  "keeps_keyed m \<equiv> moves (\<lambda>m m'. keyed_cache m \<longrightarrow> keyed_cache m') jobs m"

lemma keyed_upd: "keyed_cache m \<Longrightarrow> job_fqid j = k \<Longrightarrow> keyed_cache (m(k \<mapsto> j))"
  by (simp add: keyed_cache_def)

lemma keyed_del: "keyed_cache m \<Longrightarrow> keyed_cache (m(k := None))"
  by (simp add: keyed_cache_def)

lemma keyed_empty: "keyed_cache (\<lambda>_. None)"
  by (simp add: keyed_cache_def)

lemma job_conf_kept [simp]:
  "JobConf (stop_job st j) = JobConf j" "JobConf (count_retry j) = JobConf j"
  "JobConf (start_job t j) = JobConf j" "JobConf (stage_job tid a j) = JobConf j"
  by (simp_all add: stop_job_def count_retry_def start_job_def stage_job_def)

lemma outside_keeps:
  "keeps jobs (outside m)" "keeps queuedJobs (outside m)" "keeps bookedJobs (outside m)"
  by (auto intro!: keeps_on)

lemmas keyed_intros = moves_intros moves_of_keeps [OF _ outside_keeps(1)]

lemma keyed_setJob: "keeps_keyed (setJob job)"
  unfolding setJob_def by (rule moves_modify) (simp add: keyed_upd)

lemma keyed_dequeueJob: "keeps_keyed (dequeueJob env job)"
  unfolding dequeueJob_def Let_def by (auto intro!: keyed_intros)

lemma keyed_update_job: "keeps_keyed (update_job env status jid job)"
  unfolding update_job_def Let_def by (auto intro!: keyed_intros split: task_state.split)

lemma keyed_HandleTaskStateUpdate: "keeps_keyed (HandleTaskStateUpdate env status)"
  unfolding HandleTaskStateUpdate_def getJob_def
  by (auto intro!: keyed_intros keyed_update_job keyed_setJob split: sum.split option.split)

lemma keyed_launch_job: "keeps_keyed (launch_job env agent jr)"
  unfolding launch_job_def booked_Del_def Let_def
  by (auto intro!: keyed_intros keyed_setJob keyed_dequeueJob split: sum.split)

lemma keyed_buildTasks: "keeps_keyed (buildTasksForOffer env pairs agent)"
  unfolding buildTasksForOffer_def by (auto intro!: keyed_intros keyed_launch_job)

section \<open>One iteration of the selection loop\<close>

lemma booked_Exists_run:
  "booked_Exists env k s = (q, s') \<longleftrightarrow>
     (\<exists>b w. ttl_Exists (timeNow env) (bookedJobs s) k (outer s) = (b, w) \<and> q = Inr b \<and> s' = s\<lparr>outer := w\<rparr>)"
  by (auto simp: booked_Exists_def io_bind_get io_on_eq io_of_read_eq)

lemma booked_Set_run:
  "booked_Set env k s = (q, s') \<longleftrightarrow>
     (\<exists>b w. ttl_Set (timeNow env) (bookedJobs s) k (outer s) = (b, w) \<and> q = Inr ()
        \<and> s' = s\<lparr>outer := w, bookedJobs := b\<rparr>)"
  by (cases q) (auto simp: booked_Set_def io_simps)

lemma select_job_run:
  assumes "select_job env k job res s = (q, s')"
  shows "jobs s' = (jobs s)(k \<mapsto> count_retry job)" "queuedJobs s' = queuedJobs s"
    "q = Inr sel \<Longrightarrow> \<exists>taskRes b. sel = Some (count_retry job, taskRes) \<and> taskRes \<noteq> []
       \<and> findTaskResources env (Resources (resLib env) (JobConf job)) res = Inr taskRes
       \<and> ttl_Set (timeNow env) (bookedJobs s) (job_fqid job) (outer s) = (bookedJobs s', outer s')"
  using assms
  by (cases q; auto simp: select_job_def io_bind_modify io_bind_Inr io_bind_Inl io_of_fault_eq io_panic_run
      io_ret_run booked_Set_run split: if_splits)+

lemma examine_job_run:
  assumes "examine_job env k res ru s = (q, s')"
  shows "(jobs s' = jobs s \<and> bookedJobs s' = bookedJobs s \<and> queuedJobs s' = queuedJobs s
            \<and> (\<forall>sel. q = Inr sel \<longrightarrow> sel = None))
     \<or> (\<exists>job w1 w2 b. jobs s k = Some job
          \<and> ttl_Exists (timeNow env) (bookedJobs s) (job_fqid job) (outer s) = (False, w1)
          \<and> IsRunnable (cronLib env) (timeNow env) job w1 = (Inr b, w2)
          \<and> (b \<or> job_fqid job \<in> queuedJobs s)
          \<and> resContainsAll (resLib env) ru (Resources (resLib env) (JobConf job))
          \<and> select_job env k job res (s\<lparr>outer := w2\<rparr>) = (q, s'))"
proof (cases "jobs s k")
  case None
  with assms show ?thesis by (auto simp: examine_job_def io_bind_get io_ret_run)
next
  case (Some job)
  obtain b w1 where ex: "ttl_Exists (timeNow env) (bookedJobs s) (job_fqid job) (outer s) = (b, w1)"
    by fastforce
  then have "booked_Exists env (job_fqid job) s = (Inr b, s\<lparr>outer := w1\<rparr>)"
    by (simp add: booked_Exists_run)
  note step1 = io_bind_of_Inr [where m = "booked_Exists env (job_fqid job)", OF this]
  show ?thesis
  proof (cases b)
    case True
    with assms Some show ?thesis by (auto simp: examine_job_def io_bind_get step1 io_ret_run)
  next
    case False
    obtain r w2 where run: "IsRunnable (cronLib env) (timeNow env) job w1 = (r, w2)" by fastforce
    then have out: "outside (IsRunnable (cronLib env) (timeNow env) job) (s\<lparr>outer := w1\<rparr>) = (r, s\<lparr>outer := w2\<rparr>)"
      by (simp add: io_on_eq)
    show ?thesis
    proof (cases r)
      case (Inl e)
      with assms Some False out show ?thesis
        by (auto simp: examine_job_def io_bind_get step1 io_bind_of_Inl)
    next
      case (Inr runnable)
      with assms Some False out ex run show ?thesis
        by (auto simp: examine_job_def io_bind_get step1 io_bind_of_Inr io_ret_run split: if_splits)
    qed
  qed
qed

text \<open>The two ways an iteration that returns can go, with the rest of the loop.\<close>

lemma find_jobs_cases [consumes 1, case_names skip take]:
  assumes "find_jobs env (k # ks) res ru s = (Inr sel, s')"
  obtains s1 where "examine_job env k res ru s = (Inr None, s1)"
      "jobs s1 = jobs s" "bookedJobs s1 = bookedJobs s" "queuedJobs s1 = queuedJobs s"
      "find_jobs env ks res ru s1 = (Inr sel, s')"
  | job w1 w2 b taskRes s1 rest where "jobs s k = Some job"
      "ttl_Exists (timeNow env) (bookedJobs s) (job_fqid job) (outer s) = (False, w1)"
      "IsRunnable (cronLib env) (timeNow env) job w1 = (Inr b, w2)" "b \<or> job_fqid job \<in> queuedJobs s"
      "resContainsAll (resLib env) ru (Resources (resLib env) (JobConf job))"
      "findTaskResources env (Resources (resLib env) (JobConf job)) res = Inr taskRes" "taskRes \<noteq> []"
      "ttl_Set (timeNow env) (bookedJobs s) (job_fqid job) w2 = (bookedJobs s1, outer s1)"
      "jobs s1 = (jobs s)(k \<mapsto> count_retry job)" "queuedJobs s1 = queuedJobs s"
      "find_jobs env ks (resSubtract (resLib env) res taskRes)
         (resToUnreserved (resLib env) (resSubtract (resLib env) res taskRes)) s1 = (Inr rest, s')"
      "sel = (count_retry job, taskRes) # rest"
proof -
  from assms obtain x s1 where x: "examine_job env k res ru s = (Inr x, s1)"
    and rest: "(case x of None \<Rightarrow> find_jobs env ks res ru
       | Some (job, taskRes) \<Rightarrow> io_bind (find_jobs env ks (resSubtract (resLib env) res taskRes)
               (resToUnreserved (resLib env) (resSubtract (resLib env) res taskRes)))
             (\<lambda>rest. io_ret ((job, taskRes) # rest))) s1 = (Inr sel, s')"
    by (auto simp: io_bind_Inr)
  from examine_job_run [OF x] consider
      "jobs s1 = jobs s \<and> bookedJobs s1 = bookedJobs s \<and> queuedJobs s1 = queuedJobs s \<and> x = None"
    | job w1 w2 b where "jobs s k = Some job"
      "ttl_Exists (timeNow env) (bookedJobs s) (job_fqid job) (outer s) = (False, w1)"
      "IsRunnable (cronLib env) (timeNow env) job w1 = (Inr b, w2)" "b \<or> job_fqid job \<in> queuedJobs s"
      "resContainsAll (resLib env) ru (Resources (resLib env) (JobConf job))"
      "select_job env k job res (s\<lparr>outer := w2\<rparr>) = (Inr x, s1)"
    by blast
  then show thesis
  proof cases
    case 1
    with x rest show thesis by (intro that(1)) auto
  next
    case a: (2 job w1 w2 b)
    from select_job_run [OF a(6)] obtain taskRes where sel: "x = Some (count_retry job, taskRes)" "taskRes \<noteq> []"
      "findTaskResources env (Resources (resLib env) (JobConf job)) res = Inr taskRes"
      "ttl_Set (timeNow env) (bookedJobs s) (job_fqid job) w2 = (bookedJobs s1, outer s1)"
      "jobs s1 = (jobs s)(k \<mapsto> count_retry job)" "queuedJobs s1 = queuedJobs s" by auto
    from rest sel(1) obtain rs where "find_jobs env ks (resSubtract (resLib env) res taskRes)
         (resToUnreserved (resLib env) (resSubtract (resLib env) res taskRes)) s1 = (Inr rs, s')"
      "sel = (count_retry job, taskRes) # rs"
      by (auto simp: io_bind_Inr io_ret_run)
    with a sel show thesis by (intro that(2)) auto
  qed
qed

section \<open>What the loop selects\<close>

lemma find_jobs_frame:
  assumes "find_jobs env ks res ru s = (Inr sel, s')" "keyed_cache (jobs s)"
  shows "keyed_cache (jobs s')" "queuedJobs s' = queuedJobs s" "k \<notin> set ks \<Longrightarrow> jobs s' k = jobs s k"
proof -
  have "keyed_cache (jobs s') \<and> queuedJobs s' = queuedJobs s \<and> (k \<notin> set ks \<longrightarrow> jobs s' k = jobs s k)"
    using assms
  proof (induction ks arbitrary: res ru s sel)
    case (Cons k' ks)
    from Cons.prems(1) show ?case
    proof (cases rule: find_jobs_cases)
      case (skip s1)
      with Cons.IH [OF skip(5)] Cons.prems(2) show ?thesis by simp
    next
      case (take job w1 w2 b taskRes s1 rest)
      have "job_fqid job = k'" using take(1) Cons.prems(2) by (simp add: keyed_cache_def)
      with take(9) Cons.prems(2) have "keyed_cache (jobs s1)" by (simp add: keyed_cache_def)
      from Cons.IH [OF take(11) this] take(9,10) show ?thesis by simp
    qed
  qed (simp add: io_ret_run)
  then show "keyed_cache (jobs s')" "queuedJobs s' = queuedJobs s" "k \<notin> set ks \<Longrightarrow> jobs s' k = jobs s k"
    by blast+
qed

text \<open>Why a job was selected, in terms of the state before the round.\<close>

definition due :: "('w, 'r, 's) sched_env \<Rightarrow> 'w sched \<Rightarrow> job \<Rightarrow> bool" where
  "due env s job \<longleftrightarrow>
     job_fqid job \<in> queuedJobs s
     \<or> ((State (JobRuntime job) = IDLE \<or> State (JobRuntime job) = FAILED)
        \<and> (\<exists>t w w' t'. NextRun (cronLib env) job = Inr t \<and> timeNow env w = (t', w') \<and> t < t'))"

lemma IsRunnable_due:
  "IsRunnable (cronLib env) (timeNow env) job w = (Inr b, w') \<Longrightarrow> b \<or> job_fqid job \<in> queuedJobs s \<Longrightarrow> due env s job"
  unfolding due_def by (cases b) (auto dest!: IsRunnable_True)

lemma find_jobs_selects:
  assumes "find_jobs env ks res ru s = (Inr sel, s')" "distinct ks" "keyed_cache (jobs s)"
  shows "distinct (map (job_fqid \<circ> fst) sel)" "(job_fqid \<circ> fst) ` set sel \<subseteq> set ks"
    and "(j', rs) \<in> set sel \<Longrightarrow> jobs s' (job_fqid j') = Some j' \<and> rs \<noteq> []
       \<and> (\<exists>j. jobs s (job_fqid j') = Some j \<and> j' = count_retry j \<and> due env s j)"
    and "k \<notin> (job_fqid \<circ> fst) ` set sel \<Longrightarrow> jobs s' k = jobs s k"
proof -
  have "distinct (map (job_fqid \<circ> fst) sel) \<and> (job_fqid \<circ> fst) ` set sel \<subseteq> set ks
      \<and> (\<forall>(j', rs) \<in> set sel. jobs s' (job_fqid j') = Some j' \<and> rs \<noteq> []
          \<and> (\<exists>j. jobs s (job_fqid j') = Some j \<and> j' = count_retry j \<and> due env s j))
      \<and> (\<forall>k. k \<notin> (job_fqid \<circ> fst) ` set sel \<longrightarrow> jobs s' k = jobs s k)"
    using assms
  proof (induction ks arbitrary: res ru s sel)
    case (Cons k ks)
    from Cons.prems(1) show ?case
    proof (cases rule: find_jobs_cases)
      case (skip s1)
      with Cons.prems Cons.IH [OF skip(5)] show ?thesis by (auto simp: due_def)
    next
      case (take job w1 w2 b taskRes s1 rest)
      have fq: "job_fqid job = k" using take(1) Cons.prems(3) by (simp add: keyed_cache_def)
      have keyed: "keyed_cache (jobs s1)" using take(9) Cons.prems(3) fq by (simp add: keyed_cache_def)
      have k: "k \<notin> set ks" "distinct ks" using Cons.prems(2) by auto
      note IH = Cons.IH [OF take(11) k(2) keyed]
      have "jobs s' k = Some (count_retry job)"
        using find_jobs_frame(3) [OF take(11) keyed k(1)] take(9) by simp
      moreover have "due env s job" using IsRunnable_due [OF take(3,4)] .
      moreover have "due env s1 j = due env s j" for j by (simp add: due_def take(10))
      ultimately show ?thesis
        using IH take(1,7,9,12) fq k(1) by (auto split: if_splits)
    qed
  qed (simp add: io_ret_run)
  then show "distinct (map (job_fqid \<circ> fst) sel)" "(job_fqid \<circ> fst) ` set sel \<subseteq> set ks"
    "(j', rs) \<in> set sel \<Longrightarrow> jobs s' (job_fqid j') = Some j' \<and> rs \<noteq> []
       \<and> (\<exists>j. jobs s (job_fqid j') = Some j \<and> j' = count_retry j \<and> due env s j)"
    "k \<notin> (job_fqid \<circ> fst) ` set sel \<Longrightarrow> jobs s' k = jobs s k" by blast+
qed

section \<open>Booking\<close>

text \<open>A round reads the clock and never goes back.\<close>

lemma moves_outside: "moves R (\<lambda>w. w) m \<Longrightarrow> moves R outer (outside m)"
  by (auto simp: moves_def io_on_def split: prod.splits) (metis snd_conv)

context go_clock
begin

abbreviation (input) later :: "'w \<Rightarrow> 'w \<Rightarrow> bool" where
  "later w w' \<equiv> clock w \<le> clock w'"

lemma preorder_later [simp]: "preorder_rel later"
  by (auto simp: preorder_rel_def reflp_def transp_def)

lemma moves_now: "moves later (\<lambda>w. w) (io_of_read now)"
  by (rule movesI) (auto simp: io_of_read_eq dest: now_reads)

lemma moves_Exists: "moves later (\<lambda>w. w) (io_of_read (ttl_Exists now b k))"
  by (rule movesI) (auto simp: io_of_read_eq ttl_Exists_def split: option.splits prod.splits dest: now_reads)

lemma moves_Set: "moves later (\<lambda>w. w) (io_of_read (ttl_Set now b k))"
  by (rule movesI) (auto simp: io_of_read_eq ttl_Set_def split: prod.splits dest: now_reads)

lemma moves_IsRunnable: "moves later (\<lambda>w. w) (IsRunnable lib now j)"
  unfolding IsRunnable_def by (auto intro!: moves_intros moves_now)

lemma moves_examine_job:
  assumes "timeNow env = now"
  shows "moves later outer (examine_job env k res ru)"
  unfolding examine_job_def select_job_def booked_Exists_def booked_Set_def assms
  by (auto intro!: moves_intros moves_outside moves_IsRunnable moves_Exists moves_Set split: option.split)

lemma moves_find_jobs: "timeNow env = now \<Longrightarrow> moves later outer (find_jobs env ks res ru)"
  by (induction ks arbitrary: res ru)
    (auto intro!: moves_intros moves_examine_job split: option.split)

lemma find_jobs_later:
  "timeNow env = now \<Longrightarrow> find_jobs env ks res ru s = (q, s') \<Longrightarrow> clock (outer s) \<le> clock (outer s')"
  using movesD [OF moves_find_jobs] by blast

text \<open>What a round does to the bookings.\<close>

lemma find_jobs_books:
  assumes "find_jobs env ks res ru s = (Inr sel, s')" "distinct ks" "keyed_cache (jobs s)" "timeNow env = now"
  shows "\<forall>k. if k \<in> (job_fqid \<circ> fst) ` set sel
        then \<not> live (bookedJobs s) (clock (outer s')) k
          \<and> (\<exists>t. ttlM (bookedJobs s') k = Some t \<and> clock (outer s) \<le> t \<and> t \<le> clock (outer s'))
        else ttlM (bookedJobs s') k = ttlM (bookedJobs s) k"
    and "ttlDuration (bookedJobs s') = ttlDuration (bookedJobs s)"
proof -
  have "ttlDuration (bookedJobs s') = ttlDuration (bookedJobs s)
    \<and> (\<forall>k. if k \<in> (job_fqid \<circ> fst) ` set sel
        then \<not> live (bookedJobs s) (clock (outer s')) k
          \<and> (\<exists>t. ttlM (bookedJobs s') k = Some t \<and> clock (outer s) \<le> t \<and> t \<le> clock (outer s'))
        else ttlM (bookedJobs s') k = ttlM (bookedJobs s) k)"
    using assms(1-3)
  proof (induction ks arbitrary: res ru s sel)
    case (Cons k ks)
    from Cons.prems(1) show ?case
    proof (cases rule: find_jobs_cases)
      case (skip s1)
      have "clock (outer s) \<le> clock (outer s1)" using movesD [OF moves_examine_job [OF assms(4)] skip(1)] .
      with Cons.IH [OF skip(5)] Cons.prems(2,3) skip(2,3) show ?thesis
        by (simp add: live_def split: if_split_asm) (meson order_trans)
    next
      case (take job w1 w2 b taskRes s1 rest)
      have fq: "job_fqid job = k" using take(1) Cons.prems(3) by (simp add: keyed_cache_def)
      have keyed: "keyed_cache (jobs s1)" using take(9) Cons.prems(3) fq by (simp add: keyed_cache_def)
      have k: "k \<notin> set ks" "distinct ks" using Cons.prems(2) by auto
      note IH = Cons.IH [OF take(11) k(2) keyed]
      from k(1) find_jobs_selects(2) [OF take(11) k(2) keyed] have new: "k \<notin> (job_fqid \<circ> fst) ` set rest" by blast
      obtain t where set: "now w2 = (t, outer s1)" "ttlM (bookedJobs s1) = (ttlM (bookedJobs s))(k \<mapsto> t)"
        "ttlDuration (bookedJobs s1) = ttlDuration (bookedJobs s)"
        using take(8) by (auto simp: ttl_Set_def assms(4) fq split: prod.splits) (metis ttl_set.select_convs ttl_set.surjective ttl_set.update_convs)
      have "clock (outer s) \<le> clock w1" "clock w1 \<le> clock w2"
        using movesD [OF moves_Exists, of "bookedJobs s" "job_fqid job" "outer s" "Inr False" w1]
          movesD [OF moves_IsRunnable take(3) [unfolded assms(4)]] take(2)
        by (auto simp: io_of_read_eq assms(4))
      with now_reads [OF set(1)] find_jobs_later [OF assms(4) take(11)]
      have times: "clock (outer s) \<le> t" "t \<le> clock (outer s')" "clock w1 \<le> clock (outer s')"
        "clock (outer s) \<le> clock (outer s1)" by auto
      have free: "\<not> live (bookedJobs s) (clock (outer s')) k"
      proof
        assume l: "live (bookedJobs s) (clock (outer s')) k"
        from take(2) obtain v t0 where "ttlM (bookedJobs s) k = None
            \<or> (ttlM (bookedJobs s) k = Some v \<and> now (outer s) = (t0, w1) \<and> \<not> time_sub t0 v \<le> ttlDuration (bookedJobs s))"
          by (auto simp: ttl_Exists_def fq assms(4) split: option.splits prod.splits)
        with l live_antimono [OF l, of t0] now_reads [of "outer s" t0 w1] times(3) show False
          by (auto simp: live_def)
      qed
      have "live (bookedJobs s1) u k' = live (bookedJobs s) u k'" if "k' \<noteq> k" for u k'
        using that set by (simp add: live_def split: option.split)
      note other = this
      show ?thesis
      proof (intro conjI allI)
        show "ttlDuration (bookedJobs s') = ttlDuration (bookedJobs s)" using IH set(3) by simp
        fix k'
        show "if k' \<in> (job_fqid \<circ> fst) ` set sel
          then \<not> live (bookedJobs s) (clock (outer s')) k'
            \<and> (\<exists>t. ttlM (bookedJobs s') k' = Some t \<and> clock (outer s) \<le> t \<and> t \<le> clock (outer s'))
          else ttlM (bookedJobs s') k' = ttlM (bookedJobs s) k'"
        proof (cases "k' = k")
          case True
          from IH new have "ttlM (bookedJobs s') k = Some t" using set(2) by simp
          with True free times(1,2) take(12) fq show ?thesis by auto
        next
          case False
          with IH have "if k' \<in> (job_fqid \<circ> fst) ` set rest
            then \<not> live (bookedJobs s1) (clock (outer s')) k'
              \<and> (\<exists>t. ttlM (bookedJobs s') k' = Some t \<and> clock (outer s1) \<le> t \<and> t \<le> clock (outer s'))
            else ttlM (bookedJobs s') k' = ttlM (bookedJobs s1) k'" by blast
          with other [OF False] False take(12) fq set(2) times(4) show ?thesis
            by (auto split: if_splits intro: order_trans)
        qed
      qed
    qed
  qed (simp add: io_ret_run)
  then show "\<forall>k. if k \<in> (job_fqid \<circ> fst) ` set sel
        then \<not> live (bookedJobs s) (clock (outer s')) k
          \<and> (\<exists>t. ttlM (bookedJobs s') k = Some t \<and> clock (outer s) \<le> t \<and> t \<le> clock (outer s'))
        else ttlM (bookedJobs s') k = ttlM (bookedJobs s) k"
    "ttlDuration (bookedJobs s') = ttlDuration (bookedJobs s)" by blast+
qed

end

text \<open>Two rounds in a row: nothing selected by the first is selected again while its booking is alive.\<close>

context go_clock
begin

lemma rounds_disjoint:
  assumes "find_jobs env ks res ru s = (Inr sel1, s1)" "find_jobs env' ks' res' ru' s1 = (Inr sel2, s2)"
    and "distinct ks" "distinct ks'" "keyed_cache (jobs s)" "timeNow env = now" "timeNow env' = now"
    and "time_sub (clock (outer s2)) (clock (outer s)) \<le> ttlDuration (bookedJobs s)"
  shows "(job_fqid \<circ> fst) ` set sel1 \<inter> (job_fqid \<circ> fst) ` set sel2 = {}"
proof (rule ccontr)
  assume "\<not> ?thesis"
  then obtain k where k: "k \<in> (job_fqid \<circ> fst) ` set sel1" "k \<in> (job_fqid \<circ> fst) ` set sel2" by blast
  have keyed: "keyed_cache (jobs s1)" using find_jobs_frame(1) [OF assms(1,5)] .
  from find_jobs_books(1) [OF assms(1,3,5,6), THEN spec, of k] k(1) obtain t where
    t: "ttlM (bookedJobs s1) k = Some t" "clock (outer s) \<le> t" by auto
  from find_jobs_books(1) [OF assms(2,4) keyed assms(7), THEN spec, of k] k(2)
  have "\<not> live (bookedJobs s1) (clock (outer s2)) k" by auto
  then have "ttlDuration (bookedJobs s) < time_sub (clock (outer s2)) t"
    using t(1) find_jobs_books(2) [OF assms(1,3,5,6)] by (simp add: live_def)
  moreover have "time_sub (clock (outer s2)) t \<le> time_sub (clock (outer s2)) (clock (outer s))"
    using t(2) by (auto simp: time_sub_def)
  ultimately show False using assms(8) by linarith
qed

end

section \<open>Resources\<close>

text \<open>
  What the scheduler relies on in mesos-go's \<open>resources\<close> package, with \<open>amt rs k\<close> the quantity
  of kind \<open>k\<close> in \<open>rs\<close>: found resources amount to what was asked for and come out of what was
  offered.
\<close>

locale resource_laws =
  fixes lib :: "'r res_lib" and amt :: "'r list \<Rightarrow> 'k \<Rightarrow> rat"
  assumes amt_unallocate: "amt (resUnallocate lib a) k = amt a k"
    and amt_push: "amt (resPushReservation lib role a) k = amt a k"
    and amt_find: "resFind lib want have \<noteq> [] \<Longrightarrow>
      amt (resFind lib want have) k = amt want k \<and> amt want k \<le> amt have k"
    and amt_subtract: "(\<And>k. amt b k \<le> amt a k) \<Longrightarrow> amt (resSubtract lib a b) k = amt a k - amt b k"
    and amt_nonneg: "0 \<le> amt a k"
begin

lemma found_amount:
  assumes "findTaskResources env want have = Inr found" "found \<noteq> []" "resLib env = lib"
  shows "amt found k = amt want k" "amt found k \<le> amt have k"
proof -
  from assms(1) obtain role where "found = resFind lib want have
      \<or> found = resFind lib (resPushReservation lib role want) have"
    unfolding findTaskResources_def assms(3) by (auto split: list.splits if_splits)
  with assms(2) amt_find [of want "have" k] amt_find [of "resPushReservation lib role want" "have" k]
  show "amt found k = amt want k" "amt found k \<le> amt have k" by (auto simp: amt_push)
qed

lemma find_jobs_fits:
  assumes "find_jobs env ks res ru s = (Inr sel, s')" "resLib env = lib"
  shows "(\<Sum>(j, rs) \<leftarrow> sel. amt rs k) \<le> amt res k"
    and "\<forall>(j, rs) \<in> set sel. amt rs k = amt (Resources lib (JobConf j)) k"
proof -
  have "(\<Sum>(j, rs) \<leftarrow> sel. amt rs k) \<le> amt res k
      \<and> (\<forall>(j, rs) \<in> set sel. amt rs k = amt (Resources lib (JobConf j)) k)"
    using assms(1)
  proof (induction ks arbitrary: res ru s sel)
    case (Cons k' ks)
    from Cons.prems show ?case
    proof (cases rule: find_jobs_cases)
      case (skip s1)
      from Cons.IH [OF skip(5)] show ?thesis .
    next
      case (take job w1 w2 b taskRes s1 rest)
      note found = found_amount [OF take(6,7) assms(2)]
      with amt_subtract [of taskRes res k] have "amt (resSubtract lib res taskRes) k = amt res k - amt taskRes k"
        by simp
      with Cons.IH [OF take(11)] take(12) found assms(2) show ?thesis by auto
    qed
  qed (simp add: io_ret_run amt_nonneg)
  then show "(\<Sum>(j, rs) \<leftarrow> sel. amt rs k) \<le> amt res k"
    "\<forall>(j, rs) \<in> set sel. amt rs k = amt (Resources lib (JobConf j)) k" by blast+
qed

end

text \<open>A reference implementation: quantities of the three kinds, without roles.\<close>

datatype res_kind = CPU | MEM | DISK

type_synonym ref_res = "res_kind \<times> rat"

definition ref_amt :: "ref_res list \<Rightarrow> res_kind \<Rightarrow> rat" where
  "ref_amt rs k = sum_list (map (\<lambda>r. max 0 (snd r)) (filter (\<lambda>r. fst r = k) rs))"

definition ref_contains :: "ref_res list \<Rightarrow> ref_res list \<Rightarrow> bool" where
  "ref_contains a b = list_all (\<lambda>k. ref_amt b k \<le> ref_amt a k) [CPU, MEM, DISK]"

definition ref_res :: "ref_res res_lib" where
  "ref_res =
     \<lparr>resCPUs = Pair CPU, resMemory = Pair MEM, resDisk = Pair DISK, resAdd = (@),
      resUnallocate = (\<lambda>a. a), resToUnreserved = (\<lambda>a. a), resContainsAll = ref_contains,
      resPushReservation = (\<lambda>role a. a),
      resFind = (\<lambda>want have. if ref_contains have want then want else []),
      resSubtract = (\<lambda>a b. map (\<lambda>k. (k, ref_amt a k - ref_amt b k)) [CPU, MEM, DISK])\<rparr>"

lemma ref_amt_nonneg: "0 \<le> ref_amt a k"
  by (auto simp: ref_amt_def intro!: sum_list_nonneg)

interpretation ref_resources: resource_laws ref_res ref_amt
proof
  fix a b :: "ref_res list" and k
  assume le: "\<And>k. ref_amt b k \<le> ref_amt a k"
  show "ref_amt (resSubtract ref_res a b) k = ref_amt a k - ref_amt b k"
    using le [of k] by (cases k) (simp_all add: ref_res_def ref_amt_def)
next
  fix want "have" :: "ref_res list" and k
  assume "resFind ref_res want have \<noteq> []"
  then show "ref_amt (resFind ref_res want have) k = ref_amt want k \<and> ref_amt want k \<le> ref_amt have k"
    by (cases k) (auto simp: ref_res_def ref_contains_def split: if_splits)
qed (simp_all add: ref_res_def ref_amt_nonneg)

section \<open>Synchronisation\<close>

lemma merge_job_other: "job_fqid j \<noteq> k \<Longrightarrow> merge_job j m k = m k"
  by (simp add: merge_job_def Let_def split: option.split)

lemma merge_job_same:
  "merge_job j m (job_fqid j) = Some (case m (job_fqid j) of None \<Rightarrow> j | Some old \<Rightarrow> old\<lparr>JobConf := JobConf j\<rparr>)"
  by (simp add: merge_job_def Let_def split: option.split)

lemma keyed_merge: "keyed_cache m \<Longrightarrow> keyed_cache (merge_job j m)"
  by (auto simp: merge_job_def Let_def keyed_cache_def split: option.splits)

lemma fold_merge_other: "k \<notin> job_fqid ` set js \<Longrightarrow> fold merge_job js m k = m k"
  by (induction js arbitrary: m) (auto simp: merge_job_other)

lemma fold_merge_keyed: "keyed_cache m \<Longrightarrow> keyed_cache (fold merge_job js m)"
  by (induction js arbitrary: m) (auto simp: keyed_merge)

lemma fold_merge_new:
  assumes "distinct (map job_fqid js)" "j \<in> set js"
  shows "fold merge_job js m (job_fqid j)
     = Some (case m (job_fqid j) of None \<Rightarrow> j | Some old \<Rightarrow> old\<lparr>JobConf := JobConf j\<rparr>)"
  using assms
proof (induction js arbitrary: m)
  case (Cons a js)
  show ?case
  proof (cases "j = a")
    case True
    with Cons.prems have "job_fqid a \<notin> job_fqid ` set js" by simp
    then show ?thesis unfolding True by (simp add: fold_merge_other merge_job_same)
  next
    case False
    with Cons.prems have "j \<in> set js" "job_fqid a \<noteq> job_fqid j" by (auto simp: image_iff)
    with Cons show ?thesis by (simp add: merge_job_other)
  qed
qed simp

lemma fold_evict:
  assumes "keyed_cache m"
  shows "fold (evict_job ids) order m k = (if k \<in> set order \<and> k \<notin> ids then None else m k)"
  using assms
proof (induction order arbitrary: m)
  case (Cons a order)
  have step: "evict_job ids a m = (if a \<in> ids then m else m(a := None))"
    using Cons.prems by (auto simp: evict_job_def keyed_cache_def Let_def fun_upd_idem split: option.split)
  show ?case
  proof (cases "a \<in> ids")
    case True
    with Cons.IH [OF Cons.prems] step show ?thesis by auto
  next
    case False
    with Cons.IH [OF keyed_del [OF Cons.prems], of a]
    have "fold (evict_job ids) order (evict_job ids a m) k
        = (if k \<in> set order \<and> k \<notin> ids then None else (m(a := None)) k)"
      by (simp only: step if_False)
    with False show ?thesis by auto
  qed
qed simp

text \<open>After a synchronisation the cache holds exactly the stored jobs, with the runtimes it knew.\<close>

lemma sync_jobs_spec:
  assumes "keyed_cache m" "distinct (map job_fqid js)" "dom m \<union> job_fqid ` set js \<subseteq> set order"
  shows "j \<in> set js \<Longrightarrow> sync_jobs js order m (job_fqid j)
      = Some (case m (job_fqid j) of None \<Rightarrow> j | Some old \<Rightarrow> old\<lparr>JobConf := JobConf j\<rparr>)"
    and "k \<notin> job_fqid ` set js \<Longrightarrow> sync_jobs js order m k = None"
    and "keyed_cache (sync_jobs js order m)"
proof -
  have evict: "sync_jobs js order m k =
      (if k \<in> set order \<and> k \<notin> job_fqid ` set js then None else fold merge_job js m k)" for k
    by (simp add: sync_jobs_def fold_evict [OF fold_merge_keyed [OF assms(1)]])
  show "j \<in> set js \<Longrightarrow> sync_jobs js order m (job_fqid j)
      = Some (case m (job_fqid j) of None \<Rightarrow> j | Some old \<Rightarrow> old\<lparr>JobConf := JobConf j\<rparr>)"
    using fold_merge_new [OF assms(2)] by (simp add: evict)
  show "k \<notin> job_fqid ` set js \<Longrightarrow> sync_jobs js order m k = None"
    using assms(3) by (auto simp: evict fold_merge_other)
  show "keyed_cache (sync_jobs js order m)"
    using fold_merge_keyed [OF assms(1), of js] by (auto simp: keyed_cache_def evict split: if_splits)
qed

lemma attempts_keeps:
  "attempts m sleep w w' \<Longrightarrow> keeps v m \<Longrightarrow> (\<And>w. v (sleep w) = v w) \<Longrightarrow> v w' = v w"
  by (induction rule: attempts.induct) (auto dest: keepsD)

lemma attempts_outside_keeps:
  assumes "attempts (outside m) (\<lambda>s. s\<lparr>outer := f (outer s)\<rparr>) s s1"
  shows "jobs s1 = jobs s" "queuedJobs s1 = queuedJobs s" "bookedJobs s1 = bookedJobs s"
  by (rule attempts_keeps [OF assms]; simp add: outside_keeps)+

lemma syncJobsCache_run:
  assumes "syncJobsCache env order s = Some (Inr (), s')"
  obtains s1 js w where "attempts (outside (opGetJobs (storage env))) (\<lambda>s. s\<lparr>outer := sleepFor env second (outer s)\<rparr>) s s1"
    "opGetJobs (storage env) (outer s1) = (Inr js, outer s')" "jobs s1 = jobs s"
    "jobs s' = sync_jobs js order (jobs s)" "queuedJobs s' = queuedJobs s" "bookedJobs s' = bookedJobs s"
proof -
  from assms obtain js s2 where r: "retry (outside (opGetJobs (storage env)))
      (\<lambda>s. s\<lparr>outer := sleepFor env second (outer s)\<rparr>) s = Some (Inr js, s2)"
    and s': "s' = s2\<lparr>jobs := sync_jobs js order (jobs s2)\<rparr>"
    by (auto simp: syncJobsCache_def split: option.splits sum.splits prod.splits)
  from retry_sound [OF r] obtain s1 where s1: "attempts (outside (opGetJobs (storage env)))
      (\<lambda>s. s\<lparr>outer := sleepFor env second (outer s)\<rparr>) s s1"
    "outside (opGetJobs (storage env)) s1 = (Inr js, s2)" by blast
  from s1(2) obtain w where w: "s2 = s1\<lparr>outer := w\<rparr>" "opGetJobs (storage env) (outer s1) = (Inr js, w)"
    by (auto simp: io_on_eq)
  show thesis
    by (rule that [OF s1(1), of js]) (use w s' attempts_outside_keeps [OF s1(1)] in simp_all)
qed

context job_store
begin

lemma sync_agrees:
  assumes "syncJobsCache env order sc = Some (Inr (), sc')" "storage env = stor" "keyed_cache (jobs sc)"
  shows "\<exists>sc1. attempts (outside (opGetJobs stor)) (\<lambda>s. s\<lparr>outer := sleepFor env second (outer s)\<rparr>) sc sc1
    \<and> (inv (outer sc1) \<longrightarrow> dom (jobs sc) \<union> dom (confs (outer sc1)) \<subseteq> set order \<longrightarrow>
       (\<forall>k. jobs sc' k =
         (case (confs (outer sc1) k, runtimes (outer sc1) k) of
            (Some c, Some r) \<Rightarrow>
              Some (case jobs sc k of None \<Rightarrow> \<lparr>JobConf = c, JobRuntime = r\<rparr> | Some old \<Rightarrow> old\<lparr>JobConf := c\<rparr>)
          | _ \<Rightarrow> None)))"
proof -
  from syncJobsCache_run [OF assms(1)] obtain sc1 js where run:
    "attempts (outside (opGetJobs stor)) (\<lambda>s. s\<lparr>outer := sleepFor env second (outer s)\<rparr>) sc sc1"
    "opGetJobs stor (outer sc1) = (Inr js, outer sc')" "jobs sc' = sync_jobs js order (jobs sc)"
    unfolding assms(2) by blast
  have "jobs sc' k =
         (case (confs (outer sc1) k, runtimes (outer sc1) k) of
            (Some c, Some r) \<Rightarrow>
              Some (case jobs sc k of None \<Rightarrow> \<lparr>JobConf = c, JobRuntime = r\<rparr> | Some old \<Rightarrow> old\<lparr>JobConf := c\<rparr>)
          | _ \<Rightarrow> None)"
    if inv: "inv (outer sc1)" and order: "dom (jobs sc) \<union> dom (confs (outer sc1)) \<subseteq> set order" for k
  proof -
    note js = get_jobs [OF inv run(2)]
    have order': "dom (jobs sc) \<union> job_fqid ` set js \<subseteq> set order" using order js by (auto simp: dom_def)
    note spec = sync_jobs_spec [OF assms(3) _ order']
    show ?thesis
    proof (cases "confs (outer sc1) k")
      case None
      with js have "k \<notin> job_fqid ` set js" by auto
      with spec(2) js run(3) None show ?thesis by simp
    next
      case (Some c)
      with js obtain r where r: "runtimes (outer sc1) k = Some r" by (auto simp: dom_def)
      from keyed [OF inv Some] have fq: "job_fqid \<lparr>JobConf = c, JobRuntime = r\<rparr> = k" by simp
      with Some r js have "\<lparr>JobConf = c, JobRuntime = r\<rparr> \<in> set js" by simp
      from spec(1) [OF _ this] js fq Some r run(3) show ?thesis by (simp split: option.split)
    qed
  qed
  with run(1) show ?thesis by blast
qed

end

section \<open>Task state updates\<close>

text \<open>The state machine of a job's runtime; \<open>None\<close> where an update is ignored.\<close>

definition next_runtime :: "task_status \<Rightarrow> job_runtime \<Rightarrow> job_runtime option" where
  "next_runtime status r =
     (let stopped = (\<lambda>st. r\<lparr>State := st, CurrentTaskID := [], CurrentAgentID := []\<rparr>) in
      case statusState status of
        TASK_STAGING \<Rightarrow> Some (r\<lparr>State := STAGING\<rparr>)
      | TASK_STARTING \<Rightarrow> Some (r\<lparr>State := STARTING\<rparr>)
      | TASK_RUNNING \<Rightarrow> Some (r\<lparr>State := RUNNING\<rparr>)
      | TASK_FINISHED \<Rightarrow> Some (stopped IDLE)
      | TASK_LOST \<Rightarrow>
          if statusReason status = REASON_RECONCILIATION \<and> State r \<in> {IDLE, FAILED} then None
          else Some (stopped FAILED)
      | TASK_OTHER _ \<Rightarrow> None
      | _ \<Rightarrow> Some (stopped FAILED))"

lemma outside_run: "outside m s = (q, s') \<longleftrightarrow> (\<exists>w. m (outer s) = (q, w) \<and> s' = s\<lparr>outer := w\<rparr>)"
  by (auto simp: io_on_eq)

lemma update_job_run:
  assumes "update_job env status jid job s = (Inr oj, s')"
  shows "oj = map_option (\<lambda>r. job\<lparr>JobRuntime := r\<rparr>) (next_runtime status (JobRuntime job))"
    "jobs s' = jobs s \<and> queuedJobs s' = queuedJobs s \<and> bookedJobs s' = bookedJobs s"
    "statusState status \<in> {TASK_STAGING, TASK_STARTING, TASK_RUNNING} \<Longrightarrow> s' = s"
    "oj \<noteq> None \<Longrightarrow> statusState status \<notin> {TASK_STAGING, TASK_STARTING, TASK_RUNNING} \<Longrightarrow>
       addTaskHistory env status (LastStart (JobRuntime job)) jid (outer s) = (Inr (), outer s')"
  using assms
  by (auto simp: update_job_def Let_def io_bind_Inr io_ret_run io_panic_run outside_run next_runtime_def
      stop_job_def split: task_state.splits if_splits)

lemma keeps_HandleTaskStateUpdate:
  "keeps queuedJobs (HandleTaskStateUpdate env status)" "keeps bookedJobs (HandleTaskStateUpdate env status)"
  unfolding HandleTaskStateUpdate_def getJob_def setJob_def update_job_def Let_def
  by (auto intro!: keeps_intros outside_keeps split: sum.split option.split task_state.split)

lemma HandleTaskStateUpdate_run:
  assumes "HandleTaskStateUpdate env status s = (Inr (), s')" "keyed_cache (jobs s)"
    and "parseTaskID (statusTaskID status) = Inr jid" "jobs s (JobID_String jid) = Some job"
  shows "queuedJobs s' = queuedJobs s" "bookedJobs s' = bookedJobs s"
    and "next_runtime status (JobRuntime job) = None \<Longrightarrow> jobs s' = jobs s"
    and "next_runtime status (JobRuntime job) = Some r \<Longrightarrow>
      jobs s' = (jobs s)(JobID_String jid \<mapsto> job\<lparr>JobRuntime := r\<rparr>)
      \<and> (\<exists>q w1. opSaveJobRuntime (storage env) (Group jid) (Project jid) (ID jid) r w1 = (q, outer s')
            \<and> (if statusState status \<in> {TASK_STAGING, TASK_STARTING, TASK_RUNNING} then w1 = outer s
               else addTaskHistory env status (LastStart (JobRuntime job)) jid (outer s) = (Inr (), w1)))"
proof -
  from assms(1,3,4) obtain oj s1 where up: "update_job env status jid job s = (Inr oj, s1)"
    and rest: "(case oj of None \<Rightarrow> io_ret ()
        | Some job' \<Rightarrow> io_bind (setJob job') (\<lambda>_.
            io_try (outside (opSaveJobRuntime (storage env) (Group jid) (Project jid) (ID jid) (JobRuntime job')))
              (\<lambda>_. io_ret ()))) s1 = (Inr (), s')"
    by (auto simp: HandleTaskStateUpdate_def getJob_def io_bind_Inr io_get_run io_ret_run)
  note u = update_job_run [OF up]
  note s1 = u(2)
  have fq: "job_fqid job = JobID_String jid" using assms(2,4) by (simp add: keyed_cache_def)
  show "next_runtime status (JobRuntime job) = None \<Longrightarrow> jobs s' = jobs s"
    using u(1) rest s1 by (auto simp: io_ret_run)
  show "queuedJobs s' = queuedJobs s" "bookedJobs s' = bookedJobs s"
    using assms(1) keepsD [OF keeps_HandleTaskStateUpdate(1)] keepsD [OF keeps_HandleTaskStateUpdate(2)] by blast+
  assume r: "next_runtime status (JobRuntime job) = Some r"
  with u(1) rest have "io_try (outside (opSaveJobRuntime (storage env) (Group jid) (Project jid) (ID jid) r))
      (\<lambda>_. io_ret ()) (s1\<lparr>jobs := (jobs s1)(JobID_String jid \<mapsto> job\<lparr>JobRuntime := r\<rparr>)\<rparr>) = (Inr (), s')"
    by (simp add: setJob_def io_bind_modify fq)
  then obtain q w' where save: "opSaveJobRuntime (storage env) (Group jid) (Project jid) (ID jid) r (outer s1) = (q, w')"
    and s': "s' = s1\<lparr>jobs := (jobs s1)(JobID_String jid \<mapsto> job\<lparr>JobRuntime := r\<rparr>), outer := w'\<rparr>"
    by (auto simp: io_try_eq outside_run io_ret_run)
  from u(3,4) r u(1) have "if statusState status \<in> {TASK_STAGING, TASK_STARTING, TASK_RUNNING} then outer s1 = outer s
      else addTaskHistory env status (LastStart (JobRuntime job)) jid (outer s) = (Inr (), outer s1)"
    by simp
  moreover have "opSaveJobRuntime (storage env) (Group jid) (Project jid) (ID jid) r (outer s1) = (q, outer s')"
    using save s' by simp
  ultimately show "jobs s' = (jobs s)(JobID_String jid \<mapsto> job\<lparr>JobRuntime := r\<rparr>)
      \<and> (\<exists>q w1. opSaveJobRuntime (storage env) (Group jid) (Project jid) (ID jid) r w1 = (q, outer s')
            \<and> (if statusState status \<in> {TASK_STAGING, TASK_STARTING, TASK_RUNNING} then w1 = outer s
               else addTaskHistory env status (LastStart (JobRuntime job)) jid (outer s) = (Inr (), w1)))"
    using s' s1 by (intro conjI exI) simp_all
qed

text \<open>An update never returns an error, and panics only on a state the switch does not know.\<close>

lemma no_panic_addTaskHistory:
  "(\<And>g p i t. no_panic (opAddTask (storage env) g p i t)) \<Longrightarrow> no_panic (addTaskHistory env status start jid)"
  unfolding addTaskHistory_def Let_def by (auto intro!: no_panic_intros)

lemma HandleTaskStateUpdate_total:
  assumes "\<And>g p i t. no_panic (opAddTask (storage env) g p i t)"
    and "\<And>g p i r. no_panic (opSaveJobRuntime (storage env) g p i r)"
    and "\<And>name. statusState status \<noteq> TASK_OTHER name"
  shows "fst (HandleTaskStateUpdate env status s) = Inr ()"
proof -
  have "no_panic (HandleTaskStateUpdate env status)"
    unfolding HandleTaskStateUpdate_def getJob_def setJob_def update_job_def Let_def
    using assms
    by (auto intro!: no_panic_intros no_panic_addTaskHistory split: sum.split option.split task_state.split)
  moreover have "no_fail (HandleTaskStateUpdate env status)"
    unfolding HandleTaskStateUpdate_def getJob_def setJob_def update_job_def addTaskHistory_def Let_def
    by (auto intro!: no_fail_intros split: sum.split option.split task_state.split)
  ultimately show ?thesis using returns by fastforce
qed

section \<open>Task ids\<close>

lemma parseTaskID_String:
  assumes "CHR '':'' \<notin> set (Group jid)" "CHR '':'' \<notin> set (Project jid)" "CHR '':'' \<notin> set (ID jid)"
    and "CHR '':'' \<notin> set uuid"
  shows "parseTaskID (taskID_String jid uuid) = Inr jid"
  using last_index_append [OF assms(4), of "JobID_String jid"] ParseJobID_String_colon [OF assms(1-3)]
  by (simp add: parseTaskID_def taskID_String_def)

section \<open>Launching\<close>

lemma dequeueJob_run:
  assumes "dequeueJob env job s = (Inr (), s')"
  shows "jobs s' = jobs s" "bookedJobs s' = bookedJobs s" "queuedJobs s' = queuedJobs s - {job_fqid job}"
  using assms
  by (auto simp: dequeueJob_def Let_def io_bind_get io_try_eq outside_run io_modify_run io_ret_run split: if_splits)

lemma newTaskInfo_id:
  assumes "newTaskInfo env c w = (Inr task, w')"
  shows "\<exists>u w1. newV4 env w = (Inr u, w1) \<and> tiTaskID task = taskID_String (JobID c) u"
  using assms by (auto simp: newTaskInfo_def newTaskID_def io_simps)

lemma newTaskInfo_fields:
  assumes "newTaskInfo env c w = (Inr task, w')"
  shows "tiLabels task = task_labels (Labels c)" "tiCmd task = Cmd c" "tiArguments task = Arguments c"
    and "container_info (Container c) = Inr (tiContainer task)"
    and "\<exists>secrets. map fst secrets = map fst (Secrets c)
       \<and> tiEnvironment task = [(''RHYTHM_TASK_ID'', tiTaskID task), (''RHYTHM_MEM'', formatG env (Mem c)),
           (''RHYTHM_DISK'', formatG env (Disk c)), (''RHYTHM_CPU'', formatG env (CPUs c))] @ Env c @ secrets"
proof -
  from assms obtain tid w1 secrets w2 where
      secrets: "read_secrets env c w1 = (Inr secrets, w2)"
    and task: "container_info (Container c) = Inr (tiContainer task)" "tiLabels task = task_labels (Labels c)"
      "tiCmd task = Cmd c" "tiArguments task = Arguments c"
      "tiEnvironment task = [(''RHYTHM_TASK_ID'', tiTaskID task), (''RHYTHM_MEM'', formatG env (Mem c)),
           (''RHYTHM_DISK'', formatG env (Disk c)), (''RHYTHM_CPU'', formatG env (CPUs c))] @ Env c @ secrets"
    by (auto simp: newTaskInfo_def io_bind_Inr io_of_fault_eq io_ret_run)
  have "map fst secrets = map fst ss"
    if "io_for ss (\<lambda>(k, v). io_try (secretsRead env (Group (JobID c) @ ''/'' @ Project (JobID c) @ ''/'' @ v)) (\<lambda>r.
         case r of
           Inl err \<Rightarrow> io_fail (ErrMsg (''Reading secret failed: '' @ errorText env err))
         | Inr secret \<Rightarrow> io_ret (k, secret))) w1 = (Inr secrets, w2)" for ss w1 secrets
    using that by (induction ss arbitrary: w1 secrets) (auto simp: io_simps)
  with secrets have "map fst secrets = map fst (Secrets c)" by (simp add: read_secrets_def)
  with task show "tiLabels task = task_labels (Labels c)" "tiCmd task = Cmd c" "tiArguments task = Arguments c"
    "container_info (Container c) = Inr (tiContainer task)"
    "\<exists>secrets. map fst secrets = map fst (Secrets c)
       \<and> tiEnvironment task = [(''RHYTHM_TASK_ID'', tiTaskID task), (''RHYTHM_MEM'', formatG env (Mem c)),
           (''RHYTHM_DISK'', formatG env (Disk c)), (''RHYTHM_CPU'', formatG env (CPUs c))] @ Env c @ secrets"
    by blast+
qed

text \<open>The job as one launch leaves it in cache and storage.\<close>

definition launched :: "string \<Rightarrow> 'r list \<Rightarrow> job \<Rightarrow> job \<Rightarrow> 'r task_info option \<Rightarrow> bool" where
  "launched agent rs job job' task \<longleftrightarrow>
     JobConf job' = JobConf job \<and> Retries (JobRuntime job') = Retries (JobRuntime job)
     \<and> (case task of
          None \<Rightarrow> State (JobRuntime job') = FAILED \<and> CurrentTaskID (JobRuntime job') = CurrentTaskID (JobRuntime job)
        | Some t \<Rightarrow> State (JobRuntime job') = STAGING \<and> CurrentTaskID (JobRuntime job') = tiTaskID t
            \<and> CurrentAgentID (JobRuntime job') = agent \<and> tiAgentID t = agent \<and> tiResources t = rs
            \<and> (\<exists>u. tiTaskID t = taskID_String (JobID (JobConf job)) u))"

lemma launch_job_run:
  assumes "launch_job env agent (job, rs) s = (Inr task, s')"
  obtains job' now w0 w1 w2 q w3 where "timeNow env (outer s) = (now, w0)" "LastStart (JobRuntime job') = now"
    "launched agent rs job job' task"
    "jobs s' = (jobs s)(job_fqid job \<mapsto> job')" "queuedJobs s' = queuedJobs s - {job_fqid job}"
    "bookedJobs s' = ttl_Del (job_fqid job) (bookedJobs s)"
    "opSaveJobRuntime (storage env) (Group (JobID (JobConf job))) (Project (JobID (JobConf job)))
       (ID (JobID (JobConf job))) (JobRuntime job') w1 = (q, w2)"
proof -
  obtain now w0 where now: "timeNow env (outer s) = (now, w0)" by fastforce
  let ?job = "start_job now job" and ?s0 = "s\<lparr>outer := w0\<rparr>"
  from assms now obtain job' s1 where made: "io_try (outside (newTaskInfo env (JobConf ?job))) (\<lambda>r.
           case r of
             Inl err \<Rightarrow>
               io_bind (outside (record_failed_launch env ?job err)) (\<lambda>_. io_ret (set_state FAILED ?job, None))
           | Inr t \<Rightarrow> io_ret (stage_job (tiTaskID t) agent ?job, Some (t\<lparr>tiAgentID := agent, tiResources := rs\<rparr>)))
        ?s0 = (Inr (job', task), s1)"
    and rest: "(let jid = JobID (JobConf job') in
           io_try (outside (opSaveJobRuntime (storage env) (Group jid) (Project jid) (ID jid) (JobRuntime job')))
             (\<lambda>_. io_bind (setJob job') (\<lambda>_. io_bind (dequeueJob env job') (\<lambda>_.
              io_bind (booked_Del (job_fqid job')) (\<lambda>_. io_ret task))))) s1 = (Inr task, s')"
    by (force simp: launch_job_def Let_def io_bind_Inr outside_run io_of_read_eq io_try_eq io_ret_run booked_Del_def
        io_modify_run)
  have launched: "launched agent rs job job' task" "LastStart (JobRuntime job') = now"
    using made newTaskInfo_id
    by (auto simp: launched_def io_try_eq outside_run io_bind_Inr io_ret_run stage_job_def start_job_def; metis)+
  have s1: "jobs s1 = jobs s" "queuedJobs s1 = queuedJobs s" "bookedJobs s1 = bookedJobs s"
    using made by (auto simp: io_try_eq outside_run io_bind_Inr io_ret_run)
  have conf: "JobConf job' = JobConf job" using launched(1) by (simp add: launched_def)
  from rest obtain q w2 s2 s3 where
      save: "opSaveJobRuntime (storage env) (Group (JobID (JobConf job))) (Project (JobID (JobConf job)))
        (ID (JobID (JobConf job))) (JobRuntime job') (outer s1) = (q, w2)"
    and s2: "s2 = s1\<lparr>outer := w2, jobs := (jobs s1)(job_fqid job \<mapsto> job')\<rparr>"
    and s3: "dequeueJob env job' s2 = (Inr (), s3)"
    and s': "s' = s3\<lparr>bookedJobs := ttl_Del (job_fqid job) (bookedJobs s3)\<rparr>"
    by (auto simp: Let_def conf io_try_eq outside_run io_bind_Inr setJob_def io_modify_run booked_Del_def io_ret_run)
  from dequeueJob_run [OF s3] s2 s' s1 conf show thesis
    by (intro that [OF now launched(2,1) _ _ _ save]) auto
qed

text \<open>A queued job is selected whatever its state: the comment in the source promises one task per job.\<close>

lemma queued_running_due: "job_fqid job \<in> queuedJobs s \<Longrightarrow> due env s job"
  by (simp add: due_def)

text \<open>Retries.\<close>

lemma count_retry_bounds:
  "Retries (JobRuntime (count_retry j)) = 0
   \<or> (0 < Retries (JobRuntime (count_retry j)) \<or> Retries (JobRuntime j) < 0)
     \<and> Retries (JobRuntime (count_retry j)) \<le> MaxRetries (JobConf j)"
  by (auto simp: count_retry_def IsRetryable_def)

section \<open>The scheduler as a state machine\<close>

text \<open>
  The calls that reach a scheduler, with any outcome: a status update, an offer, a synchronisation of
  its caches, a round of the cleanup of the bookings; and whatever the rest of the world does in
  between.
\<close>

inductive sched_step :: "('w, 'r, 's) sched_env \<Rightarrow> 'w sched \<Rightarrow> 'w sched \<Rightarrow> bool" for env where
  step_update: "HandleTaskStateUpdate env st s = (q, s') \<Longrightarrow> sched_step env s s'"
| step_offer: "FindTasksForOffer env order offered agent s = (q', s') \<Longrightarrow> sched_step env s s'"
| step_sync: "sync_caches env order s = Some (q, s') \<Longrightarrow> sched_step env s s'"
| step_cleanup: "ttl_cleanup (timeNow env) ks (bookedJobs s) (outer s) = (b, w) \<Longrightarrow>
    sched_step env s (s\<lparr>bookedJobs := b, outer := w\<rparr>)"
| step_world: "sched_step env s (s\<lparr>outer := w\<rparr>)"

inductive_cases sched_stepE: "sched_step env s s'"

lemma keyed_examine_job: "keeps_keyed (examine_job env k res ru)"
proof (rule movesI, rule impI)
  fix s q s'
  assume run: "examine_job env k res ru s = (q, s')" and keyed: "keyed_cache (jobs s)"
  from examine_job_run [OF run] consider "jobs s' = jobs s"
    | job w2 where "jobs s k = Some job" "select_job env k job res (s\<lparr>outer := w2\<rparr>) = (q, s')"
    by blast
  then show "keyed_cache (jobs s')"
  proof cases
    case 2
    with select_job_run(1) [OF 2(2)] keyed show ?thesis by (auto simp: keyed_cache_def)
  qed (use keyed in simp)
qed

lemma keyed_find_jobs: "keeps_keyed (find_jobs env ks res ru)"
  by (induction ks arbitrary: res ru)
    (auto intro!: keyed_intros keyed_examine_job split: option.split)

lemma keyed_FindTasksForOffer: "keeps_keyed (FindTasksForOffer env order offered agent)"
  unfolding FindTasksForOffer_def findJobsForResources_def Let_def
  by (auto intro!: keyed_intros keyed_find_jobs keyed_buildTasks)

lemma sync_jobs_keyed:
  assumes "keyed_cache m"
  shows "keyed_cache (sync_jobs js order m)"
  using fold_merge_keyed [OF assms, of js]
  by (auto simp: keyed_cache_def sync_jobs_def fold_evict [OF fold_merge_keyed [OF assms]] split: if_splits)

lemma retry_outside_keeps:
  assumes "retry (outside m) (\<lambda>s. s\<lparr>outer := f (outer s)\<rparr>) s = Some (r, s1)"
  shows "jobs s1 = jobs s" "queuedJobs s1 = queuedJobs s" "bookedJobs s1 = bookedJobs s"
proof -
  from retry_sound [OF assms] obtain s0 where
    s0: "attempts (outside m) (\<lambda>s. s\<lparr>outer := f (outer s)\<rparr>) s s0" "outside m s0 = (r, s1)" by blast
  from attempts_outside_keeps [OF s0(1)] outside_keeps [THEN keepsD, OF s0(2)]
  show "jobs s1 = jobs s" "queuedJobs s1 = queuedJobs s" "bookedJobs s1 = bookedJobs s" by simp_all
qed

lemma syncJobsCache_keyed:
  assumes "syncJobsCache env order s = Some (q, s')" "keyed_cache (jobs s)"
  shows "keyed_cache (jobs s')"
proof -
  from assms(1) obtain r s1 where r: "retry (outside (opGetJobs (storage env)))
      (\<lambda>s. s\<lparr>outer := sleepFor env second (outer s)\<rparr>) s = Some (r, s1)"
    and s': "case r of Inl _ \<Rightarrow> s' = s1 | Inr js \<Rightarrow> jobs s' = sync_jobs js order (jobs s1)"
    by (auto simp: syncJobsCache_def split: option.splits sum.splits prod.splits)
  with s' assms(2) retry_outside_keeps(1) [OF r] sync_jobs_keyed show ?thesis by (auto split: sum.splits)
qed

lemma syncQueuedJobsCache_jobs:
  assumes "syncQueuedJobsCache env s = Some (q, s')"
  shows "jobs s' = jobs s" "bookedJobs s' = bookedJobs s"
proof -
  from assms obtain r s1 where r: "retry (outside (opGetQueuedJobsIDs (storage env)))
      (\<lambda>s. s\<lparr>outer := sleepFor env second (outer s)\<rparr>) s = Some (r, s1)"
    and s': "jobs s' = jobs s1" "bookedJobs s' = bookedJobs s1"
    by (auto simp: syncQueuedJobsCache_def split: option.splits sum.splits prod.splits)
  from retry_outside_keeps [OF r] s' show "jobs s' = jobs s" "bookedJobs s' = bookedJobs s" by simp_all
qed

lemma keyed_step: "sched_step env s s' \<Longrightarrow> keyed_cache (jobs s) \<Longrightarrow> keyed_cache (jobs s')"
proof (induction rule: sched_step.induct)
  case (step_update st s q s')
  then show ?case using movesD [OF keyed_HandleTaskStateUpdate] by blast
next
  case (step_offer order offered agent s q s')
  then show ?case using movesD [OF keyed_FindTasksForOffer] by blast
next
  case (step_sync order s q s')
  then show ?case
    by (auto simp: sync_caches_def split: option.splits sum.splits prod.splits
        dest!: syncQueuedJobsCache_jobs(1) dest: syncJobsCache_keyed)
qed simp_all

text \<open>The synchronisation returns as soon as one listing succeeds, and never while listings fail.\<close>

lemma syncJobsCache_returns:
  assumes "attempts (outside (opGetJobs (storage env))) (\<lambda>s. s\<lparr>outer := sleepFor env second (outer s)\<rparr>) s s1"
    and "opGetJobs (storage env) (outer s1) = (Inr js, w)"
  shows "syncJobsCache env order s = Some (Inr (), s1\<lparr>outer := w, jobs := sync_jobs js order (jobs s1)\<rparr>)"
proof -
  have "outside (opGetJobs (storage env)) s1 = (Inr js, s1\<lparr>outer := w\<rparr>)" using assms(2) by (simp add: io_on_eq)
  from retry_complete [OF assms(1) this] show ?thesis by (simp add: syncJobsCache_def)
qed

lemma syncJobsCache_diverges:
  assumes "\<And>w. P w \<Longrightarrow> \<exists>e w'. opGetJobs (storage env) w = (Inl (Fail e), w') \<and> P (sleepFor env second w')"
    and "P (outer s)"
  shows "syncJobsCache env order s = None"
proof -
  let ?m = "outside (opGetJobs (storage env))" and ?sleep = "\<lambda>s. s\<lparr>outer := sleepFor env second (outer s)\<rparr>"
  have "P (outer s1)" if "attempts ?m ?sleep s s1" for s1
    using that assms(2)
  proof (induction rule: attempts.induct)
    case (attempts_again s e s1 s')
    from assms(1) [OF attempts_again.prems] attempts_again.hyps(1) have "P (outer (?sleep s1))"
      by (auto simp: io_on_eq)
    then show ?case by (rule attempts_again.IH)
  qed
  then have "\<exists>e s2. ?m s1 = (Inl (Fail e), s2)" if "attempts ?m ?sleep s s1" for s1
    using assms(1) that by (force simp: io_on_def)
  then have "retry ?m ?sleep s \<noteq> Some (q, s')" for q s'
    using retry_sound [of ?m ?sleep s q s'] by fastforce
  then have "retry ?m ?sleep s = None" by (cases "retry ?m ?sleep s") auto
  then show ?thesis by (simp add: syncJobsCache_def)
qed

end
