(* ===== verification/OffersTuner.thy ===== *)
theory OffersTuner
  imports StorageOps
begin

text \<open>
  The offers tuner of \<^verbatim>\<open>mesos/offerstuner/offerstuner.go\<close>: it asks Mesos for offers (REVIVE) when
  some job waits for one and stops them (SUPPRESS) when nothing is to run soon.
\<close>

section \<open>The code\<close>

text \<open>The packages and the storage the tuner calls; \<open>takeToken\<close> is the non-blocking receive.\<close>

record ('w, 's) tuner =
  stor :: "'w storage_ops"
  callRevive :: "('w, unit) io"
  callSuppress :: "('w, unit) io"
  takeToken :: "'w \<Rightarrow> bool \<times> 'w"
  clockNow :: "'w \<Rightarrow> time \<times> 'w"
  cron :: "'s cron_lib"
  sleep :: "duration \<Rightarrow> 'w \<Rightarrow> 'w"

abbreviation roundInterval :: duration where "roundInterval \<equiv> 30 * second"

fun max_delay :: "'s cron_lib \<Rightarrow> time \<Rightarrow> job list \<Rightarrow> duration \<Rightarrow> fault + duration" where
  "max_delay lib now [] maxDelay = Inr maxDelay"
| "max_delay lib now (job # js) maxDelay =
     (case NextRun lib job of
        Inl f \<Rightarrow> Inl f
      | Inr nxt \<Rightarrow>
          (let delay = time_sub now nxt in
           max_delay lib now js (if delay > maxDelay then delay else maxDelay)))"

definition findMaxDelay :: "('w, 's) tuner \<Rightarrow> job list \<Rightarrow> ('w, duration) io" where
  "findMaxDelay t js =
     io_bind (io_of_read (clockNow t)) (\<lambda>now. io_of_fault (max_delay (cron t) now js 0))"

fun min_deadline :: "'s cron_lib \<Rightarrow> time \<Rightarrow> job list \<Rightarrow> duration \<Rightarrow> fault + duration" where
  "min_deadline lib now [] minDeadline = Inr minDeadline"
| "min_deadline lib now (job # js) minDeadline =
     (case NextRun lib job of
        Inl f \<Rightarrow> Inl f
      | Inr nxt \<Rightarrow>
          (let delay = time_sub nxt now in
           min_deadline lib now js (if delay \<ge> 0 \<and> delay < minDeadline then delay else minDeadline)))"

definition findMinDeadline :: "('w, 's) tuner \<Rightarrow> job list \<Rightarrow> ('w, duration) io" where
  "findMinDeadline t js =
     io_bind (io_of_read (clockNow t)) (\<lambda>now. io_of_fault (min_deadline (cron t) now js (hour * 24)))"

text \<open>
  One round. Go returns the flag together with the error, so the result pairs the new flag with the
  error of the round, if any.
\<close>

definition tuner_round :: "('w, 's) tuner \<Rightarrow> bool \<Rightarrow> ('w, bool \<times> error option) io" where
  "tuner_round t suppressed =
     io_try (opGetJobs (stor t)) (\<lambda>r. case r of Inl err \<Rightarrow> io_ret (suppressed, Some err) | Inr js \<Rightarrow>
     io_try (opGetQueuedJobsIDs (stor t)) (\<lambda>r. case r of Inl err \<Rightarrow> io_ret (suppressed, Some err) | Inr queued \<Rightarrow>
     io_bind (if length queued > 0 then io_ret minute else findMaxDelay t js) (\<lambda>maxDelay.
     io_bind (findMinDeadline t js) (\<lambda>minDeadline.
       if maxDelay \<ge> minute \<or> (suppressed \<and> maxDelay > 0) then
         io_bind (io_of_read (takeToken t)) (\<lambda>token.
           if token then
             io_try (callRevive t) (\<lambda>r. case r of
               Inl err \<Rightarrow> io_ret (suppressed, Some err) | Inr _ \<Rightarrow> io_ret (False, None))
           else io_ret (suppressed, None))
       else if maxDelay = 0 \<and> minDeadline > roundInterval div 4 \<and> \<not> suppressed then
         io_try (callSuppress t) (\<lambda>r. case r of
           Inl err \<Rightarrow> io_ret (suppressed, Some err) | Inr _ \<Rightarrow> io_ret (True, None))
       else io_ret (suppressed, None)))))"

text \<open>
  The goroutine of \<open>Run\<close>: revive until it succeeds, then rounds. \<open>None\<close> is an initial loop that
  never ends; \<open>n\<close> is the number of rounds before the context is done. A failed round keeps the flag.
\<close>

fun tuner_rounds :: "('w, 's) tuner \<Rightarrow> nat \<Rightarrow> bool \<Rightarrow> ('w, bool) io" where
  "tuner_rounds t 0 suppressed = io_ret suppressed"
| "tuner_rounds t (Suc n) suppressed =
     io_bind (io_modify (sleep t roundInterval)) (\<lambda>_.
     io_bind (tuner_round t suppressed) (\<lambda>(suppressed', _). tuner_rounds t n suppressed'))"

definition tuner_Run :: "('w, 's) tuner \<Rightarrow> nat \<Rightarrow> 'w \<Rightarrow> ((fault + bool) \<times> 'w) option" where
  "tuner_Run t n w =
     (case retry (callRevive t) (sleep t (10 * second)) w of
        None \<Rightarrow> None
      | Some (Inl f, w') \<Rightarrow> Some (Inl f, w')
      | Some (Inr _, w') \<Rightarrow> Some (tuner_rounds t n False w'))"

section \<open>Delays and deadlines\<close>

lemma max_delay_spec:
  assumes "max_delay lib now js acc = Inr d"
  shows "acc \<le> d" "job \<in> set js \<Longrightarrow> \<exists>nxt. NextRun lib job = Inr nxt \<and> time_sub now nxt \<le> d"
    "d = acc \<or> (\<exists>job \<in> set js. \<exists>nxt. NextRun lib job = Inr nxt \<and> d = time_sub now nxt)"
proof -
  have "acc \<le> d \<and> (\<forall>job \<in> set js. \<exists>nxt. NextRun lib job = Inr nxt \<and> time_sub now nxt \<le> d)
      \<and> (d = acc \<or> (\<exists>job \<in> set js. \<exists>nxt. NextRun lib job = Inr nxt \<and> d = time_sub now nxt))"
    using assms
  proof (induction js arbitrary: acc)
    case (Cons a js)
    then obtain nxt where nxt: "NextRun lib a = Inr nxt"
      and rest: "max_delay lib now js (if time_sub now nxt > acc then time_sub now nxt else acc) = Inr d"
      by (auto simp: Let_def split: sum.splits)
    from Cons.IH [OF rest] nxt show ?case by (auto split: if_splits)
  qed simp
  then show "acc \<le> d" "job \<in> set js \<Longrightarrow> \<exists>nxt. NextRun lib job = Inr nxt \<and> time_sub now nxt \<le> d"
    "d = acc \<or> (\<exists>job \<in> set js. \<exists>nxt. NextRun lib job = Inr nxt \<and> d = time_sub now nxt)" by blast+
qed

lemma min_deadline_spec:
  assumes "min_deadline lib now js acc = Inr d"
  shows "d \<le> acc"
    "job \<in> set js \<Longrightarrow> \<exists>nxt. NextRun lib job = Inr nxt \<and> (0 \<le> time_sub nxt now \<longrightarrow> d \<le> time_sub nxt now)"
    "d = acc \<or> (\<exists>job \<in> set js. \<exists>nxt. NextRun lib job = Inr nxt \<and> d = time_sub nxt now \<and> 0 \<le> d)"
proof -
  have "d \<le> acc \<and> (\<forall>job \<in> set js. \<exists>nxt. NextRun lib job = Inr nxt \<and> (0 \<le> time_sub nxt now \<longrightarrow> d \<le> time_sub nxt now))
      \<and> (d = acc \<or> (\<exists>job \<in> set js. \<exists>nxt. NextRun lib job = Inr nxt \<and> d = time_sub nxt now \<and> 0 \<le> d))"
    using assms
  proof (induction js arbitrary: acc)
    case (Cons a js)
    then obtain nxt where nxt: "NextRun lib a = Inr nxt"
      and rest: "min_deadline lib now js
        (if time_sub nxt now \<ge> 0 \<and> time_sub nxt now < acc then time_sub nxt now else acc) = Inr d"
      by (auto simp: Let_def split: sum.splits)
    from Cons.IH [OF rest] nxt show ?case by (auto split: if_splits)
  qed simp
  then show "d \<le> acc"
    "job \<in> set js \<Longrightarrow> \<exists>nxt. NextRun lib job = Inr nxt \<and> (0 \<le> time_sub nxt now \<longrightarrow> d \<le> time_sub nxt now)"
    "d = acc \<or> (\<exists>job \<in> set js. \<exists>nxt. NextRun lib job = Inr nxt \<and> d = time_sub nxt now \<and> 0 \<le> d)" by blast+
qed

section \<open>A round\<close>

text \<open>
  A round ends suppressed only if it was already, or if the storage holds no queued job, no job was
  due when it looked and none is due within the next quarter of the interval.
\<close>

lemma tuner_suppresses:
  assumes "tuner_round t False w = (Inr (True, err), w')"
  obtains js w1 w2 now1 w3 now2 w4 where "err = None"
    "opGetJobs (stor t) w = (Inr js, w1)" "opGetQueuedJobsIDs (stor t) w1 = (Inr [], w2)"
    "clockNow t w2 = (now1, w3)" "clockNow t w3 = (now2, w4)"
    "\<forall>job \<in> set js. \<exists>nxt. NextRun (cron t) job = Inr nxt \<and> now1 \<le> nxt
       \<and> (now2 \<le> nxt \<longrightarrow> roundInterval div 4 < time_sub nxt now2)"
proof -
  from assms obtain js w1 queued w2 maxDelay w3 minDeadline w4 where run:
    "opGetJobs (stor t) w = (Inr js, w1)" "opGetQueuedJobsIDs (stor t) w1 = (Inr queued, w2)"
    "(if length queued > 0 then io_ret minute else findMaxDelay t js) w2 = (Inr maxDelay, w3)"
    "findMinDeadline t js w3 = (Inr minDeadline, w4)"
    "maxDelay = 0" "roundInterval div 4 < minDeadline" "err = None"
    by (auto simp: tuner_round_def io_try_eq io_bind_Inr io_ret_run io_of_read_eq split: if_splits)
  from run(3,5) have queued: "queued = []" and "findMaxDelay t js w2 = (Inr 0, w3)"
    by (auto simp: io_ret_run split: if_splits)
  then obtain now1 where now1: "clockNow t w2 = (now1, w3)" "max_delay (cron t) now1 js 0 = Inr 0"
    by (auto simp: findMaxDelay_def io_simps)
  from run(4) obtain now2 where now2: "clockNow t w3 = (now2, w4)"
    "min_deadline (cron t) now2 js (hour * 24) = Inr minDeadline"
    by (auto simp: findMinDeadline_def io_simps)
  have "\<exists>nxt. NextRun (cron t) job = Inr nxt \<and> now1 \<le> nxt
       \<and> (now2 \<le> nxt \<longrightarrow> roundInterval div 4 < time_sub nxt now2)" if "job \<in> set js" for job
    using max_delay_spec(2) [OF now1(2) that] min_deadline_spec(2) [OF now2(2) that] run(6)
    by (auto simp: time_sub_def)
  with that [OF run(7,1) _ now1(1) now2(1)] run(2) queued show thesis by blast
qed

text \<open>A failed round keeps the flag.\<close>

lemma tuner_round_error: "tuner_round t suppressed w = (Inr (b, Some err), w') \<Longrightarrow> b = suppressed"
  by (auto simp: tuner_round_def io_try_eq io_bind_Inr io_ret_run io_of_read_eq split: if_splits)

text \<open>Once a job is overdue, a round with a token revives.\<close>

lemma tuner_revives:
  assumes "opGetJobs (stor t) w = (Inr js, w1)" "opGetQueuedJobsIDs (stor t) w1 = (Inr queued, w2)"
    and "queued \<noteq> [] \<or> (\<exists>job \<in> set js. \<exists>nxt. NextRun (cron t) job = Inr nxt
           \<and> (if suppressed then nxt < fst (clockNow t w2) else nxt + minute \<le> fst (clockNow t w2)))"
    and "tuner_round t suppressed w = (Inr (b, None), w')"
  shows "\<exists>w3 token w4. takeToken t w3 = (token, w4)
     \<and> (if token then callRevive t w4 = (Inr (), w') \<and> \<not> b else w' = w4 \<and> b = suppressed)"
proof -
  from assms(1,2,4) obtain maxDelay w3 minDeadline w4 where run:
    "(if length queued > 0 then io_ret minute else findMaxDelay t js) w2 = (Inr maxDelay, w3)"
    "(if maxDelay \<ge> minute \<or> (suppressed \<and> maxDelay > 0) then
         io_bind (io_of_read (takeToken t)) (\<lambda>token.
           if token then
             io_try (callRevive t) (\<lambda>r. case r of
               Inl err \<Rightarrow> io_ret (suppressed, Some err) | Inr _ \<Rightarrow> io_ret (False, None))
           else io_ret (suppressed, None))
       else if maxDelay = 0 \<and> minDeadline > roundInterval div 4 \<and> \<not> suppressed then
         io_try (callSuppress t) (\<lambda>r. case r of
           Inl err \<Rightarrow> io_ret (suppressed, Some err) | Inr _ \<Rightarrow> io_ret (True, None))
       else io_ret (suppressed, None)) w4 = (Inr (b, None), w')"
    by (auto simp: tuner_round_def io_try_of_Inr io_bind_Inr)
  have "maxDelay \<ge> minute \<or> (suppressed \<and> maxDelay > 0)"
  proof (cases "queued = []")
    case True
    with run(1) obtain now where now: "clockNow t w2 = (now, w3)" "max_delay (cron t) now js 0 = Inr maxDelay"
      by (auto simp: findMaxDelay_def io_simps)
    have "fst (clockNow t w2) = now" by (simp add: now(1))
    with True assms(3) obtain job nxt where "job \<in> set js" "NextRun (cron t) job = Inr nxt"
      "if suppressed then nxt < now else nxt + minute \<le> now" by blast
    with max_delay_spec(2) [OF now(2)] show ?thesis
      by (fastforce simp: time_sub_def split: if_splits)
  qed (use run(1) in \<open>simp add: io_ret_run\<close>)
  with run(2) show ?thesis
    by (auto simp: io_bind_Inr io_of_read_eq io_try_eq io_ret_run split: if_splits) (metis (full_types))+
qed

end
