(* ===== verification/Coordinator.thy ===== *)
theory Coordinator
  imports ZooKeeper "HOL-Library.List_Lexorder" "HOL-Library.Char_ord"
begin

text \<open>
  Leader election over ZooKeeper, \<^verbatim>\<open>coordinator/zk/zk.go\<close>: registration of a sequential ephemeral
  ticket, the check whether the own ticket is the smallest, the initialisation of the election
  directory and the reaction to session events; and the election of several coordinators as a state
  machine built from these operations.
\<close>

section \<open>State\<close>

text \<open>
  \<open>cancel\<close> says whether a cancel function is set, \<open>leading\<close> whether the context handed out by
  \<open>WaitUntilLeader\<close> is live. Strings are ordered by bytes, as in Go.
\<close>

record coordinator =
  ticket :: string
  cancel :: bool
  leading :: bool

record 'w coord_env =
  coordDir :: string
  electionDir :: string
  coordConn :: "'w zk_conn"
  coordAcl :: "int \<Rightarrow> zk_acl"
  coordSleep :: "duration \<Rightarrow> 'w \<Rightarrow> 'w"
  awaitWatch :: "'w \<Rightarrow> 'w"

type_synonym 'w coord_state = "coordinator \<times> 'w"

abbreviation on_world :: "('w, 'a) io \<Rightarrow> ('w coord_state, 'a) io" where
  "on_world \<equiv> io_on snd (\<lambda>w s. (fst s, w))"

definition election_path :: "'w coord_env \<Rightarrow> string" where
  "election_path env = coordDir env @ ''/'' @ electionDir env"

definition new_coordinator :: coordinator where
  "new_coordinator = \<lparr>ticket = [], cancel = False, leading = False\<rparr>"

section \<open>Operations\<close>

text \<open>\<open>zk.FlagEphemeral | zk.FlagSequence\<close>\<close>

abbreviation ticket_flags :: int where "ticket_flags \<equiv> 3"

definition register :: "'w coord_env \<Rightarrow> ('w coord_state, unit) io" where
  "register env =
     io_bind (on_world (io_of_zk (zkCreate (coordConn env) (election_path env @ ''/'') None ticket_flags
         (coordAcl env PermAll)))) (\<lambda>name.
     io_modify (\<lambda>(c, w). (c\<lparr>ticket := last (split_on (CHR ''/'') name)\<rparr>, w)))"

definition wrap_error :: "string \<Rightarrow> (error \<Rightarrow> string) \<Rightarrow> ('w, 'a) io \<Rightarrow> ('w, 'a) io" where
  "wrap_error msg text m =
     io_try m (\<lambda>r. case r of Inl e \<Rightarrow> io_fail (ErrMsg (msg @ text e)) | Inr a \<Rightarrow> io_ret a)"

definition first_ticket :: "string list \<Rightarrow> string option" where
  "first_ticket tickets = (case sort tickets of [] \<Rightarrow> None | t # _ \<Rightarrow> Some t)"

definition isLeader :: "'w coord_env \<Rightarrow> (error \<Rightarrow> string) \<Rightarrow> ('w coord_state, bool) io" where
  "isLeader env text =
     io_bind io_get (\<lambda>(c, _).
     io_bind (if ticket c = [] then wrap_error ''Registration failed: '' text (register env) else io_ret ()) (\<lambda>_.
     io_bind (wrap_error ''Failed getting registration tickets: '' text
         (on_world (io_of_zk (zkChildren (coordConn env) (election_path env))))) (\<lambda>tickets.
     io_bind io_get (\<lambda>(c, _).
       if ticket c \<in> set tickets then io_ret (first_ticket tickets = Some (ticket c))
       else io_fail (ErrMsg ''Registration ticket doesn't exist'')))))"

text \<open>The end of \<open>WaitUntilLeader\<close>: the cancel function is stored and the context handed out.\<close>

definition become_leader :: "coordinator \<Rightarrow> coordinator" where
  "become_leader c = c\<lparr>cancel := True, leading := True\<rparr>"

partial_function (option) WaitUntilLeader ::
  "'w coord_env \<Rightarrow> (error \<Rightarrow> string) \<Rightarrow> 'w coord_state \<Rightarrow> ((fault + unit) \<times> 'w coord_state) option" where
  "WaitUntilLeader env text s =
     (case isLeader env text s of
        (Inl (Fail e), (c, w)) \<Rightarrow> WaitUntilLeader env text (c, coordSleep env second w)
      | (Inl (Panic m), s') \<Rightarrow> Some (Inl (Panic m), s')
      | (Inr b, (c, w)) \<Rightarrow>
          if b then Some (Inr (), (become_leader c, w)) else WaitUntilLeader env text (c, awaitWatch env w))"

definition create_absent :: "'w coord_env \<Rightarrow> string \<Rightarrow> ('w, unit) io" where
  "create_absent env path =
     io_bind (io_of_zk (zkExists (coordConn env) path)) (\<lambda>present.
       if \<not> present
       then io_bind (io_of_zk (zkCreate (coordConn env) path None 0 (coordAcl env PermAll))) (\<lambda>_. io_ret ())
       else io_ret ())"

fun create_parts :: "'w coord_env \<Rightarrow> string \<Rightarrow> string list \<Rightarrow> ('w, unit) io" where
  "create_parts env path [] = io_ret ()"
| "create_parts env path (part # parts) =
     (let path' = path @ ''/'' @ part in
      io_bind (create_absent env path') (\<lambda>_. create_parts env path' parts))"

definition initZK :: "'w coord_env \<Rightarrow> ('w, unit) io" where
  "initZK env =
     io_bind (create_absent env (coordDir env)) (\<lambda>_.
     create_parts env (coordDir env) (split_on (CHR ''/'') (electionDir env)))"

text \<open>The goroutine of \<open>New\<close> that watches the session.\<close>

datatype session_state = StateDisconnected | StateExpired | StateOther string

definition handle_session :: "session_state \<Rightarrow> coordinator \<Rightarrow> coordinator" where
  "handle_session st c =
     (case st of
        StateDisconnected \<Rightarrow> if cancel c then c\<lparr>cancel := False, leading := False\<rparr> else c
      | StateExpired \<Rightarrow> c\<lparr>ticket := []\<rparr>
      | StateOther _ \<Rightarrow> c)"

section \<open>The check\<close>

lemma first_ticket_Min: "tickets \<noteq> [] \<Longrightarrow> first_ticket tickets = Some (Min (set tickets))"
proof -
  assume ne: "tickets \<noteq> []"
  then obtain t ts where s: "sort tickets = t # ts" by (metis list.exhaust length_0_conv length_sort)
  have "Min (set (sort tickets)) = t"
    using sorted_sort [of tickets] unfolding s by (intro Min_eqI) auto
  then have "Min (set tickets) = t" by (metis set_sort)
  with s show ?thesis by (simp add: first_ticket_def)
qed

context zookeeper
begin

lemma isLeader_True:
  assumes "coordConn env = zk" "isLeader env text (c, w) = (Inr b, (c', w'))"
  shows "ticket c' \<in> child_names (tree w') (election_path env)"
    "b \<longleftrightarrow> ticket c' = Min (child_names (tree w') (election_path env))"
    "cancel c' = cancel c" "leading c' = leading c" "ticket c \<noteq> [] \<Longrightarrow> ticket c' = ticket c"
proof -
  from assms(2) obtain u s1 tickets where
      reg: "(if ticket c = [] then wrap_error ''Registration failed: '' text (register env) else io_ret ()) (c, w)
        = (Inr u, s1)"
    and kids: "zkChildren zk (election_path env) (snd s1) = (Inr tickets, w')" "c' = fst s1"
    and res: "ticket c' \<in> set tickets" "b \<longleftrightarrow> first_ticket tickets = Some (ticket c')"
    by (auto simp: isLeader_def wrap_error_def io_bind_get io_bind_Inr io_try_eq io_on_eq io_of_zk_eq io_get_run
        io_ret_run io_fail_run assms(1) split: if_splits)
  from res(1) have "tickets \<noteq> []" by auto
  from children_ok [OF kids(1)] res first_ticket_Min [OF this]
  show "ticket c' \<in> child_names (tree w') (election_path env)"
    "b \<longleftrightarrow> ticket c' = Min (child_names (tree w') (election_path env))" by auto
  from reg kids(2) show "cancel c' = cancel c" "leading c' = leading c" "ticket c \<noteq> [] \<Longrightarrow> ticket c' = ticket c"
    by (auto simp: wrap_error_def register_def io_try_eq io_bind_Inr io_on_eq io_modify_run io_ret_run io_fail_run
        split: if_splits)
qed

lemma create_absent_ok:
  assumes "coordConn env = zk" "create_absent env p w = (Inr (), w')"
  shows "tree w' p \<noteq> None" "tree w q \<noteq> None \<Longrightarrow> tree w' q \<noteq> None"
proof -
  from assms obtain present w1 where ex: "zkExists zk p w = (Inr present, w1)"
    and rest: "if \<not> present then \<exists>n. zkCreate zk p None 0 (coordAcl env PermAll) w1 = (Inr n, w') else w' = w1"
    by (auto simp: create_absent_def io_bind_Inr io_of_zk_eq io_ret_run split: if_splits)
  from zk_exists [OF ex] rest show "tree w' p \<noteq> None" "tree w q \<noteq> None \<Longrightarrow> tree w' q \<noteq> None"
    by (auto split: if_splits dest!: create_ok)
qed

lemma create_parts_ok:
  assumes "coordConn env = zk" "create_parts env path parts w = (Inr (), w')" "tree w path \<noteq> None"
  shows "tree w' (path @ concat (map (\<lambda>p. ''/'' @ p) parts)) \<noteq> None" "tree w q \<noteq> None \<Longrightarrow> tree w' q \<noteq> None"
proof -
  have "tree w' (path @ concat (map (\<lambda>p. ''/'' @ p) parts)) \<noteq> None \<and> (tree w q \<noteq> None \<longrightarrow> tree w' q \<noteq> None)"
    using assms(2,3)
  proof (induction parts arbitrary: path w)
    case (Cons part parts)
    then obtain w1 where run: "create_absent env (path @ ''/'' @ part) w = (Inr (), w1)"
      "create_parts env (path @ ''/'' @ part) parts w1 = (Inr (), w')"
      by (auto simp: Let_def io_bind_Inr)
    from create_absent_ok [OF assms(1) run(1)] Cons.IH [OF run(2)] show ?case by auto
  qed (simp add: io_ret_run)
  then show "tree w' (path @ concat (map (\<lambda>p. ''/'' @ p) parts)) \<noteq> None"
    "tree w q \<noteq> None \<Longrightarrow> tree w' q \<noteq> None" by blast+
qed

lemma initZK_ok:
  assumes "coordConn env = zk" "initZK env w = (Inr (), w')"
  shows "tree w' (election_path env) \<noteq> None" "tree w q \<noteq> None \<Longrightarrow> tree w' q \<noteq> None"
proof -
  from assms(2) obtain w1 where run: "create_absent env (coordDir env) w = (Inr (), w1)"
    "create_parts env (coordDir env) (split_on (CHR ''/'') (electionDir env)) w1 = (Inr (), w')"
    by (auto simp: initZK_def io_bind_Inr)
  note first = create_absent_ok [OF assms(1) run(1)]
  from create_parts_ok [OF assms(1) run(2) first(1)] concat_split_on [of "CHR ''/''" "electionDir env"] first(2)
  show "tree w' (election_path env) \<noteq> None" "tree w q \<noteq> None \<Longrightarrow> tree w' q \<noteq> None"
    by (auto simp: election_path_def)
qed

end

section \<open>The election of several coordinators\<close>

text \<open>
  Coordinators \<open>0, 1, \<dots>\<close> and the live tickets. Between a check that succeeded and the end of
  \<open>WaitUntilLeader\<close> a coordinator is \<open>elected\<close>. ZooKeeper expires only the session of a client that
  has already seen its connection break (a client that hears nothing for the session timeout
  disconnects first), and numbers tickets upwards.
\<close>

record election =
  clients :: "nat \<Rightarrow> coordinator"
  elected :: "nat \<Rightarrow> bool"
  online :: "nat \<Rightarrow> bool"
  expired :: "nat \<Rightarrow> bool"
  live_tickets :: "string set"
  used_tickets :: "string set"

text \<open>The steps of the sessions, and of a coordinator that registers.\<close>

inductive session_step :: "election \<Rightarrow> election \<Rightarrow> bool" where
  register: "online e i \<Longrightarrow> ticket (clients e i) = [] \<Longrightarrow> t \<noteq> [] \<Longrightarrow> (\<And>u. u \<in> used_tickets e \<Longrightarrow> u < t) \<Longrightarrow>
     session_step e (e\<lparr>clients := (clients e)(i := (clients e i)\<lparr>ticket := t\<rparr>),
       live_tickets := insert t (live_tickets e), used_tickets := insert t (used_tickets e)\<rparr>)"
| disconnect: "online e i \<Longrightarrow>
     session_step e (e\<lparr>clients := (clients e)(i := handle_session StateDisconnected (clients e i)),
       online := (online e)(i := False)\<rparr>)"
| reconnect: "\<not> online e i \<Longrightarrow> \<not> expired e i \<Longrightarrow> session_step e (e\<lparr>online := (online e)(i := True)\<rparr>)"
| expire: "\<not> online e i \<Longrightarrow> \<not> expired e i \<Longrightarrow>
     session_step e (e\<lparr>live_tickets := live_tickets e - {ticket (clients e i)}, expired := (expired e)(i := True)\<rparr>)"
| learn_expired: "\<not> online e i \<Longrightarrow> expired e i \<Longrightarrow>
     session_step e (e\<lparr>clients := (clients e)(i := handle_session StateExpired (clients e i)),
       online := (online e)(i := True), expired := (expired e)(i := False)\<rparr>)"

definition check_passes :: "election \<Rightarrow> nat \<Rightarrow> bool" where
  "check_passes e i \<longleftrightarrow> online e i \<and> ticket (clients e i) \<in> live_tickets e
     \<and> (\<forall>t \<in> live_tickets e. ticket (clients e i) \<le> t)"

inductive election_step :: "election \<Rightarrow> election \<Rightarrow> bool" where
  session: "session_step e e' \<Longrightarrow> election_step e e'"
| check: "check_passes e i \<Longrightarrow> election_step e (e\<lparr>elected := (elected e)(i := True)\<rparr>)"
| lead: "elected e i \<Longrightarrow>
     election_step e (e\<lparr>clients := (clients e)(i := become_leader (clients e i)), elected := (elected e)(i := False)\<rparr>)"

text \<open>The election in which no session event falls between the check and the end of the wait.\<close>

inductive atomic_step :: "election \<Rightarrow> election \<Rightarrow> bool" where
  atomic_session: "session_step e e' \<Longrightarrow> atomic_step e e'"
| atomic_lead: "check_passes e i \<Longrightarrow> atomic_step e (e\<lparr>clients := (clients e)(i := become_leader (clients e i))\<rparr>)"

definition election_start :: election where
  "election_start = \<lparr>clients = (\<lambda>_. new_coordinator), elected = (\<lambda>_. False), online = (\<lambda>_. True),
     expired = (\<lambda>_. False), live_tickets = {}, used_tickets = {}\<rparr>"

definition election_inv :: "election \<Rightarrow> bool" where
  "election_inv e \<longleftrightarrow>
     live_tickets e \<subseteq> used_tickets e \<and> [] \<notin> used_tickets e
     \<and> (\<forall>i. ticket (clients e i) \<noteq> [] \<longrightarrow> ticket (clients e i) \<in> used_tickets e)
     \<and> (\<forall>i j. ticket (clients e i) = ticket (clients e j) \<longrightarrow> ticket (clients e i) \<noteq> [] \<longrightarrow> i = j)
     \<and> (\<forall>i. online e i \<longrightarrow> \<not> expired e i)
     \<and> (\<forall>i. \<not> expired e i \<longrightarrow> ticket (clients e i) \<noteq> [] \<longrightarrow> ticket (clients e i) \<in> live_tickets e)
     \<and> (\<forall>i. leading (clients e i) \<longrightarrow> cancel (clients e i) \<and> check_passes e i)"

lemma election_invD:
  assumes "election_inv e"
  shows "t \<in> live_tickets e \<Longrightarrow> t \<in> used_tickets e" "[] \<notin> used_tickets e"
    "ticket (clients e i) \<noteq> [] \<Longrightarrow> ticket (clients e i) \<in> used_tickets e"
    "ticket (clients e i) = ticket (clients e j) \<Longrightarrow> ticket (clients e i) \<noteq> [] \<Longrightarrow> i = j"
    "online e i \<Longrightarrow> \<not> expired e i"
    "\<not> expired e i \<Longrightarrow> ticket (clients e i) \<noteq> [] \<Longrightarrow> ticket (clients e i) \<in> live_tickets e"
    "leading (clients e i) \<Longrightarrow> cancel (clients e i)" "leading (clients e i) \<Longrightarrow> check_passes e i"
  using assms unfolding election_inv_def by blast+

lemma election_inv_start: "election_inv election_start"
  by (simp add: election_inv_def election_start_def new_coordinator_def)

lemma election_inv_session: "session_step e e' \<Longrightarrow> election_inv e \<Longrightarrow> election_inv e'"
proof (induction rule: session_step.induct)
  case (register e i t)
  note I = election_invD [OF register(5)]
  have fresh: "t \<notin> used_tickets e" "\<And>j. ticket (clients e j) \<noteq> t" using register(3,4) I(3) by force+
  have lead: "check_passes (e\<lparr>clients := (clients e)(i := (clients e i)\<lparr>ticket := t\<rparr>),
       live_tickets := insert t (live_tickets e), used_tickets := insert t (used_tickets e)\<rparr>) j"
    if "leading (clients e j)" for j
    using I(8) [OF that] I(1,2) register(2,4) by (auto simp: check_passes_def less_imp_le)
  show ?case unfolding election_inv_def
    using I fresh register(3) lead by (auto split: if_splits)
next
  case (disconnect e i)
  note I = election_invD [OF disconnect(2)]
  show ?case unfolding election_inv_def
    by (auto simp: handle_session_def check_passes_def dest: I(1,3-8)) (use I in \<open>auto simp: check_passes_def\<close>)
next
  case (reconnect e i)
  note I = election_invD [OF reconnect(3)]
  show ?case unfolding election_inv_def
    using reconnect(2) by (auto dest: I(1,3-8)) (use I in \<open>auto simp: check_passes_def\<close>)
next
  case (expire e i)
  note I = election_invD [OF expire(3)]
  have apart: "ticket (clients e j) \<noteq> ticket (clients e i)" if "leading (clients e j)" for j
  proof
    assume "ticket (clients e j) = ticket (clients e i)"
    moreover have "ticket (clients e j) \<noteq> []" using I(8) [OF that] I(1,2) by (auto simp: check_passes_def)
    ultimately have "j = i" by (rule I(4))
    with I(8) [OF that] expire(1) show False by (simp add: check_passes_def)
  qed
  show ?case unfolding election_inv_def
    using expire(1,2) apart by (auto dest: I(1,3-8)) (use I in \<open>auto simp: check_passes_def\<close>)
next
  case (learn_expired e i)
  note I = election_invD [OF learn_expired(3)]
  show ?case unfolding election_inv_def
    using learn_expired(1,2) by (auto simp: handle_session_def dest: I(1,3-8) split: if_splits) (use I in \<open>auto simp: check_passes_def\<close>)
qed

lemma election_inv_atomic: "atomic_step e e' \<Longrightarrow> election_inv e \<Longrightarrow> election_inv e'"
proof (induction rule: atomic_step.induct)
  case (atomic_lead e i)
  note I = election_invD [OF atomic_lead(2)]
  have same: "ticket (((clients e)(i := become_leader (clients e i))) k) = ticket (clients e k)" for k
    by (simp add: become_leader_def)
  have led: "cancel (((clients e)(i := become_leader (clients e i))) k) \<and> check_passes e k"
    if "leading (((clients e)(i := become_leader (clients e i))) k)" for k
    using that I(7,8) [of k] atomic_lead(1) by (cases "k = i") (simp_all add: become_leader_def)
  show ?case
    using atomic_lead(2) led unfolding election_inv_def check_passes_def
    by (simp add: same del: fun_upd_apply)
qed (rule election_inv_session)

lemma election_inv_reachable: "atomic_step\<^sup>*\<^sup>* election_start e \<Longrightarrow> election_inv e"
  by (induction rule: rtranclp_induct) (auto intro: election_inv_start election_inv_atomic)

lemma one_leader:
  assumes "election_inv e" "leading (clients e i)" "leading (clients e j)"
  shows "i = j"
proof -
  note I = election_invD [OF assms(1)]
  from I(8) [OF assms(2)] I(8) [OF assms(3)] have "ticket (clients e i) = ticket (clients e j)"
    by (auto simp: check_passes_def intro: antisym)
  moreover have "ticket (clients e i) \<noteq> []" using I(8) [OF assms(2)] I(1,2) by (auto simp: check_passes_def)
  ultimately show ?thesis by (rule I(4))
qed

text \<open>
  With the check and the storing of the cancel function apart, a connection that breaks in between is
  not noticed: the coordinator leads on without a ticket, and a second one is elected.
\<close>

lemma election_race:
  "\<exists>e. election_step\<^sup>*\<^sup>* election_start e \<and> leading (clients e 0) \<and> leading (clients e 1)"
proof -
  let ?c = "\<lambda>t b. \<lparr>ticket = t, cancel = b, leading = b\<rparr>"
  let ?f = "\<lambda>a b i. if i = (0::nat) then a else if i = 1 then b else new_coordinator"
  let ?g = "\<lambda>a b d i. if i = (0::nat) then a else if i = 1 then b else (d::bool)"
  define e1 where "e1 = \<lparr>clients = ?f (?c ''1'' False) new_coordinator, elected = (\<lambda>_. False),
    online = (\<lambda>_. True), expired = (\<lambda>_. False), live_tickets = {''1''}, used_tickets = {''1''}\<rparr>"
  define e2 where "e2 = e1\<lparr>clients := ?f (?c ''1'' False) (?c ''2'' False), live_tickets := {''2'', ''1''},
    used_tickets := {''2'', ''1''}\<rparr>"
  define e3 where "e3 = e2\<lparr>elected := ?g True False False\<rparr>"
  define e4 where "e4 = e3\<lparr>online := ?g False True True\<rparr>"
  define e5 where "e5 = e4\<lparr>clients := ?f (?c ''1'' True) (?c ''2'' False), elected := (\<lambda>_. False)\<rparr>"
  define e6 where "e6 = e5\<lparr>live_tickets := {''2''}, expired := ?g True False False\<rparr>"
  define e7 where "e7 = e6\<lparr>elected := ?g False True False\<rparr>"
  define e8 where "e8 = e7\<lparr>clients := ?f (?c ''1'' True) (?c ''2'' True), elected := (\<lambda>_. False)\<rparr>"
  note defs = e1_def e2_def e3_def e4_def e5_def e6_def e7_def e8_def
    election_start_def new_coordinator_def handle_session_def become_leader_def check_passes_def less_char_def
  note step_to = back_subst [where P = "election_step _"]
  have "election_step election_start e1"
    by (rule step_to, rule session, rule session_step.register [of election_start 0 "''1''"]) (auto simp: defs fun_eq_iff)
  moreover have "election_step e1 e2"
    by (rule step_to, rule session, rule session_step.register [of e1 1 "''2''"]) (auto simp: defs fun_eq_iff)
  moreover have "election_step e2 e3"
    by (rule step_to, rule check [of e2 0]) (auto simp: defs fun_eq_iff)
  moreover have "election_step e3 e4"
    by (rule step_to, rule session, rule disconnect [of e3 0]) (auto simp: defs fun_eq_iff)
  moreover have "election_step e4 e5"
    by (rule step_to, rule lead [of e4 0]) (auto simp: defs fun_eq_iff)
  moreover have "election_step e5 e6"
    by (rule step_to, rule session, rule expire [of e5 0]) (auto simp: defs fun_eq_iff)
  moreover have "election_step e6 e7"
    by (rule step_to, rule check [of e6 1]) (auto simp: defs fun_eq_iff)
  moreover have "election_step e7 e8"
    by (rule step_to, rule lead [of e7 1]) (auto simp: defs fun_eq_iff)
  ultimately have "election_step\<^sup>*\<^sup>* election_start e8"
    by (meson rtranclp.rtrancl_refl rtranclp.rtrancl_into_rtrancl)
  moreover have "leading (clients e8 0)" "leading (clients e8 1)" by (simp_all add: defs)
  ultimately show ?thesis by blast
qed

end
