(* ===== verification/Startup.thy ===== *)
theory Startup
  imports History Coordinator Tls
begin

text \<open>
  What runs before and around the components: the connection to ZooKeeper and its authentication
  (\<^verbatim>\<open>zkutil/zkutil.go\<close>), the constructors of storage and coordinator with the goroutine that cleans
  the task history, the choice of a backend, the secrets (\<^verbatim>\<open>secrets/\<close>), and the loop of
  \<^verbatim>\<open>command/server.go\<close>. \<open>log.Fatal\<close> ends the process: it is a panic here.
\<close>

section \<open>Connecting\<close>

record zk_auth =
  authScheme :: string
  digestUser :: string
  digestPassword :: string

record 'w zk_lib =
  zkConnect :: "string list \<Rightarrow> duration \<Rightarrow> ('w, 'w zk_conn) io"
  zkAddAuth :: "'w zk_conn \<Rightarrow> string \<Rightarrow> string \<Rightarrow> ('w, unit) io"
  zkClose :: "'w zk_conn \<Rightarrow> 'w \<Rightarrow> 'w"
  AuthACL :: "int \<Rightarrow> zk_acl"
  WorldACL :: "int \<Rightarrow> zk_acl"
  libSleep :: "duration \<Rightarrow> 'w \<Rightarrow> 'w"
  libAwait :: "'w \<Rightarrow> 'w"
  libText :: "error \<Rightarrow> string"

definition AddAuth :: "'w zk_lib \<Rightarrow> 'w zk_conn \<Rightarrow> zk_auth \<Rightarrow> ('w, int \<Rightarrow> zk_acl) io" where
  "AddAuth lib cn c =
     (if authScheme c = ''digest''
      then io_bind (zkAddAuth lib cn ''digest'' (digestUser c @ '':'' @ digestPassword c)) (\<lambda>_. io_ret (AuthACL lib))
      else if authScheme c = ''world'' then io_ret (WorldACL lib)
      else io_fail (ErrMsg (''Unknown auth scheme: '' @ authScheme c)))"

section \<open>The coordinator\<close>

record zk_conf =
  confDir :: string
  confAddrs :: "string list"
  confTimeout :: duration
  confAuth :: zk_auth

definition NewCoordinator :: "'w zk_lib \<Rightarrow> zk_conf \<Rightarrow> string \<Rightarrow> ('w, 'w coord_env) io" where
  "NewCoordinator lib c election =
     io_bind (wrap_error ''Failed connecting to ZooKeeper: '' (libText lib) (zkConnect lib (confAddrs c) (confTimeout c))) (\<lambda>cn.
     io_bind (AddAuth lib cn (confAuth c)) (\<lambda>acl.
     (let coord = \<lparr>coordDir = ''/'' @ confDir c, electionDir = election, coordConn = cn, coordAcl = acl,
            coordSleep = libSleep lib, awaitWatch = libAwait lib\<rparr> in
      io_try (initZK coord) (\<lambda>r.
        case r of
          Inl err \<Rightarrow> io_bind (io_modify (zkClose lib cn)) (\<lambda>_. io_fail err)
        | Inr _ \<Rightarrow> io_ret coord))))"

section \<open>The storage\<close>

definition NewStorage :: "'w zk_lib \<Rightarrow> zk_conf \<Rightarrow> duration \<Rightarrow> ('w, 'w zk_storage \<times> 'w coord_env) io" where
  "NewStorage lib c ttl =
     io_bind (zkConnect lib (confAddrs c) (confTimeout c)) (\<lambda>cn.
     io_bind (AddAuth lib cn (confAuth c)) (\<lambda>ac.
     (let s = \<lparr>dir = ''/'' @ confDir c, addrs = confAddrs c, conn = cn, acl = ac, timeout = confTimeout c,
            taskTTL = ttl\<rparr> in
      io_bind (init s) (\<lambda>_.
      io_bind (NewCoordinator lib c ''election/tasks_cleanup'') (\<lambda>coord. io_ret (s, coord))))))"

text \<open>
  \<open>runTasksCleanupScheduler\<close>: the goroutine is at rest until it is elected; while the context of
  its election lives it cleans at every tick of the timer.
\<close>

datatype cleaner = WaitingForElection | Cleaning

inductive cleaner_step ::
    "'w zk_storage \<Rightarrow> ('w \<Rightarrow> time \<times> 'w) \<Rightarrow> ('w \<Rightarrow> bool \<times> 'w) \<Rightarrow> cleaner \<times> 'w \<Rightarrow> cleaner \<times> 'w \<Rightarrow> bool"
  for s now ctxDone where
  cleaner_elected: "cleaner_step s now ctxDone (WaitingForElection, w) (Cleaning, w)"
| cleaner_timer: "tasksCleanup s now ctxDone w = (q, w') \<Longrightarrow> (\<forall>m. q \<noteq> Inl (Panic m)) \<Longrightarrow>
    cleaner_step s now ctxDone (Cleaning, w) (Cleaning, w')"
| cleaner_done: "cleaner_step s now ctxDone (Cleaning, w) (WaitingForElection, w)"

inductive_cases cleaner_stepE: "cleaner_step s now ctxDone x y"

section \<open>A started storage\<close>

text \<open>What a start may not touch: the stored jobs and the queue.\<close>

definition same_jobs :: "'w zk_storage \<Rightarrow> zk_view \<Rightarrow> zk_view \<Rightarrow> bool" where
  "same_jobs s v v' \<longleftrightarrow> (tidy s v \<longrightarrow> tidy s v') \<and> stored_confs s v' = stored_confs s v
     \<and> stored_runtimes s v' = stored_runtimes s v \<and> queued_at s v' = queued_at s v"

lemma preorder_same_jobs [simp]: "preorder_rel (same_jobs s)"
  by (auto simp: preorder_rel_def reflp_def transp_def same_jobs_def)

lemma same_jobs_other:
  assumes "\<And>fq. seg fq \<Longrightarrow> p \<noteq> job_path s fq \<and> p \<noteq> runtime_path s fq \<and> p \<noteq> queued_path s fq"
  shows "same_jobs s v (v(p \<mapsto> x))"
  using assms by (auto simp: same_jobs_def intro!: tidy_other other_views)

lemma paths_conn [simp]:
  "job_path (s\<lparr>conn := cn\<rparr>) = job_path s" "runtime_path (s\<lparr>conn := cn\<rparr>) = runtime_path s"
  "queued_path (s\<lparr>conn := cn\<rparr>) = queued_path s"
  by (rule ext, simp add: path_defs)+

lemma same_jobs_conn: "same_jobs (s\<lparr>conn := cn\<rparr>) = same_jobs s"
proof -
  have "conf_at (s\<lparr>conn := cn\<rparr>) = conf_at s" "runtime_at (s\<lparr>conn := cn\<rparr>) = runtime_at s"
    by (intro ext, simp add: conf_at_def runtime_at_def)+
  then have "stored_confs (s\<lparr>conn := cn\<rparr>) = stored_confs s" "stored_runtimes (s\<lparr>conn := cn\<rparr>) = stored_runtimes s"
    by (intro ext, simp add: stored_confs_def stored_runtimes_def)+
  moreover have "tidy (s\<lparr>conn := cn\<rparr>) = tidy s" "queued_at (s\<lparr>conn := cn\<rparr>) = queued_at s"
    by (intro ext, simp add: tidy_def queued_at_def)+
  ultimately show ?thesis by (intro ext) (simp add: same_jobs_def)
qed

lemma election_path_neq [simp]:
  "dir s @ CHR ''/'' # ''election'' @ x \<noteq> job_path s fq" "dir s @ CHR ''/'' # ''election'' @ x \<noteq> runtime_path s fq"
  "dir s @ CHR ''/'' # ''election'' @ x \<noteq> queued_path s fq"
  by (simp_all add: path_defs)

text \<open>The two elections: of the cleaner of the task history and of the scheduler.\<close>

abbreviation elections :: "string set" where
  "elections \<equiv> {''election/tasks_cleanup'', ''election/mesos_scheduler''}"

lemma state_jobs_queue_neq [simp]: "jobs_path s \<noteq> queue_path s" "state_path s \<noteq> jobs_path s" "state_path s \<noteq> queue_path s"
  by (simp_all add: path_defs)

context zk_store
begin

lemma create_if_missing_ok:
  assumes "create_if_missing s p d w = (Inr (), w')"
  shows "tree w' p \<noteq> None" "tree w q \<noteq> None \<Longrightarrow> tree w' q \<noteq> None"
proof -
  from assms have "(\<exists>n. zkCreate (conn s) p d 0 (acl s PermAll) w = (Inr n, w'))
      \<or> zkCreate (conn s) p d 0 (acl s PermAll) w = (Inl ErrNodeExists, w')"
    by (auto simp: create_if_missing_def io_simps split: if_splits)
  then show "tree w' p \<noteq> None" "tree w q \<noteq> None \<Longrightarrow> tree w' q \<noteq> None"
    by (auto dest!: create_ok create_exists)
qed

lemma init_nodes:
  assumes "init s w = (Inr (), w')"
  shows "tree w' (state_path s) \<noteq> None \<and> tree w' (jobs_path s) \<noteq> None \<and> tree w' (queue_path s) \<noteq> None"
proof -
  from assms obtain w1 w2 w3 where run: "create_if_missing s (state_path s) (Some (enc_framework_state [])) w1 = (Inr (), w2)"
      "create_if_missing s (jobs_path s) None w2 = (Inr (), w3)" "create_if_missing s (queue_path s) None w3 = (Inr (), w')"
    by (auto simp: init_def io_bind_Inr)
  from create_if_missing_ok [OF run(1)] create_if_missing_ok [OF run(2)] create_if_missing_ok [OF run(3)]
  show ?thesis by blast
qed

lemma moves_init: "moves (same_jobs s) tree (init s)"
  unfolding init_def by (auto intro!: moves_intros moves_create_if_missing same_jobs_other)

lemma moves_create_absent:
  assumes "coordConn env = conn s" "\<And>v n. same_jobs s v (v(p \<mapsto> (None, n)))"
  shows "moves (same_jobs s) tree (create_absent env p)"
  unfolding create_absent_def assms(1)
  using assms(2) by (auto intro!: moves_intros moves_zk_create moves_of_keeps [OF _ keeps_exists])

lemma moves_initZK:
  assumes "coordConn env = conn s" "coordDir env = dir s" "electionDir env \<in> elections"
  shows "moves (same_jobs s) tree (initZK env)"
proof -
  have split: "split_on (CHR ''/'') ''election/tasks_cleanup'' = [''election'', ''tasks_cleanup'']"
    "split_on (CHR ''/'') ''election/mesos_scheduler'' = [''election'', ''mesos_scheduler'']" by code_simp+
  note neq = election_path_neq [where x = "[]", simplified] election_path_neq [where x = "''/tasks_cleanup''", simplified]
    election_path_neq [where x = "''/mesos_scheduler''", simplified]
  from assms(3) consider "electionDir env = ''election/tasks_cleanup''" | "electionDir env = ''election/mesos_scheduler''"
    by blast
  then show ?thesis
    by cases (auto simp: initZK_def assms(2) split Let_def neq
        intro!: moves_intros moves_create_absent [OF assms(1)] same_jobs_other)
qed

end

text \<open>
  The client library: a connection it returns obeys the laws of the data tree, and connecting and
  authenticating write nothing into it.
\<close>

locale zk_provider =
  fixes lib :: "'w zk_lib" and tree :: "'w \<Rightarrow> zk_view"
  assumes connects: "zkConnect lib ads to w = (Inr cn, w') \<Longrightarrow> zookeeper cn tree"
    and connect_keeps: "keeps tree (zkConnect lib ads to)"
    and auth_keeps: "keeps tree (zkAddAuth lib cn user pw)"
begin

lemma keeps_AddAuth: "keeps tree (AddAuth lib cn c)"
  unfolding AddAuth_def by (auto intro!: keeps_intros auth_keeps)

lemma NewCoordinator_ready:
  fixes s :: "'w zk_storage"
  assumes "NewCoordinator lib c election w = (Inr coord, w')" "''/'' @ confDir c = dir s" "election \<in> elections"
  shows "zookeeper (coordConn coord) tree" "tree w' (election_path coord) \<noteq> None"
    "tree w q \<noteq> None \<Longrightarrow> tree w' q \<noteq> None" "same_jobs s (tree w) (tree w')"
proof -
  from assms(1) obtain cn w1 acl w2 where
      cn: "zkConnect lib (confAddrs c) (confTimeout c) w = (Inr cn, w1)" "AddAuth lib cn (confAuth c) w1 = (Inr acl, w2)"
    and co: "coord = \<lparr>coordDir = ''/'' @ confDir c, electionDir = election, coordConn = cn,
        coordAcl = acl, coordSleep = libSleep lib, awaitWatch = libAwait lib\<rparr>"
    and zk: "initZK coord w2 = (Inr (), w')"
    by (auto simp: NewCoordinator_def wrap_error_def Let_def io_bind_Inr io_try_eq io_ret_run io_fail_run)
  show z: "zookeeper (coordConn coord) tree" using connects [OF cn(1)] co by simp
  let ?s = "s\<lparr>conn := coordConn coord\<rparr>"
  have st: "zk_store ?s tree" using z by (simp add: zk_store_def)
  have w2: "tree w2 = tree w"
    using keepsD [OF connect_keeps cn(1)] keepsD [OF keeps_AddAuth cn(2)] by simp
  show "tree w' (election_path coord) \<noteq> None" "tree w q \<noteq> None \<Longrightarrow> tree w' q \<noteq> None"
    using zookeeper.initZK_ok [OF z refl zk] w2 by auto
  have "same_jobs ?s (tree w2) (tree w')"
    using movesD [OF zk_store.moves_initZK [OF st] zk] co assms(2,3) by simp
  then show "same_jobs s (tree w) (tree w')" using w2 by (simp add: same_jobs_conn)
qed

lemma NewStorage_ready:
  assumes "NewStorage lib c ttl w = (Inr (s, coord), w')"
  shows "zk_store s tree" "zookeeper (coordConn coord) tree" "same_jobs s (tree w) (tree w')"
    "tree w' (state_path s) \<noteq> None \<and> tree w' (jobs_path s) \<noteq> None \<and> tree w' (queue_path s) \<noteq> None"
    "tree w' (election_path coord) \<noteq> None" "taskTTL s = ttl"
proof -
  from assms obtain cn w1 acl w2 w3 where
      cn: "zkConnect lib (confAddrs c) (confTimeout c) w = (Inr cn, w1)" "AddAuth lib cn (confAuth c) w1 = (Inr acl, w2)"
    and s: "s = \<lparr>dir = ''/'' @ confDir c, addrs = confAddrs c, conn = cn, acl = acl, timeout = confTimeout c, taskTTL = ttl\<rparr>"
    and run: "init s w2 = (Inr (), w3)" "NewCoordinator lib c ''election/tasks_cleanup'' w3 = (Inr coord, w')"
    by (auto simp: NewStorage_def Let_def io_bind_Inr io_ret_run)
  show st: "zk_store s tree" using connects [OF cn(1)] s by (simp add: zk_store_def)
  have w2: "tree w2 = tree w"
    using keepsD [OF connect_keeps cn(1)] keepsD [OF keeps_AddAuth cn(2)] by simp
  have d: "''/'' @ confDir c = dir s" using s by simp
  note coord = NewCoordinator_ready [OF run(2) d insertI1]
  show "zookeeper (coordConn coord) tree" "tree w' (election_path coord) \<noteq> None" by (fact coord)+
  show "tree w' (state_path s) \<noteq> None \<and> tree w' (jobs_path s) \<noteq> None \<and> tree w' (queue_path s) \<noteq> None"
    using zk_store.init_nodes [OF st run(1)] coord(3) by blast
  show "same_jobs s (tree w) (tree w')"
    using movesD [OF zk_store.moves_init [OF st] run(1)] coord(4) w2 by (simp add: same_jobs_def)
  show "taskTTL s = ttl" using s by simp
qed

end

section \<open>Backends\<close>

definition or_fatal :: "(error \<Rightarrow> string) \<Rightarrow> ('w, 'a) io \<Rightarrow> ('w, 'a) io" where
  "or_fatal text m = io_try m (\<lambda>r. case r of Inl err \<Rightarrow> io_panic (text err) | Inr x \<Rightarrow> io_ret x)"

definition storage_New :: "'w zk_lib \<Rightarrow> string \<Rightarrow> zk_conf \<Rightarrow> duration \<Rightarrow> ('w, 'w zk_storage \<times> 'w coord_env) io" where
  "storage_New lib backend c ttl =
     (if backend = ''zookeeper'' then or_fatal (libText lib) (NewStorage lib c ttl)
      else io_panic (''Unknown backend: '' @ backend))"

definition coordinator_New :: "'w zk_lib \<Rightarrow> string \<Rightarrow> zk_conf \<Rightarrow> string \<Rightarrow> ('w, 'w coord_env) io" where
  "coordinator_New lib backend c election =
     (if backend = ''zookeeper'' then or_fatal (libText lib) (NewCoordinator lib c election)
      else io_panic (''Unknown backend: '' @ backend))"

section \<open>Secrets\<close>

text \<open>A secret of Vault is a map; \<open>None\<close> for the whole is Go's nil.\<close>

datatype secret_value = SecretString string | SecretOther

record ('w, 'p) vault_lib =
  parseScheme :: "string \<Rightarrow> error + string"
  vaultTLS :: "('w, 'p) tls_env"
  logicalRead :: "string \<Rightarrow> ('w, (string \<rightharpoonup> secret_value) option) io"
  vaultNewClient :: "'p option \<Rightarrow> ('w, unit) io"

record vault_conf =
  vaultAddr :: string
  vaultCACert :: string
  vaultRoot :: string

definition vault_Read :: "('w, 'p) vault_lib \<Rightarrow> string \<Rightarrow> string \<Rightarrow> ('w, string) io" where
  "vault_Read lib prefix path =
     io_bind (logicalRead lib (prefix @ path)) (\<lambda>secret.
       case secret of
         None \<Rightarrow> io_fail (ErrMsg ''secret not found'')
       | Some data \<Rightarrow>
           (case data ''value'' of
              None \<Rightarrow> io_fail (ErrMsg (''secret'' @ [CHR 0x27] @ ''s value not found''))
            | Some (SecretString v) \<Rightarrow> io_ret v
            | Some SecretOther \<Rightarrow> io_fail (ErrMsg (''secret'' @ [CHR 0x27] @ ''s value is not string''))))"

definition NewVault :: "('w, 'p) vault_lib \<Rightarrow> vault_conf \<Rightarrow> ('w, string \<Rightarrow> ('w, string) io) io" where
  "NewVault lib c =
     io_bind (io_of_sum (parseScheme lib (vaultAddr c))) (\<lambda>_.
     io_bind (optional_pool (vaultTLS lib) (vaultCACert c)) (\<lambda>pool.
     io_bind (vaultNewClient lib pool) (\<lambda>_. io_ret (vault_Read lib (vaultRoot c)))))"

definition none_Read :: "string \<Rightarrow> ('w, string) io" where
  "none_Read path = io_ret path"

definition secrets_New :: "(error \<Rightarrow> string) \<Rightarrow> ('w, 'p) vault_lib \<Rightarrow> string \<Rightarrow> vault_conf \<Rightarrow> ('w, string \<Rightarrow> ('w, string) io) io" where
  "secrets_New text lib backend c =
     (if backend = ''vault'' then or_fatal text (NewVault lib c)
      else if backend = ''none'' then io_ret none_Read
      else io_panic (''Unknown secrets backend: '' @ backend))"

section \<open>Logging\<close>

datatype log_level = DebugLevel | InfoLevel | WarnLevel | ErrorLevel | FatalLevel | PanicLevel

record ('w, 'p) log_lib =
  setLevel :: "log_level \<Rightarrow> ('w, unit) io"
  newRaven :: "string \<Rightarrow> ('w, unit) io"
  logTLS :: "('w, 'p) tls_env"
  addSentryHook :: "'p option \<Rightarrow> log_level list \<Rightarrow> ('w, unit) io"
  logText :: "error \<Rightarrow> string"

record log_conf =
  logLevel :: string
  logBackend :: string
  sentryDSN :: string
  sentryCACert :: string

definition initSentryLogging :: "('w, 'p) log_lib \<Rightarrow> log_conf \<Rightarrow> ('w, unit) io" where
  "initSentryLogging lib c =
     io_bind (newRaven lib (sentryDSN c)) (\<lambda>_.
     io_bind (optional_pool (logTLS lib) (sentryCACert c)) (\<lambda>pool.
     addSentryHook lib pool [PanicLevel, FatalLevel, ErrorLevel, WarnLevel]))"

definition initLogging :: "('w, 'p) log_lib \<Rightarrow> log_conf \<Rightarrow> ('w, unit) io" where
  "initLogging lib c =
     io_bind
       (if logLevel c = ''debug'' then setLevel lib DebugLevel
        else if logLevel c = ''info'' then setLevel lib InfoLevel
        else if logLevel c = ''warn'' then setLevel lib WarnLevel
        else if logLevel c = ''error'' then setLevel lib ErrorLevel
        else io_panic (''Unknown logging level: '' @ logLevel c)) (\<lambda>_.
     if logBackend c = ''sentry''
     then or_fatal (\<lambda>err. ''Error initializing Sentry logging: '' @ logText lib err) (initSentryLogging lib c)
     else if logBackend c = ''none'' then io_ret ()
     else io_panic (''Unknown logging backend: '' @ logBackend c))"

section \<open>The server's loop\<close>

text \<open>
  One turn of the loop of \<open>ServerCommand.Run\<close>: wait for the election (\<open>None\<close> when it never comes), run
  the Mesos controller as the leader, and wait a second if it failed. The flag is what
  \<open>/api/v1/health\<close> shows.
\<close>

record 'w server =
  leaderFlag :: bool
  serverWorld :: 'w

definition server_round ::
    "('w \<Rightarrow> ((fault + unit) \<times> 'w) option) \<Rightarrow> ('w server, unit) io \<Rightarrow> (duration \<Rightarrow> 'w \<Rightarrow> 'w)
     \<Rightarrow> 'w server \<Rightarrow> ((fault + unit) \<times> 'w server) option" where
  "server_round await controller sleep s =
     (case await (serverWorld s) of
        None \<Rightarrow> None
      | Some (Inl f, w) \<Rightarrow> Some (Inl f, s\<lparr>serverWorld := w\<rparr>)
      | Some (Inr _, w) \<Rightarrow>
          Some (io_try controller (\<lambda>r.
            io_bind (io_modify (\<lambda>s. s\<lparr>leaderFlag := False\<rparr>)) (\<lambda>_.
              case r of
                Inl err \<Rightarrow> io_modify (\<lambda>s. s\<lparr>serverWorld := sleep second (serverWorld s)\<rparr>)
              | Inr _ \<Rightarrow> io_ret ())) (s\<lparr>leaderFlag := True, serverWorld := w\<rparr>)))"

lemma server_round_flag:
  assumes "server_round await controller sleep s = Some (Inr (), s')"
  shows "\<not> leaderFlag s' \<and> (\<exists>w. await (serverWorld s) = Some (Inr (), w))"
  using assms
  by (auto simp: server_round_def io_try_eq io_bind_modify io_modify_run io_ret_run split: option.splits sum.splits)

section \<open>A reference library\<close>

definition ref_lib :: "ref_tree zk_lib" where
  "ref_lib =
     \<lparr>zkConnect = (\<lambda>_ _. io_ret ref_zk), zkAddAuth = (\<lambda>_ _ _. io_ret ()), zkClose = (\<lambda>_ w. w),
      AuthACL = (\<lambda>perm. [(perm, ''auth'', [])]), WorldACL = (\<lambda>perm. [(perm, ''world'', ''anyone'')]),
      libSleep = (\<lambda>_ w. w), libAwait = (\<lambda>w. w), libText = (\<lambda>_. [])\<rparr>"

interpretation ref_provider: zk_provider ref_lib map_of
  by (rule zk_provider.intro) (auto simp: ref_lib_def io_ret_run keeps_def ref.zookeeper_axioms)

end
