(* ===== verification/Conf.thy ===== *)
theory Conf
  imports GoJson
begin

text \<open>
  The server's configuration, \<^verbatim>\<open>conf/conf.go\<close>. The code treats it by reflection, so the model
  is the tree of its fields: a default tree, the decoding of a JSON file into it, and the conversion of
  every duration from milliseconds to nanoseconds.
\<close>

section \<open>The tree of fields\<close>

datatype conf_value =
    CStr string
  | CStrs "string list"
  | CBool bool
  | CDur int
  | CTags "(string \<times> string) list"
  | CACL "(string \<times> (string \<times> string) list) list"
  | CStruct "(string \<times> conf_value) list"

type_synonym conf_fields = "(string \<times> conf_value) list"

text \<open>Each struct type, as its zero value.\<close>

definition zero_APIAuthGitLab :: conf_value where
  "zero_APIAuthGitLab = CStruct [(''Addr'', CStr []), (''CACert'', CStr [])]"

definition zero_APIAuthLDAP :: conf_value where
  "zero_APIAuthLDAP =
     CStruct [(''Addrs'', CStrs []), (''UserDN'', CStr []), (''UserAttr'', CStr []), (''CACert'', CStr []),
       (''UserACL'', CACL []), (''GroupACL'', CACL []), (''BindDN'', CStr []), (''BindPassword'', CStr []),
       (''Timeout'', CDur 0), (''GroupFilter'', CStr []), (''GroupDN'', CStr []), (''GroupAttr'', CStr []),
       (''CaseSensitiveNames'', CBool False)]"

definition zero_APIAuth :: conf_value where
  "zero_APIAuth = CStruct [(''Backend'', CStr []), (''GitLab'', zero_APIAuthGitLab), (''LDAP'', zero_APIAuthLDAP)]"

definition zero_API :: conf_value where
  "zero_API = CStruct [(''Addr'', CStr []), (''CertFile'', CStr []), (''KeyFile'', CStr []), (''Auth'', zero_APIAuth)]"

definition zero_ZKAuth :: conf_value where
  "zero_ZKAuth = CStruct [(''Scheme'', CStr []), (''Digest'', CStruct [(''User'', CStr []), (''Password'', CStr [])])]"

definition zero_StorageZK :: conf_value where
  "zero_StorageZK =
     CStruct [(''Dir'', CStr []), (''Addrs'', CStrs []), (''Timeout'', CDur 0), (''Auth'', zero_ZKAuth), (''TaskTTL'', CDur 0)]"

definition zero_Storage :: conf_value where
  "zero_Storage = CStruct [(''Backend'', CStr []), (''ZooKeeper'', zero_StorageZK)]"

definition zero_CoordinatorZK :: conf_value where
  "zero_CoordinatorZK =
     CStruct [(''Dir'', CStr []), (''Addrs'', CStrs []), (''Timeout'', CDur 0), (''Auth'', zero_ZKAuth),
       (''ElectionDir'', CStr [])]"

definition zero_Coordinator :: conf_value where
  "zero_Coordinator = CStruct [(''Backend'', CStr []), (''ZooKeeper'', zero_CoordinatorZK)]"

definition zero_SecretsVault :: conf_value where
  "zero_SecretsVault =
     CStruct [(''Token'', CStr []), (''Addr'', CStr []), (''Timeout'', CDur 0), (''Root'', CStr []), (''CACert'', CStr [])]"

definition zero_Secrets :: conf_value where
  "zero_Secrets = CStruct [(''Backend'', CStr []), (''Vault'', zero_SecretsVault)]"

definition zero_MesosAuth :: conf_value where
  "zero_MesosAuth =
     CStruct [(''Type'', CStr []), (''Basic'', CStruct [(''Username'', CStr []), (''Password'', CStr [])])]"

definition zero_Mesos :: conf_value where
  "zero_Mesos =
     CStruct [(''Auth'', zero_MesosAuth), (''Addrs'', CStrs []), (''CACert'', CStr []), (''Checkpoint'', CBool False),
       (''FailoverTimeout'', CDur 0), (''Hostname'', CStr []), (''User'', CStr []), (''WebUIURL'', CStr []),
       (''Principal'', CStr []), (''Labels'', CTags []), (''Roles'', CStrs []), (''LogAllEvents'', CBool False)]"

definition zero_Logging :: conf_value where
  "zero_Logging =
     CStruct [(''Level'', CStr []), (''Backend'', CStr []),
       (''Sentry'', CStruct [(''DSN'', CStr []), (''CACert'', CStr []), (''Tags'', CTags [])])]"

definition zero_Conf :: conf_value where
  "zero_Conf =
     CStruct [(''API'', zero_API), (''Storage'', zero_Storage), (''Coordinator'', zero_Coordinator),
       (''Secrets'', zero_Secrets), (''Mesos'', zero_Mesos), (''Logging'', zero_Logging)]"

text \<open>Assignment to the field at a path, and its reading.\<close>

fun conf_set :: "string list \<Rightarrow> conf_value \<Rightarrow> conf_value \<Rightarrow> conf_value" where
  "conf_set [] new v = new"
| "conf_set (n # ns) new (CStruct fs) =
     CStruct (map (\<lambda>(m, v). if m = n then (m, conf_set ns new v) else (m, v)) fs)"
| "conf_set (n # ns) new v = v"

fun conf_get :: "string list \<Rightarrow> conf_value \<Rightarrow> conf_value option" where
  "conf_get [] v = Some v"
| "conf_get (n # ns) (CStruct fs) = (case map_of fs n of None \<Rightarrow> None | Some v \<Rightarrow> conf_get ns v)"
| "conf_get (n # ns) v = None"

text \<open>A struct literal: the fields it names, over the zero value of the type.\<close>

definition conf_lit :: "conf_value \<Rightarrow> conf_fields \<Rightarrow> conf_value" where
  "conf_lit zero fields = fold (\<lambda>(n, v). conf_set [n] v) fields zero"

definition default_api :: conf_value where
  "default_api =
     conf_lit zero_API [(''Addr'', CStr ''localhost:8000''),
       (''Auth'', conf_lit zero_APIAuth [(''Backend'', CStr ''none''),
          (''LDAP'', conf_lit zero_APIAuthLDAP [(''Timeout'', CDur 5000),
             (''GroupFilter'', CStr ''(|(memberUid={{.Username}})(member={{.UserDN}})(uniqueMember={{.UserDN}}))''),
             (''GroupAttr'', CStr ''cn'')])])]"

definition default_storage :: conf_value where
  "default_storage =
     conf_lit zero_Storage [(''Backend'', CStr ''zookeeper''),
       (''ZooKeeper'', conf_lit zero_StorageZK [(''Addrs'', CStrs [''127.0.0.1'']), (''Timeout'', CDur 10000),
          (''Dir'', CStr ''rhythm''), (''Auth'', conf_lit zero_ZKAuth [(''Scheme'', CStr ''world'')]),
          (''TaskTTL'', CDur (1000 * 3600 * 24))])]"

definition default_coordinator :: conf_value where
  "default_coordinator =
     conf_lit zero_Coordinator [(''Backend'', CStr ''zookeeper''),
       (''ZooKeeper'', conf_lit zero_CoordinatorZK [(''Addrs'', CStrs [''127.0.0.1'']), (''Timeout'', CDur 10000),
          (''Dir'', CStr ''rhythm''), (''Auth'', conf_lit zero_ZKAuth [(''Scheme'', CStr ''world'')])])]"

definition default_secrets :: conf_value where
  "default_secrets =
     conf_lit zero_Secrets [(''Backend'', CStr ''none''),
       (''Vault'', conf_lit zero_SecretsVault [(''Timeout'', CDur 0), (''Root'', CStr ''secret/rhythm/'')])]"

definition default_mesos :: conf_value where
  "default_mesos =
     conf_lit zero_Mesos [(''FailoverTimeout'', CDur (1000 * 3600 * 24 * 7)), (''Roles'', CStrs [''*'']),
       (''Auth'', conf_lit zero_MesosAuth [(''Type'', CStr ''none'')])]"

definition default_logging :: conf_value where
  "default_logging = conf_lit zero_Logging [(''Backend'', CStr ''none''), (''Level'', CStr ''info'')]"

definition default_conf :: conf_value where
  "default_conf =
     conf_lit zero_Conf [(''API'', default_api), (''Storage'', default_storage), (''Coordinator'', default_coordinator),
       (''Secrets'', default_secrets), (''Mesos'', default_mesos), (''Logging'', default_logging)]"

section \<open>Decoding\<close>

fun dec_acl :: "(string \<times> json) list \<Rightarrow> (string \<times> (string \<times> string) list) list
    \<Rightarrow> error + (string \<times> (string \<times> string) list) list" where
  "dec_acl [] m = Inr m"
| "dec_acl ((k, v) # kvs) m =
     (case dec_map v [] of Inl e \<Rightarrow> Inl e | Inr rules \<Rightarrow> dec_acl kvs (AList.update k rules m))"

text \<open>The struct field a JSON name stands for.\<close>

definition field_of :: "string \<Rightarrow> conf_fields \<Rightarrow> (string \<times> conf_value) option" where
  "field_of k fs = find (\<lambda>f. to_lower (fst f) = to_lower k) fs"

fun dec_conf :: "json \<Rightarrow> conf_value \<Rightarrow> error + conf_value"
  and dec_members :: "(string \<times> json) list \<Rightarrow> conf_fields \<Rightarrow> error + conf_fields" where
  "dec_conf v (CStr s) = map_sum id CStr (dec_string v s)"
| "dec_conf v (CStrs ss) = map_sum id CStrs (dec_slice dec_string [] v ss)"
| "dec_conf v (CBool b) = map_sum id CBool (dec_bool v b)"
| "dec_conf v (CDur d) = map_sum id CDur (dec_int v d)"
| "dec_conf v (CTags m) = map_sum id CTags (dec_map v m)"
| "dec_conf v (CACL m) =
     (case v of JNull \<Rightarrow> Inr (CACL []) | JObj kvs \<Rightarrow> map_sum id CACL (dec_acl kvs m) | _ \<Rightarrow> type_error)"
| "dec_conf (JObj kvs) (CStruct fs) = map_sum id CStruct (dec_members kvs fs)"
| "dec_conf JNull (CStruct fs) = Inr (CStruct fs)"
| "dec_conf v (CStruct fs) = type_error"
| "dec_members [] fs = Inr fs"
| "dec_members ((k, v) # kvs) fs =
     (case field_of k fs of
        None \<Rightarrow> dec_members kvs fs
      | Some (name, old) \<Rightarrow>
          (case dec_conf v old of
             Inl e \<Rightarrow> Inl e
           | Inr new \<Rightarrow> dec_members kvs (AList.update name new fs)))"

section \<open>Durations\<close>

text \<open>\<open>d *= time.Millisecond\<close>, on 64 bits.\<close>

definition of_milliseconds :: "int \<Rightarrow> duration" where
  "of_milliseconds d = wrap64 (d * 1000000)"

fun millisecondFieldsToDuration :: "conf_value \<Rightarrow> conf_value" where
  "millisecondFieldsToDuration (CDur d) = CDur (of_milliseconds d)"
| "millisecondFieldsToDuration (CStruct fs) = CStruct (map (\<lambda>(n, v). (n, millisecondFieldsToDuration v)) fs)"
| "millisecondFieldsToDuration v = v"

definition NewConf :: "error + json \<Rightarrow> error + conf_value" where
  "NewConf file =
     (case file of
        Inl err \<Rightarrow> Inl err
      | Inr doc \<Rightarrow>
          (case dec_conf doc default_conf of
             Inl err \<Rightarrow> Inl err
           | Inr conf \<Rightarrow>
               Inr (millisecondFieldsToDuration
                 (conf_set [''Coordinator'', ''ZooKeeper'', ''ElectionDir''] (CStr ''election/mesos_scheduler'') conf))))"

section \<open>Properties\<close>

text \<open>Decoding keeps the shape of the tree: names and kinds of the fields.\<close>

fun shape :: "conf_value \<Rightarrow> conf_value" where
  "shape (CStruct fs) = CStruct (map (\<lambda>(n, v). (n, shape v)) fs)"
| "shape (CStr _) = CStr []"
| "shape (CStrs _) = CStrs []"
| "shape (CBool _) = CBool False"
| "shape (CDur _) = CDur 0"
| "shape (CTags _) = CTags []"
| "shape (CACL _) = CACL []"

abbreviation field_shapes :: "conf_fields \<Rightarrow> conf_fields" where
  "field_shapes \<equiv> map (\<lambda>(n, v). (n, shape v))"

lemma shape_millisecond [simp]: "shape (millisecondFieldsToDuration v) = shape v"
  by (induction v) auto

lemma shape_update:
  "(n, old) \<in> set fs \<Longrightarrow> distinct (map fst fs) \<Longrightarrow> shape new = shape old \<Longrightarrow>
   field_shapes (AList.update n new fs) = field_shapes fs"
  by (induction fs) (auto simp: image_iff)

text \<open>Within a struct the names are distinct.\<close>

fun distinct_fields :: "conf_value \<Rightarrow> bool" where
  "distinct_fields (CStruct fs) = (distinct (map fst fs) \<and> list_all (\<lambda>f. distinct_fields (snd f)) fs)"
| "distinct_fields _ = True"

lemma distinct_fields_shape: "shape u = shape v \<Longrightarrow> distinct_fields u = distinct_fields v"
proof (induction u arbitrary: v)
  case (CStruct fs)
  then obtain gs where v: "v = CStruct gs" "field_shapes fs = field_shapes gs" by (cases v) auto
  then have "list_all2 (\<lambda>f g. fst f = fst g \<and> shape (snd f) = shape (snd g)) fs gs"
    by (auto simp: list_all2_conv_all_nth list_eq_iff_nth_eq split_beta)
  then have "list_all2 (\<lambda>f g. fst f = fst g \<and> distinct_fields (snd f) = distinct_fields (snd g)) fs gs"
    by (rule list.rel_mono_strong) (use CStruct.IH in \<open>force simp: snds.simps\<close>)
  then have "map fst fs = map fst gs \<and> list_all (\<lambda>f. distinct_fields (snd f)) fs = list_all (\<lambda>f. distinct_fields (snd f)) gs"
    by (induction rule: list_all2_induct) auto
  with v(1) show ?case by simp
next
  case (CStr x) then show ?case by (cases v) auto
next
  case (CStrs x) then show ?case by (cases v) auto
next
  case (CBool x) then show ?case by (cases v) auto
next
  case (CDur x) then show ?case by (cases v) auto
next
  case (CTags x) then show ?case by (cases v) auto
next
  case (CACL x) then show ?case by (cases v) auto
qed

lemma field_of_mem: "field_of k fs = Some (n, old) \<Longrightarrow> (n, old) \<in> set fs"
  by (auto simp: field_of_def find_Some_iff intro: nth_mem)

lemma dec_conf_shape:
  "dec_conf doc c = Inr c' \<Longrightarrow> distinct_fields c \<Longrightarrow> shape c' = shape c"
  "dec_members kvs fs = Inr fs' \<Longrightarrow> distinct_fields (CStruct fs) \<Longrightarrow> field_shapes fs' = field_shapes fs"
proof (induction doc c and kvs fs arbitrary: c' and fs' rule: dec_conf_dec_members.induct)
  case (11 k v kvs fs)
  show ?case
  proof (cases "field_of k fs")
    case None
    with 11 show ?thesis by simp
  next
    case (Some f)
    obtain n old where f: "f = (n, old)" by (cases f)
    with Some 11(4) obtain new where new: "dec_conf v old = Inr new"
      and rest: "dec_members kvs (AList.update n new fs) = Inr fs'"
      by (auto split: sum.splits)
    note mem = field_of_mem [OF Some [unfolded f]]
    with 11(5) have "distinct_fields old" by (auto simp: list_all_iff)
    with 11(2) Some f new have sh: "shape new = shape old" by simp
    with mem 11(5) have same: "field_shapes (AList.update n new fs) = field_shapes fs"
      by (intro shape_update) auto
    then have "shape (CStruct (AList.update n new fs)) = shape (CStruct fs)" by simp
    with 11(5) have "distinct_fields (CStruct (AList.update n new fs))" using distinct_fields_shape by blast
    with 11(3) Some f new rest same show ?thesis by simp
  qed
qed (auto simp: map_sum_Inr_iff type_error_def split: json.splits)

lemma of_milliseconds_exact:
  assumes "- 9223372036854 \<le> d" "d \<le> 9223372036854"
  shows "of_milliseconds d = d * 1000000"
  unfolding of_milliseconds_def using assms by (intro wrap64_id) simp_all

lemma conf_get_millisecond:
  "conf_get p v = Some (CDur d) \<Longrightarrow> conf_get p (millisecondFieldsToDuration v) = Some (CDur (of_milliseconds d))"
proof (induction p v rule: conf_get.induct)
  case (1 v)
  then show ?case by simp
next
  case (2 n ns fs)
  then obtain v where v: "map_of fs n = Some v" "conf_get ns v = Some (CDur d)" by (auto split: option.splits)
  have "map_of (map (\<lambda>(m, w). (m, millisecondFieldsToDuration w)) fs) n = Some (millisecondFieldsToDuration v)"
    using v(1) by (simp add: map_of_map)
  with 2(1) [OF v] show ?case by simp
qed simp_all

lemma conf_get_millisecond_other:
  "conf_get p v = Some (CStr x) \<Longrightarrow> conf_get p (millisecondFieldsToDuration v) = Some (CStr x)"
proof (induction p v rule: conf_get.induct)
  case (2 n ns fs)
  then obtain v where v: "map_of fs n = Some v" "conf_get ns v = Some (CStr x)" by (auto split: option.splits)
  have "map_of (map (\<lambda>(m, w). (m, millisecondFieldsToDuration w)) fs) n = Some (millisecondFieldsToDuration v)"
    using v(1) by (simp add: map_of_map)
  with 2(1) [OF v] show ?case by simp
qed simp_all

lemma conf_get_set: "conf_get p v = Some old \<Longrightarrow> conf_get p (conf_set p new v) = Some new"
proof (induction p v rule: conf_get.induct)
  case (2 n ns fs)
  then obtain v where v: "map_of fs n = Some v" "conf_get ns v = Some old" by (auto split: option.splits)
  have "map_of (map (\<lambda>(m, v). if m = n then (m, conf_set ns new v) else (m, v)) fs) n = Some (conf_set ns new v)"
    using v(1) by (induction fs) (auto split: if_splits)
  with 2(1) [OF v] show ?case by simp
qed simp_all

lemma shape_conf_set:
  "conf_get p v = Some old \<Longrightarrow> shape new = shape old \<Longrightarrow> distinct_fields v \<Longrightarrow> shape (conf_set p new v) = shape v"
proof (induction p v rule: conf_get.induct)
  case (2 n ns fs)
  then obtain v where v: "map_of fs n = Some v" "conf_get ns v = Some old" by (auto split: option.splits)
  then have "distinct_fields v" using 2(4) by (auto simp: list_all_iff dest!: map_of_SomeD)
  with 2 v have sh: "shape (conf_set ns new v) = shape v" by simp
  have "w = v" if "(n, w) \<in> set fs" for w using that v(1) 2(4) by (simp add: map_of_is_SomeI)
  with sh show ?case by (auto intro!: map_cong)
qed simp_all

lemma default_conf_distinct: "distinct_fields default_conf"
  by code_simp

lemma default_conf_shape: "shape default_conf = zero_Conf"
  by code_simp

lemma conf_get_shape:
  "shape u = shape v \<Longrightarrow> conf_get p u = Some x \<Longrightarrow> \<exists>y. conf_get p v = Some y \<and> shape y = shape x"
proof (induction p u arbitrary: v rule: conf_get.induct)
  case (2 n ns fs)
  then obtain gs where v: "v = CStruct gs" "field_shapes fs = field_shapes gs" by (cases v) auto
  from 2(3) obtain w where w: "map_of fs n = Some w" "conf_get ns w = Some x" by (auto split: option.splits)
  have "map_of (field_shapes fs) n = Some (shape w)" using w(1) by (simp add: map_of_map)
  with v(2) obtain w' where w': "map_of gs n = Some w'" "shape w' = shape w" by (auto simp: map_of_map)
  with 2(1) [OF w(1) _ w(2), of w'] v(1) show ?case by auto
qed auto

text \<open>
  A configuration that is read has the type \<open>Conf\<close>, every field with its kind, whatever the file
  holds, and its election directory cannot be changed by the file.
\<close>

lemma NewConf_ok:
  assumes "NewConf file = Inr conf"
  shows "shape conf = zero_Conf"
    "conf_get [''Coordinator'', ''ZooKeeper'', ''ElectionDir''] conf = Some (CStr ''election/mesos_scheduler'')"
proof -
  let ?p = "[''Coordinator'', ''ZooKeeper'', ''ElectionDir'']"
  from assms obtain doc c where c: "dec_conf doc default_conf = Inr c"
    and conf: "conf = millisecondFieldsToDuration (conf_set ?p (CStr ''election/mesos_scheduler'') c)"
    by (auto simp: NewConf_def split: sum.splits)
  have sh: "shape c = shape default_conf" using dec_conf_shape(1) [OF c default_conf_distinct] .
  have "conf_get ?p default_conf = Some (CStr [])" by code_simp
  from conf_get_shape [OF sh [symmetric] this] obtain y where y: "conf_get ?p c = Some y" "shape y = CStr []" by auto
  then obtain e where e: "conf_get ?p c = Some (CStr e)" by (cases y) auto
  have dist: "distinct_fields c" using distinct_fields_shape [OF sh] default_conf_distinct by simp
  show "shape conf = zero_Conf"
    using shape_conf_set [OF e _ dist, of "CStr ''election/mesos_scheduler''"] sh by (simp add: conf default_conf_shape)
  show "conf_get ?p conf = Some (CStr ''election/mesos_scheduler'')"
    unfolding conf by (rule conf_get_millisecond_other) (rule conf_get_set [OF e])
qed

end
