(* ===== verification/Reconciliation.thy ===== *)
theory Reconciliation
  imports SchedulerOps
begin

text \<open>
  Explicit task reconciliation, \<^verbatim>\<open>mesos/reconciliation/reconciliation.go\<close>: a round asks Mesos for the
  state of every task the storage believes to run, again and again until each has been reported; the
  goroutine that runs the rounds is started at most once.
\<close>

section \<open>A round\<close>

text \<open>What the round's \<open>select\<close> receives, in order: the context's end, a tick, a reported task.\<close>

datatype rec_event = CtxDone | Tick | TaskReported string

text \<open>Where a round ends, or that it is still waiting when the given events are used up.\<close>

datatype round_end = RoundFinished | RoundCancelled | RoundWaiting

text \<open>The tasks to reconcile: \<open>tasks[job.CurrentTaskID] = job.CurrentAgentID\<close>, later jobs winning.\<close>

definition current_tasks :: "job list \<Rightarrow> (string \<times> string) list" where
  "current_tasks js =
     fold (\<lambda>job tasks.
         if CurrentTaskID (JobRuntime job) \<noteq> []
         then AList.update (CurrentTaskID (JobRuntime job)) (CurrentAgentID (JobRuntime job)) tasks
         else tasks) js []"

text \<open>The inner loop: the remaining tasks, the remaining events and why it stopped.\<close>

datatype inner_end = Broke | Ctx | Blocked

fun rec_inner :: "rec_event list \<Rightarrow> (string \<times> string) list \<Rightarrow> inner_end \<times> (string \<times> string) list \<times> rec_event list" where
  "rec_inner [] tasks = (Blocked, tasks, [])"
| "rec_inner (CtxDone # es) tasks = (Ctx, tasks, es)"
| "rec_inner (Tick # es) tasks = (Broke, tasks, es)"
| "rec_inner (TaskReported tid # es) tasks =
     (let tasks' = AList.delete tid tasks in
      if tasks' = [] then (Broke, tasks', es) else rec_inner es tasks')"

lemma rec_inner_shorter: "rec_inner es tasks = (Broke, tasks', es') \<Longrightarrow> length es' < length es"
  by (induction es tasks rule: rec_inner.induct) (auto simp: Let_def split: if_splits)

text \<open>
  The outer loop: a call to Mesos for the tasks that are left, then the inner loop. The result carries
  the tasks of every call made.
\<close>

function rec_outer ::
  "((string \<times> string) list \<Rightarrow> ('w, unit) io) \<Rightarrow> rec_event list \<Rightarrow> (string \<times> string) list
   \<Rightarrow> ('w, round_end \<times> (string \<times> string) list list) io" where
  "rec_outer reconcile es tasks =
     (if tasks = [] then io_ret (RoundFinished, [])
      else
        io_bind (reconcile tasks) (\<lambda>_.
          case rec_inner es tasks of
            (Blocked, _, _) \<Rightarrow> io_ret (RoundWaiting, [tasks])
          | (Ctx, _, _) \<Rightarrow> io_ret (RoundCancelled, [tasks])
          | (Broke, tasks', es') \<Rightarrow>
              io_bind (rec_outer reconcile es' tasks') (\<lambda>(r, calls). io_ret (r, tasks # calls))))"
  by pat_completeness auto
termination
  by (relation "measure (\<lambda>(_, es, _). length es)")
    (auto dest: rec_inner_shorter [OF sym] split: prod.splits)

declare rec_outer.simps [simp del]

definition rec_round ::
  "'w storage_ops \<Rightarrow> ((string \<times> string) list \<Rightarrow> ('w, unit) io) \<Rightarrow> rec_event list
   \<Rightarrow> ('w, round_end \<times> (string \<times> string) list list) io" where
  "rec_round stor reconcile es =
     io_bind (opGetJobs stor) (\<lambda>js. rec_outer reconcile es (current_tasks js))"

text \<open>
  \<open>HandleTaskStateUpdate\<close>: answers to a reconciliation are handed to a waiting round, and dropped
  when there is none.
\<close>

definition rec_HandleTaskStateUpdate :: "bool \<Rightarrow> task_status \<Rightarrow> rec_event list" where
  "rec_HandleTaskStateUpdate receiving status =
     (if statusReason status \<noteq> REASON_RECONCILIATION then []
      else if receiving then [TaskReported (statusTaskID status)] else [])"

section \<open>What a round does\<close>

lemma current_tasks_map:
  "map_of (current_tasks js) tid =
     (if tid = [] then None
      else map_option (\<lambda>job. CurrentAgentID (JobRuntime job)) (find (\<lambda>job. CurrentTaskID (JobRuntime job) = tid) (rev js)))"
proof -
  have "map_of (fold (\<lambda>job tasks.
         if CurrentTaskID (JobRuntime job) \<noteq> []
         then AList.update (CurrentTaskID (JobRuntime job)) (CurrentAgentID (JobRuntime job)) tasks
         else tasks) js acc) tid =
     (if tid = [] then map_of acc tid
      else case find (\<lambda>job. CurrentTaskID (JobRuntime job) = tid) (rev js) of
          None \<Rightarrow> map_of acc tid | Some job \<Rightarrow> Some (CurrentAgentID (JobRuntime job)))" for acc
    by (induction js rule: rev_induct) (auto simp: update_conv' split: option.splits)
  from this [of "[]"] show ?thesis by (simp add: current_tasks_def split: option.split)
qed

lemma distinct_current_tasks: "distinct (map fst (current_tasks js))"
proof -
  have "distinct (map fst acc) \<Longrightarrow> distinct (map fst (fold (\<lambda>job tasks.
         if CurrentTaskID (JobRuntime job) \<noteq> []
         then AList.update (CurrentTaskID (JobRuntime job)) (CurrentAgentID (JobRuntime job)) tasks
         else tasks) js acc))" for acc
    by (induction js arbitrary: acc) (auto simp: distinct_update)
  then show ?thesis by (simp add: current_tasks_def)
qed

lemma current_tasks_keys:
  "fst ` set (current_tasks js) = {tid. tid \<noteq> [] \<and> (\<exists>job \<in> set js. CurrentTaskID (JobRuntime job) = tid)}"
proof -
  have "tid \<in> fst ` set (current_tasks js) \<longleftrightarrow> map_of (current_tasks js) tid \<noteq> None" for tid
    by (simp add: map_of_eq_None_iff)
  then have "tid \<in> fst ` set (current_tasks js) \<longleftrightarrow> tid \<noteq> [] \<and> (\<exists>job \<in> set js. CurrentTaskID (JobRuntime job) = tid)" for tid
    by (simp add: current_tasks_map find_None_iff del: not_None_eq) blast
  then show ?thesis by blast
qed

text \<open>The reports among the events.\<close>

definition reported :: "rec_event list \<Rightarrow> string set" where
  "reported es = {tid. TaskReported tid \<in> set es}"

lemma rec_inner_tasks:
  assumes "rec_inner es tasks = (r, tasks', es')"
  shows "\<exists>used. es = used @ es' \<and> tasks' = filter (\<lambda>(tid, _). tid \<notin> reported used) tasks
     \<and> (r = Broke \<longrightarrow> Tick \<in> set used \<or> tasks' = []) \<and> (r \<noteq> Ctx \<longrightarrow> CtxDone \<notin> set used)"
  using assms
proof (induction es tasks rule: rec_inner.induct)
  case (4 tid es tasks)
  let ?tasks = "AList.delete tid tasks"
  have del: "?tasks = filter (\<lambda>(t, _). t \<noteq> tid) tasks" 
    by (auto simp: AList.delete_eq intro!: filter_cong)
  show ?case
  proof (cases "?tasks = []")
    case True
    with 4(2) show ?thesis
      by (intro exI [of _ "[TaskReported tid]"]) (auto simp: del reported_def)
  next
    case False
    with 4(2) have "rec_inner es ?tasks = (r, tasks', es')" by (simp add: Let_def)
    from 4(1) [OF refl False this] obtain used where
      "es = used @ es'" "tasks' = filter (\<lambda>(t, _). t \<notin> reported used) ?tasks"
      "r = Broke \<longrightarrow> Tick \<in> set used \<or> tasks' = []" "r \<noteq> Ctx \<longrightarrow> CtxDone \<notin> set used" by blast
    then show ?thesis
      by (intro exI [of _ "TaskReported tid # used"]) (auto simp: del reported_def intro!: filter_cong)
  qed
qed (auto simp: reported_def intro: exI [of _ "[_]"])

text \<open>
  Every call asks exactly for the tasks that have not been reported so far, and there is one to ask
  for; a round that finishes has seen every task reported.
\<close>

lemma rec_outer_spec:
  assumes "rec_outer reconcile es tasks w = (Inr (r, calls), w')"
  shows "\<forall>c \<in> set calls. c \<noteq> [] \<and> (\<exists>used rest. es = used @ rest \<and> c = filter (\<lambda>(tid, _). tid \<notin> reported used) tasks)"
    and "r = RoundFinished \<Longrightarrow> fst ` set tasks \<subseteq> reported es"
    and "tasks \<noteq> [] \<Longrightarrow> calls \<noteq> [] \<and> hd calls = tasks"
proof -
  have "(\<forall>c \<in> set calls. c \<noteq> [] \<and> (\<exists>used rest. es = used @ rest \<and> c = filter (\<lambda>(tid, _). tid \<notin> reported used) tasks))
     \<and> (r = RoundFinished \<longrightarrow> fst ` set tasks \<subseteq> reported es) \<and> (tasks \<noteq> [] \<longrightarrow> calls \<noteq> [] \<and> hd calls = tasks)"
    using assms
  proof (induction reconcile es tasks arbitrary: w calls rule: rec_outer.induct)
    case (1 reconcile es tasks)
    show ?case
    proof (cases "tasks = []")
      case True
      with 1(2) show ?thesis by (simp add: rec_outer.simps io_ret_run)
    next
      case False
      have first: "\<exists>used rest. es = used @ rest \<and> tasks = filter (\<lambda>(tid, _). tid \<notin> reported used) tasks"
        by (intro exI [of _ "[]"] exI [of _ es]) (simp add: reported_def)
      obtain i tasks' es' where inner: "rec_inner es tasks = (i, tasks', es')" by (cases "rec_inner es tasks") auto
      from rec_inner_tasks [OF inner] obtain used where
        used: "es = used @ es'" "tasks' = filter (\<lambda>(tid, _). tid \<notin> reported used) tasks" by blast
      show ?thesis
      proof (cases i)
        case Broke
        with 1(2) False inner obtain w1 rest where
            run: "rec_outer reconcile es' tasks' w1 = (Inr (r, rest), w')" "calls = tasks # rest"
          by (subst (asm) rec_outer.simps) (auto simp: io_bind_Inr io_ret_run)
        from 1(1) [OF False inner [symmetric] Broke refl run(1)] have IH:
          "\<forall>c \<in> set rest. c \<noteq> [] \<and> (\<exists>used rest. es' = used @ rest \<and> c = filter (\<lambda>(tid, _). tid \<notin> reported used) tasks')"
          "r = RoundFinished \<longrightarrow> fst ` set tasks' \<subseteq> reported es'" by auto
        have later: "\<exists>used rest. es = used @ rest \<and> c = filter (\<lambda>(tid, _). tid \<notin> reported used) tasks"
          if "es' = used' @ rest'" "c = filter (\<lambda>(tid, _). tid \<notin> reported used') tasks'" for c used' rest'
          by (intro exI [of _ "used @ used'"] exI [of _ rest'])
            (use used that in \<open>auto simp: reported_def intro!: filter_cong\<close>)
        have "\<forall>c \<in> set rest. c \<noteq> [] \<and> (\<exists>used rest. es = used @ rest \<and> c = filter (\<lambda>(tid, _). tid \<notin> reported used) tasks)"
          using IH(1) later by blast
        moreover have "fst ` set tasks \<subseteq> reported es" if "r = RoundFinished"
        proof
          fix tid assume "tid \<in> fst ` set tasks"
          then have "tid \<in> reported used \<or> tid \<in> fst ` set tasks'" by (auto simp: used(2) image_iff)
          with IH(2) that show "tid \<in> reported es" by (auto simp: used(1) reported_def)
        qed
        ultimately show ?thesis using run(2) first False by simp
      next
        case Ctx
        with 1(2) False inner first show ?thesis
          by (subst (asm) rec_outer.simps) (auto simp: io_bind_Inr io_ret_run)
      next
        case Blocked
        with 1(2) False inner first show ?thesis
          by (subst (asm) rec_outer.simps) (auto simp: io_bind_Inr io_ret_run)
      qed
    qed
  qed
  then show "\<forall>c \<in> set calls. c \<noteq> [] \<and> (\<exists>used rest. es = used @ rest \<and> c = filter (\<lambda>(tid, _). tid \<notin> reported used) tasks)"
    "r = RoundFinished \<Longrightarrow> fst ` set tasks \<subseteq> reported es"
    "tasks \<noteq> [] \<Longrightarrow> calls \<noteq> [] \<and> hd calls = tasks" by blast+
qed

section \<open>The goroutine\<close>

text \<open>
  \<open>roundQ\<close> is a channel of capacity one, \<open>loops\<close> the number of goroutines started by \<open>Run\<close>
  that have not returned.
\<close>

record reconciler =
  running :: bool
  roundQ :: nat
  loops :: nat

definition queueRound :: "reconciler \<Rightarrow> reconciler" where
  "queueRound rec = (if roundQ rec < 1 then rec\<lparr>roundQ := roundQ rec + 1\<rparr> else rec)"

definition rec_Run :: "reconciler \<Rightarrow> reconciler" where
  "rec_Run rec =
     queueRound (if \<not> running rec then rec\<lparr>running := True, loops := loops rec + 1\<rparr> else rec)"

text \<open>The cases of the goroutine's \<open>select\<close>.\<close>

inductive rec_step :: "reconciler \<Rightarrow> reconciler \<Rightarrow> bool" where
  step_Run: "rec_step rec (rec_Run rec)"
| step_done: "0 < loops rec \<Longrightarrow> rec_step rec (rec\<lparr>running := False, loops := loops rec - 1\<rparr>)"
| step_timer: "0 < loops rec \<Longrightarrow> rec_step rec (queueRound rec)"
| step_round: "0 < loops rec \<Longrightarrow> 0 < roundQ rec \<Longrightarrow> rec_step rec (rec\<lparr>roundQ := roundQ rec - 1\<rparr>)"

definition new_reconciler :: reconciler where
  "new_reconciler = \<lparr>running = False, roundQ = 0, loops = 0\<rparr>"

definition reconciler_ok :: "reconciler \<Rightarrow> bool" where
  "reconciler_ok rec \<longleftrightarrow> loops rec = (if running rec then 1 else 0) \<and> roundQ rec \<le> 1"

lemma reconciler_ok_step: "rec_step rec rec' \<Longrightarrow> reconciler_ok rec \<Longrightarrow> reconciler_ok rec'"
  by (induction rule: rec_step.induct) (auto simp: reconciler_ok_def rec_Run_def queueRound_def split: if_splits)

lemma reconciler_ok_reachable: "rec_step\<^sup>*\<^sup>* new_reconciler rec \<Longrightarrow> reconciler_ok rec"
  by (induction rule: rtranclp_induct)
    (auto simp: reconciler_ok_def new_reconciler_def dest: reconciler_ok_step [unfolded reconciler_ok_def])

end
