(* ===== verification/Mesos.thy ===== *)
theory Mesos
  imports Scheduler Reconciliation OffersTuner Tls
begin

text \<open>
  The connection to Mesos, \<^verbatim>\<open>mesos/\<close>: the client's choice of a master, the framework's description and
  the store of its identifier (\<^verbatim>\<open>http.go\<close>, \<^verbatim>\<open>mesos.go\<close>), and the handlers of the events, which drive
  scheduler, reconciler and tuner (\<^verbatim>\<open>handlers.go\<close>, \<^verbatim>\<open>controller.go\<close>). The Mesos library's own calls are
  parameters.
\<close>

section \<open>The client\<close>

text \<open>\<open>endpointSelector\<close>: the next master and the new position.\<close>

definition endpointSelector :: "string list \<Rightarrow> nat \<Rightarrow> string \<times> nat" where
  "endpointSelector ads pos = (ads ! pos @ ''/api/v1/scheduler'', (pos + 1) mod length ads)"

fun endpoints :: "string list \<Rightarrow> nat \<Rightarrow> nat \<Rightarrow> string list" where
  "endpoints ads pos 0 = []"
| "endpoints ads pos (Suc n) = (let (e, pos') = endpointSelector ads pos in e # endpoints ads pos' n)"

record mesos_conf =
  mesosAuthType :: string
  mesosUsername :: string
  mesosPassword :: string
  mesosCACert :: string
  mesosAddrs :: "string list"
  mesosUser :: string
  mesosCheckpoint :: bool
  mesosLabels :: "(string \<times> string) list"
  mesosFailover :: duration
  mesosWebUI :: string
  mesosHostname :: string
  mesosPrincipal :: string
  mesosRoles :: "string list"

record 'p mesos_client =
  clientAuth :: "(string \<times> string) option"
  clientPool :: "'p option"
  clientAddrs :: "string list"

definition newClient :: "('w, 'p) tls_env \<Rightarrow> mesos_conf \<Rightarrow> ('w, 'p mesos_client) io" where
  "newClient tls c =
     (if mesosAuthType c \<noteq> ''basic'' \<and> mesosAuthType c \<noteq> ''none''
      then io_fail (ErrMsg (''Unknown authentication type: '' @ mesosAuthType c))
      else io_bind (optional_pool tls (mesosCACert c)) (\<lambda>pool.
        if mesosAddrs c = [] then io_fail (ErrMsg ''List of Mesos addresses is empty'')
        else io_ret \<lparr>clientAuth = (if mesosAuthType c = ''basic'' then Some (mesosUsername c, mesosPassword c) else None),
               clientPool = pool, clientAddrs = mesosAddrs c\<rparr>))"

lemma endpoints_cycle:
  assumes "pos < length ads"
  shows "endpoints ads pos n = map (\<lambda>k. ads ! ((pos + k) mod length ads) @ ''/api/v1/scheduler'') [0..<n]"
  using assms
proof (induction n arbitrary: pos)
  case (Suc n)
  then have "(pos + 1) mod length ads < length ads" by (intro mod_less_divisor) auto
  from Suc.IH [OF this] have "endpoints ads ((pos + 1) mod length ads) n
      = map (\<lambda>k. ads ! ((pos + Suc k) mod length ads) @ ''/api/v1/scheduler'') [0..<n]"
    by (simp add: mod_add_left_eq)
  with Suc.prems show ?case
    by (simp add: endpointSelector_def upt_conv_Cons map_Suc_upt [symmetric] comp_def del: upt_Suc)
qed simp

lemma newClient_ok:
  "newClient tls c w = (Inr cli, w') \<Longrightarrow> clientAddrs cli = mesosAddrs c \<and> mesosAddrs c \<noteq> []
     \<and> (clientAuth cli = None \<longleftrightarrow> mesosAuthType c = ''none'')"
  by (auto simp: newClient_def io_bind_Inr io_ret_run io_fail_run split: if_splits)

section \<open>The framework\<close>

text \<open>
  \<open>idStore\<close> is the in-memory value (empty when nothing has been stored) over the storage; \<open>Set\<close> keeps the
  identifier in memory and then writes it to the storage, also when that fails.
\<close>

record 'f framework_info =
  fiUser :: string
  fiName :: string
  fiCheckpoint :: bool
  fiCapabilities :: "string list"
  fiLabels :: "(string \<times> string option) list"
  fiFailoverTimeout :: 'f
  fiWebUiURL :: string
  fiHostname :: string
  fiPrincipal :: string
  fiRoles :: "string list"
  fiID :: string

definition newFrameworkInfo :: "(duration \<Rightarrow> 'f) \<Rightarrow> mesos_conf \<Rightarrow> string \<Rightarrow> 'f framework_info" where
  "newFrameworkInfo seconds c fid =
     \<lparr>fiUser = mesosUser c, fiName = ''rhythm'', fiCheckpoint = mesosCheckpoint c, fiCapabilities = [''MULTI_ROLE''],
      fiLabels = replicate (length (mesosLabels c)) ([], None) @ map (\<lambda>(k, v). (k, Some v)) (mesosLabels c),
      fiFailoverTimeout = seconds (mesosFailover c), fiWebUiURL = mesosWebUI c, fiHostname = mesosHostname c,
      fiPrincipal = mesosPrincipal c, fiRoles = mesosRoles c, fiID = fid\<rparr>"

definition newFrameworkIDStore :: "('w, string) io \<Rightarrow> ('w, string) io" where
  "newFrameworkIDStore getFrameworkID = io_bind getFrameworkID (\<lambda>fid. io_ret (if fid \<noteq> [] then fid else []))"

definition setFrameworkID :: "(string \<Rightarrow> ('w, unit) io) \<Rightarrow> string \<Rightarrow> (string \<times> 'w, unit) io" where
  "setFrameworkID setStored v =
     io_bind (io_modify (\<lambda>(_, w). (v, w))) (\<lambda>_. io_on snd (\<lambda>w s. (fst s, w)) (setStored v))"

section \<open>Events\<close>

record master_address =
  masterHostname :: "string option"
  masterIP :: "string option"
  masterPort :: int

text \<open>\<open>*addr.Hostname\<close> and \<open>*addr.IP\<close> are nil dereferences when Mesos leaves the field out.\<close>

definition getLeaderHost :: "master_address \<Rightarrow> fault + string" where
  "getLeaderHost addr =
     (let port = (\<lambda>host. if masterPort addr \<noteq> 0 then host @ '':'' @ show_int (masterPort addr) else host) in
      case masterHostname addr of
        None \<Rightarrow> Inl (Panic ''nil pointer dereference'')
      | Some [] \<Rightarrow>
          (case masterIP addr of None \<Rightarrow> Inl (Panic ''nil pointer dereference'') | Some ip \<Rightarrow> Inr (port ip))
      | Some host \<Rightarrow> Inr (port host))"

record 'r offer =
  offerID :: string
  offerAgent :: string
  offerResources :: "'r list"

record 'w controller =
  ctlFid :: string
  ctlLeader :: string
  ctlReconciler :: reconciler
  ctlReports :: "rec_event list"
  ctlTuners :: nat
  ctlSched :: "'w sched"

record ('w, 'r) mesos_lib =
  trackSubscription :: "string \<Rightarrow> (string \<times> 'w, unit) io"
  urlSchemeOf :: "string \<Rightarrow> string option"
  urlString :: "string \<Rightarrow> string \<Rightarrow> string"
  acceptOffer :: "string \<Rightarrow> 'r task_info list \<Rightarrow> ('w, unit) io"
  ackUpdate :: "task_status \<Rightarrow> ('w, unit) io"
  ctxErr :: "'w \<Rightarrow> bool \<times> 'w"
  jobsOrder :: "'w sched \<Rightarrow> string list"

abbreviation on_sched :: "('w sched, 'a) io \<Rightarrow> ('w controller, 'a) io" where
  "on_sched \<equiv> io_on ctlSched (\<lambda>s c. c\<lparr>ctlSched := s\<rparr>)"

abbreviation on_fid :: "(string \<times> 'w, 'a) io \<Rightarrow> ('w controller, 'a) io" where
  "on_fid \<equiv> io_on (\<lambda>c. (ctlFid c, outer (ctlSched c)))
     (\<lambda>(fid, w) c. c\<lparr>ctlFid := fid, ctlSched := (ctlSched c)\<lparr>outer := w\<rparr>\<rparr>)"

text \<open>What follows a subscription: the leader is noted, the reconciler and another tuner are started.\<close>

definition onSubscribed :: "('w, 'r) mesos_lib \<Rightarrow> mesos_conf \<Rightarrow> master_address \<Rightarrow> ('w controller, unit) io" where
  "onSubscribed lib c info =
     (let scm = (case urlSchemeOf lib (hd (mesosAddrs c)) of None \<Rightarrow> ''https'' | Some s \<Rightarrow> s) in
      io_bind (io_of_fault (getLeaderHost info)) (\<lambda>host.
      io_modify (\<lambda>ctl. ctl\<lparr>ctlLeader := urlString lib scm host, ctlReconciler := rec_Run (ctlReconciler ctl),
        ctlTuners := ctlTuners ctl + 1\<rparr>)))"

definition subscribedHandler ::
    "('w, 'r) mesos_lib \<Rightarrow> mesos_conf \<Rightarrow> string \<Rightarrow> master_address \<Rightarrow> ('w controller, unit) io" where
  "subscribedHandler lib c fid info =
     io_bind (on_fid (trackSubscription lib fid)) (\<lambda>_. onSubscribed lib c info)"

definition updateHandler ::
    "('w, 'r) mesos_lib \<Rightarrow> ('w, 'r, 's) sched_env \<Rightarrow> bool \<Rightarrow> task_status \<Rightarrow> ('w controller, unit) io" where
  "updateHandler lib env receiving status =
     io_bind (on_sched (HandleTaskStateUpdate env status)) (\<lambda>_.
     io_bind (io_modify (\<lambda>c. c\<lparr>ctlReports := ctlReports c @ rec_HandleTaskStateUpdate receiving status\<rparr>)) (\<lambda>_.
     on_sched (outside (ackUpdate lib status))))"

fun offersHandler :: "('w, 'r) mesos_lib \<Rightarrow> ('w, 'r, 's) sched_env \<Rightarrow> 'r offer list \<Rightarrow> ('w sched, unit) io" where
  "offersHandler lib env [] = io_ret ()"
| "offersHandler lib env (offer # offers) =
     io_bind (outside (io_of_read (ctxErr lib))) (\<lambda>done.
       if done then io_ret ()
       else
         io_bind (\<lambda>s. FindTasksForOffer env (jobsOrder lib s) (offerResources offer) (offerAgent offer) s) (\<lambda>tasks.
         io_try (outside (acceptOffer lib (offerID offer) tasks)) (\<lambda>r.
           case r of Inl err \<Rightarrow> io_ret () | Inr _ \<Rightarrow> offersHandler lib env offers)))"

text \<open>The end of a subscription: a removed framework forgets its identifier, and the run is cancelled.\<close>

definition subscriptionTerminated ::
    "(string \<Rightarrow> ('w, unit) io) \<Rightarrow> (error \<Rightarrow> string) \<Rightarrow> error option \<Rightarrow> ('w controller, bool) io" where
  "subscriptionTerminated setStored text err =
     (case err of
        None \<Rightarrow> io_ret False
      | Some e \<Rightarrow>
          if text e = ''Framework has been removed''
          then io_try (on_fid (setFrameworkID setStored [])) (\<lambda>r.
                 case r of Inl err \<Rightarrow> io_panic (text err) | Inr _ \<Rightarrow> io_ret True)
          else io_ret False)"

section \<open>What the handlers keep\<close>

text \<open>Everything that happens to a controller: events, the reconciler's goroutine, the scheduler's own steps.\<close>

inductive ctl_step :: "('w, 'r) mesos_lib \<Rightarrow> mesos_conf \<Rightarrow> ('w, 'r, 's) sched_env \<Rightarrow> 'w controller \<Rightarrow> 'w controller \<Rightarrow> bool"
  for lib c env where
  ctl_subscribed: "subscribedHandler lib c fid info s = (q, s') \<Longrightarrow> ctl_step lib c env s s'"
| ctl_update: "updateHandler lib env receiving status s = (q, s') \<Longrightarrow> ctl_step lib c env s s'"
| ctl_offers: "on_sched (offersHandler lib env offers) s = (q, s') \<Longrightarrow> ctl_step lib c env s s'"
| ctl_terminated: "subscriptionTerminated setStored text err s = (q', s') \<Longrightarrow> ctl_step lib c env s s'"
| ctl_reconciler: "rec_step (ctlReconciler s) r \<Longrightarrow> ctl_step lib c env s (s\<lparr>ctlReconciler := r\<rparr>)"
| ctl_scheduler: "sched_step env (ctlSched s) sc \<Longrightarrow> ctl_step lib c env s (s\<lparr>ctlSched := sc\<rparr>)"

definition new_controller :: "string \<Rightarrow> 'w \<Rightarrow> 'w controller" where
  "new_controller fid w =
     \<lparr>ctlFid = fid, ctlLeader = [], ctlReconciler = new_reconciler, ctlReports = [], ctlTuners = 0,
      ctlSched = empty_sched w\<rparr>"

definition controller_ok :: "'w controller \<Rightarrow> bool" where
  "controller_ok s \<longleftrightarrow> keyed_cache (jobs (ctlSched s)) \<and> reconciler_ok (ctlReconciler s)"

lemma keyed_offersHandler: "keeps_keyed (offersHandler lib env offers)"
proof (induction offers)
  case (Cons offer offers)
  have "keeps_keyed (\<lambda>s. FindTasksForOffer env (jobsOrder lib s) (offerResources offer) (offerAgent offer) s)"
    using keyed_FindTasksForOffer [of env] by (simp add: moves_def)
  with Cons show ?case by (auto intro!: keyed_intros split: sum.split)
qed (auto intro!: keyed_intros)

lemma on_fid_frame:
  assumes "on_fid m s = (q, s')"
  shows "jobs (ctlSched s') = jobs (ctlSched s)" "ctlReconciler s' = ctlReconciler s" "ctlTuners s' = ctlTuners s"
  using assms by (auto simp: io_on_def split: prod.splits)

lemma onSubscribed_effect:
  assumes "onSubscribed lib c info s = (q, s')"
  shows "jobs (ctlSched s') = jobs (ctlSched s)"
    "if q = Inr () then ctlReconciler s' = rec_Run (ctlReconciler s) \<and> ctlTuners s' = ctlTuners s + 1 else s' = s"
  using assms
  by (cases "getLeaderHost info"; simp add: onSubscribed_def Let_def io_bind_def io_of_fault_def io_modify_def; auto)+

lemma subscribedHandler_effect:
  assumes "subscribedHandler lib c fid info s = (q, s')"
  shows "jobs (ctlSched s') = jobs (ctlSched s)"
    "if q = Inr () then ctlReconciler s' = rec_Run (ctlReconciler s) \<and> ctlTuners s' = ctlTuners s + 1
     else ctlReconciler s' = ctlReconciler s"
proof -
  obtain p s1 where track: "on_fid (trackSubscription lib fid) s = (p, s1)" by fastforce
  note frame = on_fid_frame [OF track]
  show "jobs (ctlSched s') = jobs (ctlSched s)"
    "if q = Inr () then ctlReconciler s' = rec_Run (ctlReconciler s) \<and> ctlTuners s' = ctlTuners s + 1
     else ctlReconciler s' = ctlReconciler s"
    using assms frame onSubscribed_effect [of lib c info s1 q s']
    by (cases p; auto simp: subscribedHandler_def io_bind_def track split: if_splits)+
qed

text \<open>The views the invariant reads, and how the update handler moves them.\<close>

abbreviation ctl_view :: "'w controller \<Rightarrow> (string \<Rightarrow> job option) \<times> reconciler" where
  "ctl_view s \<equiv> (jobs (ctlSched s), ctlReconciler s)"

definition keyed_on :: "(string \<Rightarrow> job option) \<times> reconciler \<Rightarrow> (string \<Rightarrow> job option) \<times> reconciler \<Rightarrow> bool" where
  "keyed_on x y \<longleftrightarrow> (keyed_cache (fst x) \<longrightarrow> keyed_cache (fst y)) \<and> snd y = snd x"

lemma preorder_keyed_on [simp]: "preorder_rel keyed_on"
  by (auto simp: preorder_rel_def reflp_def transp_def keyed_on_def)

lemma keyed_on_sched: "keeps_keyed m \<Longrightarrow> moves keyed_on ctl_view (on_sched m)"
  by (auto simp: moves_def io_on_def keyed_on_def split: prod.splits)

lemma keyed_on_fid: "moves keyed_on ctl_view (on_fid m)"
  by (auto simp: moves_def io_on_def keyed_on_def split: prod.splits)

lemma subscriptionTerminated_keyed: "moves keyed_on ctl_view (subscriptionTerminated setStored tx err)"
  unfolding subscriptionTerminated_def
  by (auto intro!: moves_try moves_if moves_ret moves_panic keyed_on_fid split: option.split sum.split)

lemma updateHandler_keyed: "moves keyed_on ctl_view (updateHandler lib env receiving status)"
proof -
  have "keeps_keyed (outside (ackUpdate lib status))" by (rule moves_of_keeps [OF _ outside_keeps(1)]) simp
  then show ?thesis
    unfolding updateHandler_def
    by (intro moves_bind [OF preorder_keyed_on] moves_modify keyed_on_sched keyed_HandleTaskStateUpdate)
      (simp_all add: keyed_on_def)
qed

lemma controller_ok_step: "ctl_step lib c env s s' \<Longrightarrow> controller_ok s \<Longrightarrow> controller_ok s'"
proof (induction rule: ctl_step.induct)
  case (ctl_subscribed fid info s q s')
  have "rec_step (ctlReconciler s) (rec_Run (ctlReconciler s))" by (rule step_Run)
  with subscribedHandler_effect [OF ctl_subscribed(1)] ctl_subscribed(2) show ?case
    by (auto simp: controller_ok_def dest: reconciler_ok_step split: if_splits)
next
  case (ctl_update receiving status s q s')
  with movesD [OF updateHandler_keyed ctl_update(1)] show ?case by (simp add: controller_ok_def keyed_on_def)
next
  case (ctl_offers offers s q s')
  with movesD [OF keyed_on_sched [OF keyed_offersHandler] ctl_offers(1)] show ?case
    by (simp add: controller_ok_def keyed_on_def)
next
  case (ctl_terminated setStored tx err s q' s')
  with movesD [OF subscriptionTerminated_keyed ctl_terminated(1)] show ?case
    by (simp add: controller_ok_def keyed_on_def)
next
  case (ctl_reconciler s r)
  then show ?case by (auto simp: controller_ok_def dest: reconciler_ok_step)
next
  case (ctl_scheduler s sc)
  then show ?case by (auto simp: controller_ok_def dest: keyed_step)
qed

lemma controller_ok_reachable: "(ctl_step lib c env)\<^sup>*\<^sup>* (new_controller fid w) s \<Longrightarrow> controller_ok s"
proof (induction rule: rtranclp_induct)
  case base
  show ?case
    by (simp add: controller_ok_def new_controller_def empty_sched_def keyed_empty reconciler_ok_def new_reconciler_def)
qed (rule controller_ok_step)

section \<open>Single events\<close>

text \<open>Every subscription starts another tuner, but only the first a reconciler.\<close>

lemma subscriptions_count:
  assumes "io_for infos (subscribedHandler lib c fid) s = (Inr us, s')" "reconciler_ok (ctlReconciler s)"
  shows "ctlTuners s' = ctlTuners s + length infos \<and> reconciler_ok (ctlReconciler s')"
  using assms
proof (induction infos arbitrary: s us)
  case (Cons info infos)
  from Cons.prems(1) obtain u s1 vs where run: "subscribedHandler lib c fid info s = (Inr u, s1)"
    "io_for infos (subscribedHandler lib c fid) s1 = (Inr vs, s')"
    by (auto simp: io_bind_Inr io_ret_run)
  from subscribedHandler_effect(2) [OF run(1)] Cons.prems(2)
  have "ctlTuners s1 = ctlTuners s + 1" "reconciler_ok (ctlReconciler s1)"
    using reconciler_ok_step [OF step_Run] by auto
  with Cons.IH [OF run(2)] show ?case by simp
qed (simp add: io_ret_run)

text \<open>An update is acknowledged once the scheduler is done with it, whatever it could store.\<close>

lemma updateHandler_acknowledges:
  assumes "\<And>g p i t. no_panic (opAddTask (storage env) g p i t)"
    and "\<And>g p i r. no_panic (opSaveJobRuntime (storage env) g p i r)"
    and "\<And>name. statusState st \<noteq> TASK_OTHER name"
  shows "\<exists>sc q w'. HandleTaskStateUpdate env st (ctlSched s) = (Inr (), sc) \<and> ackUpdate lib st (outer sc) = (q, w')
    \<and> updateHandler lib env receiving st s = (q, s\<lparr>ctlSched := sc\<lparr>outer := w'\<rparr>,
        ctlReports := ctlReports s @ rec_HandleTaskStateUpdate receiving st\<rparr>)"
proof -
  obtain sc where sc: "HandleTaskStateUpdate env st (ctlSched s) = (Inr (), sc)"
    using HandleTaskStateUpdate_total [OF assms, of "ctlSched s"] by (cases "HandleTaskStateUpdate env st (ctlSched s)") auto
  obtain q w' where ack: "ackUpdate lib st (outer sc) = (q, w')" by fastforce
  with sc show ?thesis
    by (simp add: updateHandler_def io_bind_def io_on_def io_modify_def)
qed

text \<open>
  When Mesos does not take the tasks of an offer, the error is logged: the jobs keep the state the
  launch gave them and the offers that follow are not looked at.
\<close>

lemma offersHandler_failed_accept:
  assumes "ctxErr lib (outer s) = (False, w1)" "s1 = s\<lparr>outer := w1\<rparr>"
    and "FindTasksForOffer env (jobsOrder lib s1) (offerResources offer) (offerAgent offer) s1 = (Inr tasks, s2)"
    and "acceptOffer lib (offerID offer) tasks (outer s2) = (Inl (Fail err), w3)"
  shows "offersHandler lib env (offer # offers) s = (Inr (), s2\<lparr>outer := w3\<rparr>)"
  using assms by (simp add: io_bind_def io_on_def io_of_read_def io_try_def io_ret_def)

lemma offersHandler_accepted:
  assumes "ctxErr lib (outer s) = (False, w1)" "s1 = s\<lparr>outer := w1\<rparr>"
    and "FindTasksForOffer env (jobsOrder lib s1) (offerResources offer) (offerAgent offer) s1 = (Inr tasks, s2)"
    and "acceptOffer lib (offerID offer) tasks (outer s2) = (Inr u, w3)"
  shows "offersHandler lib env (offer # offers) s = offersHandler lib env offers (s2\<lparr>outer := w3\<rparr>)"
  using assms by (simp add: io_bind_def io_on_def io_of_read_def io_try_def)

lemma offersHandler_cancelled:
  "ctxErr lib (outer s) = (True, w1) \<Longrightarrow> offersHandler lib env (offer # offers) s = (Inr (), s\<lparr>outer := w1\<rparr>)"
  by (simp add: io_bind_def io_on_def io_of_read_def io_ret_def)

text \<open>What \<open>setFrameworkID\<close> leaves in memory and hands to the storage.\<close>

lemma setFrameworkID_run:
  "setFrameworkID setStored v (fid, w) = (q, (fid', w')) \<longleftrightarrow> fid' = v \<and> setStored v w = (q, w')"
  by (auto simp: setFrameworkID_def io_bind_modify io_on_eq)

end
