(* ===== verification/Server.thy ===== *)
theory Server
  imports Startup Conf Auth Mesos
begin

text \<open>
  The server as a whole: how \<^verbatim>\<open>command/server.go\<close> builds the components from the configuration and
  runs them, the start of the API (\<open>New\<close> of \<^verbatim>\<open>api/api.go\<close>) and of the Mesos controller (\<open>Run\<close> of
  \<^verbatim>\<open>mesos/controller.go\<close>).
\<close>

section \<open>The parts of a configuration\<close>

text \<open>Reading a field; a configuration that was read has every field with its kind (theory \<open>Conf\<close>).\<close>

definition conf_str :: "conf_value \<Rightarrow> string list \<Rightarrow> string" where
  "conf_str c path = (case conf_get path c of Some (CStr s) \<Rightarrow> s | _ \<Rightarrow> [])"

definition conf_strs :: "conf_value \<Rightarrow> string list \<Rightarrow> string list" where
  "conf_strs c path = (case conf_get path c of Some (CStrs ss) \<Rightarrow> ss | _ \<Rightarrow> [])"

definition conf_bool :: "conf_value \<Rightarrow> string list \<Rightarrow> bool" where
  "conf_bool c path = (case conf_get path c of Some (CBool b) \<Rightarrow> b | _ \<Rightarrow> False)"

definition conf_dur :: "conf_value \<Rightarrow> string list \<Rightarrow> duration" where
  "conf_dur c path = (case conf_get path c of Some (CDur d) \<Rightarrow> d | _ \<Rightarrow> 0)"

definition conf_tags :: "conf_value \<Rightarrow> string list \<Rightarrow> (string \<times> string) list" where
  "conf_tags c path = (case conf_get path c of Some (CTags m) \<Rightarrow> m | _ \<Rightarrow> [])"

definition conf_acl :: "conf_value \<Rightarrow> string list \<Rightarrow> (string \<times> (string \<times> string) list) list" where
  "conf_acl c path = (case conf_get path c of Some (CACL m) \<Rightarrow> m | _ \<Rightarrow> [])"

text \<open>\<open>part\<close> is \<open>Storage\<close> or \<open>Coordinator\<close>.\<close>

definition zk_conf_of :: "string \<Rightarrow> conf_value \<Rightarrow> zk_conf" where
  "zk_conf_of part c =
     (let str = (\<lambda>p. conf_str c (part # ''ZooKeeper'' # p)) in
      \<lparr>confDir = str [''Dir''], confAddrs = conf_strs c [part, ''ZooKeeper'', ''Addrs''],
       confTimeout = conf_dur c [part, ''ZooKeeper'', ''Timeout''],
       confAuth = \<lparr>authScheme = str [''Auth'', ''Scheme''], digestUser = str [''Auth'', ''Digest'', ''User''],
         digestPassword = str [''Auth'', ''Digest'', ''Password'']\<rparr>\<rparr>)"

definition vault_conf_of :: "conf_value \<Rightarrow> vault_conf" where
  "vault_conf_of c =
     (let str = (\<lambda>n. conf_str c [''Secrets'', ''Vault'', n]) in
      \<lparr>vaultAddr = str ''Addr'', vaultCACert = str ''CACert'', vaultRoot = str ''Root''\<rparr>)"

definition log_conf_of :: "conf_value \<Rightarrow> log_conf" where
  "log_conf_of c =
     \<lparr>logLevel = conf_str c [''Logging'', ''Level''], logBackend = conf_str c [''Logging'', ''Backend''],
      sentryDSN = conf_str c [''Logging'', ''Sentry'', ''DSN''], sentryCACert = conf_str c [''Logging'', ''Sentry'', ''CACert'']\<rparr>"

definition ldap_conf_of :: "conf_value \<Rightarrow> ldap_authorizer" where
  "ldap_conf_of c =
     (let fld = (\<lambda>n. [''API'', ''Auth'', ''LDAP'', n]) in
      \<lparr>ldapAddrs = conf_strs c (fld ''Addrs''), userDN = conf_str c (fld ''UserDN''), userAttr = conf_str c (fld ''UserAttr''),
       userACL = conf_acl c (fld ''UserACL''), groupACL = conf_acl c (fld ''GroupACL''), bindDN = conf_str c (fld ''BindDN''),
       bindPassword = conf_str c (fld ''BindPassword''), groupFilter = conf_str c (fld ''GroupFilter''),
       groupDN = conf_str c (fld ''GroupDN''), groupAttr = conf_str c (fld ''GroupAttr''),
       caseSensitiveNames = conf_bool c (fld ''CaseSensitiveNames'')\<rparr>)"

definition mesos_conf_of :: "conf_value \<Rightarrow> mesos_conf" where
  "mesos_conf_of c =
     (let str = (\<lambda>p. conf_str c (''Mesos'' # p)) in
      \<lparr>mesosAuthType = str [''Auth'', ''Type''], mesosUsername = str [''Auth'', ''Basic'', ''Username''],
       mesosPassword = str [''Auth'', ''Basic'', ''Password''], mesosCACert = str [''CACert''],
       mesosAddrs = conf_strs c [''Mesos'', ''Addrs''], mesosUser = str [''User''],
       mesosCheckpoint = conf_bool c [''Mesos'', ''Checkpoint''], mesosLabels = conf_tags c [''Mesos'', ''Labels''],
       mesosFailover = conf_dur c [''Mesos'', ''FailoverTimeout''], mesosWebUI = str [''WebUIURL''],
       mesosHostname = str [''Hostname''], mesosPrincipal = str [''Principal''],
       mesosRoles = conf_strs c [''Mesos'', ''Roles'']\<rparr>)"

section \<open>The start of the API\<close>

datatype 'p auth_backend =
    GitLabBackend "string \<times> 'p option"
  | NoneBackend
  | LdapBackend "ldap_authorizer \<times> 'p option"

record http_server =
  srvAddr :: string
  srvReadTimeout :: duration
  srvWriteTimeout :: duration
  srvIdleTimeout :: duration
  tlsMinVersion :: string
  tlsPreferServer :: bool
  tlsCurves :: "string list"
  tlsCiphers :: "string list"
  tlsNextProto :: "string list"

text \<open>
  \<open>setLdapTimeout\<close> sets the library's global; \<open>startServer\<close> starts the goroutine that listens, with a
  certificate and its key or without.
\<close>

record ('w, 'p) api_lib =
  apiTls :: "('w, 'p) tls_env"
  setLdapTimeout :: "duration \<Rightarrow> ('w, unit) io"
  startServer :: "http_server \<Rightarrow> (string \<times> string) option \<Rightarrow> ('w, unit) io"
  apiText :: "error \<Rightarrow> string"

definition api_authorizer :: "('w, 'p) api_lib \<Rightarrow> conf_value \<Rightarrow> ('w, 'p auth_backend) io" where
  "api_authorizer lib c =
     (let backend = conf_str c [''API'', ''Auth'', ''Backend''] in
      if backend = ''gitlab''
      then or_fatal (apiText lib) (io_bind (NewGitlabAuthorizer (apiTls lib) (conf_str c [''API'', ''Auth'', ''GitLab'', ''CACert''])
          (conf_str c [''API'', ''Auth'', ''GitLab'', ''Addr''])) (\<lambda>a. io_ret (GitLabBackend a)))
      else if backend = ''none'' then io_ret NoneBackend
      else if backend = ''ldap''
      then io_bind (setLdapTimeout lib (conf_dur c [''API'', ''Auth'', ''LDAP'', ''Timeout''])) (\<lambda>_.
           or_fatal (apiText lib) (io_bind (NewLdapAuthorizer (apiTls lib) (apiText lib)
             (conf_str c [''API'', ''Auth'', ''LDAP'', ''CACert'']) (ldap_conf_of c)) (\<lambda>a. io_ret (LdapBackend a))))
      else io_panic (''Unknown authorization backend: '' @ backend))"

definition http_server_of :: "conf_value \<Rightarrow> http_server" where
  "http_server_of c =
     \<lparr>srvAddr = conf_str c [''API'', ''Addr''], srvReadTimeout = 10 * second, srvWriteTimeout = 10 * second,
      srvIdleTimeout = 60 * second, tlsMinVersion = ''VersionTLS12'', tlsPreferServer = True,
      tlsCurves = [''CurveP521'', ''CurveP384'', ''CurveP256''],
      tlsCiphers = [''TLS_ECDHE_RSA_WITH_AES_256_GCM_SHA384'', ''TLS_ECDHE_RSA_WITH_AES_256_CBC_SHA'',
        ''TLS_RSA_WITH_AES_256_GCM_SHA384'', ''TLS_RSA_WITH_AES_256_CBC_SHA''],
      tlsNextProto = []\<rparr>"

definition listen :: "('w, 'p) api_lib \<Rightarrow> conf_value \<Rightarrow> ('w, unit) io" where
  "listen lib c =
     (let certFile = conf_str c [''API'', ''CertFile'']; keyFile = conf_str c [''API'', ''KeyFile''] in
      startServer lib (http_server_of c)
        (if certFile \<noteq> [] \<or> keyFile \<noteq> [] then Some (certFile, keyFile) else None))"

definition api_New :: "('w, 'p) api_lib \<Rightarrow> conf_value \<Rightarrow> ('w, 'p auth_backend) io" where
  "api_New lib c = io_bind (api_authorizer lib c) (\<lambda>a. io_bind (listen lib c) (\<lambda>_. io_ret a))"

section \<open>The start of the server\<close>

record ('w, 'p) server_lib =
  srvReadConf :: "string \<Rightarrow> ('w, json) io"
  srvLog :: "('w, 'p) log_lib"
  srvZk :: "'w zk_lib"
  srvApi :: "('w, 'p) api_lib"
  srvVault :: "('w, 'p) vault_lib"
  srvSleep :: "duration \<Rightarrow> 'w \<Rightarrow> 'w"
  srvText :: "error \<Rightarrow> string"

record ('w, 'p) started =
  stConf :: conf_value
  stStorage :: "'w zk_storage"
  stCleaner :: "'w coord_env"
  stCoordinator :: "'w coord_env"
  stAuth :: "'p auth_backend"
  stSecrets :: "string \<Rightarrow> ('w, string) io"

text \<open>\<open>ServerCommand.Run\<close> before its loop; \<open>None\<close> is its return after a test of the logging.\<close>

definition server_setup :: "('w, 'p) server_lib \<Rightarrow> string \<Rightarrow> bool \<Rightarrow> ('w, ('w, 'p) started option) io" where
  "server_setup lib confPath testLogging =
     io_try (srvReadConf lib confPath) (\<lambda>file.
       case NewConf file of
         Inl err \<Rightarrow> io_panic (''Error getting configuration: '' @ srvText lib err)
       | Inr c \<Rightarrow>
           io_bind (initLogging (srvLog lib) (log_conf_of c)) (\<lambda>_.
           if testLogging then io_bind (io_modify (srvSleep lib (10 * second))) (\<lambda>_. io_ret None)
           else
             io_bind (storage_New (srvZk lib) (conf_str c [''Storage'', ''Backend'']) (zk_conf_of ''Storage'' c)
                 (conf_dur c [''Storage'', ''ZooKeeper'', ''TaskTTL''])) (\<lambda>(stor, cleaner).
             io_bind (coordinator_New (srvZk lib) (conf_str c [''Coordinator'', ''Backend'']) (zk_conf_of ''Coordinator'' c)
                 (conf_str c [''Coordinator'', ''ZooKeeper'', ''ElectionDir''])) (\<lambda>coord.
             io_bind (api_New (srvApi lib) c) (\<lambda>a.
             io_bind (secrets_New (srvText lib) (srvVault lib) (conf_str c [''Secrets'', ''Backend'']) (vault_conf_of c)) (\<lambda>secr.
             io_ret (Some \<lparr>stConf = c, stStorage = stor, stCleaner = cleaner, stCoordinator = coord, stAuth = a,
               stSecrets = secr\<rparr>)))))))"

text \<open>The loop of \<open>ServerCommand.Run\<close>, which has no end, for a number of rounds.\<close>

fun server_rounds ::
    "('w \<Rightarrow> ((fault + unit) \<times> 'w) option) \<Rightarrow> ('w server, unit) io \<Rightarrow> (duration \<Rightarrow> 'w \<Rightarrow> 'w) \<Rightarrow> nat
     \<Rightarrow> 'w server \<Rightarrow> ((fault + unit) \<times> 'w server) option" where
  "server_rounds await controller nap 0 s = Some (Inr (), s)"
| "server_rounds await controller nap (Suc n) s =
     (case server_round await controller nap s of
        None \<Rightarrow> None
      | Some (Inl f, s') \<Rightarrow> Some (Inl f, s')
      | Some (Inr _, s') \<Rightarrow> server_rounds await controller nap n s')"

lemma or_fatal_Inr: "or_fatal text m w = (Inr x, w') \<longleftrightarrow> m w = (Inr x, w')"
  by (auto simp: or_fatal_def io_try_eq io_panic_run io_ret_run)

text \<open>Between rounds nobody is told that this replica leads.\<close>

lemma server_rounds_flag:
  assumes "server_rounds await controller nap n s = Some (Inr (), s')" "\<not> leaderFlag s"
  shows "\<not> leaderFlag s'"
  using assms
proof (induction n arbitrary: s)
  case (Suc n)
  from Suc.prems(1) obtain u s1 where one: "server_round await controller nap s = Some (Inr u, s1)"
    and rest: "server_rounds await controller nap n s1 = Some (Inr (), s')"
    by (auto split: option.splits sum.splits prod.splits)
  from server_round_flag [of await controller nap s s1] one have "\<not> leaderFlag s1" by simp
  with Suc.IH [OF rest] show ?case .
qed simp

text \<open>
  The libraries a server is built on: what they do besides ZooKeeper does not touch the data tree.
\<close>

locale server_world = zk_provider "srvZk lib" tree for lib :: "('w, 'p) server_lib" and tree :: "'w \<Rightarrow> zk_view" +
  assumes conf_keeps: "keeps tree (srvReadConf lib path)"
    and log_keeps: "keeps tree (setLevel (srvLog lib) lvl)" "keeps tree (newRaven (srvLog lib) dsn)"
      "keeps tree (addSentryHook (srvLog lib) pool lvls)" "keeps tree (readFile (logTLS (srvLog lib)) path)"
    and api_keeps: "keeps tree (readFile (apiTls (srvApi lib)) path)" "keeps tree (setLdapTimeout (srvApi lib) d)"
      "keeps tree (startServer (srvApi lib) srv cert)"
    and vault_keeps: "keeps tree (readFile (vaultTLS (srvVault lib)) path)" "keeps tree (vaultNewClient (srvVault lib) pool)"
begin

lemma keeps_optional_pool: "(\<And>p. keeps tree (readFile env p)) \<Longrightarrow> keeps tree (optional_pool env path)"
  unfolding optional_pool_def BuildCertPool_def by (auto intro!: keeps_intros split: option.split)

lemma keeps_or_fatal: "keeps tree m \<Longrightarrow> keeps tree (or_fatal text m)"
  unfolding or_fatal_def by (auto intro!: keeps_intros split: sum.split)

lemma keeps_initLogging: "keeps tree (initLogging (srvLog lib) c)"
  unfolding initLogging_def initSentryLogging_def
  by (auto intro!: keeps_intros keeps_or_fatal keeps_optional_pool log_keeps)

lemma keeps_authorizers:
  "keeps tree (NewGitlabAuthorizer (apiTls (srvApi lib)) ca ad)" "keeps tree (NewLdapAuthorizer (apiTls (srvApi lib)) text ca a)"
proof -
  have pool: "keeps tree (optional_pool (apiTls (srvApi lib)) ca)" by (rule keeps_optional_pool [OF api_keeps(1)])
  then show "keeps tree (NewGitlabAuthorizer (apiTls (srvApi lib)) ca ad)"
    unfolding NewGitlabAuthorizer_def by (intro keeps_bind keeps_if keeps_fail keeps_ret)
  show "keeps tree (NewLdapAuthorizer (apiTls (srvApi lib)) text ca a)"
    unfolding NewLdapAuthorizer_def
    by (cases "validateACL (userACL a)"; cases "validateACL (groupACL a)";
        simp only: option.case; intro keeps_bind keeps_if keeps_fail keeps_ret pool)
qed

lemma keeps_api_New: "keeps tree (api_New (srvApi lib) c)"
  unfolding api_New_def api_authorizer_def listen_def Let_def
  by (intro keeps_bind keeps_if keeps_panic keeps_ret keeps_or_fatal keeps_authorizers api_keeps)

lemma keeps_secrets_New: "keeps tree (secrets_New text (srvVault lib) backend c)"
  unfolding secrets_New_def NewVault_def by (auto intro!: keeps_intros keeps_or_fatal keeps_optional_pool vault_keeps)

lemma server_setup_ok:
  assumes "server_setup lib confPath testLogging w = (Inr (Some st), w')"
  shows "zk_store (stStorage st) tree" "zookeeper (coordConn (stCoordinator st)) tree"
    "electionDir (stCoordinator st) = ''election/mesos_scheduler''" "tree w' (election_path (stCoordinator st)) \<noteq> None"
    "tree w' (state_path (stStorage st)) \<noteq> None \<and> tree w' (jobs_path (stStorage st)) \<noteq> None
       \<and> tree w' (queue_path (stStorage st)) \<noteq> None"
    "coordDir (stCoordinator st) = dir (stStorage st) \<Longrightarrow> same_jobs (stStorage st) (tree w) (tree w')"
proof -
  obtain src w0 where src: "srvReadConf lib confPath w = (src, w0)" by fastforce
  with assms obtain doc c where doc: "src = Inr doc" "NewConf (Inr doc) = Inr c"
    by (auto simp: server_setup_def io_try_def io_panic_run NewConf_def split: sum.splits fault.splits)
  from assms have "(io_bind (initLogging (srvLog lib) (log_conf_of c)) (\<lambda>_.
           if testLogging then io_bind (io_modify (srvSleep lib (10 * second))) (\<lambda>_. io_ret None)
           else
             io_bind (storage_New (srvZk lib) (conf_str c [''Storage'', ''Backend'']) (zk_conf_of ''Storage'' c)
                 (conf_dur c [''Storage'', ''ZooKeeper'', ''TaskTTL''])) (\<lambda>(stor, cleaner).
             io_bind (coordinator_New (srvZk lib) (conf_str c [''Coordinator'', ''Backend'']) (zk_conf_of ''Coordinator'' c)
                 (conf_str c [''Coordinator'', ''ZooKeeper'', ''ElectionDir''])) (\<lambda>coord.
             io_bind (api_New (srvApi lib) c) (\<lambda>a.
             io_bind (secrets_New (srvText lib) (srvVault lib) (conf_str c [''Secrets'', ''Backend'']) (vault_conf_of c)) (\<lambda>secr.
             io_ret (Some \<lparr>stConf = c, stStorage = stor, stCleaner = cleaner, stCoordinator = coord, stAuth = a,
               stSecrets = secr\<rparr>))))))) w0 = (Inr (Some st), w')"
    by (simp add: server_setup_def io_try_def src doc)
  then obtain w1 s cl w2 co w3 a w4 sec where
      run: "initLogging (srvLog lib) (log_conf_of c) w0 = (Inr (), w1)"
      "storage_New (srvZk lib) (conf_str c [''Storage'', ''Backend'']) (zk_conf_of ''Storage'' c)
         (conf_dur c [''Storage'', ''ZooKeeper'', ''TaskTTL'']) w1 = (Inr (s, cl), w2)"
      "coordinator_New (srvZk lib) (conf_str c [''Coordinator'', ''Backend'']) (zk_conf_of ''Coordinator'' c)
         (conf_str c [''Coordinator'', ''ZooKeeper'', ''ElectionDir'']) w2 = (Inr co, w3)"
      "api_New (srvApi lib) c w3 = (Inr a, w4)"
      "secrets_New (srvText lib) (srvVault lib) (conf_str c [''Secrets'', ''Backend'']) (vault_conf_of c) w4 = (Inr sec, w')"
    and st: "stStorage st = s" "stCoordinator st = co"
    by (auto simp: io_bind_Inr io_ret_run io_modify_run split: if_splits)
  from NewConf_ok(2) [OF doc(2)] have dir: "conf_str c [''Coordinator'', ''ZooKeeper'', ''ElectionDir''] = ''election/mesos_scheduler''"
    by (simp add: conf_str_def)
  have new: "NewStorage (srvZk lib) (zk_conf_of ''Storage'' c) (conf_dur c [''Storage'', ''ZooKeeper'', ''TaskTTL'']) w1 = (Inr (s, cl), w2)"
    "NewCoordinator (srvZk lib) (zk_conf_of ''Coordinator'' c) ''election/mesos_scheduler'' w2 = (Inr co, w3)"
    using run(2,3) dir by (auto simp: storage_New_def coordinator_New_def or_fatal_Inr io_panic_run split: if_splits)
  have same: "tree w1 = tree w" "tree w' = tree w3"
    using keepsD [OF conf_keeps src] keepsD [OF keeps_initLogging run(1)] keepsD [OF keeps_api_New run(4)]
      keepsD [OF keeps_secrets_New run(5)] by simp_all
  have co: "coordDir co = ''/'' @ confDir (zk_conf_of ''Coordinator'' c)" "electionDir co = ''election/mesos_scheduler''"
    using new(2) by (auto simp: NewCoordinator_def wrap_error_def Let_def io_bind_Inr io_try_eq io_ret_run io_fail_run)
  note s = NewStorage_ready [OF new(1)]
  have coord: "zookeeper (coordConn co) tree" "tree w3 (election_path co) \<noteq> None" "tree w2 q \<noteq> None \<Longrightarrow> tree w3 q \<noteq> None" for q
    using NewCoordinator_ready(1-3) [OF new(2), where s = "s\<lparr>dir := coordDir co\<rparr>"] co(1) by simp_all
  show "zk_store (stStorage st) tree" "zookeeper (coordConn (stCoordinator st)) tree"
    "electionDir (stCoordinator st) = ''election/mesos_scheduler''" "tree w' (election_path (stCoordinator st)) \<noteq> None"
    "tree w' (state_path (stStorage st)) \<noteq> None \<and> tree w' (jobs_path (stStorage st)) \<noteq> None
       \<and> tree w' (queue_path (stStorage st)) \<noteq> None"
    using s coord co(2) same(2) st by simp_all
  show "same_jobs (stStorage st) (tree w) (tree w')" if "coordDir (stCoordinator st) = dir (stStorage st)"
    using NewCoordinator_ready(4) [OF new(2), where s = s] that co(1) s(3) st same by (simp add: same_jobs_def)
qed

end

section \<open>The start of the controller\<close>

text \<open>
  \<open>Run\<close> up to the library's \<open>controller.Run\<close>: the description of the framework and the client that are
  handed to it, with the state its handlers share. The creation of the scheduler synchronises its caches,
  which may not return (\<open>None\<close>).
\<close>

definition mesos_Run ::
    "('w, 'p) tls_env \<Rightarrow> (duration \<Rightarrow> 'f) \<Rightarrow> mesos_conf \<Rightarrow> ('w, string) io \<Rightarrow> ('w, 'r, 's) sched_env \<Rightarrow> string list \<Rightarrow> 'w
     \<Rightarrow> ((fault + 'f framework_info \<times> 'p mesos_client) \<times> 'w controller) option" where
  "mesos_Run tls seconds c getFid env order w =
     (case io_bind (newFrameworkIDStore getFid) (\<lambda>fid. io_bind (newClient tls c) (\<lambda>cli. io_ret (fid, cli))) w of
        (Inl f, w') \<Rightarrow> Some (Inl f, new_controller [] w')
      | (Inr (fid, cli), w') \<Rightarrow>
          (case NewScheduler (env\<lparr>roles := mesosRoles c\<rparr>) order w' of
             None \<Rightarrow> None
           | Some (Inl f, sc) \<Rightarrow> Some (Inl f, (new_controller fid w')\<lparr>ctlSched := sc\<rparr>)
           | Some (Inr _, sc) \<Rightarrow> Some (Inr (newFrameworkInfo seconds c fid, cli), (new_controller fid w')\<lparr>ctlSched := sc\<rparr>)))"

text \<open>The handlers by the type of the event; the others only log.\<close>

datatype 'r mesos_event =
    Heartbeat
  | ErrorEvent string
  | Subscribed string master_address
  | Offers "'r offer list"
  | Update bool task_status
  | OtherEvent

definition handleEvent :: "('w, 'r) mesos_lib \<Rightarrow> mesos_conf \<Rightarrow> ('w, 'r, 's) sched_env \<Rightarrow> 'r mesos_event \<Rightarrow> ('w controller, unit) io" where
  "handleEvent lib c env e =
     (case e of
        Heartbeat \<Rightarrow> io_ret ()
      | ErrorEvent msg \<Rightarrow> io_ret ()
      | Subscribed fid info \<Rightarrow> subscribedHandler lib c fid info
      | Offers offers \<Rightarrow> on_sched (offersHandler lib env offers)
      | Update receiving status \<Rightarrow> updateHandler lib env receiving status
      | OtherEvent \<Rightarrow> io_ret ())"

lemma handleEvent_step:
  assumes "handleEvent lib c env e s = (q, s')"
  shows "(ctl_step lib c env)\<^sup>*\<^sup>* s s'"
proof (cases e)
  case (Subscribed fid info)
  with assms show ?thesis by (auto simp: handleEvent_def intro!: r_into_rtranclp ctl_subscribed)
next
  case (Offers offers)
  with assms show ?thesis by (auto simp: handleEvent_def intro!: r_into_rtranclp ctl_offers)
next
  case (Update receiving status)
  with assms show ?thesis by (auto simp: handleEvent_def intro!: r_into_rtranclp ctl_update)
qed (use assms in \<open>simp_all add: handleEvent_def io_ret_run\<close>)

lemma mesos_Run_step:
  assumes "mesos_Run tls seconds c getFid env order w = Some (q, s)"
  shows "\<exists>fid w'. (ctl_step lib c (env\<lparr>roles := mesosRoles c\<rparr>))\<^sup>*\<^sup>* (new_controller fid w') s"
proof -
  obtain r w' where start: "io_bind (newFrameworkIDStore getFid) (\<lambda>fid. io_bind (newClient tls c) (\<lambda>cli. io_ret (fid, cli))) w = (r, w')"
    by fastforce
  show ?thesis
  proof (cases r)
    case (Inl f)
    with assms start show ?thesis by (auto simp: mesos_Run_def)
  next
    case (Inr x)
    obtain fid cli where x: "x = (fid, cli)" by fastforce
    from assms start Inr x obtain p sc where "NewScheduler (env\<lparr>roles := mesosRoles c\<rparr>) order w' = Some (p, sc)"
      and s: "s = (new_controller fid w')\<lparr>ctlSched := sc\<rparr>"
      by (auto simp: mesos_Run_def split: option.splits sum.splits prod.splits)
    then have "sched_step (env\<lparr>roles := mesosRoles c\<rparr>) (ctlSched (new_controller fid w')) sc"
      by (auto simp: NewScheduler_def new_controller_def intro: step_sync)
    from r_into_rtranclp [where r = "ctl_step lib c (env\<lparr>roles := mesosRoles c\<rparr>)", OF ctl_scheduler [OF this]] s
    show ?thesis by blast
  qed
qed

text \<open>From the start on, whatever events come, the state the handlers share keeps its invariant.\<close>

lemma controller_runs_ok:
  assumes "mesos_Run tls seconds c getFid env order w = Some (q, s)"
    and "io_for events (handleEvent lib c (env\<lparr>roles := mesosRoles c\<rparr>)) s = (q', s')"
  shows "controller_ok s \<and> controller_ok s'"
proof -
  let ?step = "ctl_step lib c (env\<lparr>roles := mesosRoles c\<rparr>)"
  from mesos_Run_step [OF assms(1)] obtain fid w' where run: "?step\<^sup>*\<^sup>* (new_controller fid w') s" by blast
  have "?step\<^sup>*\<^sup>* s s'"
    using assms(2)
  proof (induction events arbitrary: s q')
    case (Cons e events)
    obtain q1 s1 where one: "handleEvent lib c (env\<lparr>roles := mesosRoles c\<rparr>) e s = (q1, s1)" by fastforce
    note step = handleEvent_step [OF one]
    show ?case
    proof (cases q1)
      case (Inl f)
      with Cons.prems one step show ?thesis by (simp add: io_bind_def)
    next
      case (Inr u)
      obtain q2 s2 where rest: "io_for events (handleEvent lib c (env\<lparr>roles := mesosRoles c\<rparr>)) s1 = (q2, s2)" by fastforce
      with Cons.prems one Inr have same: "s2 = s'" by (cases q2) (auto simp: io_bind_def io_ret_def)
      from Cons.IH [OF rest [unfolded same]] step show ?thesis by simp
    qed
  qed (simp add: io_ret_run)
  with run have "?step\<^sup>*\<^sup>* (new_controller fid w') s'" by (rule rtranclp_trans)
  from controller_ok_reachable [OF run] controller_ok_reachable [OF this] show ?thesis ..
qed

text \<open>The same for an event after any other steps: rounds, synchronisations, clean-ups, a lost connection.\<close>

lemma controller_reaches_ok:
  assumes "mesos_Run tls seconds c getFid env order w = Some (q, s)"
    and "(ctl_step lib c (env\<lparr>roles := mesosRoles c\<rparr>))\<^sup>*\<^sup>* s s1"
    and "handleEvent lib c (env\<lparr>roles := mesosRoles c\<rparr>) e s1 = (q', s')"
  shows "controller_ok s'"
proof -
  let ?steps = "(ctl_step lib c (env\<lparr>roles := mesosRoles c\<rparr>))\<^sup>*\<^sup>*"
  from mesos_Run_step [OF assms(1)] obtain fid w' where "?steps (new_controller fid w') s" by blast
  also note assms(2)
  also have "?steps s1 s'" using assms(3) by (rule handleEvent_step)
  finally show ?thesis by (rule controller_ok_reachable)
qed

section \<open>A reference server\<close>

definition ref_tls :: "(ref_tree, unit) tls_env" where
  "ref_tls = \<lparr>readFile = (\<lambda>_. io_fail (ErrMsg ''no such file'')), appendCertsFromPEM = (\<lambda>_. None)\<rparr>"

text \<open>Its only configuration file is \<open>config.json\<close>, which is empty but for its braces.\<close>

definition ref_server_lib :: "(ref_tree, unit) server_lib" where
  "ref_server_lib =
     \<lparr>srvReadConf = (\<lambda>p. if p = ''config.json'' then io_ret (JObj []) else io_fail (ErrMsg ''no such file'')),
      srvLog = \<lparr>setLevel = (\<lambda>_. io_ret ()), newRaven = (\<lambda>_. io_ret ()), logTLS = ref_tls, addSentryHook = (\<lambda>_ _. io_ret ()),
        logText = (\<lambda>_. [])\<rparr>,
      srvZk = ref_lib,
      srvApi = \<lparr>apiTls = ref_tls, setLdapTimeout = (\<lambda>_. io_ret ()), startServer = (\<lambda>_ _. io_ret ()), apiText = (\<lambda>_. [])\<rparr>,
      srvVault = \<lparr>parseScheme = (\<lambda>_. Inr ''https''), vaultTLS = ref_tls, logicalRead = (\<lambda>_. io_ret None),
        vaultNewClient = (\<lambda>_. io_ret ())\<rparr>,
      srvSleep = (\<lambda>_ w. w), srvText = (\<lambda>_. [])\<rparr>"

interpretation ref_world: server_world ref_server_lib map_of
proof (rule server_world.intro)
  show "zk_provider (srvZk ref_server_lib) map_of"
    using ref_provider.zk_provider_axioms by (simp add: ref_server_lib_def)
  show "server_world_axioms ref_server_lib map_of"
    by (rule server_world_axioms.intro) (auto simp: ref_server_lib_def ref_tls_def keeps_def io_ret_run io_fail_run)
qed

end
