(* ===== verification/ApiClient.thy ===== *)
theory ApiClient
  imports Api
begin

text \<open>
  The client of the HTTP API, \<^verbatim>\<open>command/apiclient/apiclient.go\<close>: one request per call, and the decoding of
  what comes back. Sending, and making a request of a method and a URL, belong to \<^verbatim>\<open>net/http\<close> and are
  parameters; the bytes of a body are of a type of their own, with its parser.
\<close>

section \<open>Requests\<close>

record 'b http_request =
  httpMethod :: string
  httpPath :: string
  httpHeaders :: "(string \<times> string) list"
  httpBasic :: "(string \<times> string) option"
  httpPayload :: "'b option"

record 'b http_response =
  httpStatus :: int
  httpBody :: "error + 'b"

record ('w, 'b) api_client =
  clientAuthReq :: "('b http_request \<Rightarrow> ('w, 'b http_request) io) option"
  clientNewRequest :: "string \<Rightarrow> string \<Rightarrow> 'b option \<Rightarrow> error + 'b http_request"
  clientDo :: "'b http_request \<Rightarrow> ('w, 'b http_response) io"
  parseJSON :: "'b \<Rightarrow> error + json"
  bodyText :: "'b \<Rightarrow> string"
  errorfText :: "string \<Rightarrow> string"
  clientText :: "error \<Rightarrow> string"

text \<open>\<open>fmt.Errorf(pre + "%s" + post, err)\<close> around a call.\<close>

definition wrapped :: "('w, 'b) api_client \<Rightarrow> string \<Rightarrow> string \<Rightarrow> ('w, 'a) io \<Rightarrow> ('w, 'a) io" where
  "wrapped c pre post m =
     io_try m (\<lambda>r. case r of Inl err \<Rightarrow> io_fail (ErrMsg (pre @ clientText c err @ post)) | Inr x \<Rightarrow> io_ret x)"

section \<open>Constructor\<close>

text \<open>\<open>New\<close> checks the address; \<open>env\<close> is the value of the variable \<open>RHYTHM_ADDR\<close>.\<close>

definition NewApiClient :: "(string \<Rightarrow> string + string) \<Rightarrow> string \<Rightarrow> string \<Rightarrow> error + string" where
  "NewApiClient schemeOf env ad =
     (let ad' = (if ad = [] \<and> env \<noteq> [] then env else ad) in
      case schemeOf ad' of
        Inl err \<Rightarrow> Inl (ErrMsg (''Failed parsing server address: '' @ err @ ''.''))
      | Inr scm \<Rightarrow>
          if scm \<noteq> ''http'' \<and> scm \<noteq> ''https''
          then Inl (ErrMsg (''Invalid server address scheme: '' @ scm @ ''.''))
          else Inr ad')"

section \<open>Sending\<close>

definition send :: "('w, 'b) api_client \<Rightarrow> bool \<Rightarrow> 'b http_request \<Rightarrow> ('w, 'b http_response) io" where
  "send c authenticated req =
     io_bind
       (case (authenticated, clientAuthReq c) of
          (True, Some auth) \<Rightarrow> wrapped c ''Authentication failed: '' ''.'' (auth req)
        | _ \<Rightarrow> io_ret req) (\<lambda>req'.
     wrapped c ''Error sending request: '' ''.'' (clientDo c req'))"

definition request :: "('w, 'b) api_client \<Rightarrow> bool \<Rightarrow> string \<Rightarrow> string \<Rightarrow> 'b option \<Rightarrow> ('w, 'b http_response) io" where
  "request c authenticated method path payload =
     io_bind (wrapped c ''Error creating request: '' ''.'' (io_of_sum (clientNewRequest c method path payload))) (\<lambda>req.
     send c authenticated req)"

definition readBody :: "('w, 'b) api_client \<Rightarrow> 'b http_response \<Rightarrow> ('w, 'b) io" where
  "readBody c r = wrapped c ''Error reading response: '' ''.'' (io_of_sum (httpBody r))"

text \<open>The list of errors a response carries; \<open>ErrMulti []\<close> is Go's nil \<open>*multierror.Error\<close> in a non-nil error.\<close>

definition errors_field :: "string \<Rightarrow> json \<Rightarrow> string list \<Rightarrow> error + string list" where
  "errors_field k v x = (if k = ''errors'' then dec_slice dec_string [] v x else Inr x)"

definition parseErrResp :: "('w, 'b) api_client \<Rightarrow> 'b \<Rightarrow> error" where
  "parseErrResp c b =
     (case (case parseJSON c b of Inl e \<Rightarrow> Inl e | Inr doc \<Rightarrow> dec_struct errors_field doc []) of
        Inl err \<Rightarrow> ErrMsg (''Error decoding response: '' @ clientText c err @ '' ('' @ bodyText c b @ '')'')
      | Inr errs \<Rightarrow> ErrMulti (map (errorfText c) errs))"

definition decoded :: "('w, 'b) api_client \<Rightarrow> string \<Rightarrow> (json \<Rightarrow> 'a \<Rightarrow> error + 'a) \<Rightarrow> 'a \<Rightarrow> 'b \<Rightarrow> ('w, 'a) io" where
  "decoded c msg d z b =
     wrapped c msg ''.'' (io_of_sum (case parseJSON c b of Inl e \<Rightarrow> Inl e | Inr doc \<Rightarrow> d doc z))"

section \<open>The calls\<close>

record health_info =
  healthLeader :: bool
  healthVersion :: string
  healthServerTime :: string

definition health_field :: "string \<Rightarrow> json \<Rightarrow> health_info \<Rightarrow> error + health_info" where
  "health_field k v h =
     (if k = ''leader'' then map_sum id (\<lambda>b. h\<lparr>healthLeader := b\<rparr>) (dec_bool v (healthLeader h))
      else if k = ''version'' then map_sum id (\<lambda>x. h\<lparr>healthVersion := x\<rparr>) (dec_string v (healthVersion h))
      else if k = ''servertime'' then map_sum id (\<lambda>x. h\<lparr>healthServerTime := x\<rparr>) (dec_string v (healthServerTime h))
      else Inr h)"

definition zero_health :: health_info where
  "zero_health = \<lparr>healthLeader = False, healthVersion = [], healthServerTime = []\<rparr>"

definition Health :: "('w, 'b) api_client \<Rightarrow> ('w, health_info) io" where
  "Health c =
     io_bind (request c False ''GET'' ''api/v1/health'' None) (\<lambda>r.
     io_bind (readBody c r) (\<lambda>b.
       if httpStatus r \<noteq> 200 then io_fail (ErrMsg (''Server error: '' @ show_int (httpStatus r) @ ''.''))
       else decoded c ''Error decoding server status: '' (dec_struct health_field) zero_health b))"

definition ReadTasks :: "('w, 'b) api_client \<Rightarrow> string \<Rightarrow> ('w, task option list) io" where
  "ReadTasks c fqid =
     io_bind (request c True ''GET'' (''api/v1/jobs/'' @ fqid @ ''/tasks'') None) (\<lambda>r.
     io_bind (readBody c r) (\<lambda>b.
       if httpStatus r = 404 then io_fail (ErrMsg ''Job not found.'')
       else if httpStatus r \<noteq> 200 then io_fail (parseErrResp c b)
       else decoded c ''Error decoding tasks: '' (dec_slice (dec_ptr dec_task zero_task) None) [] b))"

definition ReadJob :: "('w, 'b) api_client \<Rightarrow> string \<Rightarrow> ('w, job) io" where
  "ReadJob c fqid =
     (if count_list fqid (CHR ''/'') \<noteq> 2 then io_fail (ErrMsg ''Invalid job ID.'')
      else io_bind (request c True ''GET'' (''api/v1/jobs/'' @ fqid) None) (\<lambda>r.
        if httpStatus r = 404 then io_fail (ErrMsg ''Job not found.'')
        else io_bind (readBody c r) (\<lambda>b.
          if httpStatus r \<noteq> 200 then io_fail (parseErrResp c b)
          else decoded c ''Error decoding job: '' dec_job zero_job b)))"

text \<open>The calls that expect no content.\<close>

definition no_content :: "('w, 'b) api_client \<Rightarrow> 'b http_response \<Rightarrow> ('w, unit) io" where
  "no_content c r =
     io_bind (readBody c r) (\<lambda>b. if httpStatus r \<noteq> 204 then io_fail (parseErrResp c b) else io_ret ())"

definition client_DeleteJob :: "('w, 'b) api_client \<Rightarrow> string \<Rightarrow> ('w, unit) io" where
  "client_DeleteJob c fqid = io_bind (request c True ''DELETE'' (''api/v1/jobs/'' @ fqid) None) (no_content c)"

definition client_RunJob :: "('w, 'b) api_client \<Rightarrow> string \<Rightarrow> ('w, unit) io" where
  "client_RunJob c fqid = io_bind (request c True ''POST'' (''api/v1/jobs/'' @ fqid @ ''/run'') None) (no_content c)"

definition client_CreateJob :: "('w, 'b) api_client \<Rightarrow> 'b \<Rightarrow> ('w, unit) io" where
  "client_CreateJob c jobEncoded = io_bind (request c True ''POST'' ''api/v1/jobs'' (Some jobEncoded)) (no_content c)"

definition client_UpdateJob :: "('w, 'b) api_client \<Rightarrow> string \<Rightarrow> 'b \<Rightarrow> ('w, unit) io" where
  "client_UpdateJob c fqid changes =
     io_bind (request c True ''PUT'' (''api/v1/jobs/'' @ fqid) (Some changes)) (no_content c)"

definition FindJobs :: "('w, 'b) api_client \<Rightarrow> string \<Rightarrow> ('w, job option list) io" where
  "FindJobs c filt =
     (if count_list filt (CHR ''/'') > 1 then io_fail (ErrMsg ''Invalid filter.'')
      else io_bind (request c True ''GET'' (''api/v1/jobs/'' @ filt) None) (\<lambda>r.
        io_bind (readBody c r) (\<lambda>b.
          if httpStatus r \<noteq> 200 then io_fail (parseErrResp c b)
          else decoded c ''Error decoding jobs: '' (dec_slice (dec_ptr dec_job zero_job) None) [] b)))"

end
