(* ===== verification/Routes.thy ===== *)
theory Routes
  imports ApiClient
begin

text \<open>
  The routing table of \<^verbatim>\<open>api/api.go\<close> and a client that talks to the server it describes. How a template
  matches a path is the router's affair: a parameter, with its documented laws as the locale
  \<open>router\<close>, interpreted on a matcher of path segments.
\<close>

section \<open>The table\<close>

type_synonym ('q, 'w) api_handler = "('q, 'w) api_env \<Rightarrow> 'q request \<Rightarrow> ('w api, unit) io"

definition routes :: "(string \<times> string \<times> ('q, 'w) api_handler) list" where
  "routes =
     [(''/api/v1/jobs'', ''GET'', api_getJobs),
      (''/api/v1/jobs'', ''POST'', api_createJob),
      (''/api/v1/jobs/{group}'', ''GET'', api_getGroupJobs),
      (''/api/v1/jobs/{group}/{project}'', ''GET'', api_getProjectJobs),
      (''/api/v1/jobs/{group}/{project}/{id}'', ''GET'', api_getJob),
      (''/api/v1/jobs/{group}/{project}/{id}'', ''DELETE'', api_deleteJob),
      (''/api/v1/jobs/{group}/{project}/{id}'', ''PUT'', api_updateJob),
      (''/api/v1/jobs/{group}/{project}/{id}/tasks'', ''GET'', api_getTasks),
      (''/api/v1/jobs/{group}/{project}/{id}/run'', ''POST'', api_runJob)]"

type_synonym path_match = "string \<Rightarrow> string \<Rightarrow> (string \<times> string) list option"

text \<open>The first route whose template and method match; \<open>mux.Vars\<close> of a name the template lacks is empty.\<close>

definition path_var :: "(string \<times> string) list \<Rightarrow> string \<Rightarrow> string" where
  "path_var vars n = (case map_of vars n of None \<Rightarrow> [] | Some x \<Rightarrow> x)"

definition serve ::
    "path_match \<Rightarrow> (string \<Rightarrow> string \<Rightarrow> ('w api, unit) io) \<Rightarrow> ('q, 'w) api_env \<Rightarrow> 'q \<Rightarrow> string \<Rightarrow> string \<Rightarrow> error + json
     \<Rightarrow> ('w api, unit) io" where
  "serve match noRoute env auth method path bdy =
     (case find (\<lambda>(tmpl, meth, h). meth = method \<and> match tmpl path \<noteq> None) routes of
        None \<Rightarrow> noRoute method path
      | Some (tmpl, _, h) \<Rightarrow>
          (let vars = the (match tmpl path) in
           ServeHTTP env (h env \<lparr>reqAuth = auth, varGroup = path_var vars ''group'', varProject = path_var vars ''project'',
             varID = path_var vars ''id'', reqBody = bdy\<rparr>)))"

section \<open>What a router promises\<close>

text \<open>Templates of different lengths exclude each other; a variable stands for one segment.\<close>

locale router =
  fixes match :: path_match
  assumes one_segment: "match ''/api/v1/jobs/{group}'' path = Some vars \<Longrightarrow>
      \<exists>g. path = ''/api/v1/jobs/'' @ g \<and> seg g \<and> vars = [(''group'', g)]"
    and two_segments: "match ''/api/v1/jobs/{group}/{project}'' path = Some vars \<Longrightarrow>
      \<exists>g p. path = ''/api/v1/jobs/'' @ g @ ''/'' @ p \<and> seg g \<and> seg p \<and> vars = [(''group'', g), (''project'', p)]"
    and no_segment: "match ''/api/v1/jobs'' path = Some vars \<Longrightarrow> path = ''/api/v1/jobs''"
    and three_segments: "seg g \<Longrightarrow> seg p \<Longrightarrow> seg i \<Longrightarrow>
      match ''/api/v1/jobs/{group}/{project}/{id}'' (''/api/v1/jobs/'' @ g @ ''/'' @ p @ ''/'' @ i) =
        Some [(''group'', g), (''project'', p), (''id'', i)]"
begin

lemma seg_slash:
  assumes "seg g" "x @ ''/'' @ y = g"
  shows False
  using assms by (auto simp: seg_def)

lemma three_is_not_less:
  assumes "seg g" "seg p" "seg i"
  shows "match ''/api/v1/jobs'' (''/api/v1/jobs/'' @ g @ ''/'' @ p @ ''/'' @ i) = None"
    "match ''/api/v1/jobs/{group}'' (''/api/v1/jobs/'' @ g @ ''/'' @ p @ ''/'' @ i) = None"
    "match ''/api/v1/jobs/{group}/{project}'' (''/api/v1/jobs/'' @ g @ ''/'' @ p @ ''/'' @ i) = None"
proof -
  let ?path = "''/api/v1/jobs/'' @ g @ ''/'' @ p @ ''/'' @ i"
  show "match ''/api/v1/jobs'' ?path = None"
    using no_segment [of ?path] by (cases "match ''/api/v1/jobs'' ?path") auto
  show "match ''/api/v1/jobs/{group}'' ?path = None"
  proof (rule ccontr)
    assume "match ''/api/v1/jobs/{group}'' ?path \<noteq> None"
    then obtain g' where "g @ ''/'' @ p @ ''/'' @ i = g'" "seg g'" using one_segment [of ?path] by auto
    then show False by (auto simp: seg_def)
  qed
  show "match ''/api/v1/jobs/{group}/{project}'' ?path = None"
  proof (rule ccontr)
    assume "match ''/api/v1/jobs/{group}/{project}'' ?path \<noteq> None"
    then obtain g' p' where eq: "g @ ''/'' @ p @ ''/'' @ i = g' @ ''/'' @ p'" and segs: "seg g'" "seg p'"
      using two_segments [of ?path] by auto
    from eq have "g @ CHR ''/'' # (p @ ''/'' @ i) = g' @ CHR ''/'' # p'" by simp
    with append_inject_tail [OF assms(1) segs(1)] have "p' = p @ ''/'' @ i" by auto
    with segs(2) show False by (auto simp: seg_def)
  qed
qed

lemma serve_getJob:
  assumes "seg g" "seg p" "seg i"
  shows "serve match noRoute env auth ''GET'' (''/api/v1/jobs/'' @ g @ ''/'' @ p @ ''/'' @ i) bdy =
    ServeHTTP env (api_getJob env \<lparr>reqAuth = auth, varGroup = g, varProject = p, varID = i, reqBody = bdy\<rparr>)"
  using three_is_not_less [OF assms] three_segments [OF assms]
  by (simp add: serve_def routes_def path_var_def)

end

section \<open>A matcher of segments\<close>

definition is_var :: "string \<Rightarrow> bool" where
  "is_var t \<longleftrightarrow> t \<noteq> [] \<and> hd t = CHR ''{''"

fun match_segments :: "string list \<Rightarrow> string list \<Rightarrow> (string \<times> string) list option" where
  "match_segments [] [] = Some []"
| "match_segments (t # ts) (p # ps) =
     (if is_var t then (if p = [] then None else map_option (Cons (butlast (tl t), p)) (match_segments ts ps))
      else if t = p then match_segments ts ps else None)"
| "match_segments _ _ = None"

definition segment_match :: path_match where
  "segment_match tmpl path = match_segments (split_on (CHR ''/'') tmpl) (split_on (CHR ''/'') path)"

lemma path_of_segments: "split_on (CHR ''/'') path = [] # ps \<Longrightarrow> ps \<noteq> [] \<Longrightarrow> path = concat (map (Cons (CHR ''/'')) ps)"
  using concat_split_on [of "CHR ''/''" path] by simp

lemma template_segments:
  "split_on (CHR ''/'') ''/api/v1/jobs'' = [[], ''api'', ''v1'', ''jobs'']"
  "split_on (CHR ''/'') ''/api/v1/jobs/{group}'' = [[], ''api'', ''v1'', ''jobs'', ''{group}'']"
  "split_on (CHR ''/'') ''/api/v1/jobs/{group}/{project}'' = [[], ''api'', ''v1'', ''jobs'', ''{group}'', ''{project}'']"
  "split_on (CHR ''/'') ''/api/v1/jobs/{group}/{project}/{id}'' =
     [[], ''api'', ''v1'', ''jobs'', ''{group}'', ''{project}'', ''{id}'']"
  by code_simp+

lemma match_segments_Cons:
  "match_segments (t # ts) qs = Some vars \<longleftrightarrow> (\<exists>q qs' vars'. qs = q # qs' \<and> match_segments ts qs' = Some vars'
     \<and> (if is_var t then q \<noteq> [] \<and> vars = (butlast (tl t), q) # vars' else q = t \<and> vars = vars'))"
  by (cases qs) auto

lemma match_segments_Nil: "match_segments [] qs = Some vars \<longleftrightarrow> qs = [] \<and> vars = []"
  by (cases qs) auto

interpretation segments: router segment_match
proof unfold_locales
  have elem: "x \<in> set (split_on (CHR ''/'') path) \<Longrightarrow> x \<noteq> [] \<Longrightarrow> seg x" for x path
    using split_on_no_sep_elem [of x "CHR ''/''" path] by (simp add: seg_def)
  note match = segment_match_def template_segments match_segments_Cons match_segments_Nil is_var_def
  fix path vars
  show "path = ''/api/v1/jobs''" if "segment_match ''/api/v1/jobs'' path = Some vars"
    using that path_of_segments [of path] by (auto simp: match)
  show "\<exists>g. path = ''/api/v1/jobs/'' @ g \<and> seg g \<and> vars = [(''group'', g)]"
    if "segment_match ''/api/v1/jobs/{group}'' path = Some vars"
  proof -
    from that obtain g where "split_on (CHR ''/'') path = [[], ''api'', ''v1'', ''jobs'', g]" "g \<noteq> []" "vars = [(''group'', g)]"
      by (auto simp: match)
    with path_of_segments [of path] elem [of g path] show ?thesis by simp
  qed
  show "\<exists>g p. path = ''/api/v1/jobs/'' @ g @ ''/'' @ p \<and> seg g \<and> seg p \<and> vars = [(''group'', g), (''project'', p)]"
    if "segment_match ''/api/v1/jobs/{group}/{project}'' path = Some vars"
  proof -
    from that obtain g p where "split_on (CHR ''/'') path = [[], ''api'', ''v1'', ''jobs'', g, p]" "g \<noteq> []" "p \<noteq> []"
      "vars = [(''group'', g), (''project'', p)]"
      by (auto simp: match)
    with path_of_segments [of path] elem [of g path] elem [of p path] show ?thesis by simp
  qed
next
  fix g p i
  assume "seg g" "seg p" "seg i"
  then have "split_on (CHR ''/'') (''/api/v1/jobs/'' @ g @ ''/'' @ p @ ''/'' @ i) = [[], ''api'', ''v1'', ''jobs'', g, p, i]"
    using split_on_three [of "CHR ''/''" g p i] by (simp add: seg_def)
  with \<open>seg g\<close> \<open>seg p\<close> \<open>seg i\<close>
  show "segment_match ''/api/v1/jobs/{group}/{project}/{id}'' (''/api/v1/jobs/'' @ g @ ''/'' @ p @ ''/'' @ i) =
      Some [(''group'', g), (''project'', p), (''id'', i)]"
    by (simp add: segment_match_def template_segments is_var_def seg_def)
qed

section \<open>A client of this server\<close>

text \<open>
  The bytes of a body are the documents written into it. A handler that panics closes the connection,
  which the client sees as an error.
\<close>

definition over_http :: "response \<Rightarrow> json list http_response" where
  "over_http r = \<lparr>httpStatus = (case status r of None \<Rightarrow> 200 | Some code \<Rightarrow> code), httpBody = Inr (body r)\<rparr>"

definition parse_docs :: "json list \<Rightarrow> error + json" where
  "parse_docs docs = (case docs of [d] \<Rightarrow> Inr d | _ \<Rightarrow> Inl (ErrMsg ''unexpected end of JSON input''))"

definition loopback ::
    "path_match \<Rightarrow> (string \<Rightarrow> string \<Rightarrow> ('w api, unit) io) \<Rightarrow> ('q, 'w) api_env \<Rightarrow> 'q
     \<Rightarrow> json list http_request \<Rightarrow> ('w, json list http_response) io" where
  "loopback match noRoute env auth req w =
     (case serve match noRoute env auth (httpMethod req) (''/'' @ httpPath req)
             (case httpPayload req of None \<Rightarrow> Inl (ErrMsg ''EOF'') | Some docs \<Rightarrow> parse_docs docs)
             \<lparr>resp = fresh_response, apiWorld = w\<rparr> of
        (Inr _, s) \<Rightarrow> (Inr (over_http (resp s)), apiWorld s)
      | (Inl _, s) \<Rightarrow> (Inl (Fail (ErrMsg ''EOF'')), apiWorld s))"

definition loopback_client ::
    "path_match \<Rightarrow> (string \<Rightarrow> string \<Rightarrow> ('w api, unit) io) \<Rightarrow> ('q, 'w) api_env \<Rightarrow> 'q \<Rightarrow> ('w, json list) api_client" where
  "loopback_client match noRoute env auth =
     \<lparr>clientAuthReq = None,
      clientNewRequest = (\<lambda>method path payload.
        Inr \<lparr>httpMethod = method, httpPath = path, httpHeaders = [], httpBasic = None, httpPayload = payload\<rparr>),
      clientDo = loopback match noRoute env auth, parseJSON = parse_docs, bodyText = (\<lambda>_. []), errorfText = (\<lambda>x. x),
      clientText = ref_error_text\<rparr>"

lemma wrapped_ok [io_simps]: "wrapped c pre post m w = (Inr x, w') \<longleftrightarrow> m w = (Inr x, w')"
  by (auto simp: wrapped_def io_try_eq io_ret_run io_fail_run)

lemma ReadJob_ok:
  assumes "ReadJob c fqid w = (Inr j, w')"
  obtains r b d where "request c True ''GET'' (''api/v1/jobs/'' @ fqid) None w = (Inr r, w')"
    "httpStatus r = 200" "httpBody r = Inr b" "parseJSON c b = Inr d" "dec_job d zero_job = Inr j"
proof -
  from assms obtain r b where r: "request c True ''GET'' (''api/v1/jobs/'' @ fqid) None w = (Inr r, w')"
      "httpStatus r = 200" "httpBody r = Inr b"
    and d: "(case parseJSON c b of Inl e \<Rightarrow> Inl e | Inr doc \<Rightarrow> dec_job doc zero_job) = Inr j"
    by (auto simp: ReadJob_def readBody_def decoded_def io_bind_Inr io_simps split: if_splits)
  from d show thesis by (cases "parseJSON c b") (use r that in auto)
qed

lemma enc_job_roundtrip:
  assumes "enc_job j = Inr d" "wf_job_conf (JobConf j)" "wf_job_runtime (JobRuntime j)"
  shows "dec_job d zero_job = Inr j"
proof -
  from assms(1) obtain c r where d: "enc_job_conf (JobConf j) = JObj c" "enc_job_runtime (JobRuntime j) = Inr (JObj r)"
    "d = JObj (c @ r)"
    by (auto simp: enc_job_def split: json.splits sum.splits)
  from dec_enc_job_conf_in_job [OF assms(2)] d(1)
  have "dec_fields job_field c zero_job = Inr (zero_job\<lparr>JobConf := JobConf j\<rparr>)" by (simp add: dec_struct_JObj)
  moreover from dec_enc_job_runtime_in_job [OF d(2) assms(3), of "zero_job\<lparr>JobConf := JobConf j\<rparr>"]
  have "dec_fields job_field r (zero_job\<lparr>JobConf := JobConf j\<rparr>) = Inr j" by (simp add: dec_struct_JObj zero_job_def)
  ultimately show ?thesis by (simp add: d(3) dec_struct_JObj dec_fields_append)
qed

text \<open>What a client sees of a handler that returned, failed with a status of its own, or panicked.\<close>

lemma ServeHTTP_returned: "h s = (Inr (), s1) \<Longrightarrow> ServeHTTP env h s = (Inr (), s1)"
  by (simp add: ServeHTTP_def io_try_def io_ret_def)

lemma ServeHTTP_panicked: "h s = (Inl (Panic m), s1) \<Longrightarrow> ServeHTTP env h s = (Inl (Panic m), s1)"
  by (simp add: ServeHTTP_def io_try_def)

lemma ServeHTTP_rejected:
  assumes "h s = (Inl (Fail e), s1)" "status (resp s1) = Some code" "ServeHTTP env h s = (Inr (), s')"
  shows "httpStatus (over_http (resp s')) = code"
  using assms(3) unfolding ServeHTTP_def io_try_of_Fail [of h, OF assms(1)]
  using assms(2) by (auto simp: encode_def io_modify_def Let_def over_http_def send_status_def)

lemma send_status_fresh [simp]: "status (send_status code fresh_response) = Some code"
  by (simp add: send_status_def fresh_response_def)

lemma encode_200:
  assumes "encode v s = (q, s')" "resp s = fresh_response"
  shows "q = Inr () \<and> apiWorld s' = apiWorld s \<and> httpStatus (over_http (resp s')) = 200
    \<and> body (resp s') = (case v of Inl _ \<Rightarrow> [] | Inr d \<Rightarrow> [d])"
  using assms by (auto simp: encode_def io_modify_def Let_def over_http_def send_status_def fresh_response_def split: sum.splits)

lemma getJob_200:
  assumes "ServeHTTP env (api_getJob env rq) \<lparr>resp = fresh_response, apiWorld = w\<rparr> = (Inr (), s')"
    and "httpStatus (over_http (resp s')) = 200" "body (resp s') = [d]"
  shows "\<exists>lvl w1 j. authz env (reqAuth rq) (varGroup rq) (varProject rq) w = (Inr lvl, w1) \<and> ReadOnly \<le> lvl
    \<and> opGetJob (store env) (varGroup rq) (varProject rq) (varID rq) w1 = (Inr (Some j), apiWorld s') \<and> enc_job j = Inr d"
proof -
  let ?s = "\<lparr>resp = fresh_response, apiWorld = w\<rparr>"
  obtain q s1 where run: "api_getJob env rq ?s = (q, s1)" by fastforce
  note run' = run [unfolded api_getJob_def with_access_def]
  from run' show ?thesis
  proof (cases rule: or_500_cases)
    case (failed e w2)
    with ServeHTTP_rejected [of "api_getJob env rq" ?s e s1 500, OF _ _ assms(1)] run assms(2) show ?thesis by simp
  next
    case (panicked x w2)
    with ServeHTTP_panicked [of "api_getJob env rq" ?s x s1 env] run assms(1) show ?thesis by simp
  next
    case (returned lvl w1)
    show ?thesis
    proof (cases "lvl < ReadOnly")
      case True
      with returned(2) have "q = Inl (Fail errForbidden)" "status (resp s1) = Some 403" by (auto simp: reject_run)
      with ServeHTTP_rejected [of "api_getJob env rq" ?s errForbidden s1 403, OF _ _ assms(1)] run assms(2)
      show ?thesis by simp
    next
      case False
      with returned(2) have get: "or_500 (opGetJob (store env) (varGroup rq) (varProject rq) (varID rq))
          (\<lambda>job. case job of None \<Rightarrow> WriteHeader 404 | Some j \<Rightarrow> encode (enc_job j)) (?s\<lparr>apiWorld := w1\<rparr>) = (q, s1)"
        by simp
      from get show ?thesis
      proof (cases rule: or_500_cases)
        case (failed e w2)
        with ServeHTTP_rejected [of "api_getJob env rq" ?s e s1 500, OF _ _ assms(1)] run assms(2) show ?thesis by simp
      next
        case (panicked x w2)
        with ServeHTTP_panicked [of "api_getJob env rq" ?s x s1 env] run assms(1) show ?thesis by simp
      next
        case got: (returned oj w2)
        show ?thesis
        proof (cases oj)
          case None
          with got(2) have "q = Inr ()" "status (resp s1) = Some 404" by (auto simp: WriteHeader_run)
          with ServeHTTP_returned [of "api_getJob env rq" ?s s1 env] run assms(1,2) show ?thesis
            by (simp add: over_http_def)
        next
          case (Some j)
          with encode_200 [OF got(2) [unfolded Some option.case]] have "q = Inr ()" "apiWorld s1 = w2"
            "body (resp s1) = (case enc_job j of Inl _ \<Rightarrow> [] | Inr d \<Rightarrow> [d])" by auto
          with ServeHTTP_returned [of "api_getJob env rq" ?s s1 env] run assms(1,3) got(1) Some returned(1) False
          show ?thesis by (auto simp: not_less split: sum.splits)
        qed
      qed
    qed
  qed
qed

text \<open>What a client of this server reads is the stored job, and the caller was allowed to read it.\<close>

context zk_api
begin

lemma GetJob_stored:
  assumes "tidy s (tree w)" "seg (fqid_of g p i)" "GetJob s g p i w = (Inr (Some j), w')"
  shows "stored_confs s (tree w) (fqid_of g p i) = Some (JobConf j)"
    "stored_runtimes s (tree w) (fqid_of g p i) = Some (JobRuntime j)"
    "wf_job_conf (JobConf j)" "wf_job_runtime (JobRuntime j)"
proof -
  let ?fq = "fqid_of g p i"
  from GetJob_ok [OF assms(2,3)] show c: "stored_confs s (tree w) ?fq = Some (JobConf j)"
    and r: "stored_runtimes s (tree w) ?fq = Some (JobRuntime j)" by (auto split: option.splits)
  show "wf_job_conf (JobConf j)" using keyed [OF assms(1) c] by simp
  from r assms(2) have at: "runtime_at s (tree w) ?fq = Some (JobRuntime j)" by (simp add: stored_runtimes_def)
  then obtain n where "tree w (runtime_path s ?fq) = Some n" by (auto simp: runtime_at_def doc_at_def split: option.splits)
  from runtime_at_tidy [OF assms(1,2) this] at show "wf_job_runtime (JobRuntime j)" by auto
qed

lemma ReadJob_reads:
  assumes "router match" "seg g" "seg p" "seg i" "tidy s (tree w)"
    and "ReadJob (loopback_client match noRoute env auth) (g @ ''/'' @ p @ ''/'' @ i) w = (Inr j, w')"
  shows "granted env auth g p w ReadOnly \<and> stored_confs s (tree w) (fqid_of g p i) = Some (JobConf j)
    \<and> stored_runtimes s (tree w) (fqid_of g p i) = Some (JobRuntime j) \<and> tree w' = tree w"
proof -
  let ?rq = "\<lparr>reqAuth = auth, varGroup = g, varProject = p, varID = i, reqBody = Inl (ErrMsg ''EOF'')\<rparr>"
  from ReadJob_ok [OF assms(6)] obtain r b d where
      req: "request (loopback_client match noRoute env auth) True ''GET''
        (''api/v1/jobs/'' @ g @ ''/'' @ p @ ''/'' @ i) None w = (Inr r, w')"
    and r: "httpStatus r = 200" "httpBody r = Inr b" "parse_docs b = Inr d" "dec_job d zero_job = Inr j"
    by (auto simp: loopback_client_def)
  from r(3) have b: "b = [d]" by (auto simp: parse_docs_def split: list.splits)
  from req router.serve_getJob [OF assms(1-4), of noRoute env auth "Inl (ErrMsg ''EOF'')"] obtain s' where
      srv: "ServeHTTP env (api_getJob env ?rq) \<lparr>resp = fresh_response, apiWorld = w\<rparr> = (Inr (), s')"
    and w': "r = over_http (resp s')" "w' = apiWorld s'"
    by (auto simp: request_def send_def loopback_client_def io_bind_Inr io_simps loopback_def split: prod.splits sum.splits)
  from r w' b have st: "httpStatus (over_http (resp s')) = 200" "body (resp s') = [d]" by (simp_all add: over_http_def)
  from getJob_200 [OF srv st] obtain lvl w1 j0 where ok: "authz env auth g p w = (Inr lvl, w1)" "ReadOnly \<le> lvl"
    "GetJob s g p i w1 = (Inr (Some j0), w')" "enc_job j0 = Inr d"
    by (auto simp: api_storage zk_storage_ops_def w'(2))
  have w1: "tree w1 = tree w" by (rule keepsD [OF authz_tree ok(1)])
  have seg: "seg (fqid_of g p i)" using assms(2-4) by (auto simp: seg_def fqid_of_def)
  note stored = GetJob_stored [OF _ seg ok(3), unfolded w1, OF assms(5)]
  from enc_job_roundtrip [OF ok(4) stored(3,4)] r(4) have "j0 = j" by simp
  with stored ok keepsD [OF keeps_GetJob ok(3)] w1 show ?thesis by (auto simp: granted_def)
qed

end

end
