(* ===== verification/TokenHelper.thy ===== *)
theory TokenHelper
  imports GoLib
begin

text \<open>
  Where the command line keeps its GitLab token, \<^verbatim>\<open>command/tokenhelper/tokenhelper.go\<close>: a file in the home
  directory, or an external program. The file system and the running of programs are parameters; what
  the internal helper relies on of the former is the locale \<open>token_files\<close>.
\<close>

section \<open>The helpers\<close>

record 'w os_env =
  homedirDir :: "('w, string) io"
  openRead :: "string \<Rightarrow> ('w, string option) io"
  writeTruncated :: "string \<Rightarrow> string \<Rightarrow> ('w, unit) io"
  getenv :: "string \<Rightarrow> string"
  runProgram :: "string list \<Rightarrow> string \<Rightarrow> 'w \<Rightarrow> (string \<times> string \<times> string + string) \<times> 'w"
  quoted :: "string \<Rightarrow> string"

text \<open>
  \<open>runProgram\<close> takes the command line and the standard input; it returns the standard output, or the
  error's text, the standard error and all output. \<open>quoted\<close> is the verb \<open>%q\<close>.
\<close>

datatype token_helper = Internal | External string

definition getTokenPath :: "'w os_env \<Rightarrow> ('w, string) io" where
  "getTokenPath os = io_bind (homedirDir os) (\<lambda>homePath. io_ret (homePath @ ''/.rhythm-token''))"

definition internal_Read :: "'w os_env \<Rightarrow> ('w, string) io" where
  "internal_Read os =
     io_bind (getTokenPath os) (\<lambda>path.
     io_bind (openRead os path) (\<lambda>content.
       case content of None \<Rightarrow> io_ret [] | Some buf \<Rightarrow> io_ret (trim_space buf)))"

definition internal_Update :: "'w os_env \<Rightarrow> string \<Rightarrow> ('w, unit) io" where
  "internal_Update os token = io_bind (getTokenPath os) (\<lambda>path. writeTruncated os path token)"

text \<open>The shell runs the helper's path and the operation as one script.\<close>

definition external_cmd :: "'w os_env \<Rightarrow> string \<Rightarrow> string \<Rightarrow> string list" where
  "external_cmd os binaryPath op =
     [(if getenv os ''SHELL'' \<noteq> [] then getenv os ''SHELL'' else ''/bin/sh''), ''-c'', binaryPath @ '' '' @ op]"

definition external_Read :: "'w os_env \<Rightarrow> string \<Rightarrow> ('w, string) io" where
  "external_Read os binaryPath w =
     (case runProgram os (external_cmd os binaryPath ''read'') [] w of
        (Inl (err, stderr, _), w') \<Rightarrow> (Inl (Fail (ErrMsg (err @ '': '' @ quoted os stderr))), w')
      | (Inr stdout, w') \<Rightarrow> (Inr stdout, w'))"

definition external_Update :: "'w os_env \<Rightarrow> string \<Rightarrow> string \<Rightarrow> ('w, unit) io" where
  "external_Update os binaryPath token w =
     (case runProgram os (external_cmd os binaryPath ''update'') token w of
        (Inl (err, _, output), w') \<Rightarrow> (Inl (Fail (ErrMsg (err @ '': '' @ quoted os output))), w')
      | (Inr _, w') \<Rightarrow> (Inr (), w'))"

fun helper_Read :: "'w os_env \<Rightarrow> token_helper \<Rightarrow> ('w, string) io" where
  "helper_Read os Internal = internal_Read os"
| "helper_Read os (External binaryPath) = external_Read os binaryPath"

fun helper_Update :: "'w os_env \<Rightarrow> token_helper \<Rightarrow> string \<Rightarrow> ('w, unit) io" where
  "helper_Update os Internal token = internal_Update os token"
| "helper_Update os (External binaryPath) token =
     external_Update os binaryPath token"

section \<open>The file holds the token\<close>

locale token_files =
  fixes os :: "'w os_env" and files :: "'w \<Rightarrow> string \<Rightarrow> string option" and home :: string
  assumes home_dir: "homedirDir os w = (Inr d, w') \<Longrightarrow> d = home \<and> files w' = files w"
    and open_read: "openRead os path w = (Inr content, w') \<Longrightarrow> content = files w path \<and> files w' = files w"
    and written: "writeTruncated os path token w = (Inr (), w') \<Longrightarrow> files w' = (files w)(path \<mapsto> token)"
begin

lemma token_path: "getTokenPath os w = (Inr path, w') \<Longrightarrow> path = home @ ''/.rhythm-token'' \<and> files w' = files w"
  by (auto simp: getTokenPath_def io_bind_Inr io_ret_run dest: home_dir)

lemma update_read:
  assumes "internal_Update os token w = (Inr (), w1)" "internal_Read os w1 = (Inr token', w2)"
  shows "token' = trim_space token \<and> files w2 = (files w)(home @ ''/.rhythm-token'' \<mapsto> token)"
proof -
  from assms(1) obtain path w0 where path: "getTokenPath os w = (Inr path, w0)" "writeTruncated os path token w0 = (Inr (), w1)"
    by (auto simp: internal_Update_def io_bind_Inr)
  have w1: "files w1 = (files w)(home @ ''/.rhythm-token'' \<mapsto> token)"
    using written [OF path(2)] token_path [OF path(1)] by simp
  from assms(2) obtain path' w1' content where read: "getTokenPath os w1 = (Inr path', w1')"
    "openRead os path' w1' = (Inr content, w2)"
    "(case content of None \<Rightarrow> io_ret [] | Some buf \<Rightarrow> io_ret (trim_space buf)) w2 = (Inr token', w2)"
    by (auto simp: internal_Read_def io_bind_Inr io_ret_run split: option.splits)
  from open_read [OF read(2)] token_path [OF read(1)] w1 have "content = Some token" "files w2 = files w1" by auto
  with read(3) w1 show ?thesis by (simp add: io_ret_run)
qed

end

text \<open>A file system for experiments.\<close>

definition ref_os :: "(string \<rightharpoonup> string) os_env" where
  "ref_os =
     \<lparr>homedirDir = io_ret ''/home/u'', openRead = (\<lambda>path w. (Inr (w path), w)),
      writeTruncated = (\<lambda>path token w. (Inr (), w(path \<mapsto> token))), getenv = (\<lambda>_. []),
      runProgram = (\<lambda>_ _ w. (Inr [], w)), quoted = (\<lambda>s. s)\<rparr>"

interpretation ref_files: token_files ref_os "\<lambda>w. w" "''/home/u''"
  by unfold_locales (auto simp: ref_os_def io_ret_run)

end
