(* ===== verification/Terminal.thy ===== *)
theory Terminal
  imports ApiClient TokenHelper "HOL-Library.List_Lexorder" "HOL-Library.Char_ord"
begin

text \<open>
  What all commands share, \<^verbatim>\<open>command/base.go\<close>: output, the choice of a token helper, authentication of
  requests, and the printing of jobs and tasks. A command runs over the lines it has written, each with
  whether it went to the error output, and the rest of the world.
\<close>

section \<open>Output\<close>

record 'w terminal =
  lines :: "(bool \<times> string) list"
  termWorld :: 'w

abbreviation on_term :: "('w, 'a) io \<Rightarrow> ('w terminal, 'a) io" where
  "on_term \<equiv> io_on termWorld (\<lambda>w s. s\<lparr>termWorld := w\<rparr>)"

definition put :: "string list \<Rightarrow> ('w terminal, unit) io" where
  "put ls = io_modify (\<lambda>s. s\<lparr>lines := lines s @ map (Pair False) ls\<rparr>)"

definition Errorf :: "string \<Rightarrow> ('w terminal, unit) io" where
  "Errorf msg = io_modify (\<lambda>s. s\<lparr>lines := lines s @ [(True, msg)]\<rparr>)"

record ('w, 's) term_env =
  termOs :: "'w os_env"
  askSecret :: "string \<Rightarrow> ('w, string) io"
  isAbs :: "string \<Rightarrow> bool"
  green :: "string \<Rightarrow> string"
  yellow :: "string \<Rightarrow> string"
  red :: "string \<Rightarrow> string"
  unixDate :: "time \<Rightarrow> string"
  float1 :: "rat \<Rightarrow> string"
  termCron :: "'s cron_lib"
  termText :: "error \<Rightarrow> string"

section \<open>Authentication\<close>

definition getTokenHelper :: "('w, 's) term_env \<Rightarrow> error + token_helper" where
  "getTokenHelper env =
     (let path = getenv (termOs env) ''RHYTHM_TOKEN_HELPER'' in
      if path \<noteq> []
      then if \<not> isAbs env path then Inl (ErrMsg ''RHYTHM_TOKEN_HELPER must be set to an absolute path'')
           else Inr (External path)
      else Inr Internal)"

definition readGitLabToken :: "('w, 's) term_env \<Rightarrow> ('w, string) io" where
  "readGitLabToken env =
     io_bind (io_of_sum (getTokenHelper env)) (\<lambda>helper.
     io_try (helper_Read (termOs env) helper) (\<lambda>r.
       case r of
         Inl err \<Rightarrow> io_fail (ErrMsg (''Error getting token from token helper: '' @ termText env err))
       | Inr token \<Rightarrow> io_ret token))"

text \<open>The method given on the command line, or the environment's.\<close>

definition auth_method :: "('w, 's) term_env \<Rightarrow> string \<Rightarrow> string" where
  "auth_method env method =
     (if method = [] \<and> getenv (termOs env) ''RHYTHM_AUTH'' \<noteq> [] then getenv (termOs env) ''RHYTHM_AUTH'' else method)"

definition token_or_ask :: "('w, 's) term_env \<Rightarrow> ('w, string) io" where
  "token_or_ask env =
     io_bind (readGitLabToken env) (\<lambda>token. if token = [] then askSecret env ''GitLab token:'' else io_ret token)"

definition ask_login :: "('w, 's) term_env \<Rightarrow> ('w, string \<times> string) io" where
  "ask_login env =
     io_bind (askSecret env ''LDAP username:'') (\<lambda>username.
     io_bind (askSecret env ''LDAP password:'') (\<lambda>password. io_ret (username, password)))"

definition authReq :: "('w, 's) term_env \<Rightarrow> string \<Rightarrow> 'b http_request \<Rightarrow> ('w, 'b http_request) io" where
  "authReq env method0 req =
     (let method = auth_method env method0 in
      if method = [] then io_ret req
      else if method = ''gitlab''
      then io_bind (token_or_ask env) (\<lambda>token. io_ret (req\<lparr>httpHeaders := httpHeaders req @ [(''X-Token'', token)]\<rparr>))
      else if method = ''ldap''
      then io_bind (ask_login env) (\<lambda>login. io_ret (req\<lparr>httpBasic := Some login\<rparr>))
      else io_fail (ErrMsg (''Unknown authentication method: '' @ method)))"

section \<open>Printing\<close>

definition show_bool :: "bool \<Rightarrow> string" where
  "show_bool b = (if b then ''true'' else ''false'')"

definition coloredState :: "('w, 's) term_env \<Rightarrow> state \<Rightarrow> string" where
  "coloredState env st =
     (case st of
        IDLE \<Rightarrow> green env (state_string st)
      | RUNNING \<Rightarrow> yellow env (state_string st)
      | FAILED \<Rightarrow> red env (state_string st)
      | _ \<Rightarrow> state_string st)"

definition printHealth :: "health_info \<Rightarrow> ('w terminal, unit) io" where
  "printHealth h =
     put [''Leader: '' @ show_bool (healthLeader h), ''Version: '' @ healthVersion h, ''ServerTime: '' @ healthServerTime h]"

text \<open>A map, in the order of its keys.\<close>

definition map_lines :: "string \<Rightarrow> (string \<times> string) list \<Rightarrow> string list" where
  "map_lines title m =
     (if m = [] then []
      else (title @ '':'') # map (\<lambda>k. ''    '' @ k @ '': '' @ the (map_of m k)) (sort (map fst m)))"

definition printMap :: "string \<Rightarrow> (string \<times> string) list \<Rightarrow> ('w terminal, unit) io" where
  "printMap title m = put (map_lines title m)"

definition printContainer :: "job_container \<Rightarrow> ('w terminal, unit) io" where
  "printContainer c =
     (case containerType c of
        Mesos \<Rightarrow>
          io_bind (put [''Container: Mesos'']) (\<lambda>_.
            case containerMesos c of
              None \<Rightarrow> io_panic ''nil pointer dereference''
            | Some m \<Rightarrow> put [''    Image: '' @ mesosImage m])
      | Docker \<Rightarrow>
          io_bind (put [''Container: Docker'']) (\<lambda>_.
            case containerDocker c of
              None \<Rightarrow> io_panic ''nil pointer dereference''
            | Some d \<Rightarrow> put [''    Image: '' @ dockerImage d, ''    Force pull image: '' @ show_bool (forcePullImage d)])
      | OtherContainer _ \<Rightarrow> io_ret ())"

definition job_head :: "('w, 's) term_env \<Rightarrow> job \<Rightarrow> string list" where
  "job_head env job =
     (let r = JobRuntime job; c = JobConf job in
      [''State: '' @ coloredState env (State r)]
      @ (if State r = FAILED then [''    Retries: '' @ show_int (Retries r)] else [])
      @ [if LastStart r = 0 then ''    Last start: Not started yet'' else ''    Last start: '' @ unixDate env (LastStart r)]
      @ [''    Max retries: '' @ show_int (MaxRetries c)]
      @ (if scheduleType (Schedule c) \<noteq> Cron
         then [''Unknown schedule type: '' @ schedule_type_string (scheduleType (Schedule c))] else [])
      @ [''Scheduler: Cron'', ''    Rule: '' @ scheduleCron (Schedule c)])"

definition command_line :: "job_conf \<Rightarrow> string" where
  "command_line c =
     (if Shell c then ''Cmd: /bin/sh -c '' @ [CHR 0x27] @ Cmd c @ [CHR 0x27]
      else ''Cmd: '' @ Cmd c @ '' '' @ concat (case Arguments c of [] \<Rightarrow> [] | a # as \<Rightarrow> a # map (Cons CHR 0x20) as))"

definition job_tail :: "('w, 's) term_env \<Rightarrow> job_conf \<Rightarrow> string list" where
  "job_tail env c =
     [command_line c] @ map_lines ''Environment'' (Env c) @ map_lines ''Secrets'' (Secrets c)
     @ [''User: '' @ User c, ''Resources:'', ''    Memory: '' @ float1 env (Mem c) @ '' MB'',
        ''    Disk: '' @ float1 env (Disk c) @ '' MB'', ''    CPUs: '' @ float1 env (CPUs c)]
     @ map_lines ''Labels'' (Labels c)"

definition printJob :: "('w, 's) term_env \<Rightarrow> job \<Rightarrow> ('w terminal, unit) io" where
  "printJob env job =
     io_bind (put (job_head env job)) (\<lambda>_.
     io_bind (io_of_fault (NextRun (termCron env) job)) (\<lambda>nxt.
     io_bind (put [''    Next start: '' @ unixDate env nxt]) (\<lambda>_.
     io_bind (printContainer (Container (JobConf job))) (\<lambda>_.
     put (job_tail env (JobConf job))))))"

text \<open>One task; its end is printed from \<open>Start\<close>, as in the source.\<close>

definition task_lines :: "('w, 's) term_env \<Rightarrow> task \<Rightarrow> string list" where
  "task_lines env t =
     (let tab = [CHR 0x09]; opt = (\<lambda>title x. if x \<noteq> [] then [title @ x] else []) in
      [''Status: '' @ tab @ (if Source t = [] then green env ''SUCCESS'' else red env ''FAIL''),
       ''Start: '' @ tab @ tab @ unixDate env (taskStart t), ''End: '' @ tab @ tab @ unixDate env (taskStart t)]
      @ opt (''Task ID: '' @ tab) (TaskID t) @ opt (''Executor ID: '' @ tab) (ExecutorID t)
      @ opt (''Agent ID: '' @ tab) (AgentID t) @ opt (''Framework ID: '' @ tab) (FrameworkID t)
      @ opt (''Executor URL: '' @ tab) (ExecutorURL t) @ opt (''Message: '' @ tab) (Message t)
      @ opt (''Reason: '' @ tab) (Reason t) @ opt (''Source: '' @ tab) (Source t))"

fun printTasks_from :: "('w, 's) term_env \<Rightarrow> bool \<Rightarrow> task option list \<Rightarrow> ('w terminal, unit) io" where
  "printTasks_from env later [] = io_ret ()"
| "printTasks_from env later (t # ts) =
     io_bind (put (if later then [[]] else [])) (\<lambda>_.
       case t of
         None \<Rightarrow> io_panic ''nil pointer dereference''
       | Some t \<Rightarrow> io_bind (put (task_lines env t)) (\<lambda>_. printTasks_from env True ts))"

definition printTasks :: "('w, 's) term_env \<Rightarrow> task option list \<Rightarrow> ('w terminal, unit) io" where
  "printTasks env ts = printTasks_from env False ts"

lemma task_lines_end: "task_lines env (t\<lparr>taskEnd := e\<rparr>) = task_lines env t"
  by (simp add: task_lines_def)

lemma map_lines_perm:
  assumes "distinct (map fst m)" "set m = set m'" "distinct (map fst m')"
  shows "map_lines title m = map_lines title m'"
proof -
  have "map_of m = map_of m'" using assms by (simp add: map_of_inject_set)
  moreover have "sort (map fst m) = sort (map fst m')"
    using assms by (metis distinct_remdups_id list.set_map sorted_list_of_set_sort_remdups)
  moreover have "m = [] \<longleftrightarrow> m' = []" using assms(2) by (metis set_empty)
  ultimately show ?thesis by (simp add: map_lines_def)
qed

end
