(* ===== verification/Shell.thy ===== *)
theory Shell
  imports Terminal "HOL-Library.Sublist"
begin

text \<open>
  The interactive client, \<^verbatim>\<open>command/client.go\<close>: a shell that moves through groups and projects, completes
  names from a cached list of jobs, and calls the API. The prompt library is a parameter; the list that a
  goroutine of \<open>getJobs\<close> fetches arrives as a step of its own (\<open>jobs_fetched\<close>).
\<close>

section \<open>Where the user is\<close>

record place =
  inGroup :: string
  inProject :: string

definition relativeJobID :: "place \<Rightarrow> job_id \<Rightarrow> string" where
  "relativeJobID pl j =
     (if inProject pl \<noteq> [] then ID j
      else if inGroup pl \<noteq> [] then Project j @ ''/'' @ ID j
      else JobID_Path j)"

definition absoluteJobID :: "place \<Rightarrow> string \<Rightarrow> string" where
  "absoluteJobID pl i0 =
     (let i1 = (if inProject pl \<noteq> [] then inProject pl @ ''/'' @ i0 else i0) in
      if inGroup pl \<noteq> [] then inGroup pl @ ''/'' @ i1 else i1)"

text \<open>The error message of a \<open>cd\<close> that leads nowhere, if any, and the new place.\<close>

definition changeLevel :: "string \<Rightarrow> place \<Rightarrow> string option \<times> place" where
  "changeLevel to pl =
     (if to = ''..'' then
        (if inProject pl \<noteq> [] then (None, pl\<lparr>inProject := []\<rparr>)
         else if inGroup pl \<noteq> [] then (None, pl\<lparr>inGroup := []\<rparr>)
         else (Some ''Outermost level reached.'', pl))
      else if inGroup pl = [] then (None, pl\<lparr>inGroup := to\<rparr>)
      else if inProject pl = [] then (None, pl\<lparr>inProject := to\<rparr>)
      else (Some ''Innermost level reached.'', pl))"

definition prompt_prefix :: "place \<Rightarrow> string" where
  "prompt_prefix pl = inGroup pl @ (if inProject pl \<noteq> [] then ''/'' @ inProject pl else []) @ ''> ''"

definition visible :: "place \<Rightarrow> job_id \<Rightarrow> bool" where
  "visible pl j \<longleftrightarrow> (inGroup pl = [] \<or> inGroup pl = Group j) \<and> (inProject pl = [] \<or> inProject pl = Project j)"

section \<open>Completion\<close>

text \<open>The keys of a Go map used as a set, sorted.\<close>

definition sorted_names :: "string list \<Rightarrow> string list" where
  "sorted_names names = sort (remdups names)"

definition completeRead :: "place \<Rightarrow> job list \<Rightarrow> string \<Rightarrow> string list \<Rightarrow> string list" where
  "completeRead pl js word words =
     (if (length words = 2 \<and> word = []) \<or> length words > 2 then []
      else
        (let names = map (relativeJobID pl \<circ> JobID \<circ> JobConf) (filter (visible pl \<circ> JobID \<circ> JobConf) js) in
         sorted_names (filter (\<lambda>key. length words = 1 \<or> (length words > 1 \<and> sublist (words ! 1) key)) names)))"

definition completeCd :: "place \<Rightarrow> job list \<Rightarrow> string \<Rightarrow> string list \<Rightarrow> string list" where
  "completeCd pl js word words =
     (if (length words = 2 \<and> word = []) \<or> length words > 2 then []
      else
        (let ids = map (JobID \<circ> JobConf) js;
             below = (if inProject pl = []
                      then (if inGroup pl \<noteq> [] then map Project (filter (\<lambda>j. inGroup pl = Group j) ids) else map Group ids)
                      else []);
             names = below @ (if inGroup pl \<noteq> [] then [''..''] else []) in
         sorted_names (filter (\<lambda>key. length words = 1 \<or> (length words > 1 \<and> prefix (words ! 1) key)) names)))"

definition topLevelSuggestions :: "string list" where
  "topLevelSuggestions = [''cd'', ''delete'', ''health'', ''ls'', ''read'', ''run'', ''tasks'']"

text \<open>\<open>in.TextBeforeCursor()\<close> and \<open>in.GetWordBeforeCursor()\<close> are the prompt's; so is the filter by prefix.\<close>

definition completer ::
    "(string list \<Rightarrow> string \<Rightarrow> string list) \<Rightarrow> place \<Rightarrow> job list \<Rightarrow> string \<Rightarrow> string \<Rightarrow> string list" where
  "completer filterHasPrefix pl js before word =
     (let words = strings_Fields before in
      if words = [] then topLevelSuggestions
      else if length words = 1 \<and> word \<noteq> [] then filterHasPrefix topLevelSuggestions word
      else if words ! 0 = ''cd'' then completeCd pl js word words
      else if words ! 0 \<in> {''read'', ''run'', ''tasks'', ''delete''} then completeRead pl js word words
      else [])"

section \<open>Commands\<close>

record 'w shell =
  shPlace :: place
  shJobs :: "job option list"
  shTerm :: "'w terminal"

abbreviation on_terminal :: "('w terminal, 'a) io \<Rightarrow> ('w shell, 'a) io" where
  "on_terminal \<equiv> io_on shTerm (\<lambda>t s. s\<lparr>shTerm := t\<rparr>)"

abbreviation on_net :: "('w, 'a) io \<Rightarrow> ('w shell, 'a) io" where
  "on_net m \<equiv> on_terminal (on_term m)"

text \<open>\<open>x, err := call(); if err != nil { c.Errorf(...); return }\<close>\<close>

definition or_report ::
    "('w, 's) term_env \<Rightarrow> string \<Rightarrow> ('w, 'a) io \<Rightarrow> ('a \<Rightarrow> ('w shell, unit) io) \<Rightarrow> ('w shell, unit) io" where
  "or_report env pre call f =
     io_try (on_net call) (\<lambda>r.
       case r of Inl err \<Rightarrow> on_terminal (Errorf (pre @ termText env err)) | Inr x \<Rightarrow> f x)"

fun list_lines :: "('w, 's) term_env \<Rightarrow> place \<Rightarrow> job option list \<Rightarrow> ('w shell, unit) io" where
  "list_lines env pl [] = io_ret ()"
| "list_lines env pl (None # js) = io_panic ''nil pointer dereference''"
| "list_lines env pl (Some job # js) =
     (let j = JobID (JobConf job) in
      if (inProject pl \<noteq> [] \<and> inProject pl \<noteq> Project j) \<or> (inGroup pl \<noteq> [] \<and> inGroup pl \<noteq> Group j)
      then list_lines env pl js
      else io_bind (on_terminal (put [relativeJobID pl j @ '' '' @ coloredState env (State (JobRuntime job))])) (\<lambda>_.
        list_lines env pl js))"

definition listJobs :: "('w, 's) term_env \<Rightarrow> ('w, 'b) api_client \<Rightarrow> string \<Rightarrow> ('w shell, unit) io" where
  "listJobs env c filt =
     or_report env ''Error getting jobs: '' (FindJobs c filt) (\<lambda>js.
     io_bind io_get (\<lambda>s. list_lines env (shPlace s) js))"

definition sh_readJob :: "('w, 's) term_env \<Rightarrow> ('w, 'b) api_client \<Rightarrow> string \<Rightarrow> ('w shell, unit) io" where
  "sh_readJob env c i = or_report env [] (ReadJob c i) (\<lambda>job. on_terminal (printJob env job))"

text \<open>
  What \<open>getJobs\<close> does itself, besides starting the goroutine that fetches the next list: it sorts the
  cached list in place, a comparison of two jobs one of which is missing failing, and returns it.
\<close>

definition sh_getJobs :: "('w shell, job option list) io" where
  "sh_getJobs =
     io_bind io_get (\<lambda>s.
       if length (shJobs s) < 2 then io_ret (shJobs s)
       else
         (case those (shJobs s) of
            None \<Rightarrow> io_panic ''nil pointer dereference''
          | Some js \<Rightarrow>
              (let sorted = map Some (sort_key (JobID_Path \<circ> JobID \<circ> JobConf) js) in
               io_bind (io_modify (\<lambda>s. s\<lparr>shJobs := sorted\<rparr>)) (\<lambda>_. io_ret sorted))))"

definition sh_deleteJob :: "('w, 's) term_env \<Rightarrow> ('w, 'b) api_client \<Rightarrow> string \<Rightarrow> ('w shell, unit) io" where
  "sh_deleteJob env c i = or_report env [] (client_DeleteJob c i) (\<lambda>_. io_bind sh_getJobs (\<lambda>_. io_ret ()))"

definition sh_health :: "('w, 's) term_env \<Rightarrow> ('w, 'b) api_client \<Rightarrow> ('w shell, unit) io" where
  "sh_health env c = or_report env [] (Health c) (\<lambda>h. on_terminal (printHealth h))"

definition sh_run :: "('w, 's) term_env \<Rightarrow> ('w, 'b) api_client \<Rightarrow> string \<Rightarrow> ('w shell, unit) io" where
  "sh_run env c i =
     or_report env [] (client_RunJob c i) (\<lambda>_. on_terminal (put [''Job scheduled for immedidate run.'']))"

definition sh_readTasks :: "('w, 's) term_env \<Rightarrow> ('w, 'b) api_client \<Rightarrow> string \<Rightarrow> ('w shell, unit) io" where
  "sh_readTasks env c i = or_report env [] (ReadTasks c i) (\<lambda>ts. on_terminal (printTasks env ts))"

definition sh_cd :: "string \<Rightarrow> ('w shell, unit) io" where
  "sh_cd to =
     io_bind io_get (\<lambda>s.
       case changeLevel to (shPlace s) of
         (Some msg, _) \<Rightarrow> on_terminal (Errorf msg)
       | (None, pl) \<Rightarrow> io_modify (\<lambda>s. s\<lparr>shPlace := pl\<rparr>))"

text \<open>One line of input. \<open>os.Exit\<close> ends the process.\<close>

definition with_argument :: "string list \<Rightarrow> (string \<Rightarrow> ('w shell, unit) io) \<Rightarrow> ('w shell, unit) io" where
  "with_argument blocks f = (if length blocks = 1 then on_terminal (Errorf ''Argument is missing.'') else f (blocks ! 1))"

definition executor :: "('w, 's) term_env \<Rightarrow> ('w, 'b) api_client \<Rightarrow> string \<Rightarrow> ('w shell, unit) io" where
  "executor env c inp =
     (let blocks = strings_Fields inp; absolute = (\<lambda>f i. io_bind io_get (\<lambda>s. f (absoluteJobID (shPlace s) i))) in
      if blocks = [] then io_ret ()
      else if blocks ! 0 = ''exit'' then io_bind (on_terminal (put [''Bye!''])) (\<lambda>_. io_panic ''exit status 0'')
      else if blocks ! 0 = ''ls'' then listJobs env c (if length blocks > 1 then blocks ! 1 else [])
      else if blocks ! 0 = ''cd'' then with_argument blocks sh_cd
      else if blocks ! 0 = ''read'' then with_argument blocks (absolute (sh_readJob env c))
      else if blocks ! 0 = ''health'' then sh_health env c
      else if blocks ! 0 = ''run'' then with_argument blocks (absolute (sh_run env c))
      else if blocks ! 0 = ''tasks'' then with_argument blocks (absolute (sh_readTasks env c))
      else if blocks ! 0 = ''delete'' then with_argument blocks (absolute (sh_deleteJob env c))
      else on_terminal (Errorf ''Invalid command.''))"

text \<open>The list of jobs the goroutine of \<open>getJobs\<close> brings, if the request does not fail.\<close>

definition jobs_fetched :: "('w, 'b) api_client \<Rightarrow> ('w shell, unit) io" where
  "jobs_fetched c =
     io_try (on_net (FindJobs c [])) (\<lambda>r.
       case r of Inl _ \<Rightarrow> io_ret () | Inr js \<Rightarrow> io_modify (\<lambda>s. s\<lparr>shJobs := js\<rparr>))"

section \<open>Authentication\<close>

record credentials =
  credMethod :: string
  credToken :: string
  credUser :: string
  credPassword :: string

definition authInit :: "('w, 's) term_env \<Rightarrow> string \<Rightarrow> ('w, credentials) io" where
  "authInit env method0 =
     (let method = auth_method env method0;
          cred = \<lparr>credMethod = method, credToken = [], credUser = [], credPassword = []\<rparr> in
      if method = [] then io_ret cred
      else if method = ''gitlab'' then io_bind (token_or_ask env) (\<lambda>token. io_ret (cred\<lparr>credToken := token\<rparr>))
      else if method = ''ldap''
      then io_bind (ask_login env) (\<lambda>(u, p). io_ret (cred\<lparr>credUser := u, credPassword := p\<rparr>))
      else io_fail (ErrMsg (''Unknown authentication method: '' @ method)))"

definition shell_authReq :: "credentials \<Rightarrow> 'b http_request \<Rightarrow> ('w, 'b http_request) io" where
  "shell_authReq cred req =
     (if credMethod cred = [] then io_ret req
      else if credMethod cred = ''gitlab''
      then io_ret (req\<lparr>httpHeaders := httpHeaders req @ [(''X-Token'', credToken cred)]\<rparr>)
      else if credMethod cred = ''ldap'' then io_ret (req\<lparr>httpBasic := Some (credUser cred, credPassword cred)\<rparr>)
      else io_fail (ErrMsg (''Unknown authentication method: '' @ credMethod cred)))"

section \<open>Names and places\<close>

text \<open>The user is in a project only below a group; every \<open>cd\<close> keeps it so.\<close>

definition place_ok :: "place \<Rightarrow> bool" where
  "place_ok pl \<longleftrightarrow> (inProject pl \<noteq> [] \<longrightarrow> inGroup pl \<noteq> [])"

lemma changeLevel_ok: "place_ok pl \<Longrightarrow> changeLevel to pl = (msg, pl') \<Longrightarrow> place_ok pl'"
  by (auto simp: changeLevel_def place_ok_def split: if_splits)

lemma changeLevel_back:
  assumes "changeLevel to pl = (None, pl')" "to \<noteq> ''..''" "to \<noteq> []" "place_ok pl"
  shows "changeLevel ''..'' pl' = (None, pl)"
  using assms by (auto simp: changeLevel_def place_ok_def split: if_splits)

lemma absolute_relative:
  assumes "place_ok pl" "visible pl j"
  shows "absoluteJobID pl (relativeJobID pl j) = JobID_Path j"
  using assms by (auto simp: absoluteJobID_def relativeJobID_def visible_def place_ok_def JobID_Path_def)

text \<open>Completion offers the names of the jobs below the current place that contain what was typed, each once, in order.\<close>

lemma set_sorted_names: "set (sorted_names ns) = set ns"
  by (simp add: sorted_names_def)

lemma sorted_names_sorted: "sorted (sorted_names ns) \<and> distinct (sorted_names ns)"
  by (simp add: sorted_names_def)

lemma completeRead_offers:
  assumes "words = [cmd] \<and> word = [] \<or> words = [cmd, word] \<and> word \<noteq> []"
  shows "set (completeRead pl js word words) =
      {relativeJobID pl (JobID (JobConf j)) | j. j \<in> set js \<and> visible pl (JobID (JobConf j))
         \<and> sublist word (relativeJobID pl (JobID (JobConf j)))}"
  using assms by (auto simp: completeRead_def Let_def set_sorted_names)

lemma completeRead_is_an_id:
  assumes "key \<in> set (completeRead pl js word words)" "place_ok pl"
  shows "\<exists>j \<in> set js. absoluteJobID pl key = JobID_Path (JobID (JobConf j))"
proof -
  from assms(1) obtain j where "j \<in> set js" "visible pl (JobID (JobConf j))" "key = relativeJobID pl (JobID (JobConf j))"
    by (auto simp: completeRead_def Let_def set_sorted_names split: if_splits)
  with absolute_relative [OF assms(2)] show ?thesis by auto
qed

text \<open>A command on a name acts on the job of that name.\<close>

lemma fields_two:
  assumes "list_all (\<lambda>c. \<not> is_space c) a" "list_all (\<lambda>c. \<not> is_space c) b" "a \<noteq> []" "b \<noteq> []"
  shows "strings_Fields (a @ CHR 0x20 # b) = [a, b]"
  using assms fields_acc_word [of b "[]" "[]"]
  by (simp add: strings_Fields_def fields_acc_word is_space_def)

lemma executor_read:
  assumes "place_ok (shPlace s)" "visible (shPlace s) j" "list_all (\<lambda>c. \<not> is_space c) (relativeJobID (shPlace s) j)"
    and "ID j \<noteq> []"
  shows "executor env c (''read'' @ CHR 0x20 # relativeJobID (shPlace s) j) s = sh_readJob env c (JobID_Path j) s"
proof -
  have "relativeJobID (shPlace s) j \<noteq> []" using assms(4) by (auto simp: relativeJobID_def JobID_Path_def)
  with fields_two [OF _ assms(3), of "''read''"]
  have "strings_Fields (''read'' @ CHR 0x20 # relativeJobID (shPlace s) j) = [''read'', relativeJobID (shPlace s) j]"
    by (simp add: is_space_def)
  then show ?thesis
    using absolute_relative [OF assms(1,2)]
    by (simp add: executor_def Let_def with_argument_def io_bind_get del: append.simps)
qed

text \<open>No command but \<open>cd\<close> moves the user.\<close>

definition same_place :: "place \<Rightarrow> place \<Rightarrow> bool" where
  "same_place x y \<longleftrightarrow> (place_ok x \<longrightarrow> place_ok y)"

lemma preorder_same_place [simp]: "preorder_rel same_place"
  by (auto simp: preorder_rel_def reflp_def transp_def same_place_def)

lemma moves_on_terminal: "moves same_place shPlace (on_terminal m)"
  by (auto simp: moves_def io_on_def same_place_def split: prod.splits)

lemmas shell_intros = moves_intros moves_on_terminal

lemma moves_or_report: "(\<And>x. moves same_place shPlace (f x)) \<Longrightarrow> moves same_place shPlace (or_report env pre call f)"
  unfolding or_report_def by (auto intro!: shell_intros split: sum.split)

lemma moves_list_lines: "moves same_place shPlace (list_lines env pl js)"
  by (induction js rule: list_lines.induct [of _ env pl]) (auto intro!: shell_intros simp: Let_def)

lemma moves_sh_cd: "moves same_place shPlace (sh_cd to)"
proof (rule movesI)
  fix s r s'
  assume "sh_cd to s = (r, s')"
  then show "same_place (shPlace s) (shPlace s')"
    by (auto simp: sh_cd_def io_bind_get io_on_def io_modify_def same_place_def
        split: prod.splits option.splits dest: changeLevel_ok)
qed

lemma moves_sh_getJobs: "moves same_place shPlace sh_getJobs"
  by (rule movesI) (auto simp: sh_getJobs_def io_bind_get io_ret_run io_panic_run Let_def io_bind_modify same_place_def
      split: if_splits option.splits)

lemma executor_keeps_place: "moves same_place shPlace (executor env c inp)"
  unfolding executor_def with_argument_def listJobs_def sh_readJob_def sh_health_def sh_run_def sh_readTasks_def
    sh_deleteJob_def Let_def
  by (auto intro!: shell_intros moves_or_report moves_list_lines moves_sh_cd moves_sh_getJobs)

end
