(* ===== verification/Commands.thy ===== *)
theory Commands
  imports Shell
begin

text \<open>
  The commands of \<^verbatim>\<open>command/\<close>: each checks its arguments, makes a client of the API, calls it, and prints
  what it got; the result is the exit status. The flags are parsed in theory \<open>Flags\<close>: a command gets its
  options and its remaining arguments.
\<close>

section \<open>Calling the server\<close>

record ('w, 's, 'b) cmd_env =
  cmdTerm :: "('w, 's) term_env"
  cmdScheme :: "string \<Rightarrow> string + string"
  cmdClient :: "string \<Rightarrow> ('w, 'b) api_client"
  cmdReadFile :: "string \<Rightarrow> ('w, 'b) io"

definition fails :: "string \<Rightarrow> ('w terminal, int) io" where
  "fails msg = io_bind (Errorf msg) (\<lambda>_. io_ret 1)"

definition run_call ::
    "('w, 's, 'b) cmd_env \<Rightarrow> string \<Rightarrow> ('b http_request \<Rightarrow> ('w, 'b http_request) io) option
     \<Rightarrow> (('w, 'b) api_client \<Rightarrow> ('w, 'a) io) \<Rightarrow> ('a \<Rightarrow> ('w terminal, unit) io) \<Rightarrow> ('w terminal, int) io" where
  "run_call env ad auth call printIt =
     (case NewApiClient (cmdScheme env) (getenv (termOs (cmdTerm env)) ''RHYTHM_ADDR'') ad of
        Inl err \<Rightarrow> fails (''Error creating API client: '' @ termText (cmdTerm env) err)
      | Inr ad' \<Rightarrow>
          io_try (on_term (call ((cmdClient env ad')\<lparr>clientAuthReq := auth\<rparr>))) (\<lambda>r.
            case r of
              Inl err \<Rightarrow> fails (termText (cmdTerm env) err)
            | Inr x \<Rightarrow> io_bind (printIt x) (\<lambda>_. io_ret 0)))"

definition one_argument :: "string \<Rightarrow> string list \<Rightarrow> (string \<Rightarrow> ('w terminal, int) io) \<Rightarrow> ('w terminal, int) io" where
  "one_argument what args f =
     (if length args \<noteq> 1 then fails (''Exactly one argument is required ('' @ what @ '')'') else f (args ! 0))"

abbreviation the_fqid :: string where "the_fqid \<equiv> ''fully-qualified job ID''"

abbreviation auth_of :: "('w, 's, 'b) cmd_env \<Rightarrow> string \<Rightarrow> ('b http_request \<Rightarrow> ('w, 'b http_request) io) option" where
  "auth_of env auth \<equiv> Some (authReq (cmdTerm env) auth)"

section \<open>The commands\<close>

definition health_command :: "('w, 's, 'b) cmd_env \<Rightarrow> string \<Rightarrow> ('w terminal, int) io" where
  "health_command env ad = run_call env ad None Health printHealth"

definition read_job_command :: "('w, 's, 'b) cmd_env \<Rightarrow> string \<Rightarrow> string \<Rightarrow> string list \<Rightarrow> ('w terminal, int) io" where
  "read_job_command env ad auth args =
     one_argument the_fqid args (\<lambda>fqid.
       run_call env ad (auth_of env auth) (\<lambda>c. ReadJob c fqid) (printJob (cmdTerm env)))"

definition read_tasks_command :: "('w, 's, 'b) cmd_env \<Rightarrow> string \<Rightarrow> string \<Rightarrow> string list \<Rightarrow> ('w terminal, int) io" where
  "read_tasks_command env ad auth args =
     one_argument the_fqid args (\<lambda>fqid.
       run_call env ad (auth_of env auth) (\<lambda>c. ReadTasks c fqid) (printTasks (cmdTerm env)))"

definition delete_job_command :: "('w, 's, 'b) cmd_env \<Rightarrow> string \<Rightarrow> string \<Rightarrow> string list \<Rightarrow> ('w terminal, int) io" where
  "delete_job_command env ad auth args =
     one_argument the_fqid args (\<lambda>fqid.
       run_call env ad (auth_of env auth) (\<lambda>c. client_DeleteJob c fqid) io_ret)"

definition run_job_command :: "('w, 's, 'b) cmd_env \<Rightarrow> string \<Rightarrow> string \<Rightarrow> string list \<Rightarrow> ('w terminal, int) io" where
  "run_job_command env ad auth args =
     one_argument the_fqid args (\<lambda>fqid.
       run_call env ad (auth_of env auth) (\<lambda>c. client_RunJob c fqid) io_ret)"

text \<open>\<open>ioutil.ReadFile\<close>, its error printed after \<open>pre\<close>.\<close>

definition with_file :: "('w, 's, 'b) cmd_env \<Rightarrow> string \<Rightarrow> string \<Rightarrow> ('b \<Rightarrow> ('w terminal, int) io) \<Rightarrow> ('w terminal, int) io" where
  "with_file env pre path f =
     io_try (on_term (cmdReadFile env path)) (\<lambda>r.
       case r of Inl err \<Rightarrow> fails (pre @ termText (cmdTerm env) err) | Inr content \<Rightarrow> f content)"

definition create_job_command :: "('w, 's, 'b) cmd_env \<Rightarrow> string \<Rightarrow> string \<Rightarrow> string list \<Rightarrow> ('w terminal, int) io" where
  "create_job_command env ad auth args =
     one_argument ''path to job config'' args (\<lambda>path.
     with_file env [] path (\<lambda>jobEncoded.
       run_call env ad (auth_of env auth) (\<lambda>c. client_CreateJob c jobEncoded) io_ret))"

text \<open>The identifier of the job to change: an argument, or read from the configuration itself.\<close>

definition config_job_id :: "('w, 's, 'b) cmd_env \<Rightarrow> 'b \<Rightarrow> string + string" where
  "config_job_id env updates =
     (case (case parseJSON (cmdClient env []) updates of Inl e \<Rightarrow> Inl e | Inr doc \<Rightarrow> dec_struct job_id_field doc zero_job_id) of
        Inl err \<Rightarrow> Inl (''Error decoding config file: '' @ termText (cmdTerm env) err)
      | Inr jid \<Rightarrow>
          if Group jid = [] \<or> Project jid = [] \<or> ID jid = []
          then Inl ''If only path to job config is passed then config must contain group, project and ID.''
          else Inr (JobID_Path jid))"

definition update_job_command :: "('w, 's, 'b) cmd_env \<Rightarrow> string \<Rightarrow> string \<Rightarrow> string list \<Rightarrow> ('w terminal, int) io" where
  "update_job_command env ad auth args =
     (if length args \<noteq> 1 \<and> length args \<noteq> 2
      then fails (''One argument (path to job config) or two (fully-qualified job ID and path to job config) are required.'')
      else
        with_file env ''Errorf reading config file: '' (last args) (\<lambda>updates.
          case (if length args = 1 then config_job_id env updates else Inr (args ! 0)) of
            Inl msg \<Rightarrow> fails msg
          | Inr fqid \<Rightarrow> run_call env ad (auth_of env auth) (\<lambda>c. client_UpdateJob c fqid updates) io_ret))"

text \<open>The jobs found, by their path. A nil entry of the list is dereferenced before anything is printed.\<close>

definition found_lines :: "('w, 's) term_env \<Rightarrow> bool \<Rightarrow> job list \<Rightarrow> string list" where
  "found_lines env showState js =
     map (\<lambda>job. JobID_Path (JobID (JobConf job)) @ '' ''
            @ (if showState then coloredState env (State (JobRuntime job)) else []))
       (sort_key (JobID_Path \<circ> JobID \<circ> JobConf) js)"

definition find_jobs_command ::
    "('w, 's, 'b) cmd_env \<Rightarrow> string \<Rightarrow> string \<Rightarrow> bool \<Rightarrow> string list \<Rightarrow> ('w terminal, int) io" where
  "find_jobs_command env ad auth showState args =
     (if length args > 1 then fails ''Zero or one argument is allowed''
      else run_call env ad (auth_of env auth)
        (\<lambda>c. FindJobs c (if length args = 1 then args ! 0 else [])) (\<lambda>js.
          if None \<in> set js then io_panic ''nil pointer dereference''
          else put (found_lines (cmdTerm env) showState (map the js))))"

definition update_token_command :: "('w, 's, 'b) cmd_env \<Rightarrow> ('w terminal, int) io" where
  "update_token_command env =
     (let t = cmdTerm env in
      case getTokenHelper t of
        Inl err \<Rightarrow> fails (''Error getting token helper: '' @ termText t err)
      | Inr helper \<Rightarrow>
          io_try (on_term (askSecret t ''Token:'')) (\<lambda>r. case r of
            Inl err \<Rightarrow> fails (''Error reading token: '' @ termText t err)
          | Inr token \<Rightarrow>
              io_try (on_term (helper_Update (termOs t) helper token)) (\<lambda>r. case r of
                Inl err \<Rightarrow> fails (''Error updating token: '' @ termText t err)
              | Inr _ \<Rightarrow> io_ret 0)))"

text \<open>
  The start of the shell: the status of a failed start, or the client and the jobs the prompt begins
  with. The error of \<open>authInit\<close> is dropped; the method is set all the same.
\<close>

definition client_command ::
    "('w, 's, 'b) cmd_env \<Rightarrow> string \<Rightarrow> string \<Rightarrow> string \<Rightarrow> ('w terminal, int + ('w, 'b) api_client \<times> job option list) io" where
  "client_command env version ad method =
     (let t = cmdTerm env in
      io_bind (put [''rhythm '' @ version, ''Please use `exit` or `Ctrl-D` to exit.'']) (\<lambda>_.
      io_try (on_term (authInit t method)) (\<lambda>r.
        let cred = (case r of
              Inl _ \<Rightarrow> \<lparr>credMethod = auth_method t method, credToken = [], credUser = [], credPassword = []\<rparr>
            | Inr cred \<Rightarrow> cred) in
        case NewApiClient (cmdScheme env) (getenv (termOs t) ''RHYTHM_ADDR'') ad of
          Inl err \<Rightarrow> io_bind (fails (''Error creating API client: '' @ termText t err)) (\<lambda>n. io_ret (Inl n))
        | Inr ad' \<Rightarrow>
            let c = (cmdClient env ad')\<lparr>clientAuthReq := Some (shell_authReq cred)\<rparr> in
            io_try (on_term (FindJobs c [])) (\<lambda>r. case r of
              Inl err \<Rightarrow> io_bind (fails (''Error getting jobs: '' @ termText t err)) (\<lambda>n. io_ret (Inl n))
            | Inr js \<Rightarrow> io_ret (Inr (c, js))))))"

section \<open>Exit status\<close>

text \<open>A status of zero means the call was made and succeeded, and nothing went to the error output.\<close>

lemma fails_run: "fails msg s = (Inr n, s') \<longleftrightarrow> n = 1 \<and> s' = s\<lparr>lines := lines s @ [(True, msg)]\<rparr>"
  by (auto simp: fails_def Errorf_def io_bind_modify io_ret_run)

lemma run_call_status:
  assumes "run_call env ad auth call printIt s = (Inr n, s')"
  shows "n = 0 \<and> (\<exists>ad' x w s1. NewApiClient (cmdScheme env) (getenv (termOs (cmdTerm env)) ''RHYTHM_ADDR'') ad = Inr ad'
        \<and> call ((cmdClient env ad')\<lparr>clientAuthReq := auth\<rparr>) (termWorld s) = (Inr x, w)
        \<and> printIt x (s\<lparr>termWorld := w\<rparr>) = (Inr (), s'))
     \<or> n = 1 \<and> (\<exists>msg. lines s' = lines s @ [(True, msg)])"
  using assms
  by (auto simp: run_call_def io_try_eq io_on_eq fails_run io_bind_Inr io_ret_run split: sum.splits)

lemma run_call_silent:
  assumes "run_call env ad auth call io_ret s = (Inr n, s')"
  shows "n = 0 \<and> lines s' = lines s \<or> n = 1 \<and> (\<exists>msg. lines s' = lines s @ [(True, msg)])"
  using run_call_status [OF assms] by (auto simp: io_ret_run)

text \<open>The address is checked before anything is sent.\<close>

lemma run_call_scheme:
  assumes "cmdScheme env (if ad = [] \<and> getenv (termOs (cmdTerm env)) ''RHYTHM_ADDR'' \<noteq> []
      then getenv (termOs (cmdTerm env)) ''RHYTHM_ADDR'' else ad) = Inr scm" "scm \<noteq> ''http''" "scm \<noteq> ''https''"
  shows "\<exists>msg. run_call env ad auth call printIt s = (Inr 1, s\<lparr>lines := lines s @ [(True, msg)]\<rparr>)"
proof -
  let ?env = "getenv (termOs (cmdTerm env)) ''RHYTHM_ADDR''"
  have "\<exists>err. NewApiClient (cmdScheme env) ?env ad = Inl err" using assms by (simp add: NewApiClient_def Let_def)
  then obtain err where "NewApiClient (cmdScheme env) ?env ad = Inl err" ..
  then show ?thesis by (auto simp: run_call_def fails_def Errorf_def io_bind_modify io_ret_run)
qed

end
