(* ===== verification/Lifecycle.thy ===== *)
theory Lifecycle
  imports Api Scheduler OffersTuner
begin

text \<open>
  The components together: what the scheduler is bound to select, what becomes of the jobs it has
  selected, and the way of a job from a request to the API through storage and synchronisation to
  its launch.
\<close>

section \<open>Which jobs a round selects\<close>

text \<open>What is left of an offer after the selected jobs have taken their resources.\<close>

definition remaining :: "'r res_lib \<Rightarrow> 'r list \<Rightarrow> (job \<times> 'r list) list \<Rightarrow> 'r list" where
  "remaining lib res sel = foldl (\<lambda>r (_, taken). resSubtract lib r taken) res sel"

lemma remaining_simps [simp]:
  "remaining lib res [] = res"
  "remaining lib res ((j, taken) # sel) = remaining lib (resSubtract lib res taken) sel"
  by (simp_all add: remaining_def)

text \<open>A round in two parts: the second works on what the first has left.\<close>

abbreviation round_over :: "('w, 'r, 's) sched_env \<Rightarrow> string list \<Rightarrow> 'r list \<Rightarrow> ('w sched, (job \<times> 'r list) list) io" where
  "round_over env ks res \<equiv> find_jobs env ks res (resToUnreserved (resLib env) res)"

lemma find_jobs_append:
  "round_over env (ks1 @ ks2) res =
     io_bind (round_over env ks1 res) (\<lambda>sel1.
     io_bind (round_over env ks2 (remaining (resLib env) res sel1)) (\<lambda>sel2. io_ret (sel1 @ sel2)))"
proof (induction ks1 arbitrary: res)
  case (Cons k ks1)
  have split: "(case x of None \<Rightarrow> round_over env (ks1 @ ks2) res
      | Some (job, taken) \<Rightarrow> io_bind (round_over env (ks1 @ ks2) (resSubtract (resLib env) res taken))
          (\<lambda>rest. io_ret ((job, taken) # rest)))
    = io_bind (case x of None \<Rightarrow> round_over env ks1 res
        | Some (job, taken) \<Rightarrow> io_bind (round_over env ks1 (resSubtract (resLib env) res taken))
            (\<lambda>rest. io_ret ((job, taken) # rest)))
        (\<lambda>sel1. io_bind (round_over env ks2 (remaining (resLib env) res sel1)) (\<lambda>sel2. io_ret (sel1 @ sel2)))" for x
    by (cases x) (auto simp: Cons.IH io_bind_assoc io_bind_ret)
  show ?case
    unfolding append_Cons find_jobs.simps io_bind_assoc by (rule arg_cong [where f = "io_bind _"], rule ext) (rule split)
qed (simp add: io_bind_ret io_bind_ret_right)

lemma round_split:
  assumes "round_over env (ks1 @ k # ks2) res s = (Inr sel, s')"
  obtains sel1 s1 x s2 sel2 where "round_over env ks1 res s = (Inr sel1, s1)"
    "examine_job env k (remaining (resLib env) res sel1) (resToUnreserved (resLib env) (remaining (resLib env) res sel1)) s1
       = (Inr x, s2)"
    "sel = sel1 @ (case x of None \<Rightarrow> [] | Some y \<Rightarrow> [y]) @ sel2"
    "\<exists>res'. round_over env ks2 res' s2 = (Inr sel2, s')"
proof -
  let ?rem = "remaining (resLib env) res"
  from assms obtain sel1 s1 sel' where one: "round_over env ks1 res s = (Inr sel1, s1)"
    and two: "round_over env (k # ks2) (?rem sel1) s1 = (Inr sel', s')" and sel: "sel = sel1 @ sel'"
    by (auto simp: find_jobs_append io_bind_Inr io_ret_run)
  from two obtain x s2 where x: "examine_job env k (?rem sel1) (resToUnreserved (resLib env) (?rem sel1)) s1 = (Inr x, s2)"
    and rest: "(case x of None \<Rightarrow> round_over env ks2 (?rem sel1)
        | Some (job, taken) \<Rightarrow> io_bind (round_over env ks2 (resSubtract (resLib env) (?rem sel1) taken))
            (\<lambda>rest. io_ret ((job, taken) # rest))) s2 = (Inr sel', s')"
    by (auto simp: io_bind_Inr)
  show thesis
  proof (cases x)
    case None
    with that [OF one x, of sel'] sel rest show ?thesis by auto
  next
    case (Some y)
    obtain job taken where y: "y = (job, taken)" by fastforce
    from rest Some y obtain sel2 where
      "round_over env ks2 (resSubtract (resLib env) (?rem sel1) taken) s2 = (Inr sel2, s')" "sel' = y # sel2"
      by (auto simp: io_bind_Inr io_ret_run)
    with that [OF one x, of sel2] sel Some show ?thesis by auto
  qed
qed

text \<open>Whether the loop takes a job it looks at, in the state in which it looks.\<close>

definition selectable :: "('w, 'r, 's) sched_env \<Rightarrow> 'w sched \<Rightarrow> 'r list \<Rightarrow> job \<Rightarrow> bool" where
  "selectable env s res job \<longleftrightarrow>
     (case ttl_Exists (timeNow env) (bookedJobs s) (job_fqid job) (outer s) of (booked, w) \<Rightarrow>
        \<not> booked
        \<and> (job_fqid job \<in> queuedJobs s \<or> fst (IsRunnable (cronLib env) (timeNow env) job w) = Inr True)
        \<and> resContainsAll (resLib env) (resToUnreserved (resLib env) res) (Resources (resLib env) (JobConf job)))"

lemma examine_selects:
  assumes "examine_job env k res (resToUnreserved (resLib env) res) s = (Inr x, s')" "jobs s k = Some job"
  shows "if selectable env s res job then \<exists>taken. x = Some (count_retry job, taken) else x = None"
proof -
  obtain booked w1 where ex: "ttl_Exists (timeNow env) (bookedJobs s) (job_fqid job) (outer s) = (booked, w1)"
    by fastforce
  then have step: "booked_Exists env (job_fqid job) s = (Inr booked, s\<lparr>outer := w1\<rparr>)" by (simp add: booked_Exists_run)
  note run = assms(1) [unfolded examine_job_def io_bind_get assms(2) option.case io_bind_of_Inr [where m = "booked_Exists env (job_fqid job)", OF step]]
  show ?thesis
  proof (cases booked)
    case True
    with run ex show ?thesis by (simp add: selectable_def io_ret_run)
  next
    case False
    with run obtain runnable w2 where r: "IsRunnable (cronLib env) (timeNow env) job w1 = (Inr runnable, w2)"
      and rest: "(if \<not> runnable \<and> job_fqid job \<notin> queuedJobs s then io_ret None
          else if \<not> resContainsAll (resLib env) (resToUnreserved (resLib env) res) (Resources (resLib env) (JobConf job))
          then io_ret None else select_job env k job res) (s\<lparr>outer := w2\<rparr>) = (Inr x, s')"
      by (auto simp: io_bind_Inr outside_run)
    from rest select_job_run(3) [of env k job res "s\<lparr>outer := w2\<rparr>" "Inr x" s' x] r ex False show ?thesis
      by (auto simp: selectable_def io_ret_run split: if_splits)
  qed
qed

text \<open>Only a selection books.\<close>

lemma find_jobs_books_own:
  assumes "find_jobs env ks res ru s = (Inr sel, s')" "keyed_cache (jobs s)" "k \<notin> set ks"
  shows "ttlM (bookedJobs s') k = ttlM (bookedJobs s) k"
  using assms
proof (induction ks arbitrary: res ru s sel)
  case (Cons k' ks)
  from Cons.prems(1) show ?case
  proof (cases rule: find_jobs_cases)
    case (skip s1)
    with Cons.IH [OF skip(5)] Cons.prems show ?thesis by simp
  next
    case (take job w1 w2 b taken s1 rest)
    have "job_fqid job = k'" using take(1) Cons.prems(2) by (simp add: keyed_cache_def)
    moreover from this take(9) Cons.prems(2) have "keyed_cache (jobs s1)" by (simp add: keyed_cache_def)
    moreover from take(8) have "ttlM (bookedJobs s1) k = ttlM (bookedJobs s) k" if "job_fqid job \<noteq> k"
      using that by (auto simp: ttl_Set_def split: prod.splits) (metis fun_upd_other ttl_set.select_convs(1) ttl_set.update_convs(1) ttl_set.surjective)
    ultimately show ?thesis using Cons.IH [OF take(11)] Cons.prems(3) by auto
  qed
qed (simp add: io_ret_run)

lemma round_selects:
  assumes "round_over env (ks1 @ k # ks2) res s = (Inr sel, s')" "distinct (ks1 @ k # ks2)" "keyed_cache (jobs s)"
    and "jobs s k = Some job"
  obtains sel1 s1 sel2 where "round_over env ks1 res s = (Inr sel1, s1)" "sel = sel1 @ sel2"
    "queuedJobs s1 = queuedJobs s" "ttlM (bookedJobs s1) k = ttlM (bookedJobs s) k"
    "k \<in> (job_fqid \<circ> fst) ` set sel \<longleftrightarrow> selectable env s1 (remaining (resLib env) res sel1) job"
proof -
  from round_split [OF assms(1)] obtain sel1 s1 x s2 sel2 where one: "round_over env ks1 res s = (Inr sel1, s1)"
    and x: "examine_job env k (remaining (resLib env) res sel1)
        (resToUnreserved (resLib env) (remaining (resLib env) res sel1)) s1 = (Inr x, s2)"
    and sel: "sel = sel1 @ (case x of None \<Rightarrow> [] | Some y \<Rightarrow> [y]) @ sel2"
    and two: "\<exists>res'. round_over env ks2 res' s2 = (Inr sel2, s')" .
  from assms(2) have k: "k \<notin> set ks1" "k \<notin> set ks2" "distinct ks1" "distinct ks2" by auto
  note frame = find_jobs_frame [OF one assms(3)]
  have job: "jobs s1 k = Some job" using frame(3) [OF k(1)] assms(4) by simp
  have keyed: "keyed_cache (jobs s2)" using movesD [OF keyed_examine_job x] frame(1) by blast
  have fq: "job_fqid job = k" using assms(3,4) by (simp add: keyed_cache_def)
  from two obtain res' where "round_over env ks2 res' s2 = (Inr sel2, s')" ..
  from find_jobs_selects(2) [OF this k(4) keyed] find_jobs_selects(2) [OF one k(3) assms(3)] k(1,2)
  have "k \<notin> (job_fqid \<circ> fst) ` set sel1" "k \<notin> (job_fqid \<circ> fst) ` set sel2" by blast+
  moreover from examine_selects [OF x job] fq
  have "k \<in> (job_fqid \<circ> fst) ` set (case x of None \<Rightarrow> [] | Some y \<Rightarrow> [y])
      \<longleftrightarrow> selectable env s1 (remaining (resLib env) res sel1) job"
    by (auto split: if_splits)
  ultimately have "k \<in> (job_fqid \<circ> fst) ` set sel \<longleftrightarrow> selectable env s1 (remaining (resLib env) res sel1) job"
    by (auto simp: sel)
  with that [OF one sel frame(2) find_jobs_books_own [OF one assms(3) k(1)]] show thesis .
qed

section \<open>What becomes of the selected jobs\<close>

lemma launches:
  assumes "io_for pairs (launch_job env agent) s = (Inr ts, s')" "distinct (map (job_fqid \<circ> fst) pairs)"
  shows "(j, rs) \<in> set pairs \<Longrightarrow> \<exists>job' task. task \<in> set ts \<and> launched agent rs j job' task
      \<and> jobs s' (job_fqid j) = Some job'"
    and "k \<notin> (job_fqid \<circ> fst) ` set pairs \<Longrightarrow> jobs s' k = jobs s k"
    and "queuedJobs s' = queuedJobs s - (job_fqid \<circ> fst) ` set pairs"
proof -
  have "(\<forall>(j, rs) \<in> set pairs. \<exists>job' task. task \<in> set ts \<and> launched agent rs j job' task \<and> jobs s' (job_fqid j) = Some job')
      \<and> (\<forall>k. k \<notin> (job_fqid \<circ> fst) ` set pairs \<longrightarrow> jobs s' k = jobs s k)
      \<and> queuedJobs s' = queuedJobs s - (job_fqid \<circ> fst) ` set pairs"
    using assms
  proof (induction pairs arbitrary: s ts)
    case (Cons p pairs)
    obtain j rs where p: "p = (j, rs)" by fastforce
    from Cons.prems(1) p obtain task s1 ts' where one: "launch_job env agent (j, rs) s = (Inr task, s1)"
      and rest: "io_for pairs (launch_job env agent) s1 = (Inr ts', s')" and ts: "ts = task # ts'"
      by (auto simp: io_bind_Inr io_ret_run)
    from launch_job_run [OF one] obtain job' where job': "launched agent rs j job' task"
      "jobs s1 = (jobs s)(job_fqid j \<mapsto> job')" "queuedJobs s1 = queuedJobs s - {job_fqid j}" by metis
    have j: "job_fqid j \<notin> (job_fqid \<circ> fst) ` set pairs" "distinct (map (job_fqid \<circ> fst) pairs)"
      using Cons.prems(2) p by (auto simp: comp_def)
    note IH = Cons.IH [OF rest j(2)]
    from IH j(1) job'(2) have "jobs s' (job_fqid j) = Some job'" by simp
    have all: "\<exists>job' task. task \<in> set ts \<and> launched agent b a job' task \<and> jobs s' (job_fqid a) = Some job'"
      if "(a, b) \<in> set (p # pairs)" for a b
    proof (cases "(a, b) = p")
      case True
      with \<open>jobs s' (job_fqid j) = Some job'\<close> job'(1) ts p show ?thesis by auto
    next
      case False
      with that IH have "\<exists>job' task. task \<in> set ts' \<and> launched agent b a job' task \<and> jobs s' (job_fqid a) = Some job'"
        by auto
      with ts show ?thesis by auto
    qed
    then have "\<forall>(j, rs) \<in> set (p # pairs). \<exists>job' task. task \<in> set ts \<and> launched agent rs j job' task
        \<and> jobs s' (job_fqid j) = Some job'" by blast
    moreover have "\<forall>k. k \<notin> (job_fqid \<circ> fst) ` set (p # pairs) \<longrightarrow> jobs s' k = jobs s k"
      "queuedJobs s' = queuedJobs s - (job_fqid \<circ> fst) ` set (p # pairs)"
      using IH job'(2,3) p by auto
    ultimately show ?case by blast
  qed (simp add: io_ret_run)
  then show "(j, rs) \<in> set pairs \<Longrightarrow> \<exists>job' task. task \<in> set ts \<and> launched agent rs j job' task
      \<and> jobs s' (job_fqid j) = Some job'"
    "k \<notin> (job_fqid \<circ> fst) ` set pairs \<Longrightarrow> jobs s' k = jobs s k"
    "queuedJobs s' = queuedJobs s - (job_fqid \<circ> fst) ` set pairs" by blast+
qed

lemma offer_launches:
  assumes "FindTasksForOffer env order offered agent s = (Inr tasks, s')" "distinct order" "keyed_cache (jobs s)"
  obtains sel s1 where "round_over env order (resUnallocate (resLib env) offered) s = (Inr sel, s1)"
    "\<And>j rs. (j, rs) \<in> set sel \<Longrightarrow> \<exists>job' task. launched agent rs j job' task \<and> jobs s' (job_fqid j) = Some job'
       \<and> (\<forall>t. task = Some t \<longrightarrow> t \<in> set tasks)"
    "queuedJobs s' = queuedJobs s - (job_fqid \<circ> fst) ` set sel"
proof -
  from assms(1) obtain sel s1 ts where sel: "round_over env order (resUnallocate (resLib env) offered) s = (Inr sel, s1)"
    and run: "io_for sel (launch_job env agent) s1 = (Inr ts, s')" and tasks: "tasks = List.map_filter (\<lambda>t. t) ts"
    by (auto simp: FindTasksForOffer_def findJobsForResources_def buildTasksForOffer_def Let_def io_bind_Inr io_ret_run)
  note l = launches [OF run find_jobs_selects(1) [OF sel assms(2,3)]]
  have "t \<in> set tasks" if "Some t \<in> set ts" for t using that by (force simp: tasks List.map_filter_def)
  with l(1) l(3) find_jobs_frame(2) [OF sel assms(3)] show thesis by (intro that [OF sel]) metis+
qed

section \<open>The caches after a synchronisation\<close>

lemma sync_caches_returns:
  assumes "opGetJobs (storage env) (outer s) = (Inr js, w1)" "opGetQueuedJobsIDs (storage env) w1 = (Inr jids, w2)"
  shows "sync_caches env order s =
    Some (Inr (), s\<lparr>outer := w2, jobs := sync_jobs js order (jobs s), queuedJobs := set (map JobID_String jids)\<rparr>)"
proof -
  let ?s1 = "s\<lparr>outer := w1, jobs := sync_jobs js order (jobs s)\<rparr>"
  have "outside (opGetQueuedJobsIDs (storage env)) ?s1 = (Inr jids, ?s1\<lparr>outer := w2\<rparr>)" using assms(2) by (simp add: io_on_eq)
  from retry_complete [where m = "outside (opGetQueuedJobsIDs (storage env))"
      and sleep = "\<lambda>s. s\<lparr>outer := sleepFor env second (outer s)\<rparr>", OF attempts_first this] syncJobsCache_returns [OF attempts_first assms(1), of order]
  show ?thesis by (simp add: sync_caches_def syncQueuedJobsCache_def)
qed

context job_store
begin

abbreviation (input) contents :: "'w \<Rightarrow> bool \<times> (string \<Rightarrow> job_conf option) \<times> (string \<Rightarrow> job_runtime option) \<times> string set" where
  "contents w \<equiv> (inv w, confs w, runtimes w, queue w)"

lemma attempts_same:
  assumes "attempts (outside m) (\<lambda>s. s\<lparr>outer := f (outer s)\<rparr>) s s1" "keeps contents m" "\<And>w. contents (f w) = contents w"
  shows "contents (outer s1) = contents (outer s)"
proof (rule attempts_keeps [OF assms(1)])
  show "keeps (\<lambda>s. contents (outer s)) (outside m)" using assms(2) by (auto intro!: keeps_on_inner)
qed (simp add: assms(3))

text \<open>While nobody writes, the caches become what is stored, but for the runtimes of the jobs already known.\<close>

lemma synced:
  assumes "sync_caches senv order sc = Some (Inr (), sc')" "storage senv = stor"
    and sleeps: "\<And>d w. contents (sleepFor senv d w) = contents w" and "keyed_cache (jobs sc)" "inv (outer sc)"
    and "dom (jobs sc) \<union> dom (confs (outer sc)) \<subseteq> set order" "\<forall>fq \<in> queue (outer sc). \<exists>j. ParseJobID fq = Inr j"
  shows "queuedJobs sc' = queue (outer sc)" "bookedJobs sc' = bookedJobs sc" "keyed_cache (jobs sc')"
    "contents (outer sc') = contents (outer sc)"
    "jobs sc' k =
       (case (confs (outer sc) k, runtimes (outer sc) k) of
          (Some c, Some r) \<Rightarrow>
            Some (case jobs sc k of None \<Rightarrow> \<lparr>JobConf = c, JobRuntime = r\<rparr> | Some old \<Rightarrow> old\<lparr>JobConf := c\<rparr>)
        | _ \<Rightarrow> None)"
proof -
  from assms(1) obtain sc1 where one: "syncJobsCache senv order sc = Some (Inr (), sc1)"
    and two: "syncQueuedJobsCache senv sc1 = Some (Inr (), sc')"
    by (auto simp: sync_caches_def split: option.splits sum.splits prod.splits)
  from syncJobsCache_run [OF one] obtain sa js where a:
    "attempts (outside (opGetJobs stor)) (\<lambda>s. s\<lparr>outer := sleepFor senv second (outer s)\<rparr>) sc sa"
    "opGetJobs stor (outer sa) = (Inr js, outer sc1)" "bookedJobs sc1 = bookedJobs sc"
    unfolding assms(2) by blast
  have same: "contents (outer sa) = contents (outer sc)" by (rule attempts_same [OF a(1) reads(1) sleeps])
  with keepsD [OF reads(1) a(2)] have same1: "contents (outer sc1) = contents (outer sc)" by simp
  from two obtain jids sb where r: "retry (outside (opGetQueuedJobsIDs stor))
      (\<lambda>s. s\<lparr>outer := sleepFor senv second (outer s)\<rparr>) sc1 = Some (Inr jids, sb)"
    and sc': "sc' = sb\<lparr>queuedJobs := set (map JobID_String jids)\<rparr>"
    by (auto simp: syncQueuedJobsCache_def assms(2) split: option.splits sum.splits prod.splits)
  from retry_sound [OF r] obtain sb' where b:
    "attempts (outside (opGetQueuedJobsIDs stor)) (\<lambda>s. s\<lparr>outer := sleepFor senv second (outer s)\<rparr>) sc1 sb'"
    "opGetQueuedJobsIDs stor (outer sb') = (Inr jids, outer sb)" by (auto simp: outside_run)
  have same2: "contents (outer sb') = contents (outer sc)" using attempts_same [OF b(1) reads(4) sleeps] same1 by simp
  with keepsD [OF reads(4) b(2)] sc' show "contents (outer sc') = contents (outer sc)" by simp
  from same2 assms(5,7) get_queued [OF _ _ b(2)] sc' show "queuedJobs sc' = queue (outer sc)" by simp
  from syncQueuedJobsCache_jobs [OF two] a(3) show "bookedJobs sc' = bookedJobs sc" by simp
  from syncQueuedJobsCache_jobs(1) [OF two] syncJobsCache_keyed [OF one assms(4)] show "keyed_cache (jobs sc')" by simp
  show "jobs sc' k =
       (case (confs (outer sc) k, runtimes (outer sc) k) of
          (Some c, Some r) \<Rightarrow>
            Some (case jobs sc k of None \<Rightarrow> \<lparr>JobConf = c, JobRuntime = r\<rparr> | Some old \<Rightarrow> old\<lparr>JobConf := c\<rparr>)
        | _ \<Rightarrow> None)"
  proof -
    from sync_agrees [OF one assms(2,4)] obtain sx where x:
      "attempts (outside (opGetJobs stor)) (\<lambda>s. s\<lparr>outer := sleepFor senv second (outer s)\<rparr>) sc sx"
      "inv (outer sx) \<longrightarrow> dom (jobs sc) \<union> dom (confs (outer sx)) \<subseteq> set order \<longrightarrow> (\<forall>k. jobs sc1 k =
         (case (confs (outer sx) k, runtimes (outer sx) k) of
            (Some c, Some r) \<Rightarrow>
              Some (case jobs sc k of None \<Rightarrow> \<lparr>JobConf = c, JobRuntime = r\<rparr> | Some old \<Rightarrow> old\<lparr>JobConf := c\<rparr>)
          | _ \<Rightarrow> None))" by blast
    have "contents (outer sx) = contents (outer sc)" by (rule attempts_same [OF x(1) reads(1) sleeps])
    then have "inv (outer sx) = inv (outer sc)" "confs (outer sx) = confs (outer sc)" "runtimes (outer sx) = runtimes (outer sc)"
      by simp_all
    with x(2) assms(5,6) have "\<forall>k. jobs sc1 k =
         (case (confs (outer sc) k, runtimes (outer sc) k) of
            (Some c, Some r) \<Rightarrow>
              Some (case jobs sc k of None \<Rightarrow> \<lparr>JobConf = c, JobRuntime = r\<rparr> | Some old \<Rightarrow> old\<lparr>JobConf := c\<rparr>)
          | _ \<Rightarrow> None)" by simp
    then show ?thesis unfolding syncQueuedJobsCache_jobs(1) [OF two] by blast
  qed
qed

end

section \<open>From a request to a launch\<close>

context api_server
begin

text \<open>A run that was accepted is in the queue, whether or not there is such a job.\<close>

lemma runJob_ok:
  assumes "api_runJob env r s = (Inr (), s')" "inv (apiWorld s)" "seg (fqid_of (varGroup r) (varProject r) (varID r))"
  shows "granted env (reqAuth r) (varGroup r) (varProject r) (apiWorld s) ReadWrite" "inv (apiWorld s')"
    "queue (apiWorld s') = insert (fqid_of (varGroup r) (varProject r) (varID r)) (queue (apiWorld s))"
    "confs (apiWorld s') = confs (apiWorld s)" "runtimes (apiWorld s') = runtimes (apiWorld s)"
    "resp s' = send_status 204 (resp s)"
proof -
  let ?fq = "fqid_of (varGroup r) (varProject r) (varID r)"
  have "granted env (reqAuth r) (varGroup r) (varProject r) (apiWorld s) ReadWrite \<and> inv (apiWorld s')
    \<and> queue (apiWorld s') = insert ?fq (queue (apiWorld s)) \<and> confs (apiWorld s') = confs (apiWorld s)
    \<and> runtimes (apiWorld s') = runtimes (apiWorld s) \<and> resp s' = send_status 204 (resp s)"
    using assms(1) unfolding api_runJob_def
  proof (cases rule: with_access_cases)
    case (granted lvl w1)
    note same = authz_same [OF granted(1)]
    from granted(3) show ?thesis
    proof (cases rule: or_500_cases)
      case (returned u w2)
      have "opQueueJob stor (varGroup r) (varProject r) (varID r) w1 = (Inr (), w2)"
        using returned(1) by (simp add: env_store)
      from queue_job [OF _ assms(3) this] same assms(2) returned(2) granted(1,2) show ?thesis
        by (auto simp: WriteHeader_run granted_def)
    qed simp_all
  qed simp_all
  then show "granted env (reqAuth r) (varGroup r) (varProject r) (apiWorld s) ReadWrite" "inv (apiWorld s')"
    "queue (apiWorld s') = insert ?fq (queue (apiWorld s))" "confs (apiWorld s') = confs (apiWorld s)"
    "runtimes (apiWorld s') = runtimes (apiWorld s)" "resp s' = send_status 204 (resp s)" by blast+
qed

text \<open>
  A job that a request has queued is launched from the first offer after the next synchronisation in
  which its turn finds resources for it, unless it is booked; whether or not it is due or even running.
\<close>

lemma queued_run_is_launched:
  assumes "api_runJob env r s = (Inr (), s')" "inv (apiWorld s)" "k = fqid_of (varGroup r) (varProject r) (varID r)" "seg k"
    and stored: "confs (apiWorld s) k = Some c" "runtimes (apiWorld s) k = Some rt"
    and parse: "\<forall>fq \<in> queue (apiWorld s'). \<exists>j. ParseJobID fq = Inr j"
    and senv: "storage senv = stor" "\<And>d w. contents (sleepFor senv d w) = contents w"
    and sc: "outer sc = apiWorld s'" "keyed_cache (jobs sc)" "dom (jobs sc) \<union> dom (confs (apiWorld s)) \<subseteq> set order"
      "ttlM (bookedJobs sc) k = None"
    and sync: "sync_caches senv order sc = Some (Inr (), sc1)"
    and offer: "FindTasksForOffer senv (ks1 @ k # ks2) offered agent sc1 = (Inr tasks, sc2)" "distinct (ks1 @ k # ks2)"
    and fits: "\<And>sel s1. round_over senv ks1 (resUnallocate (resLib senv) offered) sc1 = (Inr sel, s1) \<Longrightarrow>
      resContainsAll (resLib senv)
        (resToUnreserved (resLib senv) (remaining (resLib senv) (resUnallocate (resLib senv) offered) sel))
        (Resources (resLib senv) c)"
  shows "\<exists>job'. jobs sc2 k = Some job' \<and> JobConf job' = c \<and> k \<notin> queuedJobs sc2
    \<and> (State (JobRuntime job') = FAILED
       \<or> State (JobRuntime job') = STAGING \<and> CurrentAgentID (JobRuntime job') = agent
         \<and> (\<exists>t \<in> set tasks. tiTaskID t = CurrentTaskID (JobRuntime job') \<and> tiAgentID t = agent))"
proof -
  note run = runJob_ok [OF assms(1,2) assms(4) [unfolded assms(3)], folded assms(3)]
  have inv: "inv (outer sc)" "\<forall>fq \<in> queue (outer sc). \<exists>j. ParseJobID fq = Inr j"
    "dom (jobs sc) \<union> dom (confs (outer sc)) \<subseteq> set order" using run(2,4) sc(1,3) parse by simp_all
  note synced = synced [OF sync senv sc(2) inv(1,3,2)]
  obtain job where job: "jobs sc1 k = Some job" "JobConf job = c"
    using synced(5) [of k] sc(1) run(4,5) stored by (auto split: option.splits)
  have queued: "k \<in> queuedJobs sc1" using synced(1) sc(1) run(3) by simp
  have fq: "job_fqid job = k" using synced(3) job(1) by (simp add: keyed_cache_def)
  from offer_launches [OF offer synced(3)] obtain sel sc' where
      sel: "round_over senv (ks1 @ k # ks2) (resUnallocate (resLib senv) offered) sc1 = (Inr sel, sc')"
    and launch: "\<And>j rs. (j, rs) \<in> set sel \<Longrightarrow> \<exists>job' task. launched agent rs j job' task \<and> jobs sc2 (job_fqid j) = Some job'
       \<and> (\<forall>t. task = Some t \<longrightarrow> t \<in> set tasks)"
    and left: "queuedJobs sc2 = queuedJobs sc1 - (job_fqid \<circ> fst) ` set sel" by blast
  from round_selects [OF sel offer(2) synced(3) job(1)] obtain sel1 s1 where
      first: "round_over senv ks1 (resUnallocate (resLib senv) offered) sc1 = (Inr sel1, s1)"
    and s1: "queuedJobs s1 = queuedJobs sc1" "ttlM (bookedJobs s1) k = ttlM (bookedJobs sc1) k"
    and iff: "k \<in> (job_fqid \<circ> fst) ` set sel
      \<longleftrightarrow> selectable senv s1 (remaining (resLib senv) (resUnallocate (resLib senv) offered) sel1) job" by metis
  have "ttl_Exists (timeNow senv) (bookedJobs s1) k (outer s1) = (False, outer s1)"
    using s1(2) synced(2) sc(4) by (simp add: ttl_Exists_def)
  then have "k \<in> (job_fqid \<circ> fst) ` set sel" unfolding iff using queued s1(1) fits [OF first] fq job(2) by (simp add: selectable_def)
  then obtain j rs where j: "(j, rs) \<in> set sel" "job_fqid j = k" by auto
  from find_jobs_selects(3) [OF sel offer(2) synced(3) j(1)] j(2) job(1) have conf: "JobConf j = c"
    using job(2) by auto
  from launch [OF j(1)] obtain job' task where "launched agent rs j job' task" "jobs sc2 k = Some job'"
    "\<forall>t. task = Some t \<longrightarrow> t \<in> set tasks" using j(2) by auto
  with conf left \<open>k \<in> (job_fqid \<circ> fst) ` set sel\<close> show ?thesis
    by (auto simp: launched_def split: option.splits)
qed

end

section \<open>Runs of jobs that do not exist\<close>

text \<open>While an entry is in the queue no round of the tuner suppresses offers.\<close>

context job_store
begin

lemma queued_keeps_offers:
  assumes "tuner_round t False w = (Inr (b, err), w')" "tuner.stor t = stor" "inv w" "queue w \<noteq> {}"
    and "\<forall>fq \<in> queue w. \<exists>j. ParseJobID fq = Inr j"
  shows "\<not> b"
proof
  assume b
  with assms(1) have "tuner_round t False w = (Inr (True, err), w')" by simp
  from tuner_suppresses [OF this] obtain js w1 w2 where
    "opGetJobs stor w = (Inr js, w1)" "opGetQueuedJobsIDs stor w1 = (Inr [], w2)" unfolding assms(2) by metis
  from keepsD [OF reads(1) this(1)] get_queued [OF _ _ this(2)] assms(3-5) show False by simp
qed

end

text \<open>And no offer takes an entry away for which the cache has no job.\<close>

lemma unknown_stays_queued:
  assumes "FindTasksForOffer env order offered agent s = (Inr tasks, s')" "distinct order" "keyed_cache (jobs s)"
    and "k \<in> queuedJobs s" "jobs s k = None"
  shows "k \<in> queuedJobs s'"
proof -
  from offer_launches [OF assms(1-3)] obtain sel s1 where
      sel: "round_over env order (resUnallocate (resLib env) offered) s = (Inr sel, s1)"
    and left: "queuedJobs s' = queuedJobs s - (job_fqid \<circ> fst) ` set sel" by metis
  have "k \<notin> (job_fqid \<circ> fst) ` set sel"
  proof
    assume "k \<in> (job_fqid \<circ> fst) ` set sel"
    then obtain j rs where j: "(j, rs) \<in> set sel" "k = job_fqid j" by auto
    show False using find_jobs_selects(3) [OF sel assms(2,3) j(1)] assms(5) j(2) by auto
  qed
  with left assms(4) show ?thesis by simp
qed

end
