(* ===== verification/Examples.thy ===== *)
theory Examples
  imports Api History Scheduler OffersTuner Startup Server Routes Commands Lifecycle
begin

text \<open>
  Concrete data and worlds on which the theorems of the development are applied: a job, a data tree
  with that job, a scheduler over it, all over the reference data tree and its timed variant.
\<close>

section \<open>A job and a tree that holds it\<close>

definition ex_conf :: job_conf where
  "ex_conf = zero_job_conf\<lparr>JobID := \<lparr>Group = ''g'', Project = ''p'', ID = ''i''\<rparr>,
     Schedule := \<lparr>scheduleType = Cron, scheduleCron = ''* * * * *''\<rparr>,
     Container := \<lparr>containerType = Docker, containerDocker = Some \<lparr>dockerImage = ''img'', forcePullImage = False\<rparr>,
       containerMesos = None\<rparr>, MaxRetries := 2, Mem := 4, CPUs := 1, Labels := [(''a'', ''b'')]\<rparr>"

definition ex_job :: job where
  "ex_job = \<lparr>JobConf = ex_conf, JobRuntime = zero_job_runtime\<lparr>State := IDLE\<rparr>\<rparr>"

definition base_tree :: ref_tree where
  "base_tree = [(''/rhythm'', (None, 0)), (''/rhythm/state'', (Some (enc_framework_state []), 0)),
     (''/rhythm/jobs'', (None, 0)), (''/rhythm/queuedJobs'', (None, 0))]"

definition job_tree :: ref_tree where
  "job_tree = snd (SaveJob ref_storage ex_job base_tree)"

lemma init_base: "init ref_storage [] = (Inr (), base_tree)"
  by code_simp

lemma job_tree_saved: "SaveJob ref_storage ex_job base_tree = (Inr (), job_tree)"
  unfolding job_tree_def by code_simp

lemma base_tidy: "tidy ref_storage (map_of base_tree)"
  by (auto simp: tidy_def base_tree_def path_defs ref_storage_def)

lemma ex_job_fqid: "job_fqid ex_job = ''g:p:i''" "FQID ex_conf = ''g:p:i''" "fqid_of ''g'' ''p'' ''i'' = ''g:p:i''"
  by code_simp+

lemma ex_seg: "seg ''g:p:i''"
  by code_simp

lemma ex_job_wf: "wf_job_conf ex_conf" "wf_job_conf (JobConf ex_job)" "wf_job_runtime (JobRuntime ex_job)"
  by code_simp+

lemma job_tree_tidy: "tidy ref_storage (map_of job_tree)"
  using ref_store.SaveJob_effect(1) [OF ex_job_wf(2,3) _ job_tree_saved base_tidy] ex_seg ex_job_fqid by simp

lemma job_tree_views:
  "stored_confs ref_storage (map_of job_tree) ''g:p:i'' = Some ex_conf"
  "stored_runtimes ref_storage (map_of job_tree) ''g:p:i'' = Some (JobRuntime ex_job)"
  using ref_store.SaveJob_effect(4) [OF ex_job_wf(2,3) _ job_tree_saved] ex_seg ex_job_fqid
  by (simp_all add: ex_job_def)

text \<open>The configuration without its runtime: what a \<open>SaveJob\<close> interrupted half-way leaves.\<close>

definition orphan_tree :: ref_tree where
  "orphan_tree = snd (SaveJobConf ref_storage ex_conf base_tree)"

lemma orphan_tree_saved: "SaveJobConf ref_storage ex_conf base_tree = (Inr (), orphan_tree)"
  unfolding orphan_tree_def by code_simp

lemma orphan_tree_tidy: "tidy ref_storage (map_of orphan_tree)"
  using ref_store.SaveJobConf_effect(1) [OF ex_job_wf(1) _ orphan_tree_saved base_tidy] ex_seg ex_job_fqid by simp

text \<open>A task that ended three seconds into 1970, in the history of the job.\<close>

definition ex_task :: task where
  "ex_task = zero_task\<lparr>TaskID := ''t'', taskEnd := 62135596803 * second\<rparr>"

definition hist_tree :: ref_tree where
  "hist_tree = snd (AddTask ref_storage ''g'' ''p'' ''i'' ex_task job_tree)"

lemma hist_tree_added: "AddTask ref_storage ''g'' ''p'' ''i'' ex_task job_tree = (Inr (), hist_tree)"
  unfolding hist_tree_def by code_simp

text \<open>The same trees in the timed world.\<close>

lemma timed_views:
  "tidy timed_storage = tidy ref_storage" "stored_confs timed_storage = stored_confs ref_storage"
  "stored_runtimes timed_storage = stored_runtimes ref_storage"
  by (simp_all add: fun_eq_iff tidy_def stored_confs_def stored_runtimes_def conf_at_def runtime_at_def path_defs
      timed_storage_def ref_storage_def)

section \<open>A scheduler\<close>

definition ex_cron :: "unit cron_lib" where
  "ex_cron = \<lparr>cronParse = (\<lambda>s. Inr ()), cronNext = (\<lambda>_ t. t + minute)\<rparr>"

definition ex_env :: "(timed_world, ref_res, unit) sched_env" where
  "ex_env =
     \<lparr>roles = [''*''], storage = zk_storage_ops timed_storage, secretsRead = (\<lambda>p. io_ret p),
      frameworkID = (\<lambda>w. (''fw'', w)), leaderURL = (\<lambda>w. (''http://leader'', w)), timeNow = timed_now,
      sleepFor = (\<lambda>d w. (fst w, snd w + d)), newV4 = io_ret ''uuid'', resLib = ref_res, cronLib = ex_cron,
      formatG = (\<lambda>_. ''1''), errorText = ref_error_text\<rparr>"

definition ex_key :: string where "ex_key = ''g:p:i''"

definition ex_sched :: "timed_world sched" where
  "ex_sched = \<lparr>jobs = [ex_key \<mapsto> ex_job], bookedJobs = newTTLSet minute, queuedJobs = {},
     outer = (job_tree, 62135596803 * second)\<rparr>"

definition ex_offer :: "ref_res list" where
  "ex_offer = [(CPU, 2), (MEM, 8), (DISK, 1)]"

lemma ex_sched_keyed: "keyed_cache (jobs ex_sched)"
  by (simp add: keyed_cache_def ex_sched_def ex_job_fqid ex_key_def)

definition ex_round :: "(fault + (job \<times> ref_res list) list) \<times> timed_world sched" where
  "ex_round = find_jobs ex_env [ex_key] ex_offer ex_offer ex_sched"

lemma ex_round_selects: "fst ex_round = Inr [(ex_job, [(CPU, 1), (MEM, 4), (DISK, 0)])]"
  by code_simp

lemma ex_round_run: "find_jobs ex_env [ex_key] ex_offer ex_offer ex_sched = (Inr [(ex_job, [(CPU, 1), (MEM, 4), (DISK, 0)])], snd ex_round)"
  using ex_round_selects by (simp add: ex_round_def prod_eq_iff)

text \<open>The launch of the selected job, and the scheduler after it.\<close>

definition ex_launch :: "(fault + ref_res task_info option) \<times> timed_world sched" where
  "ex_launch = launch_job ex_env ''agent'' (ex_job, [(CPU, 1), (MEM, 4), (DISK, 0)]) (snd ex_round)"

definition ex_status :: task_status where
  "ex_status = \<lparr>statusTaskID = ''g:p:i:uuid'', statusState = TASK_FINISHED, statusMessage = [], statusReason = [],
     statusSource = [], statusExecutorID = ''e'', statusAgentID = ''agent''\<rparr>"

text \<open>A tuner in the same world, whose calls to Mesos succeed.\<close>

definition ex_tuner :: "(timed_world, unit) tuner" where
  "ex_tuner =
     \<lparr>stor = zk_storage_ops timed_storage, callRevive = io_ret (), callSuppress = io_ret (),
      takeToken = (\<lambda>w. (True, w)), clockNow = timed_now, cron = ex_cron, sleep = (\<lambda>d w. (fst w, snd w + d))\<rparr>"

section \<open>Mesos\<close>

text \<open>A Mesos that takes no tasks but acknowledges updates.\<close>

definition ex_lib :: "(timed_world, ref_res) mesos_lib" where
  "ex_lib =
     \<lparr>trackSubscription = (\<lambda>fid. setFrameworkID (SetFrameworkID timed_storage) fid),
      urlSchemeOf = (\<lambda>_. Some ''http''), urlString = (\<lambda>scm host. scm @ ''://'' @ host),
      acceptOffer = (\<lambda>_ _. io_fail (ErrMsg ''refused'')), ackUpdate = (\<lambda>_ (t, now). (Inr (), (t, now + second))),
      ctxErr = (\<lambda>w. (False, w)), jobsOrder = (\<lambda>_. [ex_key])\<rparr>"

definition ex_mesos_conf :: mesos_conf where
  "ex_mesos_conf = \<lparr>mesosAuthType = ''none'', mesosUsername = [], mesosPassword = [], mesosCACert = [],
     mesosAddrs = [''http://m1'', ''http://m2''], mesosUser = [], mesosCheckpoint = False, mesosLabels = [],
     mesosFailover = hour, mesosWebUI = [], mesosHostname = [], mesosPrincipal = [], mesosRoles = [''*'']\<rparr>"

definition ex_master :: master_address where
  "ex_master = \<lparr>masterHostname = Some ''m1'', masterIP = None, masterPort = 5050\<rparr>"

definition ex_controller :: "timed_world controller" where
  "ex_controller = (new_controller [] (job_tree, 62135596803 * second))\<lparr>ctlSched := ex_sched\<rparr>"

text \<open>The libraries and the scheduler of a controller that starts in that world.\<close>

definition timed_tls :: "(timed_world, unit) tls_env" where
  "timed_tls = \<lparr>readFile = (\<lambda>_. io_fail (ErrMsg ''no such file'')), appendCertsFromPEM = (\<lambda>_. None)\<rparr>"

lemma ex_scheduler_starts: "\<exists>sc. NewScheduler ex_env [ex_key] (job_tree, 1) = Some (Inr (), sc)"
proof -
  let ?w = "snd (GetJobs timed_storage (job_tree, 1))"
  have "fst (GetJobs timed_storage (job_tree, 1)) = Inr [ex_job]" "fst (GetQueuedJobsIDs timed_storage ?w) = Inr []"
    by code_simp+
  then have "opGetJobs (storage ex_env) (outer (empty_sched (job_tree, 1))) = (Inr [ex_job], ?w)"
    "opGetQueuedJobsIDs (storage ex_env) ?w = (Inr [], snd (GetQueuedJobsIDs timed_storage ?w))"
    by (simp_all add: ex_env_def zk_storage_ops_def empty_sched_def prod_eq_iff)
  then show ?thesis by (simp add: NewScheduler_def sync_caches_returns)
qed

section \<open>Requests\<close>

definition ex_request :: "unit request" where
  "ex_request = \<lparr>reqAuth = (), varGroup = ''g'', varProject = ''p'', varID = ''i'', reqBody = Inl (ErrMsg ''EOF'')\<rparr>"

definition ex_create_body :: json where
  "ex_create_body = JObj [(''Group'', JStr ''g''), (''Project'', JStr ''p''), (''ID'', JStr ''i''),
     (''CPUs'', JNum 1), (''Mem'', JNum 4), (''Cmd'', JStr ''true''),
     (''Schedule'', JObj [(''Cron'', JStr ''* * * * *'')]), (''Container'', JObj [(''Docker'', JObj [(''Image'', JStr ''img'')])])]"

definition ex_create_request :: "unit request" where
  "ex_create_request = ex_request\<lparr>reqBody := Inr ex_create_body\<rparr>"

definition ex_payload :: new_job_payload where
  "ex_payload = projr (dec_struct new_payload_field ex_create_body zero_new_payload)"

definition ex_created :: "(fault + unit) \<times> ref_tree api" where
  "ex_created = api_createJob ref_api_env ex_create_request \<lparr>resp = fresh_response, apiWorld = base_tree\<rparr>"

definition ex_update_request :: "unit request" where
  "ex_update_request = ex_request\<lparr>reqBody := Inr (JObj [(''CPUs'', JNum 2)])\<rparr>"

definition ex_updated :: "(fault + unit) \<times> ref_tree api" where
  "ex_updated = api_updateJob ref_api_env ex_update_request \<lparr>resp = fresh_response, apiWorld = job_tree\<rparr>"

text \<open>A server in the world of the scheduler.\<close>

definition timed_api_env :: "(unit, timed_world) api_env" where
  "timed_api_env =
     \<lparr>authz = NoneAuthorizer, store = zk_storage_ops timed_storage,
      schemaValidate = (\<lambda>sc v. Inr (if conforms ref_rx ref_fmt sc v then [] else [''invalid''])),
      apiErrorText = ref_error_text\<rparr>"

interpretation timed_server: zk_api timed_storage timed_tree timed_api_env ref_rx ref_fmt
  by unfold_locales
    (auto simp: timed_api_env_def ref_rx_def NoneAuthorizer_def intro!: keeps_intros split: if_splits)

definition ex_run_request :: "(fault + unit) \<times> timed_world api" where
  "ex_run_request = api_runJob timed_api_env ex_request \<lparr>resp = fresh_response, apiWorld = outer ex_sched\<rparr>"

definition ex_listed :: "(fault + job list) \<times> timed_world" where
  "ex_listed = GetJobs timed_storage (apiWorld (snd ex_run_request))"

definition ex_queued :: "(fault + job_id list) \<times> timed_world" where
  "ex_queued = GetQueuedJobsIDs timed_storage (snd ex_listed)"

definition ex_synced :: "timed_world sched" where
  "ex_synced = ex_sched\<lparr>outer := snd ex_queued, jobs := sync_jobs [ex_job] [ex_key] (jobs ex_sched),
     queuedJobs := set (map JobID_String [\<lparr>Group = ''g'', Project = ''p'', ID = ''i''\<rparr>])\<rparr>"

lemma ex_synced_run:
  "sync_caches ex_env [ex_key] (ex_sched\<lparr>outer := apiWorld (snd ex_run_request)\<rparr>) = Some (Inr (), ex_synced)"
proof -
  have "fst ex_listed = Inr [ex_job]" "fst ex_queued = Inr [\<lparr>Group = ''g'', Project = ''p'', ID = ''i''\<rparr>]" by code_simp+
  then have "opGetJobs (storage ex_env) (apiWorld (snd ex_run_request)) = (Inr [ex_job], snd ex_listed)"
    "opGetQueuedJobsIDs (storage ex_env) (snd ex_listed) = (Inr [\<lparr>Group = ''g'', Project = ''p'', ID = ''i''\<rparr>], snd ex_queued)"
    by (simp_all add: ex_env_def zk_storage_ops_def ex_listed_def ex_queued_def prod_eq_iff)
  then show ?thesis by (simp add: sync_caches_returns ex_synced_def)
qed

definition ex_launched :: "(fault + ref_res task_info list) \<times> timed_world sched" where
  "ex_launched = FindTasksForOffer ex_env [ex_key] ex_offer ''agent'' ex_synced"

text \<open>The same request in a world without the job.\<close>

definition lost_run_request :: "(fault + unit) \<times> timed_world api" where
  "lost_run_request = api_runJob timed_api_env ex_request \<lparr>resp = fresh_response, apiWorld = (base_tree, 10 * second)\<rparr>"

definition lost_sched :: "timed_world sched" where
  "lost_sched = \<lparr>jobs = Map.empty, bookedJobs = newTTLSet minute, queuedJobs = {}, outer = apiWorld (snd lost_run_request)\<rparr>"

definition lost_synced :: "timed_world sched" where
  "lost_synced = lost_sched\<lparr>outer := snd (GetQueuedJobsIDs timed_storage (snd (GetJobs timed_storage (outer lost_sched)))),
     jobs := sync_jobs [] [ex_key] (jobs lost_sched),
     queuedJobs := set (map JobID_String [\<lparr>Group = ''g'', Project = ''p'', ID = ''i''\<rparr>])\<rparr>"

lemma lost_synced_run: "sync_caches ex_env [ex_key] lost_sched = Some (Inr (), lost_synced)"
proof -
  let ?w = "snd (GetJobs timed_storage (outer lost_sched))"
  have "fst (GetJobs timed_storage (outer lost_sched)) = Inr []"
    "fst (GetQueuedJobsIDs timed_storage ?w) = Inr [\<lparr>Group = ''g'', Project = ''p'', ID = ''i''\<rparr>]" by code_simp+
  then have "opGetJobs (storage ex_env) (outer lost_sched) = (Inr [], ?w)"
    "opGetQueuedJobsIDs (storage ex_env) ?w
       = (Inr [\<lparr>Group = ''g'', Project = ''p'', ID = ''i''\<rparr>], snd (GetQueuedJobsIDs timed_storage ?w))"
    by (simp_all add: ex_env_def zk_storage_ops_def prod_eq_iff)
  then show ?thesis by (simp add: sync_caches_returns lost_synced_def)
qed

definition lost_offer :: "(fault + ref_res task_info list) \<times> timed_world sched" where
  "lost_offer = FindTasksForOffer ex_env [ex_key] ex_offer ''agent'' lost_synced"

section \<open>A connection\<close>

definition ex_zk_conf :: zk_conf where
  "ex_zk_conf = \<lparr>confDir = ''rhythm'', confAddrs = [''127.0.0.1''], confTimeout = 10 * second,
     confAuth = \<lparr>authScheme = ''world'', digestUser = [], digestPassword = []\<rparr>\<rparr>"

section \<open>A terminal\<close>

definition ex_os :: "ref_tree os_env" where
  "ex_os = \<lparr>homedirDir = io_ret ''/home/u'', openRead = (\<lambda>_. io_ret None), writeTruncated = (\<lambda>_ _. io_ret ()),
     getenv = (\<lambda>_. []), runProgram = (\<lambda>_ _ w. (Inr [], w)), quoted = (\<lambda>x. x)\<rparr>"

definition ex_term :: "(ref_tree, unit) term_env" where
  "ex_term = \<lparr>termOs = ex_os, askSecret = (\<lambda>_. io_ret ''secret''), isAbs = (\<lambda>p. p \<noteq> [] \<and> hd p = CHR ''/''),
     green = (\<lambda>x. x), yellow = (\<lambda>x. x), red = (\<lambda>x. x), unixDate = (\<lambda>_. ''date''), float1 = (\<lambda>_. ''1.0''),
     termCron = ex_cron, termText = ref_error_text\<rparr>"

definition ex_client :: "(ref_tree, json list) api_client" where
  "ex_client = loopback_client segment_match (\<lambda>_ _. WriteHeader 404) ref_api_env ()"

definition ex_shell :: "ref_tree shell" where
  "ex_shell = \<lparr>shPlace = \<lparr>inGroup = ''g'', inProject = []\<rparr>, shJobs = [], shTerm = \<lparr>lines = [], termWorld = job_tree\<rparr>\<rparr>"

section \<open>A directory\<close>

definition ex_ldap :: ldap_authorizer where
  "ex_ldap = \<lparr>ldapAddrs = [''ldap://x''], userDN = ''dc=x'', userAttr = ''uid'', userACL = [(''bob'', [(''*'', ''readwrite'')])],
     groupACL = [], bindDN = [], bindPassword = [], groupFilter = ''f'', groupDN = ''dc=x'', groupAttr = ''cn'',
     caseSensitiveNames = False\<rparr>"

definition ex_ldap_env :: "(string \<times> string, unit, unit) ldap_env" where
  "ex_ldap_env = \<lparr>basicAuth = Some, parseURL = (\<lambda>a. Inr \<lparr>scheme = ''ldap'', urlHost = a\<rparr>), splitHostPort = (\<lambda>_. None),
     joinHostPort = (\<lambda>h p. h @ '':'' @ p), ldapDial = (\<lambda>_. io_ret ()), ldapDialTLS = (\<lambda>_ _. io_ret ()),
     bind = (\<lambda>_ _ _. io_fail (ErrMsg ''wrong password'')), unauthenticatedBind = (\<lambda>_ _. io_ret ()),
     search = (\<lambda>_ _ _ _. io_ret []), closeConn = (\<lambda>_ w. w), escapeFilter = (\<lambda>x. x), escapeValue = (\<lambda>x. x),
     parseDN = (\<lambda>_. None), renderTemplate = (\<lambda>t _ _. Inr t), ldapText = ref_error_text\<rparr>"

end
