(* ===== verification/LaunchRace.thy ===== *)
theory LaunchRace
  imports Main
begin

text \<open>
  The goroutines of \<open>buildTasksForOffer\<close> (\<^verbatim>\<open>mesos/jobsscheduler/jobsscheduler.go\<close>) share the
  slice \<open>tasks\<close> without a lock: \<open>tasks = append(tasks, *task)\<close> reads it, and stores the longer
  slice later. Each goroutine that has created its task is a small process with these two steps; every
  interleaving of the processes is a run.
\<close>

section \<open>Processes\<close>

datatype 'a proc = Ready 'a | Loaded "'a list" 'a | Finished

record 'a race =
  shared :: "'a list"
  procs :: "'a proc list"

inductive race_step :: "'a race \<Rightarrow> 'a race \<Rightarrow> bool" where
  load: "i < length (procs r) \<Longrightarrow> procs r ! i = Ready x \<Longrightarrow>
     race_step r (r\<lparr>procs := (procs r)[i := Loaded (shared r) x]\<rparr>)"
| store: "i < length (procs r) \<Longrightarrow> procs r ! i = Loaded old x \<Longrightarrow>
     race_step r (r\<lparr>shared := old @ [x], procs := (procs r)[i := Finished]\<rparr>)"

inductive_cases race_stepE: "race_step r r'"

abbreviation race_steps :: "'a race \<Rightarrow> 'a race \<Rightarrow> bool" where
  "race_steps \<equiv> race_step\<^sup>*\<^sup>*"

definition race_start :: "'a list \<Rightarrow> 'a race" where
  "race_start xs = \<lparr>shared = [], procs = map Ready xs\<rparr>"

text \<open>\<open>wg.Wait()\<close> has returned.\<close>

definition race_done :: "'a race \<Rightarrow> bool" where
  "race_done r \<longleftrightarrow> list_all (\<lambda>p. p = Finished) (procs r)"

section \<open>What every interleaving guarantees\<close>

text \<open>
  A process appends its own task to a list of tasks of other processes that started before it:
  with distinct tasks nothing is launched twice, and nothing but the given tasks is launched.
\<close>

definition race_inv :: "'a list \<Rightarrow> 'a race \<Rightarrow> bool" where
  "race_inv xs r \<longleftrightarrow>
     length (procs r) = length xs
     \<and> distinct (shared r) \<and> set (shared r) \<subseteq> set xs
     \<and> (\<forall>i x. i < length xs \<longrightarrow> procs r ! i = Ready x \<longrightarrow> x = xs ! i)
     \<and> (\<forall>i old x. i < length xs \<longrightarrow> procs r ! i = Loaded old x \<longrightarrow>
          x = xs ! i \<and> distinct old \<and> set old \<subseteq> set xs)
     \<and> (\<forall>j. j < length xs \<longrightarrow> procs r ! j \<noteq> Finished \<longrightarrow>
          xs ! j \<notin> set (shared r)
          \<and> (\<forall>i old x. i < length xs \<longrightarrow> procs r ! i = Loaded old x \<longrightarrow> xs ! j \<notin> set old))
     \<and> (\<forall>i. i < length xs \<longrightarrow> procs r ! i = Finished \<longrightarrow> shared r \<noteq> [])"

lemma race_invD:
  assumes "race_inv xs r"
  shows "length (procs r) = length xs" "distinct (shared r)" "set (shared r) \<subseteq> set xs"
    "i < length xs \<Longrightarrow> procs r ! i = Ready x \<Longrightarrow> x = xs ! i"
    "i < length xs \<Longrightarrow> procs r ! i = Loaded old x \<Longrightarrow> x = xs ! i \<and> distinct old \<and> set old \<subseteq> set xs"
    "j < length xs \<Longrightarrow> procs r ! j \<noteq> Finished \<Longrightarrow> xs ! j \<notin> set (shared r)"
    "j < length xs \<Longrightarrow> procs r ! j \<noteq> Finished \<Longrightarrow> i < length xs \<Longrightarrow> procs r ! i = Loaded old x \<Longrightarrow> xs ! j \<notin> set old"
    "i < length xs \<Longrightarrow> procs r ! i = Finished \<Longrightarrow> shared r \<noteq> []"
  using assms unfolding race_inv_def by blast+

lemma race_inv_start: "race_inv xs (race_start xs)"
  by (simp add: race_inv_def race_start_def)

lemma race_inv_step:
  assumes "race_step r r'" "race_inv xs r" "distinct xs"
  shows "race_inv xs r'"
  using assms(1)
proof (cases rule: race_step.cases)
  case (load i x)
  note I = race_invD [OF assms(2)]
  have x: "x = xs ! i" and i: "i < length xs" using I(1,4) load by auto
  have free: "xs ! j \<notin> set (shared r)" if "j < length xs" "j = i \<or> procs r ! j \<noteq> Finished" for j
    using that I(6) [of j] load(3) by auto
  have started: "xs ! i \<notin> set old" if "j < length xs" "procs r ! j = Loaded old y" for j old y
    using I(7) [OF i _ that] load(3) by simp
  show ?thesis
    unfolding race_inv_def load(1)
    by (intro conjI allI impI;
        auto simp: nth_list_update I(1,2) x i split: if_split_asm dest: subsetD [OF I(3)] I(4,5,7,8) free started)
next
  case (store i old x)
  note I = race_invD [OF assms(2)]
  have i: "i < length xs" using I(1) store by simp
  with I(5) [OF _ store(3)] I(7) [OF i _ i store(3)] store(3)
  have own: "x = xs ! i" "distinct old" "set old \<subseteq> set xs" "x \<notin> set old" by auto
  have others: "xs ! j \<notin> set (old @ [x])" if "j < length xs" "j \<noteq> i" "procs r ! j \<noteq> Finished" for j
    using that own(1) i assms(3) I(7) [OF that(1,3) i store(3)] by (simp add: nth_eq_iff_index_eq)
  show ?thesis
    unfolding race_inv_def store(1)
    by (intro conjI allI impI;
        use own others in \<open>auto simp: nth_list_update I(1) i split: if_split_asm dest: I(4,5,7)\<close>)
qed

lemma race_inv_reachable: "race_steps (race_start xs) r \<Longrightarrow> distinct xs \<Longrightarrow> race_inv xs r"
  by (induction rule: rtranclp_induct) (auto intro: race_inv_start race_inv_step)

lemma race_result:
  assumes "race_steps (race_start xs) r" "distinct xs"
  shows "distinct (shared r)" "set (shared r) \<subseteq> set xs" "race_done r \<Longrightarrow> xs \<noteq> [] \<Longrightarrow> shared r \<noteq> []"
proof -
  from race_inv_reachable [OF assms] have inv: "race_inv xs r" .
  then show "distinct (shared r)" "set (shared r) \<subseteq> set xs" by (rule race_invD)+
  assume "race_done r" "xs \<noteq> []"
  then have "0 < length xs" "procs r ! 0 = Finished"
    using race_invD(1) [OF inv] by (auto simp: race_done_def list_all_length)
  then show "shared r \<noteq> []" by (rule race_invD(8) [OF inv])
qed

section \<open>Without overlap nothing is lost\<close>

lemma race_sequential:
  assumes "procs r = replicate n Finished @ map Ready xs"
  shows "race_steps r \<lparr>shared = shared r @ xs, procs = replicate (n + length xs) Finished\<rparr>"
  using assms
proof (induction xs arbitrary: r n)
  case (Cons x xs)
  let ?r1 = "r\<lparr>procs := (procs r)[n := Loaded (shared r) x]\<rparr>"
  let ?r2 = "?r1\<lparr>shared := shared r @ [x], procs := (procs ?r1)[n := Finished]\<rparr>"
  have "race_step r ?r1" using Cons.prems by (intro load) (auto simp: nth_append)
  moreover have "race_step ?r1 ?r2"
    using Cons.prems by (intro store [of n ?r1 "shared r" x]) (auto simp: nth_append)
  moreover have "procs ?r2 = replicate (n + 1) Finished @ map Ready xs"
    using Cons.prems by (simp add: list_update_append replicate_append_same)
  from Cons.IH [OF this] have "race_steps ?r2 \<lparr>shared = (shared r @ [x]) @ xs, procs = replicate (n + 1 + length xs) Finished\<rparr>"
    by simp
  ultimately show ?case by (simp add: converse_rtranclp_into_rtranclp)
next
  case Nil
  then have "r = \<lparr>shared = shared r @ [], procs = replicate (n + length []) Finished\<rparr>" by simp
  then show ?case by (metis rtranclp.rtrancl_refl)
qed

section \<open>With overlap one is\<close>

text \<open>Both goroutines load the empty slice before either stores: the first one's task is gone.\<close>

lemma race_loses:
  "\<exists>r. race_steps (race_start [a, b]) r \<and> race_done r \<and> shared r = [b]"
proof -
  let ?r0 = "\<lparr>shared = [], procs = [Ready a, Ready b]\<rparr>"
  let ?r1 = "\<lparr>shared = [], procs = [Loaded [] a, Ready b]\<rparr>"
  let ?r2 = "\<lparr>shared = [], procs = [Loaded [] a, Loaded [] b]\<rparr>"
  let ?r3 = "\<lparr>shared = [a], procs = [Finished, Loaded [] b]\<rparr>"
  let ?r4 = "\<lparr>shared = [b], procs = [Finished, Finished]\<rparr>"
  have "race_step ?r0 ?r1" using load [of 0 ?r0 a] by simp
  moreover have "race_step ?r1 ?r2" using load [of 1 ?r1 b] by simp
  moreover have "race_step ?r2 ?r3" using store [of 0 ?r2 "[]" a] by simp
  moreover have "race_step ?r3 ?r4" using store [of 1 ?r3 "[]" b] by simp
  ultimately have "race_steps ?r0 ?r4" by (meson r_into_rtranclp rtranclp_trans)
  then have "race_steps (race_start [a, b]) ?r4" by (simp add: race_start_def)
  moreover have "race_done ?r4" "shared ?r4 = [b]" by (simp_all add: race_done_def)
  ultimately show ?thesis by blast
qed

end
