(* ===== verification/Flags.thy ===== *)
theory Flags
  imports Terminal
begin

text \<open>
  The command line: what the commands use of Go's \<^verbatim>\<open>flag\<close>, the rendering of help texts (\<^verbatim>\<open>command/base.go\<close>),
  and the flags, help texts and synopses of the files of \<^verbatim>\<open>command/\<close>. Every command defines its flags
  over its own fields, and its usage function builds the help text by defining them once more: that
  writes the defaults back into the fields.
\<close>

section \<open>Flags and their values\<close>

datatype flag_value = FlagString string | FlagBool bool

record flag =
  flagName :: string
  flagUsage :: string
  flagDefault :: flag_value

type_synonym flag_values = "string \<Rightarrow> flag_value option"

definition default_values :: "flag list \<Rightarrow> flag_values" where
  "default_values fs = map_of (map (\<lambda>f. (flagName f, flagDefault f)) fs)"

text \<open>\<open>strconv.ParseBool\<close>\<close>

definition parseBool :: "string \<Rightarrow> bool option" where
  "parseBool v =
     (if v \<in> {''1'', ''t'', ''T'', ''TRUE'', ''true'', ''True''} then Some True
      else if v \<in> {''0'', ''f'', ''F'', ''FALSE'', ''false'', ''False''} then Some False
      else None)"

section \<open>Parsing\<close>

datatype flag_error = BadSyntax string | NotDefined string | InvalidBool string string | NeedsArgument string | HelpRequested

datatype parsed_one = Seen flag_values "string list" | NotSeen "string list" | ParseFails flag_error "string list"

text \<open>A name with its value after the first \<open>=\<close> that is not at its start.\<close>

definition name_value :: "string \<Rightarrow> string \<times> string option" where
  "name_value s =
     (hd s # takeWhile (\<lambda>c. c \<noteq> CHR ''='') (tl s),
      case dropWhile (\<lambda>c. c \<noteq> CHR ''='') (tl s) of [] \<Rightarrow> None | _ # v \<Rightarrow> Some v)"

text \<open>
  \<open>FlagSet.parseOne\<close>: the values with one more flag set, the end of the flags, or an error; each with
  the arguments that remain. A malformed flag remains, an unknown one does not.
\<close>

definition parse_flag :: "flag list \<Rightarrow> flag_values \<Rightarrow> string \<Rightarrow> string option \<Rightarrow> string list \<Rightarrow> parsed_one" where
  "parse_flag fs vs name value rest =
     (case find (\<lambda>f. flagName f = name) fs of
        None \<Rightarrow> ParseFails (if name = ''help'' \<or> name = ''h'' then HelpRequested else NotDefined name) rest
      | Some f \<Rightarrow>
          (case flagDefault f of
             FlagBool _ \<Rightarrow>
               (case value of
                  None \<Rightarrow> Seen (vs(name \<mapsto> FlagBool True)) rest
                | Some v \<Rightarrow>
                    (case parseBool v of
                       None \<Rightarrow> ParseFails (InvalidBool v name) rest
                     | Some b \<Rightarrow> Seen (vs(name \<mapsto> FlagBool b)) rest))
           | FlagString _ \<Rightarrow>
               (case value of
                  Some v \<Rightarrow> Seen (vs(name \<mapsto> FlagString v)) rest
                | None \<Rightarrow>
                    (case rest of
                       [] \<Rightarrow> ParseFails (NeedsArgument name) []
                     | v # rest' \<Rightarrow> Seen (vs(name \<mapsto> FlagString v)) rest'))))"

definition parseOne :: "flag list \<Rightarrow> flag_values \<Rightarrow> string list \<Rightarrow> parsed_one" where
  "parseOne fs vs args =
     (case args of
        [] \<Rightarrow> NotSeen []
      | s # rest \<Rightarrow>
          if length s < 2 \<or> hd s \<noteq> CHR ''-'' then NotSeen args
          else if s = ''--'' then NotSeen rest
          else
            let nv = (if s ! 1 = CHR ''-'' then drop 2 s else drop 1 s) in
            if nv = [] \<or> hd nv = CHR ''-'' \<or> hd nv = CHR ''='' then ParseFails (BadSyntax s) args
            else (case name_value nv of (name, value) \<Rightarrow> parse_flag fs vs name value rest))"

lemma parse_flag_shorter: "parse_flag fs vs name value rest = Seen vs' args' \<Longrightarrow> length args' \<le> length rest"
  by (auto simp: parse_flag_def split: option.splits flag_value.splits list.splits if_splits)

lemma parseOne_shorter: "parseOne fs vs args = Seen vs' args' \<Longrightarrow> length args' < length args"
  by (auto simp: parseOne_def Let_def split: list.splits if_splits prod.splits dest!: parse_flag_shorter)

text \<open>\<open>FlagSet.Parse\<close>: the first error, the values, and the arguments that were not consumed.\<close>

function Parse :: "flag list \<Rightarrow> flag_values \<Rightarrow> string list \<Rightarrow> flag_error option \<times> flag_values \<times> string list" where
  "Parse fs vs args =
     (case parseOne fs vs args of
        Seen vs' args' \<Rightarrow> Parse fs vs' args'
      | NotSeen rest \<Rightarrow> (None, vs, rest)
      | ParseFails err rest \<Rightarrow> (Some err, vs, rest))"
  by pat_completeness auto
termination
  by (relation "measure (\<lambda>(fs, vs, args). length args)") (auto dest: parseOne_shorter)

declare Parse.simps [simp del]

section \<open>Help\<close>

abbreviation nl :: string where "nl \<equiv> [CHR 0x0A]"

definition show_flag_value :: "flag_value \<Rightarrow> string" where
  "show_flag_value v = (case v of FlagString s \<Rightarrow> s | FlagBool b \<Rightarrow> show_bool b)"

text \<open>The flags in the order of their names, as \<open>VisitAll\<close> has them.\<close>

definition flag_help :: "flag list \<Rightarrow> string" where
  "flag_help fs =
     concat (map (\<lambda>f. let d = show_flag_value (flagDefault f) in
         ''  -'' @ flagName f @ nl @ ''      '' @ flagUsage f
         @ (if d \<noteq> [] then '' (default: '' @ d @ '')'' else []) @ nl @ nl)
       (sort_key flagName fs))"

text \<open>A command's lines of help, the flags it defines, and what \<open>NewFlagSet\<close> is told about errors.\<close>

record command_line_spec =
  specName :: string
  specHelp :: "string list"
  specFlags :: "flag list"
  specExits :: bool
  specSynopsis :: string

definition Help :: "command_line_spec \<Rightarrow> string" where
  "Help c = trim_space (concat (map (\<lambda>l. nl @ l) (specHelp c)) @ nl @ nl @ flag_help (specFlags c))"

abbreviation addr_flag :: flag where
  "addr_flag \<equiv> \<lparr>flagName = ''addr'', flagUsage = ''Address of Rhythm server (with protocol e.g. '' @ [CHR 0x22]
     @ ''https://example.com'' @ [CHR 0x22] @ '')'', flagDefault = FlagString []\<rparr>"

abbreviation auth_flag :: flag where
  "auth_flag \<equiv> \<lparr>flagName = ''auth'', flagUsage = ''Authentication method ('' @ [CHR 0x22] @ ''ldap'' @ [CHR 0x22]
     @ '' or '' @ [CHR 0x22] @ ''gitlab'' @ [CHR 0x22] @ '')'', flagDefault = FlagString []\<rparr>"

abbreviation fqid_example :: string where
  "fqid_example \<equiv> ''(e.g. '' @ [CHR 0x22] @ ''group/project/id'' @ [CHR 0x22] @ '')''"

section \<open>The commands\<close>

definition health_spec :: command_line_spec where
  "health_spec =
     \<lparr>specName = ''health'',
      specHelp = [''Usage: rhythm health [options]'', [], ''  Show status of Rhythm server.''],
      specFlags = [addr_flag], specExits = True, specSynopsis = ''Show status of Rhythm server''\<rparr>"

definition create_job_spec :: command_line_spec where
  "create_job_spec =
     \<lparr>specName = ''create-job'',
      specHelp = [''Usage: rhythm create-job [options] PATH'', [],
        ''  Add new job specified by config file located under PATH.''],
      specFlags = [addr_flag, auth_flag], specExits = False, specSynopsis = ''Add new job''\<rparr>"

definition update_job_spec :: command_line_spec where
  "update_job_spec =
     \<lparr>specName = ''update-job'',
      specHelp = [''Usage: rhythm update-job [options] [FQID] PATH'', [],
        ''  Modify job specified by given fully-qualified ID '' @ fqid_example @ '' with config file located under PATH.'',
        ''  If only one parameter is passed then it'' @ [CHR 0x27] @ ''s path to config file containing job'' @ [CHR 0x27]
          @ ''s group, project and ID.'',
        ''  Only parameters from config file will be changed - absent parameters wont'' @ [CHR 0x27] @ '' be modified.''],
      specFlags = [addr_flag, auth_flag], specExits = False, specSynopsis = ''Modify job''\<rparr>"

definition read_job_spec :: command_line_spec where
  "read_job_spec =
     \<lparr>specName = ''read-job'',
      specHelp = [''Usage: rhythm read-job [options] FQID'', [],
        ''  Show configuration and state of job with the given fully-qualified ID '' @ fqid_example @ ''.''],
      specFlags = [addr_flag, auth_flag], specExits = False, specSynopsis = ''Show job configuration and state''\<rparr>"

definition delete_job_spec :: command_line_spec where
  "delete_job_spec =
     \<lparr>specName = ''delete-job'',
      specHelp = [''Usage: rhythm delete-job [options] FQID'', [],
        ''  Remove job with the given fully-qualified ID '' @ fqid_example @ ''.''],
      specFlags = [addr_flag, auth_flag], specExits = False, specSynopsis = ''Remove job''\<rparr>"

definition run_job_spec :: command_line_spec where
  "run_job_spec =
     \<lparr>specName = ''run-job'',
      specHelp = [''Usage: rhythm run-job [options] FQID'', [],
        ''  Schedule job with the given fully-qualified ID '' @ fqid_example @ '' for immediate run.'',
        ''  If job is already queued (scheduled but not launched yet) then command will be no-op.''],
      specFlags = [addr_flag, auth_flag], specExits = False, specSynopsis = ''Run job''\<rparr>"

definition find_jobs_spec :: command_line_spec where
  "find_jobs_spec =
     \<lparr>specName = ''find-jobs'',
      specHelp = [''Usage: rhythm find-jobs [options] FILTER'', [], ''  Show IDs of jobs matching FILTER.'', [],
        ''  FILTER can be one of:'', ''  * GROUP to return all jobs from group'',
        ''  * GROUP/PROJECT to return all jobs from project'',
        ''  * no set to return all jobs across all groups and projects''],
      specFlags = [addr_flag, auth_flag,
        \<lparr>flagName = ''state'', flagUsage = ''Show job state'', flagDefault = FlagBool True\<rparr>],
      specExits = False, specSynopsis = ''Show IDs of jobs matching filter''\<rparr>"

definition read_tasks_spec :: command_line_spec where
  "read_tasks_spec =
     \<lparr>specName = ''read-tasks'',
      specHelp = [''Usage: rhythm read-tasks [options] FQID'', [],
        ''  Show tasks (runs) of job with given fully-qualified ID '' @ fqid_example @ ''.''],
      specFlags = [addr_flag, auth_flag], specExits = False,
      specSynopsis = ''Show job'' @ [CHR 0x27] @ ''s tasks (runs)''\<rparr>"

definition update_token_spec :: command_line_spec where
  "update_token_spec =
     \<lparr>specName = ''update-token'',
      specHelp = [''Usage: rhythm update-token'', [], ''  Update (or set) authz token.''],
      specFlags = [], specExits = True, specSynopsis = ''Update (or set) authz token''\<rparr>"

definition client_spec :: command_line_spec where
  "client_spec =
     \<lparr>specName = ''client'',
      specHelp = [''Usage: rhythm client [options]'', [], ''  Start interactive client.''],
      specFlags = [addr_flag, auth_flag], specExits = False, specSynopsis = ''Start interactive client''\<rparr>"

definition server_spec :: command_line_spec where
  "server_spec =
     \<lparr>specName = ''server'',
      specHelp = [''Usage: rhythm server [options]'', [], ''  This command starts a Rhythm server.'', [],
        ''  Start a server with configuration file:'', [], ''      $ rhythm server -config=/etc/rhythm/config.json''],
      specFlags = [\<lparr>flagName = ''config'', flagUsage = ''Path to configuration file'', flagDefault = FlagString ''config.json''\<rparr>,
        \<lparr>flagName = ''testlogging'', flagUsage = ''log sample error and exit'', flagDefault = FlagBool False\<rparr>],
      specExits = False, specSynopsis = ''Start a Rhythm server''\<rparr>"

section \<open>The flags of a run\<close>

text \<open>
  \<open>fs := c.Flags(); fs.Parse(args)\<close>, whose error every command ignores: the exit status of a process
  that ends here, or the values of the fields and the arguments the command goes on with. On an error
  the message goes to the standard error, then the usage function prints the help, which resets the fields.
\<close>

definition run_flags ::
    "(flag_error \<Rightarrow> string) \<Rightarrow> command_line_spec \<Rightarrow> string list \<Rightarrow> ('w terminal, int + flag_values \<times> string list) io" where
  "run_flags text c args =
     (case Parse (specFlags c) (default_values (specFlags c)) args of
        (None, vs, rest) \<Rightarrow> io_ret (Inr (vs, rest))
      | (Some err, vs, rest) \<Rightarrow>
          io_bind (if err = HelpRequested then io_ret () else Errorf (text err)) (\<lambda>_.
          io_bind (put [Help c]) (\<lambda>_.
          io_ret (if specExits c then Inl 2 else Inr (default_values (specFlags c), rest)))))"

definition string_flag :: "string \<Rightarrow> flag_values \<Rightarrow> string" where
  "string_flag name vs = (case vs name of Some (FlagString s) \<Rightarrow> s | _ \<Rightarrow> [])"

definition bool_flag :: "string \<Rightarrow> flag_values \<Rightarrow> bool" where
  "bool_flag name vs = (vs name = Some (FlagBool True))"

section \<open>What is parsed\<close>

text \<open>A setting as a user writes it, for a flag of its kind.\<close>

fun render :: "string \<times> flag_value \<Rightarrow> string list" where
  "render (n, FlagString v) = [''-'' @ n, v]"
| "render (n, FlagBool b) = [''-'' @ n @ ''='' @ show_bool b]"

definition flag_name_ok :: "string \<Rightarrow> bool" where
  "flag_name_ok n \<longleftrightarrow> n \<noteq> [] \<and> hd n \<noteq> CHR ''-'' \<and> CHR ''='' \<notin> set n"

fun setting_ok :: "flag list \<Rightarrow> string \<times> flag_value \<Rightarrow> bool" where
  "setting_ok fs (n, v) =
     (flag_name_ok n
      \<and> (case find (\<lambda>f. flagName f = n) fs of
           None \<Rightarrow> False
         | Some f \<Rightarrow> (case (flagDefault f, v) of
               (FlagString _, FlagString _) \<Rightarrow> True | (FlagBool _, FlagBool _) \<Rightarrow> True | _ \<Rightarrow> False)))"

definition set_all :: "(string \<times> flag_value) list \<Rightarrow> flag_values \<Rightarrow> flag_values" where
  "set_all ss vs = foldl (\<lambda>m (n, v). m(n \<mapsto> v)) vs ss"

text \<open>No first argument that would be taken for a flag.\<close>

fun plain_args :: "string list \<Rightarrow> bool" where
  "plain_args [] = True"
| "plain_args (a # as) = (length a < 2 \<or> hd a \<noteq> CHR ''-'')"

lemma parseBool_show_bool [simp]: "parseBool (show_bool b) = Some b"
  by (cases b) (simp_all add: parseBool_def show_bool_def)

lemma name_value_simps:
  assumes "flag_name_ok n"
  shows "name_value n = (n, None)" "name_value (n @ CHR ''='' # v) = (n, Some v)"
proof -
  from assms obtain c cs where n: "n = c # cs" "CHR ''='' \<notin> set cs" by (cases n) (auto simp: flag_name_ok_def)
  then have all: "\<And>x. x \<in> set cs \<Longrightarrow> x \<noteq> CHR ''=''" by blast
  then have "takeWhile (\<lambda>c. c \<noteq> CHR ''='') (cs @ CHR ''='' # v) = cs @ []"
    "dropWhile (\<lambda>c. c \<noteq> CHR ''='') (cs @ CHR ''='' # v) = CHR ''='' # v"
    by (subst takeWhile_append2 dropWhile_append2; simp)+
  moreover from all have "takeWhile (\<lambda>c. c \<noteq> CHR ''='') cs = cs" "dropWhile (\<lambda>c. c \<noteq> CHR ''='') cs = []"
    by (simp_all add: takeWhile_eq_all_conv dropWhile_eq_Nil_conv)
  ultimately show "name_value n = (n, None)" "name_value (n @ CHR ''='' # v) = (n, Some v)"
    using n(1) by (simp_all add: name_value_def del: dropWhile_eq_Nil_conv)
qed

lemma parseOne_dash:
  assumes "flag_name_ok n"
  shows "parseOne fs vs ((CHR ''-'' # n) # rest) = parse_flag fs vs n None rest"
    and "parseOne fs vs ((CHR ''-'' # n @ CHR ''='' # v) # rest) = parse_flag fs vs n (Some v) rest"
proof -
  note nv = name_value_simps [OF assms]
  from assms obtain c cs where n: "n = c # cs" "c \<noteq> CHR ''-''" "c \<noteq> CHR ''=''" by (cases n) (auto simp: flag_name_ok_def)
  have one: "parseOne fs vs ((CHR ''-'' # c # xs) # rest)
      = (case name_value (c # xs) of (name, value) \<Rightarrow> parse_flag fs vs name value rest)" for xs
    using n(2,3) by (simp add: parseOne_def)
  show "parseOne fs vs ((CHR ''-'' # n) # rest) = parse_flag fs vs n None rest"
    "parseOne fs vs ((CHR ''-'' # n @ CHR ''='' # v) # rest) = parse_flag fs vs n (Some v) rest"
    using one nv n(1) by simp_all
qed

lemma parseOne_setting: "setting_ok fs (n, v) \<Longrightarrow> parseOne fs vs (render (n, v) @ rest) = Seen (vs(n \<mapsto> v)) rest"
  by (cases v) (auto simp: parseOne_dash parse_flag_def split: option.splits flag_value.splits)

lemma Parse_settings: "list_all (setting_ok fs) ss \<Longrightarrow> Parse fs vs (concat (map render ss) @ rest) = Parse fs (set_all ss vs) rest"
proof (induction ss arbitrary: vs)
  case (Cons x ss)
  obtain n v where x: "x = (n, v)" by fastforce
  with Cons show ?case by (simp add: Parse.simps [of fs vs] parseOne_setting set_all_def)
qed (simp add: set_all_def)

lemma Parse_plain: "plain_args rest \<Longrightarrow> Parse fs vs rest = (None, vs, rest)"
  by (subst Parse.simps) (cases rest; simp add: parseOne_def)

lemma Parse_unknown:
  assumes "flag_name_ok n" "n \<notin> flagName ` set fs" "n \<noteq> ''help''" "n \<noteq> ''h''"
  shows "Parse fs vs ((CHR ''-'' # n) # rest) = (Some (NotDefined n), vs, rest)"
proof -
  have "find (\<lambda>f. flagName f = n) fs = None" using assms(2) by (auto simp: find_None_iff)
  with assms(1,3,4) show ?thesis by (subst Parse.simps) (simp add: parseOne_dash parse_flag_def)
qed

text \<open>What a run makes of settings it knows, and of the first it does not know.\<close>

lemma run_flags_known:
  assumes "list_all (setting_ok (specFlags c)) ss" "plain_args rest"
  shows "run_flags tx c (concat (map render ss) @ rest) s
    = (Inr (Inr (set_all ss (default_values (specFlags c)), rest)), s)"
  using assms by (simp add: run_flags_def Parse_settings Parse_plain io_ret_def)

lemma run_flags_unknown:
  assumes "list_all (setting_ok (specFlags c)) ss" "flag_name_ok n" "n \<notin> flagName ` set (specFlags c)"
    and "n \<noteq> ''help''" "n \<noteq> ''h''"
  shows "run_flags tx c (concat (map render ss) @ (CHR ''-'' # n) # rest) s
    = (Inr (if specExits c then Inl 2 else Inr (default_values (specFlags c), rest)),
       s\<lparr>lines := lines s @ [(True, tx (NotDefined n)), (False, Help c)]\<rparr>)"
  using assms by (simp add: run_flags_def Parse_settings Parse_unknown Errorf_def put_def io_bind_modify io_ret_def)

end
