(* ===== verification/Entry.thy ===== *)
theory Entry
  imports Flags Commands Server
begin

text \<open>
  The program's entry, \<^verbatim>\<open>rhythm.go\<close>: the table of commands, and each command from its arguments on.
  The library that picks the command by its name is a parameter.
\<close>

section \<open>Commands from their arguments\<close>

record ('w, 's, 'b, 'p) main_env =
  mainCmd :: "('w, 's, 'b) cmd_env"
  mainServer :: "('w, 'p) server_lib"
  mainFlagText :: "flag_error \<Rightarrow> string"

text \<open>A run ends the process, or serves, or leaves a prompt to its library.\<close>

datatype ('w, 'b, 'p) run_end =
    Exit int
  | Serving "('w, 'p) started"
  | Prompting "('w, 'b) api_client" "job option list"

definition with_flags ::
    "('w, 's, 'b, 'p) main_env \<Rightarrow> command_line_spec \<Rightarrow> string list
     \<Rightarrow> (flag_values \<Rightarrow> string list \<Rightarrow> ('w terminal, ('w, 'b, 'p) run_end) io) \<Rightarrow> ('w terminal, ('w, 'b, 'p) run_end) io" where
  "with_flags env c args f =
     io_bind (run_flags (mainFlagText env) c args) (\<lambda>r. case r of Inl n \<Rightarrow> io_ret (Exit n) | Inr (vs, rest) \<Rightarrow> f vs rest)"

definition exits :: "('w terminal, int) io \<Rightarrow> ('w terminal, ('w, 'b, 'p) run_end) io" where
  "exits m = io_bind m (\<lambda>n. io_ret (Exit n))"

abbreviation addr_of :: "flag_values \<Rightarrow> string" where "addr_of \<equiv> string_flag ''addr''"

abbreviation method_of :: "flag_values \<Rightarrow> string" where "method_of \<equiv> string_flag ''auth''"

definition health_Run where
  "health_Run env args = with_flags env health_spec args (\<lambda>vs _. exits (health_command (mainCmd env) (addr_of vs)))"

definition create_job_Run where
  "create_job_Run env args = with_flags env create_job_spec args
     (\<lambda>vs rest. exits (create_job_command (mainCmd env) (addr_of vs) (method_of vs) rest))"

definition update_job_Run where
  "update_job_Run env args = with_flags env update_job_spec args
     (\<lambda>vs rest. exits (update_job_command (mainCmd env) (addr_of vs) (method_of vs) rest))"

definition read_job_Run where
  "read_job_Run env args = with_flags env read_job_spec args
     (\<lambda>vs rest. exits (read_job_command (mainCmd env) (addr_of vs) (method_of vs) rest))"

definition delete_job_Run where
  "delete_job_Run env args = with_flags env delete_job_spec args
     (\<lambda>vs rest. exits (delete_job_command (mainCmd env) (addr_of vs) (method_of vs) rest))"

definition run_job_Run where
  "run_job_Run env args = with_flags env run_job_spec args
     (\<lambda>vs rest. exits (run_job_command (mainCmd env) (addr_of vs) (method_of vs) rest))"

definition find_jobs_Run where
  "find_jobs_Run env args = with_flags env find_jobs_spec args
     (\<lambda>vs rest. exits (find_jobs_command (mainCmd env) (addr_of vs) (method_of vs) (bool_flag ''state'' vs) rest))"

definition read_tasks_Run where
  "read_tasks_Run env args = with_flags env read_tasks_spec args
     (\<lambda>vs rest. exits (read_tasks_command (mainCmd env) (addr_of vs) (method_of vs) rest))"

definition update_token_Run where
  "update_token_Run env args = with_flags env update_token_spec args (\<lambda>_ _. exits (update_token_command (mainCmd env)))"

definition client_Run where
  "client_Run env version args = with_flags env client_spec args (\<lambda>vs _.
     io_bind (client_command (mainCmd env) version (addr_of vs) (method_of vs)) (\<lambda>r.
       io_ret (case r of Inl n \<Rightarrow> Exit n | Inr (c, js) \<Rightarrow> Prompting c js)))"

definition server_Run where
  "server_Run env args = with_flags env server_spec args (\<lambda>vs _.
     io_bind (on_term (server_setup (mainServer env) (string_flag ''config'' vs) (bool_flag ''testlogging'' vs))) (\<lambda>st.
       io_ret (case st of None \<Rightarrow> Exit 0 | Some st \<Rightarrow> Serving st)))"

section \<open>The table of commands\<close>

datatype command =
    ServerCommand string
  | HealthCommand
  | CreateJobCommand
  | UpdateJobCommand
  | ReadJobCommand
  | DeleteJobCommand
  | RunJobCommand
  | FindJobsCommand
  | ReadTasksCommand
  | UpdateTokenCommand
  | ClientCommand string

definition version :: string where
  "version = ''0.18''"

definition commands :: "(string \<times> command) list" where
  "commands =
     [(''server'', ServerCommand version), (''health'', HealthCommand), (''create-job'', CreateJobCommand),
      (''update-job'', UpdateJobCommand), (''read-job'', ReadJobCommand), (''delete-job'', DeleteJobCommand),
      (''run-job'', RunJobCommand), (''find-jobs'', FindJobsCommand), (''read-tasks'', ReadTasksCommand),
      (''update-token'', UpdateTokenCommand), (''client'', ClientCommand version)]"

fun spec_of :: "command \<Rightarrow> command_line_spec" where
  "spec_of (ServerCommand _) = server_spec"
| "spec_of HealthCommand = health_spec"
| "spec_of CreateJobCommand = create_job_spec"
| "spec_of UpdateJobCommand = update_job_spec"
| "spec_of ReadJobCommand = read_job_spec"
| "spec_of DeleteJobCommand = delete_job_spec"
| "spec_of RunJobCommand = run_job_spec"
| "spec_of FindJobsCommand = find_jobs_spec"
| "spec_of ReadTasksCommand = read_tasks_spec"
| "spec_of UpdateTokenCommand = update_token_spec"
| "spec_of (ClientCommand _) = client_spec"

fun run_of :: "('w, 's, 'b, 'p) main_env \<Rightarrow> command \<Rightarrow> string list \<Rightarrow> ('w terminal, ('w, 'b, 'p) run_end) io" where
  "run_of env (ServerCommand _) = server_Run env"
| "run_of env HealthCommand = health_Run env"
| "run_of env CreateJobCommand = create_job_Run env"
| "run_of env UpdateJobCommand = update_job_Run env"
| "run_of env ReadJobCommand = read_job_Run env"
| "run_of env DeleteJobCommand = delete_job_Run env"
| "run_of env RunJobCommand = run_job_Run env"
| "run_of env FindJobsCommand = find_jobs_Run env"
| "run_of env ReadTasksCommand = read_tasks_Run env"
| "run_of env UpdateTokenCommand = update_token_Run env"
| "run_of env (ClientCommand v) = client_Run env v"

text \<open>\<open>main\<close>: the library gets the table and the arguments, and returns the exit status.\<close>

definition main ::
    "((string \<Rightarrow> (string list \<Rightarrow> ('w terminal, ('w, 'b, 'p) run_end) io) option) \<Rightarrow> string list \<Rightarrow> ('w terminal, ('w, 'b, 'p) run_end) io)
     \<Rightarrow> ('w, 's, 'b, 'p) main_env \<Rightarrow> string list \<Rightarrow> ('w terminal, ('w, 'b, 'p) run_end) io" where
  "main cli env args = cli (\<lambda>name. map_option (run_of env) (map_of commands name)) args"

section \<open>The table is consistent\<close>

text \<open>
  Every command names itself as the table does, in its flag set and in its help; its flags have distinct
  names that can be written on a command line; its help can be printed as a format.
\<close>

lemma commands_consistent:
  "list_all (\<lambda>(name, c). specName (spec_of c) = name
      \<and> take (length (''Usage: rhythm '' @ name)) (Help (spec_of c)) = ''Usage: rhythm '' @ name
      \<and> distinct (map flagName (specFlags (spec_of c)))
      \<and> list_all (\<lambda>f. flag_name_ok (flagName f) \<and> flagName f \<noteq> ''help'' \<and> flagName f \<noteq> ''h'') (specFlags (spec_of c))
      \<and> CHR ''%'' \<notin> set (Help (spec_of c))) commands"
  by code_simp

lemma commands_distinct: "distinct (map fst commands)"
  by code_simp

section \<open>Flags that are not known\<close>

text \<open>
  A command that does not exit on a bad flag goes on with the defaults of all its flags and the
  arguments that follow.
\<close>

lemma with_flags_unknown:
  assumes "list_all (setting_ok (specFlags c)) ss" "flag_name_ok n" "n \<notin> flagName ` set (specFlags c)"
    and "n \<noteq> ''help''" "n \<noteq> ''h''" "\<not> specExits c"
  shows "with_flags env c (concat (map render ss) @ (CHR ''-'' # n) # rest) f s =
    f (default_values (specFlags c)) rest (s\<lparr>lines := lines s @ [(True, mainFlagText env (NotDefined n)), (False, Help c)]\<rparr>)"
  by (simp add: with_flags_def io_bind_def run_flags_unknown [OF assms(1-5)] assms(6))

lemma with_flags_known:
  assumes "list_all (setting_ok (specFlags c)) ss" "plain_args rest"
  shows "with_flags env c (concat (map render ss) @ rest) f s = f (set_all ss (default_values (specFlags c))) rest s"
  by (simp add: with_flags_def io_bind_def run_flags_known [OF assms])

text \<open>Every command reads its flags first, and only what they say decides what it does.\<close>

lemma run_of_reads_flags: "\<exists>f. \<forall>args. run_of env c args = with_flags env (spec_of c) args f"
  by (cases c) (force simp: health_Run_def create_job_Run_def update_job_Run_def read_job_Run_def delete_job_Run_def
      run_job_Run_def find_jobs_Run_def read_tasks_Run_def update_token_Run_def client_Run_def server_Run_def)+

text \<open>So what was set before the unknown flag is forgotten: the command runs as if it had not been given.\<close>

lemma run_of_unknown_flag:
  assumes "list_all (setting_ok (specFlags (spec_of c))) ss" "flag_name_ok n" "n \<notin> flagName ` set (specFlags (spec_of c))"
    and "n \<noteq> ''help''" "n \<noteq> ''h''" "\<not> specExits (spec_of c)" "plain_args rest"
  shows "run_of env c (concat (map render ss) @ (CHR ''-'' # n) # rest) s =
    run_of env c rest (s\<lparr>lines := lines s @ [(True, mainFlagText env (NotDefined n)), (False, Help (spec_of c))]\<rparr>)"
proof -
  from run_of_reads_flags [of env c] obtain f where f: "\<And>args. run_of env c args = with_flags env (spec_of c) args f" by blast
  have "set_all [] (default_values (specFlags (spec_of c))) = default_values (specFlags (spec_of c))"
    by (simp add: set_all_def)
  with with_flags_known [of "spec_of c" "[]" rest env f] assms(7) show ?thesis
    unfolding f with_flags_unknown [OF assms(1-6)] by simp
qed

end
