(* ===== verification/Spec2Isabelle.thy ===== *)
theory Spec2Isabelle
  imports Examples LaunchRace OffersTuner Reconciliation Coordinator Conf Startup Mesos Routes Commands Lifecycle Flags Server Entry
begin

text \<open>
  \<^bold>\<open>Rhythm\<close> is a Mesos framework that runs jobs on a schedule.  This library models its own logic in
  definitions translated from the Go source and proves what makes each part correct.

  \<^bold>\<open>The program.\<close>  A replica campaigns in ZooKeeper (\<^verbatim>\<open>coordinator/\<close>); the leader subscribes to Mesos.  Offers
  reach the scheduler (\<^verbatim>\<open>mesos/jobsscheduler/\<close>), which keeps a cache of the jobs stored in ZooKeeper
  (\<^verbatim>\<open>storage/zk/\<close>), selects the due ones, books them and launches tasks; status updates come back to it, are
  recorded in storage and put in the task history.  \<^verbatim>\<open>mesos/offerstuner/\<close> revives or suppresses offers by the
  deadlines of the cached jobs, \<^verbatim>\<open>mesos/reconciliation/\<close> asks Mesos again about the tasks it believes to run.
  Users create, change, list, run and delete jobs through the HTTP API (\<^verbatim>\<open>api/\<close>), which asks an authorizer
  (\<^verbatim>\<open>api/auth/\<close>: none, GitLab, LDAP).  \<^verbatim>\<open>conf/\<close> reads the server's configuration; \<^verbatim>\<open>command/\<close> holds the server's
  start, the commands that call the API and an interactive shell over it.

  \<^bold>\<open>The theories.\<close>
  \<^item> \<open>Prelude\<close>: shared lemmas; the result and effect types: a call is a function of the world that returns
    \<open>Inl\<close> an error or \<open>Inr\<close> a value, with the new world (\<open>io\<close>).
  \<^item> \<open>GoLib\<close>: what the source uses of Go's standard library (\<open>strings.Split\<close>, \<open>strconv\<close>, \<open>path.Join\<close>, \<open>time\<close>).
  \<^item> \<open>Model\<close>: \<^verbatim>\<open>model/model.go\<close>, its states, identifiers and the life of a job.
  \<^item> \<open>GoJson\<close>, \<open>ModelJson\<close>: \<^verbatim>\<open>encoding/json\<close> on the model's types, with the round trips the storage needs.
  \<^item> \<open>ZooKeeper\<close>: the interface \<open>zk_ops\<close> of the vendored client, the locale of its documented laws, and a
    reference tree that satisfies them.
  \<^item> \<open>StorageOps\<close>: every operation of \<^verbatim>\<open>storage/zk/zk.go\<close>.  \<open>StorageLaws\<close>, \<open>Storage\<close> and \<open>JobStore\<close> prove them to
    implement three maps (configurations, runtimes, queue) kept in the tree; \<open>History\<close> is the task history
    and its clean-up against a clock.
  \<^item> \<open>TtlSet\<close>: \<^verbatim>\<open>ttlmap.go\<close>, the set of booked jobs, whose members expire.
  \<^item> \<open>SchedulerOps\<close>, \<open>Scheduler\<close>: \<^verbatim>\<open>jobsscheduler.go\<close>; \<open>LaunchRace\<close>: the goroutines of
    \<open>buildTasksForOffer\<close>, interleaved.
  \<^item> \<open>OffersTuner\<close>, \<open>Reconciliation\<close>, \<open>Coordinator\<close>, \<open>Auth\<close>, \<open>Conf\<close>: the packages of those names.
  \<^item> \<open>ApiModel\<close>, \<open>ApiOps\<close>, \<open>Api\<close>: payloads and schemas (\<^verbatim>\<open>api/model.go\<close>), the handlers (\<^verbatim>\<open>api/api.go\<close>), what they do.
  \<^item> \<open>Routes\<close>: the routing table of \<^verbatim>\<open>api/api.go\<close> and a client whose requests it answers.
  \<^item> \<open>Startup\<close>: the constructors of the storage, the coordinator and the secrets (\<^verbatim>\<open>storage/\<close>, \<^verbatim>\<open>coordinator/\<close>,
    \<^verbatim>\<open>secrets/\<close>, \<^verbatim>\<open>zkutil/\<close>), the clean-up goroutine, logging and the loop of \<^verbatim>\<open>command/server.go\<close>; \<open>Tls\<close>: \<^verbatim>\<open>tls/tls.go\<close>.
  \<^item> \<open>Mesos\<close>: \<^verbatim>\<open>mesos/mesos.go\<close>, \<^verbatim>\<open>http.go\<close>, \<^verbatim>\<open>controller.go\<close>, \<^verbatim>\<open>handlers.go\<close>: the event handlers and the state they
    share (\<open>controller\<close>), with \<open>ctl_step\<close> as the events in any order.
  \<^item> \<open>ApiClient\<close>, \<open>TokenHelper\<close>, \<open>Terminal\<close>, \<open>Shell\<close>, \<open>Commands\<close>: \<^verbatim>\<open>command/apiclient\<close>, \<^verbatim>\<open>command/tokenhelper\<close>,
    \<^verbatim>\<open>command/base.go\<close>, \<^verbatim>\<open>command/client.go\<close> and the \<open>Run\<close> functions of the other files of \<^verbatim>\<open>command/\<close>.
  \<^item> \<open>Flags\<close>: Go's \<^verbatim>\<open>flag\<close> package as the commands use it, and the flags and help texts of each; \<open>Entry\<close>: each
    command from its arguments on, and the table of \<^verbatim>\<open>rhythm.go\<close>.
  \<^item> \<open>Server\<close>: \<^verbatim>\<open>command/server.go\<close> up to its loop, with \<open>New\<close> of \<^verbatim>\<open>api/api.go\<close> and \<open>Run\<close> of \<^verbatim>\<open>mesos/controller.go\<close>.
  \<^item> \<open>Lifecycle\<close>: the parts together, from a request for a run through the queue and an offer to a launch.
  \<^item> \<open>Examples\<close>: the concrete inputs on which the witnesses evaluate the model.

  \<^bold>\<open>What the lemmas show.\<close>  The storage refines its maps, operation by operation, under an invariant (\<open>tidy\<close>) that
  every operation keeps; the scheduler keeps its cache keyed by identifier and in step with the storage, books
  each job it selects so that overlapping rounds choose different ones, never exceeds an offer, and moves a job's
  state by the status update alone; one replica at most leads while the guarding sessions are sound; the tuner
  suppresses only an idle cluster; reconciliation asks about every running task; the API neither reads nor writes
  a job its caller may not.  A server's start leaves the stored jobs alone, the Mesos controller keeps its invariant
  through every event from its start on, and what the client decodes or the shell names is the job the storage
  holds.  A run requested through the API is launched at the next offer with room for it, and a round selects
  exactly the jobs that are due or queued, not booked, and fit.  A command reads its flags back as written.  Where
  the code fails, the failure is a theorem as well: a lost launch, two leaders, a synchronisation that never
  returns, a run of a job that does not exist, a flag that makes a command forget the others.

  \<^bold>\<open>Loops.\<close>  \<open>syncJobsCache\<close> retries without bound, so it is a \<open>partial_function (option)\<close>: that it returns, and when
  it does not, are both proved.  \<open>tuner_rounds\<close> and the reconciler's steps are given the number of rounds, the
  process' own loop being infinite, and so is \<open>server_rounds\<close>; \<open>rec_outer\<close> and the parser of flags (\<open>Parse\<close>) carry
  termination measures.  All other loops are structural.

  \<^bold>\<open>Interfaces.\<close>  Locales state what one part relies on in another: \<open>zookeeper\<close> (the data tree) and \<open>zk_provider\<close>
  (connecting to it); \<open>zk_store\<close>, a storage over a tree, which is a \<open>job_store\<close> (three maps) and, with a \<open>go_clock\<close>,
  a \<open>zk_clocked\<close> one; \<open>api_server\<close> over any job store and \<open>zk_api\<close>, the one over ZooKeeper; \<open>booking\<close>, which the TTL set
  provides; \<open>server_world\<close>, the libraries a server is built on; \<open>resource_laws\<close> (offers); \<open>router\<close> (path templates); \<open>token_files\<close> (a file of tokens).  Each is interpreted
  on the model's own operations over the reference tree.

  \<^bold>\<open>Parameters.\<close>  ZooKeeper, the Mesos library, the HTTP client and router, the cron parser, Vault, the directory,
  GitLab, the schema validator's text, clocks and random numbers are arguments of the definitions; their laws are
  assumptions of the locales or hypotheses of the properties, and \<open>Examples\<close> instantiates each by a function.

  \<^bold>\<open>Not modelled.\<close>  Metrics and log lines, which nothing reads; the loops of the Mesos, prompt and command-line
  libraries, which are not in the repository: their callbacks are, and any order of calls is covered.  What is
  left of the source are declarations of structs, interfaces and constants that the records and literals of the
  definitions stand for.
\<close>

section \<open>Storage\<close>

text \<open>
  C1: \<open>GetJobs\<close> returns exactly the jobs whose configuration and runtime are stored, each once, and
  changes nothing.
\<close>

theorem GetJobs_lists_the_stored_jobs:
  assumes "zk_store s tree" "tidy s (tree w)" "GetJobs s w = (Inr js, w')"
  shows "distinct (map job_fqid js) \<and> tree w' = tree w
    \<and> (\<forall>j. j \<in> set js \<longleftrightarrow> stored_confs s (tree w) (job_fqid j) = Some (JobConf j)
          \<and> stored_runtimes s (tree w) (job_fqid j) = Some (JobRuntime j))"
  using zk_store.GetJobs_ok [OF assms] keepsD [OF zk_store.keeps_GetJobs [OF assms(1)] assms(3)] by blast

theorem GetJobs_lists_the_stored_jobs_witness:
  "ex_job \<in> set [ex_job]
   \<longleftrightarrow> stored_confs ref_storage (map_of job_tree) (job_fqid ex_job) = Some (JobConf ex_job)
     \<and> stored_runtimes ref_storage (map_of job_tree) (job_fqid ex_job) = Some (JobRuntime ex_job)"
proof -
  have "GetJobs ref_storage job_tree = (Inr [ex_job], snd (GetJobs ref_storage job_tree))"
    by (rule prod_eqI; code_simp)
  from GetJobs_lists_the_stored_jobs [OF ref_store.zk_store_axioms job_tree_tidy this] show ?thesis by blast
qed

text \<open>
  C2: when \<open>GetJobs\<close> fails, either the connection failed, or the storage was not initialised, or some
  stored configuration has no runtime: one such job makes every listing fail.
\<close>

theorem GetJobs_fails_only_for:
  assumes "zk_store s tree" "tidy s (tree w)" "GetJobs s w = (Inl f, w')"
  shows "\<exists>e. f = Fail (ErrZK e)
    \<and> (other_error e
       \<or> e = ErrNoNode \<and> (tree w (jobs_path s) = None
           \<or> (\<exists>fq. stored_confs s (tree w) fq \<noteq> None \<and> stored_runtimes s (tree w) fq = None)))"
  using assms by (rule zk_store.GetJobs_fails)

theorem GetJobs_fails_only_for_witness:
  "\<exists>fq. stored_confs ref_storage (map_of orphan_tree) fq \<noteq> None
     \<and> stored_runtimes ref_storage (map_of orphan_tree) fq = None"
proof -
  have run: "GetJobs ref_storage orphan_tree
      = (Inl (Fail (ErrZK ErrNoNode)), snd (GetJobs ref_storage orphan_tree))"
    by (rule prod_eqI; code_simp)
  have "map_of orphan_tree (jobs_path ref_storage) \<noteq> None" by code_simp
  with GetJobs_fails_only_for [OF ref_store.zk_store_axioms orphan_tree_tidy run] show ?thesis
    by (auto simp: other_error_def)
qed

text \<open>C3: a job that was saved is read back as it was, or the connection failed.\<close>

theorem saved_job_is_read_back:
  assumes "zk_store s tree" "tidy s (tree w)" "wf_job_conf (JobConf j)" "wf_job_runtime (JobRuntime j)"
    and "seg (job_fqid j)" "SaveJob s j w = (Inr (), w1)"
    and "GetJob s (Group (JobID (JobConf j))) (Project (JobID (JobConf j))) (ID (JobID (JobConf j))) w1 = (q, w2)"
  shows "q = Inr (Some j) \<or> (\<exists>e. q = Inl (Fail (ErrZK e)) \<and> other_error e)"
proof -
  have fq: "fqid_of (Group (JobID (JobConf j))) (Project (JobID (JobConf j))) (ID (JobID (JobConf j))) = job_fqid j"
    by (simp add: fqid_of_JobID FQID_def)
  note saved = zk_store.SaveJob_effect [OF assms(1,3-6)]
  from saved(4) have views: "stored_confs s (tree w1) (job_fqid j) = Some (JobConf j)"
    "stored_runtimes s (tree w1) (job_fqid j) = Some (JobRuntime j)" by simp_all
  from zk_store.GetJob_present [OF assms(1) saved(1) [OF assms(2)] _ _ _ assms(7), unfolded fq, OF assms(5) views]
  show ?thesis by (cases j) simp
qed

theorem saved_job_is_read_back_witness:
  "GetJob ref_storage ''g'' ''p'' ''i'' job_tree = (Inr (Some ex_job), snd (GetJob ref_storage ''g'' ''p'' ''i'' job_tree))"
proof -
  let ?q = "fst (GetJob ref_storage ''g'' ''p'' ''i'' job_tree)"
  let ?id = "JobID (JobConf ex_job)"
  have id: "Group ?id = ''g''" "Project ?id = ''p''" "ID ?id = ''i''" by (simp_all add: ex_job_def ex_conf_def)
  have "?q = Inr (Some ex_job) \<or> (\<exists>e. ?q = Inl (Fail (ErrZK e)) \<and> other_error e)"
    using saved_job_is_read_back [OF ref_store.zk_store_axioms base_tidy ex_job_wf(2,3) _ job_tree_saved,
        unfolded id, of "fst (GetJob ref_storage ''g'' ''p'' ''i'' job_tree)"
          "snd (GetJob ref_storage ''g'' ''p'' ''i'' job_tree)"] ex_seg ex_job_fqid
    by simp
  moreover have "\<not> isl ?q" by code_simp
  ultimately show ?thesis by (auto simp: prod_eq_iff)
qed





text \<open>
  The queue is a set: after a job was queued the queue holds its id and the ids it held before,
  and dequeuing takes exactly that one away again.
\<close>

theorem queue_is_a_set:
  assumes "zk_store s tree" "seg (fqid_of g p i)" "QueueJob s g p i w = (Inr (), w1)"
    and "\<forall>fq \<in> queued_at s (tree w1). \<exists>j. ParseJobID fq = Inr j"
    and "GetQueuedJobsIDs s w1 = (Inr ids, w2)" "DequeueJob s g p i w2 = (Inr (), w3)"
  shows "JobID_String ` set ids = insert (fqid_of g p i) (queued_at s (tree w))
    \<and> queued_at s (tree w3) = queued_at s (tree w) - {fqid_of g p i}
    \<and> stored_confs s (tree w3) = stored_confs s (tree w) \<and> stored_runtimes s (tree w3) = stored_runtimes s (tree w)"
proof -
  note q = zk_store.QueueJob_effect [OF assms(1-3)] and d = zk_store.DequeueJob_effect [OF assms(1,2,6)]
  have "tree w2 = tree w1" using keepsD [OF zk_store.keeps_GetQueuedJobsIDs [OF assms(1)] assms(5)] .
  with zk_store.GetQueuedJobsIDs_ok [OF assms(1,4,5)] q(2-4) d(2-4) show ?thesis by auto
qed

theorem queue_is_a_set_witness:
  "JobID_String ` {\<lparr>Group = ''g'', Project = ''p'', ID = ''i''\<rparr>} = insert ''g:p:i'' (queued_at ref_storage (map_of job_tree))"
proof -
  let ?w1 = "snd (QueueJob ref_storage ''g'' ''p'' ''i'' job_tree)"
  let ?w2 = "snd (GetQueuedJobsIDs ref_storage ?w1)"
  let ?w3 = "snd (DequeueJob ref_storage ''g'' ''p'' ''i'' ?w2)"
  have run: "QueueJob ref_storage ''g'' ''p'' ''i'' job_tree = (Inr (), ?w1)"
    "GetQueuedJobsIDs ref_storage ?w1 = (Inr [\<lparr>Group = ''g'', Project = ''p'', ID = ''i''\<rparr>], ?w2)"
    "DequeueJob ref_storage ''g'' ''p'' ''i'' ?w2 = (Inr (), ?w3)"
    by (rule prod_eqI; code_simp)+
  have "queued_at ref_storage (map_of job_tree) = {}"
  proof -
    have "ref_children job_tree (queue_path ref_storage) = []" by code_simp
    with set_ref_children [of job_tree "queue_path ref_storage"] show ?thesis
      by (simp add: queued_names queued_at_def)
  qed
  with ref_store.QueueJob_effect(4) [OF _ run(1)] ex_seg ex_job_fqid
  have "queued_at ref_storage (map_of ?w1) = {''g:p:i''}" by simp
  moreover have "ParseJobID ''g:p:i'' = Inr \<lparr>Group = ''g'', Project = ''p'', ID = ''i''\<rparr>" by code_simp
  ultimately have "\<forall>fq \<in> queued_at ref_storage (map_of ?w1). \<exists>j. ParseJobID fq = Inr j" by simp
  from queue_is_a_set [OF ref_store.zk_store_axioms _ run(1) this run(2,3)] ex_seg ex_job_fqid show ?thesis by simp
qed



text \<open>
  A storage that has started obeys the laws of the store, its nodes exist, the directory of its
  clean-up election exists, and starting it left every stored job and the queue as they were.
\<close>

theorem start_keeps_stored_jobs:
  assumes "zk_provider lib tree" "NewStorage lib c ttl w = (Inr (s, coord), w')"
  shows "zk_store s tree \<and> zookeeper (coordConn coord) tree \<and> tree w' (election_path coord) \<noteq> None
    \<and> tree w' (state_path s) \<noteq> None \<and> tree w' (jobs_path s) \<noteq> None \<and> tree w' (queue_path s) \<noteq> None
    \<and> (tidy s (tree w) \<longrightarrow> tidy s (tree w')) \<and> stored_confs s (tree w') = stored_confs s (tree w)
    \<and> stored_runtimes s (tree w') = stored_runtimes s (tree w) \<and> queued_at s (tree w') = queued_at s (tree w)"
  using zk_provider.NewStorage_ready [OF assms] by (simp add: same_jobs_def)

theorem start_keeps_stored_jobs_witness:
  "let (q, tr) = NewStorage ref_lib ex_zk_conf (24 * hour) job_tree in
     \<exists>s coord. q = Inr (s, coord) \<and> stored_confs s (map_of tr) = stored_confs s (map_of job_tree)"
proof -
  let ?r = "NewStorage ref_lib ex_zk_conf (24 * hour) job_tree"
  have "\<not> isl (fst ?r)" by code_simp
  then obtain s coord where "?r = (Inr (s, coord), snd ?r)" by (cases ?r; cases "fst ?r") auto
  from start_keeps_stored_jobs [OF ref_provider.zk_provider_axioms this] this show ?thesis
    by (metis (mono_tags, lifting) case_prod_conv)
qed



text \<open>
  C8: the cleanup of old tasks, however it ends, removes nothing but history nodes whose tasks ended
  longer than the TTL ago, and writes nothing.
\<close>

theorem cleanup_removes_only_outdated_history:
  assumes "zk_clocked s tree now clock ctxDone" "tasksCleanup s now ctxDone w = (q, w')"
  shows "tree w' p = tree w p \<or> (tree w' p = None \<and> outdated s (clock w') p)"
  using zk_clocked.tasksCleanup_swept [OF assms] by (auto simp: swept_def)

theorem cleanup_removes_only_outdated_history_witness:
  "let start = (hist_tree, 62135596803 * second + 25 * hour);
       done = snd (tasksCleanup timed_storage timed_now (timed_ctx (62135596803 * second + 50 * hour)) start);
       p = ''/rhythm/jobs/g:p:i/tasks/3@t'' in
   timed_tree start p \<noteq> None \<and> timed_tree done p = None \<and> outdated timed_storage (snd done) p"
proof -
  let ?start = "(hist_tree, 62135596803 * second + 25 * hour)"
  let ?r = "tasksCleanup timed_storage timed_now (timed_ctx (62135596803 * second + 50 * hour)) ?start"
  let ?p = "''/rhythm/jobs/g:p:i/tasks/3@t''"
  have "?r = (fst ?r, snd ?r)" by simp
  from cleanup_removes_only_outdated_history [OF timed_world.zk_clocked_axioms this, of ?p]
  have "timed_tree (snd ?r) ?p = timed_tree ?start ?p
      \<or> timed_tree (snd ?r) ?p = None \<and> outdated timed_storage (snd (snd ?r)) ?p" .
  moreover have "timed_tree ?start ?p \<noteq> None" "timed_tree (snd ?r) ?p = None" by code_simp+
  ultimately show ?thesis unfolding Let_def by auto
qed

section \<open>Scheduler\<close>

text \<open>
  A round over the cache selects each job at most once, only jobs that are queued or whose next
  run has passed while idle or failed, books each, leaves in the cache the selected job with its
  retry counted and every other job as it was.
\<close>

theorem selected_jobs_are_due:
  assumes "find_jobs env ks res ru s = (Inr sel, s')" "distinct ks" "keyed_cache (jobs s)"
  shows "distinct (map (job_fqid \<circ> fst) sel)
    \<and> (\<forall>(j', rs) \<in> set sel. jobs s' (job_fqid j') = Some j' \<and> rs \<noteq> []
        \<and> (\<exists>j. jobs s (job_fqid j') = Some j \<and> j' = count_retry j \<and> due env s j))
    \<and> (\<forall>k. k \<notin> (job_fqid \<circ> fst) ` set sel \<longrightarrow> jobs s' k = jobs s k) \<and> queuedJobs s' = queuedJobs s"
  using find_jobs_selects [OF assms] find_jobs_frame(2) [OF assms(1,3)] by blast

theorem selected_jobs_are_due_witness: "\<exists>j. jobs ex_sched (job_fqid ex_job) = Some j \<and> due ex_env ex_sched j"
proof -
  from selected_jobs_are_due [OF ex_round_run _ ex_sched_keyed] show ?thesis by auto
qed

text \<open>
  C9: two rounds in a row select different jobs as long as the second ends before the bookings of
  the first expire, so a job waiting for its launch is not launched twice.
\<close>

theorem rounds_do_not_overlap:
  assumes "go_clock now clock" "timeNow env = now" "timeNow env' = now"
    and "find_jobs env ks res ru s = (Inr sel1, s1)" "find_jobs env' ks' res' ru' s1 = (Inr sel2, s2)"
    and "distinct ks" "distinct ks'" "keyed_cache (jobs s)"
    and "time_sub (clock (outer s2)) (clock (outer s)) \<le> ttlDuration (bookedJobs s)"
  shows "(job_fqid \<circ> fst) ` set sel1 \<inter> (job_fqid \<circ> fst) ` set sel2 = {}"
  using go_clock.rounds_disjoint [OF assms(1,4-8,2,3,9)] .

theorem rounds_do_not_overlap_witness:
  "(job_fqid \<circ> fst) ` set [(ex_job, [(CPU, 1 :: rat), (MEM, 4), (DISK, 0)])]
     \<inter> (job_fqid \<circ> fst) ` set ([] :: (job \<times> ref_res list) list) = {}"
proof -
  let ?r2 = "find_jobs ex_env [ex_key] ex_offer ex_offer (snd ex_round)"
  have "fst ?r2 = Inr []" by code_simp
  then have run: "?r2 = (Inr [], snd ?r2)" by (simp add: prod_eq_iff)
  show ?thesis
    by (rule rounds_do_not_overlap [OF timed_world.go_clock_axioms _ _ ex_round_run run _ _ ex_sched_keyed])
      (simp add: ex_env_def, simp add: ex_env_def, simp, simp, code_simp)
qed





text \<open>C12: the synchronisation returns as soon as one of its attempts to list the jobs succeeds.\<close>

theorem synchronisation_returns:
  assumes "attempts (outside (opGetJobs (storage env))) (\<lambda>s. s\<lparr>outer := sleepFor env second (outer s)\<rparr>) sc sc1"
    and "opGetJobs (storage env) (outer sc1) = (Inr js, w)"
  shows "syncJobsCache env order sc = Some (Inr (), sc1\<lparr>outer := w, jobs := sync_jobs js order (jobs sc1)\<rparr>)"
  using assms by (rule syncJobsCache_returns)

theorem synchronisation_returns_witness:
  "\<exists>sc'. syncJobsCache ex_env [ex_key] ex_sched = Some (Inr (), sc')"
proof -
  have "opGetJobs (storage ex_env) (outer ex_sched) = (Inr [ex_job], snd (GetJobs timed_storage (outer ex_sched)))"
    by (rule prod_eqI; code_simp)
  from synchronisation_returns [OF attempts_first this] show ?thesis by blast
qed

text \<open>
  C13: while one stored job has no runtime the synchronisation never returns: the scheduler cannot
  start, and a running one stops refreshing its cache.
\<close>

theorem orphan_stops_synchronisation:
  assumes "zk_store s tree" "storage env = zk_storage_ops s" "\<And>d w. tree (sleepFor env d w) = tree w"
    and "tidy s (tree (outer sc))" "stored_confs s (tree (outer sc)) fq \<noteq> None"
    and "stored_runtimes s (tree (outer sc)) fq = None"
  shows "syncJobsCache env order sc = None"
proof (rule syncJobsCache_diverges [where P = "\<lambda>w. tree w = tree (outer sc)"])
  fix w
  assume w: "tree w = tree (outer sc)"
  obtain q w' where run: "GetJobs s w = (q, w')" by fastforce
  have w': "tree w' = tree w" using keepsD [OF zk_store.keeps_GetJobs [OF assms(1)] run] .
  show "\<exists>e w'. opGetJobs (storage env) w = (Inl (Fail e), w') \<and> tree (sleepFor env second w') = tree (outer sc)"
  proof (cases q)
    case (Inl f)
    with zk_store.GetJobs_fails [OF assms(1), of w f w'] run assms(2,3,4) w w' show ?thesis
      by (auto simp: zk_storage_ops_def)
  next
    case (Inr js)
    with zk_store.GetJobs_ok(2) [OF assms(1), of w js w'] run assms(4-6) w show ?thesis by auto
  qed
qed simp

theorem orphan_stops_synchronisation_witness:
  "syncJobsCache ex_env [ex_key] (ex_sched\<lparr>outer := (orphan_tree, 0)\<rparr>) = None"
proof (rule orphan_stops_synchronisation [OF timed_world.zk_store_axioms, where fq = "''g:p:i''"])
  have "conf_at ref_storage (map_of orphan_tree) ''g:p:i'' \<noteq> None" by code_simp
  then show "stored_confs timed_storage (timed_tree (outer (ex_sched\<lparr>outer := (orphan_tree, 0)\<rparr>))) ''g:p:i'' \<noteq> None"
    using ex_seg by (simp add: timed_views stored_confs_def)
  have "runtime_at ref_storage (map_of orphan_tree) ''g:p:i'' = None" by code_simp
  then show "stored_runtimes timed_storage (timed_tree (outer (ex_sched\<lparr>outer := (orphan_tree, 0)\<rparr>))) ''g:p:i'' = None"
    by (simp add: timed_views stored_runtimes_def)
qed (simp_all add: ex_env_def timed_views orphan_tree_tidy)

text \<open>
  C14: a status update moves the job it names along the state machine \<open>next_runtime\<close>, in the
  cache and, with the same runtime, in the storage, after the history entry of a task that has ended;
  it touches no other job, neither queue nor bookings; an update that is ignored changes no job.
\<close>

theorem status_update_moves_the_job:
  assumes "HandleTaskStateUpdate env st s = (Inr (), s')" "keyed_cache (jobs s)"
    and "parseTaskID (statusTaskID st) = Inr jid" "jobs s (JobID_String jid) = Some job"
  shows "queuedJobs s' = queuedJobs s \<and> bookedJobs s' = bookedJobs s
    \<and> (case next_runtime st (JobRuntime job) of
         None \<Rightarrow> jobs s' = jobs s
       | Some r \<Rightarrow> jobs s' = (jobs s)(JobID_String jid \<mapsto> job\<lparr>JobRuntime := r\<rparr>)
           \<and> (\<exists>q w1. opSaveJobRuntime (storage env) (Group jid) (Project jid) (ID jid) r w1 = (q, outer s')
               \<and> (if statusState st \<in> {TASK_STAGING, TASK_STARTING, TASK_RUNNING} then w1 = outer s
                  else addTaskHistory env st (LastStart (JobRuntime job)) jid (outer s) = (Inr (), w1))))"
  using HandleTaskStateUpdate_run [OF assms]
  by (cases "next_runtime st (JobRuntime job)") (simp_all only: option.case simp_thms)

theorem status_update_moves_the_job_witness:
  "jobs (snd (HandleTaskStateUpdate ex_env ex_status ex_sched)) =
     (jobs ex_sched)(''g:p:i'' \<mapsto> ex_job\<lparr>JobRuntime := (JobRuntime ex_job)\<lparr>State := IDLE, CurrentTaskID := [], CurrentAgentID := []\<rparr>\<rparr>)"
proof -
  let ?r = "HandleTaskStateUpdate ex_env ex_status ex_sched" and ?jid = "\<lparr>Group = ''g'', Project = ''p'', ID = ''i''\<rparr>"
  have "fst ?r = Inr ()" by code_simp
  then have run: "?r = (Inr (), snd ?r)" by (simp add: prod_eq_iff)
  have parse: "parseTaskID (statusTaskID ex_status) = Inr ?jid" by code_simp
  have job: "jobs ex_sched (JobID_String ?jid) = Some ex_job" by code_simp
  have jid: "JobID_String ?jid = ''g:p:i''" by code_simp
  from status_update_moves_the_job [OF run ex_sched_keyed parse job] show ?thesis
    by (simp add: next_runtime_def ex_status_def jid)
qed

text \<open>C15: the job of a task is recovered from its task id, for ids and UUIDs without a colon.\<close>

theorem task_id_roundtrip:
  assumes "CHR '':'' \<notin> set (Group jid)" "CHR '':'' \<notin> set (Project jid)" "CHR '':'' \<notin> set (ID jid)"
    and "CHR '':'' \<notin> set uuid"
  shows "parseTaskID (taskID_String jid uuid) = Inr jid"
  using assms by (rule parseTaskID_String)

theorem task_id_roundtrip_witness:
  "parseTaskID (taskID_String \<lparr>Group = ''g'', Project = ''p'', ID = ''i''\<rparr> ''7f-1'') = Inr \<lparr>Group = ''g'', Project = ''p'', ID = ''i''\<rparr>"
  by (rule task_id_roundtrip) simp_all






section \<open>The Mesos controller\<close>

text \<open>
  C19: from the start of a controller on, whatever rounds, synchronisations and clean-ups come in between,
  every event leaves its cache of jobs keyed by their identifiers, one goroutine at most that
  reconciles, and at most one round waiting.
\<close>

theorem every_event_keeps_the_invariant:
  assumes "mesos_Run tls seconds c getFid env order w = Some (q, s)"
    and "(ctl_step lib c (env\<lparr>roles := mesosRoles c\<rparr>))\<^sup>*\<^sup>* s s1"
    and "handleEvent lib c (env\<lparr>roles := mesosRoles c\<rparr>) e s1 = (q', s')"
  shows "keyed_cache (jobs (ctlSched s')) \<and> loops (ctlReconciler s') = (if running (ctlReconciler s') then 1 else 0)
    \<and> roundQ (ctlReconciler s') \<le> 1"
  using controller_reaches_ok [OF assms] by (simp add: controller_ok_def reconciler_ok_def)

theorem every_event_keeps_the_invariant_witness:
  "\<exists>q s. mesos_Run timed_tls (\<lambda>d. d) ex_mesos_conf (GetFrameworkID timed_storage) ex_env [ex_key] (job_tree, 0) = Some (q, s)
     \<and> loops (ctlReconciler (snd (handleEvent ex_lib ex_mesos_conf ex_env (Subscribed ''f-1'' ex_master) s))) \<le> 1"
proof -
  let ?start = "mesos_Run timed_tls (\<lambda>d. d) ex_mesos_conf (GetFrameworkID timed_storage) ex_env [ex_key] (job_tree, 0)"
  let ?r = "\<lambda>s. handleEvent ex_lib ex_mesos_conf (ex_env\<lparr>roles := mesosRoles ex_mesos_conf\<rparr>) (Subscribed ''f-1'' ex_master) s"
  have env: "ex_env\<lparr>roles := mesosRoles ex_mesos_conf\<rparr> = ex_env" by (simp add: ex_env_def ex_mesos_conf_def)
  have "case io_bind (newFrameworkIDStore (GetFrameworkID timed_storage)) (\<lambda>fid.
      io_bind (newClient timed_tls ex_mesos_conf) (\<lambda>cli. io_ret (fid, cli))) (job_tree, 0) of
    (Inl f, w) \<Rightarrow> False | (Inr x, w) \<Rightarrow> w = (job_tree, 1)" by code_simp
  then have "?start \<noteq> None" using ex_scheduler_starts
    by (auto simp: mesos_Run_def env split: prod.splits sum.splits)
  then obtain q s where start: "?start = Some (q, s)" by auto
  from every_event_keeps_the_invariant [OF start rtranclp.rtrancl_refl [of _ s] prod.collapse [symmetric]]
  have "loops (ctlReconciler (snd (?r s))) \<le> 1" by simp
  with start show ?thesis unfolding env by blast
qed

text \<open>
  Whatever events, rounds, synchronisations and clean-ups a controller goes through, its cache of
  jobs stays keyed by their identifiers, one goroutine at most reconciles, and at most one round waits.
\<close>

theorem controller_keeps_its_invariant:
  assumes "(ctl_step lib c env)\<^sup>*\<^sup>* (new_controller fid w) s"
  shows "keyed_cache (jobs (ctlSched s)) \<and> loops (ctlReconciler s) = (if running (ctlReconciler s) then 1 else 0)
    \<and> roundQ (ctlReconciler s) \<le> 1"
  using controller_ok_reachable [OF assms] by (simp add: controller_ok_def reconciler_ok_def)

theorem controller_keeps_its_invariant_witness:
  "loops (ctlReconciler (snd (subscribedHandler ex_lib ex_mesos_conf ''f-1'' ex_master
     (new_controller [] (job_tree, 0))))) \<le> 1"
proof -
  let ?s = "new_controller [] (job_tree, 0)"
  let ?r = "subscribedHandler ex_lib ex_mesos_conf ''f-1'' ex_master ?s"
  have "ctl_step ex_lib ex_mesos_conf ex_env ?s (snd ?r)" by (rule ctl_subscribed [OF prod.collapse [symmetric]])
  from controller_keeps_its_invariant [OF r_into_rtranclp [where r = "ctl_step ex_lib ex_mesos_conf ex_env", OF this]]
  show ?thesis by (auto split: if_splits)
qed

text \<open>
  Each subscription starts one more tuner of offers, while the reconciler is started once.
\<close>

theorem each_subscription_starts_a_tuner:
  assumes "io_for infos (subscribedHandler lib c fid) (new_controller fid' w) = (Inr us, s)" "infos \<noteq> []"
  shows "ctlTuners s = length infos \<and> loops (ctlReconciler s) \<le> 1"
  using subscriptions_count [OF assms(1)]
  by (auto simp: new_controller_def new_reconciler_def reconciler_ok_def split: if_splits)

theorem each_subscription_starts_a_tuner_witness:
  "ctlTuners (snd (io_for [ex_master, ex_master]
     (subscribedHandler (ex_lib\<lparr>trackSubscription := (\<lambda>_. io_ret ())\<rparr>) ex_mesos_conf ''f-1'') (new_controller [] (job_tree, 0)))) = 2"
proof -
  let ?r = "io_for [ex_master, ex_master]
    (subscribedHandler (ex_lib\<lparr>trackSubscription := (\<lambda>_. io_ret ())\<rparr>) ex_mesos_conf ''f-1'') (new_controller [] (job_tree, 0))"
  have "fst ?r = Inr [(), ()]"
    by (simp add: subscribedHandler_def onSubscribed_def getLeaderHost_def ex_master_def io_bind_def io_on_def io_ret_def
        io_of_fault_def io_modify_def)
  then have "?r = (Inr [(), ()], snd ?r)" by (simp add: prod_eq_iff)
  from each_subscription_starts_a_tuner [OF this] show ?thesis by simp
qed



text \<open>
  The identifier a subscription stored is the one a restarted controller begins with, unless the
  client fails on reading it.
\<close>

theorem framework_id_survives_a_restart:
  assumes "zk_store s tree" "setFrameworkID (SetFrameworkID s) v (fid, w) = (Inr (), (fid', w1))"
    and "newFrameworkIDStore (GetFrameworkID s) w1 = (q, w2)"
  shows "fid' = v \<and> (q = Inr v \<or> (\<exists>e. q = Inl (Fail (ErrZK e)) \<and> other_error e))"
proof -
  from assms(2) have "fid' = v" and set: "SetFrameworkID s v w = (Inr (), w1)" by (auto simp: setFrameworkID_run)
  obtain r w3 where get: "GetFrameworkID s w1 = (r, w3)" by fastforce
  from zk_store.framework_id_stored [OF assms(1) set get] assms(3) get \<open>fid' = v\<close> show ?thesis
    by (auto simp: newFrameworkIDStore_def io_bind_def io_ret_def)
qed

theorem framework_id_survives_a_restart_witness:
  "newFrameworkIDStore (GetFrameworkID ref_storage) (snd (snd (setFrameworkID (SetFrameworkID ref_storage) ''f-1'' ([], job_tree))))
     = (Inr ''f-1'', snd (snd (setFrameworkID (SetFrameworkID ref_storage) ''f-1'' ([], job_tree))))"
proof -
  let ?s = "setFrameworkID (SetFrameworkID ref_storage) ''f-1'' ([], job_tree)"
  let ?r = "newFrameworkIDStore (GetFrameworkID ref_storage) (snd (snd ?s))"
  have "fst ?s = Inr ()" by code_simp
  then have set: "?s = (Inr (), (fst (snd ?s), snd (snd ?s)))" by (simp add: prod_eq_iff)
  have "\<not> isl (fst ?r) \<and> snd ?r = snd (snd ?s)" by code_simp
  with framework_id_survives_a_restart [OF ref_store.zk_store_axioms set prod.collapse [symmetric, of ?r]]
  show ?thesis by (auto simp: prod_eq_iff)
qed

section \<open>From a request to a launch\<close>

text \<open>
  C21: a round selects a cached job exactly if, when its turn comes, it is not booked, it is queued or
  runnable, and what the jobs before it have left of the offer contains what it asks for.
\<close>

theorem round_selects_exactly:
  assumes "findJobsForResources env (ks1 @ k # ks2) offered s = (Inr sel, s')" "distinct (ks1 @ k # ks2)"
    and "keyed_cache (jobs s)" "jobs s k = Some job"
  shows "\<exists>sel1 s1 sel2. findJobsForResources env ks1 offered s = (Inr sel1, s1) \<and> sel = sel1 @ sel2
    \<and> queuedJobs s1 = queuedJobs s \<and> ttlM (bookedJobs s1) k = ttlM (bookedJobs s) k
    \<and> (k \<in> (job_fqid \<circ> fst) ` set sel \<longleftrightarrow>
         selectable env s1 (remaining (resLib env) (resUnallocate (resLib env) offered) sel1) job)"
  using round_selects [OF assms(1) [unfolded findJobsForResources_def Let_def] assms(2-4)]
  unfolding findJobsForResources_def Let_def by metis

theorem round_selects_exactly_witness:
  "selectable ex_env ex_sched ex_offer ex_job"
proof -
  let ?r = "findJobsForResources ex_env ([] @ ex_key # []) ex_offer ex_sched"
  have "fst ?r = Inr [(ex_job, [(CPU, 1), (MEM, 4), (DISK, 0)])]" by code_simp
  then have run: "?r = (Inr [(ex_job, [(CPU, 1), (MEM, 4), (DISK, 0)])], snd ?r)" by (simp add: prod_eq_iff)
  have job: "jobs ex_sched ex_key = Some ex_job" by (simp add: ex_sched_def)
  from round_selects_exactly [OF run _ ex_sched_keyed job] show ?thesis
    by (auto simp: findJobsForResources_def io_ret_run ex_env_def ref_res_def ex_job_fqid ex_key_def)
qed



text \<open>
  C23: a run of a job that does not exist is accepted with status 204, and its entry keeps offers coming:
  no round of the tuner suppresses them, and after a synchronisation no offer takes the entry from the
  scheduler's queue.
\<close>

theorem run_of_a_missing_job_is_never_finished:
  assumes "api_server sto ok confs runtimes queue env rx fmt" "api_runJob env r s = (Inr (), s')" "ok (apiWorld s)"
    and k: "k = fqid_of (varGroup r) (varProject r) (varID r)" "seg k"
    and missing: "confs (apiWorld s) k = None"
    and parse: "\<forall>fq \<in> queue (apiWorld s'). \<exists>j. ParseJobID fq = Inr j"
    and tuner: "tuner.stor t = sto" "tuner_round t False (apiWorld s') = (Inr (b, err), w')"
    and senv: "storage senv = sto" "\<And>d w. ok (sleepFor senv d w) = ok w" "\<And>d w. confs (sleepFor senv d w) = confs w"
      "\<And>d w. runtimes (sleepFor senv d w) = runtimes w" "\<And>d w. queue (sleepFor senv d w) = queue w"
    and sc: "outer sc = apiWorld s'" "keyed_cache (jobs sc)" "dom (jobs sc) \<union> dom (confs (apiWorld s)) \<subseteq> set order"
    and sync: "sync_caches senv order sc = Some (Inr (), sc1)"
    and offer: "FindTasksForOffer senv order' offered agent sc1 = (Inr tasks, sc2)" "distinct order'"
  shows "resp s' = send_status 204 (resp s) \<and> \<not> b \<and> jobs sc1 k = None \<and> k \<in> queuedJobs sc2"
proof -
  note seg = k(2) [unfolded k(1)]
  note store = api_server.axioms(1) [OF assms(1)] and ran = api_server.runJob_ok [OF assms(1-3) seg]
  from ran(3,4,5) sc senv(2-5) missing have world: "\<And>d w. (ok (sleepFor senv d w), confs (sleepFor senv d w),
      runtimes (sleepFor senv d w), queue (sleepFor senv d w)) = (ok w, confs w, runtimes w, queue w)"
    "ok (outer sc)" "dom (jobs sc) \<union> dom (confs (outer sc)) \<subseteq> set order" "confs (outer sc) k = None"
    "k \<in> queue (outer sc)" "queue (outer sc) \<noteq> {}" "\<forall>fq \<in> queue (outer sc). \<exists>j. ParseJobID fq = Inr j"
    using ran(2) parse k(1) by auto
  note synced = job_store.synced [OF store sync senv(1) world(1) sc(2) world(2,3,7)]
  have none: "jobs sc1 k = None" "k \<in> queuedJobs sc1" using synced(1,5) world(4,5) by simp_all
  from unknown_stays_queued [OF offer synced(3) none(2,1)] none(1) ran(6)
    job_store.queued_keeps_offers [OF store tuner(2,1)] world(2,6,7) sc(1)
  show ?thesis by simp
qed

theorem run_of_a_missing_job_is_never_finished_witness:
  "resp (snd lost_run_request) = send_status 204 fresh_response \<and> ex_key \<in> queuedJobs (snd lost_offer)"
proof -
  let ?w = "(base_tree, 10 * second)" and ?k = "fqid_of (varGroup ex_request) (varProject ex_request) (varID ex_request)"
  let ?round = "tuner_round ex_tuner False (apiWorld (snd lost_run_request))"
  have k: "?k = ex_key" "ex_key = ''g:p:i''" by (simp_all add: ex_request_def ex_key_def ex_job_fqid)
  have views: "tidy timed_storage (timed_tree ?w)" "stored_confs timed_storage (timed_tree ?w) fq = None" for fq
    using base_tidy by (simp add: timed_views)
      (simp add: timed_views stored_confs_def conf_at_def doc_at_def path_defs ref_storage_def base_tree_def)
  have "fst lost_run_request = Inr ()" by code_simp
  then have run: "api_runJob timed_api_env ex_request \<lparr>resp = fresh_response, apiWorld = ?w\<rparr> = (Inr (), snd lost_run_request)"
    by (simp add: lost_run_request_def prod_eq_iff)
  have "fst ?round = Inr (False, None)" by code_simp
  then have tuner: "?round = (Inr (False, None), snd ?round)" by (simp add: prod_eq_iff)
  have "fst lost_offer = Inr []" by code_simp
  then have offer: "FindTasksForOffer ex_env [ex_key] ex_offer ''agent'' lost_synced = (Inr [], snd lost_offer)"
    by (simp add: lost_offer_def prod_eq_iff)
  have "queued_at timed_storage (timed_tree ?w) = {}"
    by (simp add: queued_at_def path_defs timed_storage_def ref_storage_def base_tree_def)
  moreover have "ParseJobID ex_key = Inr \<lparr>Group = ''g'', Project = ''p'', ID = ''i''\<rparr>" by code_simp
  ultimately have parse: "\<forall>fq \<in> queued_at timed_storage (timed_tree (apiWorld (snd lost_run_request))). \<exists>j. ParseJobID fq = Inr j"
    using timed_server.runJob_ok(3) [OF run] views(1) ex_seg k by simp
  have sched: "outer lost_sched = apiWorld (snd lost_run_request)" "keyed_cache (jobs lost_sched)"
    "dom (jobs lost_sched) \<union> dom (stored_confs timed_storage (timed_tree ?w)) \<subseteq> set [ex_key]"
    "storage ex_env = zk_storage_ops timed_storage" "tuner.stor ex_tuner = zk_storage_ops timed_storage"
    using views(2) by (auto simp: lost_sched_def keyed_cache_def ex_env_def ex_tuner_def)
  have sleeps: "fst (sleepFor ex_env d w) = fst w" for d w by (simp add: ex_env_def)
  from run_of_a_missing_job_is_never_finished [OF timed_server.api_server_axioms run _ refl _ _ parse sched(5) tuner sched(4)
      _ _ _ _ sched(1,2) _ lost_synced_run offer] sched(3) views ex_seg sleeps
  show ?thesis by (simp add: k)
qed

section \<open>Leader election\<close>




section \<open>Offers tuner and reconciliation\<close>

text \<open>
  C26: a round suppresses offers only when no job is queued, none was due when it looked, and none
  becomes due within a quarter of the round's interval.
\<close>

theorem offers_are_suppressed_only_when_idle:
  assumes "tuner_round t False w = (Inr (True, err), w')"
  shows "\<exists>js w1 w2 now1 w3 now2 w4. err = None
    \<and> opGetJobs (stor t) w = (Inr js, w1) \<and> opGetQueuedJobsIDs (stor t) w1 = (Inr [], w2)
    \<and> clockNow t w2 = (now1, w3) \<and> clockNow t w3 = (now2, w4)
    \<and> (\<forall>job \<in> set js. \<exists>nxt. NextRun (cron t) job = Inr nxt \<and> now1 \<le> nxt
         \<and> (now2 \<le> nxt \<longrightarrow> roundInterval div 4 < time_sub nxt now2))"
  by (rule tuner_suppresses [OF assms]) (intro exI conjI; assumption)

theorem offers_are_suppressed_only_when_idle_witness:
  "\<exists>js w1. opGetJobs (stor ex_tuner) (job_tree, 10 * second) = (Inr js, w1)
     \<and> (\<forall>job \<in> set js. \<exists>nxt. NextRun ex_cron job = Inr nxt \<and> 10 * second \<le> nxt)"
proof -
  let ?r = "tuner_round ex_tuner False (job_tree, 10 * second)"
  have "fst ?r = Inr (True, None)" by code_simp
  then have run: "?r = (Inr (True, None), snd ?r)" by (simp add: prod_eq_iff)
  have "cron ex_tuner = ex_cron" by (simp add: ex_tuner_def)
  have get: "opGetJobs (stor ex_tuner) (job_tree, 10 * second) = (Inr [ex_job], (job_tree, 10 * second + 3))"
    by code_simp
  have queued: "opGetQueuedJobsIDs (stor ex_tuner) (job_tree, 10 * second + 3) = (Inr [], (job_tree, 10 * second + 4))"
    by code_simp
  have now: "clockNow ex_tuner (job_tree, 10 * second + 4) = (10 * second + 4, (job_tree, 10 * second + 5))"
    by code_simp
  from offers_are_suppressed_only_when_idle [OF run] get queued now \<open>cron ex_tuner = ex_cron\<close>
  show ?thesis by fastforce
qed

text \<open>
  C27: a round with a token revives offers, and ends not suppressed, whenever a job is queued or
  overdue (by a minute, or at all while suppressed).
\<close>

theorem overdue_jobs_revive_offers:
  assumes "opGetJobs (stor t) w = (Inr js, w1)" "opGetQueuedJobsIDs (stor t) w1 = (Inr queued, w2)"
    and "queued \<noteq> [] \<or> (\<exists>job \<in> set js. \<exists>nxt. NextRun (cron t) job = Inr nxt
           \<and> (if suppressed then nxt < fst (clockNow t w2) else nxt + minute \<le> fst (clockNow t w2)))"
    and "tuner_round t suppressed w = (Inr (b, None), w')"
  shows "\<exists>w3 token w4. takeToken t w3 = (token, w4)
     \<and> (if token then callRevive t w4 = (Inr (), w') \<and> \<not> b else w' = w4 \<and> b = suppressed)"
  using assms by (rule tuner_revives)

theorem overdue_jobs_revive_offers_witness:
  "\<exists>w4. callRevive ex_tuner w4 = (Inr (), snd (tuner_round ex_tuner True (job_tree, 100 * second)))"
proof -
  let ?r = "tuner_round ex_tuner True (job_tree, 100 * second)"
  have "fst ?r = Inr (False, None)" by code_simp
  then have run: "?r = (Inr (False, None), snd ?r)" by (simp add: prod_eq_iff)
  have get: "opGetJobs (stor ex_tuner) (job_tree, 100 * second) = (Inr [ex_job], (job_tree, 100 * second + 3))"
    by code_simp
  have queued: "opGetQueuedJobsIDs (stor ex_tuner) (job_tree, 100 * second + 3) = (Inr [], (job_tree, 100 * second + 4))"
    by code_simp
  have "NextRun (cron ex_tuner) ex_job = Inr minute \<and> minute < fst (clockNow ex_tuner (job_tree, 100 * second + 4))"
    by code_simp
  then have due: "\<exists>job \<in> set [ex_job]. \<exists>nxt. NextRun (cron ex_tuner) job = Inr nxt
      \<and> (if True then nxt < fst (clockNow ex_tuner (job_tree, 100 * second + 4))
         else nxt + minute \<le> fst (clockNow ex_tuner (job_tree, 100 * second + 4)))" by auto
  from overdue_jobs_revive_offers [OF get queued _ run] due show ?thesis
    by (fastforce split: if_splits)
qed



section \<open>Authorization\<close>

text \<open>
  C29: GitLab access is granted only from the permissions GitLab returned for the project, by the
  better of project and group access: developer and above read and write, reporter reads.
\<close>

theorem gitlab_access:
  assumes "GitlabAuthorizer env r grp project w = (Inr lvl, w')" "lvl \<noteq> NoAccess"
  shows "\<exists>client perms best. gitlab_newClient env (headerToken env r) = Inr client
     \<and> getProject env client (grp @ ''/'' @ project) w = (Inr perms, w') \<and> best_access perms = Some best
     \<and> lvl = (if best \<ge> DeveloperPermissions then ReadWrite else ReadOnly)
     \<and> (best \<ge> DeveloperPermissions \<or> best = ReporterPermissions)"
proof -
  from gitlab_grants [OF assms] obtain client perms where run: "gitlab_newClient env (headerToken env r) = Inr client"
    "getProject env client (grp @ ''/'' @ project) w = (Inr perms, w')" "lvl = gitlab_level perms" by blast
  with assms(2) obtain best where "best_access perms = Some best"
    "lvl = (if best \<ge> DeveloperPermissions then ReadWrite else ReadOnly)"
    "best \<ge> DeveloperPermissions \<or> best = ReporterPermissions"
    by (cases "best_access perms") (auto simp: gitlab_level_best split: if_splits)
  with run show ?thesis by blast
qed

theorem gitlab_access_witness: "best_access \<lparr>projectAccess = Some 20, groupAccess = Some 40\<rparr> = Some (40 :: int)"
proof -
  define env :: "(string, string, unit) gitlab_env" where
    "env = \<lparr>gitlabAddr = ''https://git'', headerToken = (\<lambda>r. r), urlScheme = (\<lambda>a. Inr ''https''),
       setBaseURL = (\<lambda>token addr. Inr token),
       getProject = (\<lambda>c p w. (Inr \<lparr>projectAccess = Some 20, groupAccess = Some 40\<rparr>, w))\<rparr>"
  have "GitlabAuthorizer env ''token'' ''g'' ''p'' () = (Inr ReadWrite, ())"
    unfolding env_def by code_simp
  from gitlab_access [OF this] show ?thesis by (auto simp: env_def best_access_def)
qed

text \<open>
  C30: with a valid ACL the rule for the project wins over the one for its group, and that over the
  rule for everything; no rule is no access.
\<close>

theorem acl_precedence:
  assumes "validateACL tbl = None"
  shows "getLevelFromACL a tbl name grp project =
     (case map_of tbl (if caseSensitiveNames a then name else to_lower name) of
        None \<Rightarrow> NoAccess
      | Some rules \<Rightarrow>
          (case find (\<lambda>k. map_of rules k \<noteq> None) [grp @ ''/'' @ project, grp, ''*''] of
             None \<Rightarrow> NoAccess | Some k \<Rightarrow> rule_level (the (map_of rules k))))"
  using assms by (rule getLevelFromACL_precedence)

theorem acl_precedence_witness:
  "getLevelFromACL ex_ldap [(''bob'', [(''*'', ''readwrite''), (''g'', ''readonly'')])] ''Bob'' ''g'' ''p'' = ReadOnly"
proof -
  have "validateACL [(''bob'', [(''*'', ''readwrite''), (''g'', ''readonly'')])] = None" by code_simp
  moreover have "to_lower ''Bob'' = ''bob''" by code_simp
  ultimately show ?thesis using acl_precedence [of _ ex_ldap "''Bob''" "''g''" "''p''"]
    by (simp add: ex_ldap_def rule_level_def)
qed

text \<open>
  C31: LDAP access is granted only after a successful bind under the user's DN, and then from the ACL of
  users or else of groups. With an empty password that bind is the unauthenticated one, so the
  password is not checked.
\<close>

theorem ldap_access_needs_a_bind:
  assumes "LdapAuthorizer env a r grp project w = (Inr lvl, w')"
  shows "\<exists>username password conn dn w1 w2 w3.
    basicAuth env r = Some (username, password) \<and> dial env a w = (Inr (Some conn), w1)
    \<and> getUserBindDN env a conn username w1 = (Inr dn, w2)
    \<and> (if password \<noteq> [] then bind env conn dn password else unauthenticatedBind env conn dn) w2 = (Inr (), w3)
    \<and> (getLevelFromACL a (userACL a) username grp project \<noteq> NoAccess \<and> lvl = getLevelFromACL a (userACL a) username grp project
       \<or> (\<exists>groups w4. getLDAPGroups env a conn dn username w3 = (Inr groups, w4) \<and> lvl = groups_level a grp project groups False))"
  using ldap_grants [OF assms] by metis

theorem ldap_access_needs_a_bind_witness:
  "\<exists>w3. unauthenticatedBind ex_ldap_env () ''uid=bob,dc=x'' () = (Inr (), w3)
     \<and> fst (LdapAuthorizer ex_ldap_env ex_ldap (''bob'', []) ''g'' ''p'' ()) = Inr ReadWrite"
proof -
  let ?r = "LdapAuthorizer ex_ldap_env ex_ldap (''bob'', []) ''g'' ''p'' ()"
  have val: "fst ?r = Inr ReadWrite" by code_simp
  then have run: "?r = (Inr ReadWrite, snd ?r)" by (simp add: prod_eq_iff)
  have dn: "getUserBindDN ex_ldap_env ex_ldap () ''bob'' () = (Inr ''uid=bob,dc=x'', ())" by code_simp
  have "basicAuth ex_ldap_env (''bob'', []) = Some (''bob'', [])" by (simp add: ex_ldap_env_def)
  with ldap_access_needs_a_bind [OF run] dn val show ?thesis by (auto split: if_splits)
qed

section \<open>API\<close>

text \<open>
  C32: without the access level it needs, no handler of a job answers with data or touches the storage:
  beyond what asking the authorizer does, the world is as before.
\<close>

theorem no_access_no_effect:
  assumes "(h, needed) \<in> {(api_deleteJob env r, ReadWrite), (api_runJob env r, ReadWrite), (api_updateJob env r, ReadWrite),
      (api_getJob env r, ReadOnly), (api_getTasks env r, ReadOnly), (api_getProjectJobs env r, ReadOnly)}"
    and "\<not> granted env (reqAuth r) (varGroup r) (varProject r) (apiWorld s) needed" "h s = (q, s')"
  shows "q \<noteq> Inr () \<and> body (resp s') = body (resp s)
    \<and> apiWorld s' \<in> {apiWorld s, snd (authz env (reqAuth r) (varGroup r) (varProject r) (apiWorld s))}"
proof -
  note denied = with_access_denied [OF _ assms(2)]
  from assms(1) consider (update) "h = api_updateJob env r" "needed = ReadWrite"
    | (other) m where "h = with_access env (reqAuth r) (varGroup r) (varProject r) needed m"
    by (auto simp: api_deleteJob_def api_runJob_def api_getJob_def api_getTasks_def api_getProjectJobs_def)
  then show ?thesis
  proof cases
    case update
    from assms(3) show ?thesis unfolding update(1) api_updateJob_def
    proof (cases rule: decode_body_cases)
      case (decoded v p)
      from decoded(3) show ?thesis
        by (cases rule: validated_cases) (auto dest: denied [unfolded update(2)])
    qed (simp add: send_status_def)
  qed (use assms(3) denied in blast)
qed

theorem no_access_no_effect_witness:
  "let env = ref_api_env\<lparr>authz := \<lambda>_ _ _. io_ret ReadOnly\<rparr>;
       s = \<lparr>resp = fresh_response, apiWorld = job_tree\<rparr> in
   apiWorld (snd (api_deleteJob env ex_request s)) = job_tree"
proof -
  let ?env = "ref_api_env\<lparr>authz := \<lambda>_ _ _. io_ret ReadOnly\<rparr>" and ?s = "\<lparr>resp = fresh_response, apiWorld = job_tree\<rparr>"
  have no: "\<not> granted ?env (reqAuth ex_request) (varGroup ex_request) (varProject ex_request) (apiWorld ?s) ReadWrite"
    by (simp add: granted_def io_ret_run less_eq_access_level_def)
  let ?h = "api_deleteJob ?env ex_request"
  from no_access_no_effect [where h = ?h and needed = ReadWrite and env = ?env and r = ex_request and s = ?s
      and q = "fst (?h ?s)" and s' = "snd (?h ?s)", OF _ no]
  show ?thesis by (simp add: io_ret_def)
qed





text \<open>
  C35: a listing holds exactly the jobs of the projects for which the authorizer granted some access, in
  the order of the storage; jobs of one project are decided alike.
\<close>

theorem listing_holds_readable_jobs:
  assumes "filterReadableJobs env r js w = (Inr out, w')"
  shows "\<exists>lvl. out = filter (\<lambda>j. lvl (project_key j) \<noteq> NoAccess) js
     \<and> (\<forall>j \<in> set js. \<exists>j0 \<in> set js. \<exists>wa wb. project_key j0 = project_key j
          \<and> authz env r (Group (JobID (JobConf j0))) (Project (JobID (JobConf j0))) wa = (Inr (lvl (project_key j)), wb))"
  using filter_readable_spec [OF assms [unfolded filterReadableJobs_def]] by auto

theorem listing_holds_readable_jobs_witness:
  "\<exists>lvl. [ex_job] = filter (\<lambda>j. lvl (project_key j) \<noteq> NoAccess) [ex_job]"
proof -
  have "filterReadableJobs ref_api_env () [ex_job] [] = (Inr [ex_job], [])" by code_simp
  from listing_holds_readable_jobs [OF this] show ?thesis by blast
qed



section \<open>Configuration\<close>

text \<open>
  C37: a configuration that is read has the type \<open>Conf\<close>, every field with its kind, whatever the file
  holds, and the file cannot change the directory of the election.
\<close>

theorem read_configuration_is_complete:
  assumes "NewConf file = Inr conf"
  shows "shape conf = zero_Conf
    \<and> conf_get [''Coordinator'', ''ZooKeeper'', ''ElectionDir''] conf = Some (CStr ''election/mesos_scheduler'')"
  using NewConf_ok [OF assms] by blast

theorem read_configuration_is_complete_witness:
  "\<exists>conf. NewConf (Inr (JObj [(''coordinator'', JObj [(''zookeeper'', JObj [(''electiondir'', JStr ''x'')])])])) = Inr conf
     \<and> conf_get [''Coordinator'', ''ZooKeeper'', ''ElectionDir''] conf = Some (CStr ''election/mesos_scheduler'')"
proof -
  let ?c = "NewConf (Inr (JObj [(''coordinator'', JObj [(''zookeeper'', JObj [(''electiondir'', JStr ''x'')])])]))"
  have "\<not> isl ?c" by code_simp
  then obtain conf where "?c = Inr conf" by (cases ?c) auto
  with read_configuration_is_complete [OF this] show ?thesis by blast
qed

section \<open>The client and the server together\<close>

text \<open>
  C38: what a client of the server reads as a job is the stored configuration and runtime of that job,
  through routing, authorization, storage and both directions of JSON; the caller was granted reading
  and nothing was written.
\<close>

theorem client_reads_the_stored_job:
  assumes "zk_api s tree env rx fmt" "router match" "seg g" "seg p" "seg i" "tidy s (tree w)"
    and "ReadJob (loopback_client match noRoute env auth) (g @ ''/'' @ p @ ''/'' @ i) w = (Inr j, w')"
  shows "granted env auth g p w ReadOnly \<and> stored_confs s (tree w) (fqid_of g p i) = Some (JobConf j)
    \<and> stored_runtimes s (tree w) (fqid_of g p i) = Some (JobRuntime j) \<and> tree w' = tree w"
  using assms by (rule zk_api.ReadJob_reads)

theorem client_reads_the_stored_job_witness:
  "\<exists>j. fst (ReadJob (loopback_client segment_match (\<lambda>_ _. WriteHeader 404) ref_api_env ()) ''g/p/i'' job_tree) = Inr j
     \<and> stored_confs ref_storage (map_of job_tree) ''g:p:i'' = Some (JobConf j)"
proof -
  let ?r = "ReadJob (loopback_client segment_match (\<lambda>_ _. WriteHeader 404) ref_api_env ()) ''g/p/i'' job_tree"
  have "\<not> isl (fst ?r)" by code_simp
  then obtain j where j: "?r = (Inr j, snd ?r)" by (cases ?r; cases "fst ?r") auto
  have seg: "seg ''g''" "seg ''p''" "seg ''i''" by (simp_all add: seg_def)
  have id: "''g/p/i'' = ''g'' @ ''/'' @ ''p'' @ ''/'' @ ''i''" "fqid_of ''g'' ''p'' ''i'' = ''g:p:i''"
    by (simp_all add: fqid_of_def)
  from client_reads_the_stored_job [OF ref_server.zk_api_axioms segments.router_axioms seg job_tree_tidy j [unfolded id(1)]]
  have "stored_confs ref_storage (map_of job_tree) ''g:p:i'' = Some (JobConf j)" by (simp add: id(2))
  with j show ?thesis by (intro exI [of _ j]) (metis fst_conv)
qed

section \<open>Commands from their arguments\<close>





text \<open>
  Wherever the user of the shell stands, reading a job by the name the shell shows for it reads the
  job of that name: the shortened name is expanded to the same group, project and identifier.
\<close>

theorem shell_reads_the_named_job:
  assumes "place_ok (shPlace s)" "visible (shPlace s) j" "list_all (\<lambda>c. \<not> is_space c) (relativeJobID (shPlace s) j)"
    and "ID j \<noteq> []"
  shows "executor env c (''read'' @ CHR 0x20 # relativeJobID (shPlace s) j) s = sh_readJob env c (JobID_Path j) s"
  using assms by (rule executor_read)

theorem shell_reads_the_named_job_witness:
  "executor ex_term ex_client ''read p/i'' ex_shell = sh_readJob ex_term ex_client ''g/p/i'' ex_shell"
  using shell_reads_the_named_job [of ex_shell "\<lparr>Group = ''g'', Project = ''p'', ID = ''i''\<rparr>" ex_term ex_client]
  by (simp add: ex_shell_def place_ok_def visible_def relativeJobID_def JobID_Path_def is_space_def)

end
